(* ===== verification/Prelude.thy ===== *)
theory Prelude
  imports Main "HOL-Library.Word" "HOL-Library.AList" "HOL-Library.Sublist"
begin

text \<open>
  Shared vocabulary of the development: the widths of the Go integers and byte arrays, the
  error values, the state-and-error computations in which every handler of the chain is
  written, and Go maps as association lists with the four loops that all the cached tables
  of the chain package use to commit and abort.
\<close>

section \<open>Types of the model\<close>

text \<open>
  A Go \<open>uint64\<close>, \<open>uint32\<close> or \<open>byte\<close> is a word of its width, so arithmetic wraps as in Go.
  The fixed arrays \<open>common.Address\<close>, \<open>ids.ShortID\<close> (20 bytes), \<open>ids.ID\<close> and
  \<open>common.Hash\<close> (32 bytes) are words too; their bytes, most significant first, are
  \<open>be_bytes 20\<close> and \<open>be_bytes 32\<close> of theory GoStd.
\<close>

type_synonym u64 = "64 word"
type_synonym u32 = "32 word"
type_synonym i64 = "64 word"
type_synonym byte = "8 word"
type_synonym bytes = "byte list"
type_synonym address = "160 word"
type_synonym short_id = "160 word"
type_synonym id = "256 word"
type_synonym hash = "256 word"

section \<open>Errors\<close>

text \<open>
  The sentinel errors of \<open>chain/errors.go\<close>, by name; \<open>ErrNotFound\<close> is the database's;
  \<open>Errorf\<close> is an error made on the spot by \<open>fmt.Errorf\<close> or \<open>errors.New\<close>; \<open>ErrExt\<close> an
  error returned by code outside the repository; \<open>Panic\<close> a Go run-time panic, which is not
  an error value in Go and is never swallowed by the model either.
\<close>

datatype err =
    ErrInvalidMagic
  | ErrInvalidBlockRate
  | ErrTimestampTooEarly
  | ErrTimestampTooLate
  | ErrNoTxs
  | ErrInvalidCost
  | ErrInvalidPrice
  | ErrInsufficientSurplus
  | ErrParentBlockNotVerified
  | ErrInvalidAccessProof
  | ErrInvalidBlockID
  | ErrInvalidSignature
  | ErrDuplicateTx
  | ErrInsufficientPrice
  | ErrInvalidType
  | ErrTypedDataKeyMissing
  | ErrValueEmpty
  | ErrValueTooBig
  | ErrKeyMissing
  | ErrInvalidKey
  | ErrKeyExists
  | ErrUnauthorized
  | ErrInvalidBalance
  | ErrNonActionable
  | ErrBlockTooBig
  | ErrStakerType
  | ErrStakeAmount
  | ErrIDErr
  | ErrEndTimeTooEarly
  | ErrEndTimeTooLate
  | ErrNotFound
  | Errorf string
  | ErrExt string
  | Panic string

fun is_panic :: "err \<Rightarrow> bool" where
  "is_panic (Panic _) = True"
| "is_panic _ = False"

section \<open>Computations with a state and an error\<close>

text \<open>
  A Go method that returns an error may have changed its receiver before it fails, and the
  change stays. So a computation takes the state and returns the result or the error
  together with the state it leaves, in both cases.
\<close>

type_synonym ('s, 'a) sm = "'s \<Rightarrow> (err + 'a) \<times> 's"

named_theorems sm_defs "definitions of the state-and-error combinators"
named_theorems sm_iff "when a computation returns a value"
named_theorems pres_intro "preservation of a state predicate by the combinators"

definition retS :: "'a \<Rightarrow> ('s, 'a) sm" where
  [sm_defs]: "retS x = (\<lambda>s. (Inr x, s))"

definition throwS :: "err \<Rightarrow> ('s, 'a) sm" where
  [sm_defs]: "throwS e = (\<lambda>s. (Inl e, s))"

definition bindS :: "('s, 'a) sm \<Rightarrow> ('a \<Rightarrow> ('s, 'b) sm) \<Rightarrow> ('s, 'b) sm" where
  [sm_defs]: "bindS m f = (\<lambda>s. case m s of (Inl e, s') \<Rightarrow> (Inl e, s') | (Inr x, s') \<Rightarrow> f x s')"

definition getS :: "('s \<Rightarrow> 'a) \<Rightarrow> ('s, 'a) sm" where
  [sm_defs]: "getS f = (\<lambda>s. (Inr (f s), s))"

definition modS :: "('s \<Rightarrow> 's) \<Rightarrow> ('s, unit) sm" where
  [sm_defs]: "modS f = (\<lambda>s. (Inr (), f s))"

definition liftS :: "err + 'a \<Rightarrow> ('s, 'a) sm" where
  [sm_defs]: "liftS r = (\<lambda>s. (r, s))"

text \<open>\<open>if c { return e }\<close> at the head of a handler.\<close>

definition failIf :: "bool \<Rightarrow> err \<Rightarrow> ('s, unit) sm" where
  [sm_defs]: "failIf c e = (if c then throwS e else retS ())"

text \<open>
  \<open>x, _ := f()\<close>: the error is dropped. A panic is not an error value and goes through.
\<close>

definition ignS :: "('s, 'a) sm \<Rightarrow> ('s, 'a option) sm" where
  [sm_defs]: "ignS m = (\<lambda>s. case m s of
     (Inl e, s') \<Rightarrow> (if is_panic e then Inl e else Inr None, s')
   | (Inr x, s') \<Rightarrow> (Inr (Some x), s'))"

text \<open>A computation on a part of the state, run on the whole.\<close>

definition zoomS :: "('s \<Rightarrow> 't) \<Rightarrow> ('t \<Rightarrow> 's \<Rightarrow> 's) \<Rightarrow> ('t, 'a) sm \<Rightarrow> ('s, 'a) sm" where
  [sm_defs]: "zoomS g p m = (\<lambda>s. case m (g s) of (r, t) \<Rightarrow> (r, p t s))"

text \<open>\<open>for _, x := range xs\<close> with an early return on error.\<close>

fun forS :: "'x list \<Rightarrow> ('x \<Rightarrow> ('s, unit) sm) \<Rightarrow> ('s, unit) sm" where
  "forS [] f = retS ()"
| "forS (x # xs) f = bindS (f x) (\<lambda>_. forS xs f)"

lemma retS_iff [sm_iff]: "retS x s = (Inr y, s') \<longleftrightarrow> x = y \<and> s = s'"
  by (simp add: retS_def)

lemma throwS_iff [sm_iff]: "throwS e s = (Inr y, s') \<longleftrightarrow> False"
  by (simp add: throwS_def)

lemma bindS_iff [sm_iff]:
  "bindS m f s = (Inr y, s'') \<longleftrightarrow> (\<exists>x s'. m s = (Inr x, s') \<and> f x s' = (Inr y, s''))"
  by (auto simp: bindS_def split: prod.splits sum.splits)

lemma getS_iff [sm_iff]: "getS f s = (Inr y, s') \<longleftrightarrow> f s = y \<and> s = s'"
  by (simp add: getS_def)

lemma modS_iff [sm_iff]: "modS f s = (Inr y, s') \<longleftrightarrow> f s = s'"
  by (simp add: modS_def)

lemma liftS_iff [sm_iff]: "liftS r s = (Inr y, s') \<longleftrightarrow> r = Inr y \<and> s = s'"
  by (simp add: liftS_def)

lemma failIf_iff [sm_iff]: "failIf c e s = (Inr y, s') \<longleftrightarrow> \<not> c \<and> s = s'"
  by (simp add: failIf_def retS_def throwS_def)

lemma zoomS_iff [sm_iff]:
  "zoomS g p m s = (Inr y, s') \<longleftrightarrow> (\<exists>t. m (g s) = (Inr y, t) \<and> s' = p t s)"
  by (auto simp: zoomS_def split: prod.splits)

text \<open>
  \<open>pres P m\<close>: \<open>m\<close> keeps \<open>P\<close>, on the error paths as well.
\<close>

definition pres :: "('s \<Rightarrow> bool) \<Rightarrow> ('s, 'a) sm \<Rightarrow> bool" where
  "pres P m \<longleftrightarrow> (\<forall>s. P s \<longrightarrow> P (snd (m s)))"

lemma presI: "(\<And>s. P s \<Longrightarrow> P (snd (m s))) \<Longrightarrow> pres P m"
  by (simp add: pres_def)

lemma presD: "pres P m \<Longrightarrow> P s \<Longrightarrow> P (snd (m s))"
  by (simp add: pres_def)

lemma presD': "pres P m \<Longrightarrow> m s = (r, s') \<Longrightarrow> P s \<Longrightarrow> P s'"
  by (metis pres_def snd_conv)

lemma pres_retS [pres_intro]: "pres P (retS x)"
  and pres_throwS [pres_intro]: "pres P (throwS e)"
  and pres_getS [pres_intro]: "pres P (getS f)"
  and pres_liftS [pres_intro]: "pres P (liftS r)"
  and pres_failIf [pres_intro]: "pres P (failIf c e)"
  by (simp_all add: pres_def sm_defs)

lemma pres_bindS [pres_intro]:
  assumes "pres P m" and "\<And>x. pres P (f x)"
  shows "pres P (bindS m f)"
proof (rule presI)
  fix s assume s: "P s"
  obtain r s' where m: "m s = (r, s')" by fastforce
  have "P s'" using assms(1) m s by (rule presD')
  then show "P (snd (bindS m f s))"
    using m assms(2) by (cases r) (auto simp: bindS_def pres_def)
qed

lemma snd_ignS [simp]: "snd (ignS m s) = snd (m s)"
  by (simp add: ignS_def split: prod.splits sum.splits)

lemma pres_ignS [pres_intro]: "pres P m \<Longrightarrow> pres P (ignS m)"
  by (simp add: pres_def)

lemma pres_forS [pres_intro]: "(\<And>x. pres P (f x)) \<Longrightarrow> pres P (forS xs f)"
  by (induction xs) (auto intro: pres_intro)

lemma pres_modS: "(\<And>s. P s \<Longrightarrow> P (f s)) \<Longrightarrow> pres P (modS f)"
  by (simp add: pres_def modS_def)

lemma pres_zoomS:
  assumes "pres Q m" and "\<And>s. P s \<Longrightarrow> Q (g s)" and "\<And>t s. P s \<Longrightarrow> Q t \<Longrightarrow> P (p t s)"
  shows "pres P (zoomS g p m)"
  using assms by (auto simp: pres_def zoomS_def split: prod.splits) (metis snd_conv)

lemma pres_if [pres_intro]: "pres P m \<Longrightarrow> pres P m' \<Longrightarrow> pres P (if c then m else m')"
  by simp

lemma pres_option [pres_intro]:
  "pres P m \<Longrightarrow> (\<And>x. pres P (f x)) \<Longrightarrow> pres P (case r of None \<Rightarrow> m | Some x \<Rightarrow> f x)"
  by (cases r) auto

lemma pres_prod [pres_intro]:
  "(\<And>x y. pres P (f x y)) \<Longrightarrow> pres P (case r of (x, y) \<Rightarrow> f x y)"
  by (cases r) auto

section \<open>Errors without a state\<close>

definition bindE :: "err + 'a \<Rightarrow> ('a \<Rightarrow> err + 'b) \<Rightarrow> err + 'b" where
  [sm_defs]: "bindE r f = (case r of Inl e \<Rightarrow> Inl e | Inr x \<Rightarrow> f x)"

lemma bindE_simps [simp]: "bindE (Inl e) f = Inl e" "bindE (Inr x) f = f x"
  by (simp_all add: bindE_def)

lemma bindE_iff [sm_iff]: "bindE r f = Inr y \<longleftrightarrow> (\<exists>x. r = Inr x \<and> f x = Inr y)"
  by (cases r) auto

text \<open>\<open>for _, x := range xs\<close> over an accumulator, with an early return on error.\<close>

fun foldE :: "('x \<Rightarrow> 'a \<Rightarrow> err + 'a) \<Rightarrow> 'x list \<Rightarrow> 'a \<Rightarrow> err + 'a" where
  "foldE f [] a = Inr a"
| "foldE f (x # xs) a = bindE (f x a) (foldE f xs)"

section \<open>Go maps\<close>

text \<open>
  A Go map is an association list with distinct keys; its order is one order in which
  \<open>range\<close> may visit the entries. \<open>m[k] = v\<close> is \<open>AList.update\<close>, \<open>delete(m, k)\<close> is
  \<open>AList.delete\<close>, a lookup is \<open>map_of\<close>, \<open>len(m)\<close> is \<open>length\<close>.
\<close>

type_synonym ('k, 'v) gomap = "('k \<times> 'v) list"

abbreviation mput :: "'k \<Rightarrow> 'v \<Rightarrow> ('k, 'v) gomap \<Rightarrow> ('k, 'v) gomap" where
  "mput \<equiv> AList.update"

abbreviation mdel :: "'k \<Rightarrow> ('k, 'v) gomap \<Rightarrow> ('k, 'v) gomap" where
  "mdel \<equiv> AList.delete"

definition mkeys :: "('k, 'v) gomap \<Rightarrow> 'k list" where
  "mkeys m = map fst m"

definition mwf :: "('k, 'v) gomap \<Rightarrow> bool" where
  "mwf m \<longleftrightarrow> distinct (map fst m)"

text \<open>
  The loops of every \<open>Cache...Commit\<close> and \<open>Cache...Abort\<close> of the chain package:
  \<open>for k, v := range add { delete(cur, k); cur[k] = v }\<close>,
  \<open>for k := range del { delete(cur, k) }\<close> and the two that empty a pending map.
\<close>

definition addLoop :: "('k, 'v) gomap \<Rightarrow> ('k, 'v) gomap \<Rightarrow> ('k, 'v) gomap" where
  "addLoop add cur = fold (\<lambda>(k, v) m. mput k v (mdel k m)) add cur"

definition delLoop :: "('k, 'w) gomap \<Rightarrow> ('k, 'v) gomap \<Rightarrow> ('k, 'v) gomap" where
  "delLoop del cur = fold (\<lambda>(k, _) m. mdel k m) del cur"

definition clearLoop :: "('k, 'v) gomap \<Rightarrow> ('k, 'v) gomap" where
  "clearLoop m = delLoop m m"

lemma mwf_Nil [simp]: "mwf []"
  by (simp add: mwf_def)

lemma mwf_mput [simp]: "mwf m \<Longrightarrow> mwf (mput k v m)"
  by (simp add: mwf_def distinct_update)

lemma mwf_mdel [simp]: "mwf m \<Longrightarrow> mwf (mdel k m)"
  by (simp add: mwf_def distinct_delete)

lemma map_of_mput [simp]: "map_of (mput k v m) = (map_of m)(k \<mapsto> v)"
  by (simp add: update_conv')

lemma map_of_mdel [simp]: "map_of (mdel k m) = (map_of m)(k := None)"
  by (rule ext) (simp add: delete_conv)

lemma mdel_idle [simp]: "map_of m k = None \<Longrightarrow> mdel k m = m"
  by (simp add: delete_id map_of_eq_None_iff)

lemma map_of_delLoop: "map_of (delLoop del cur) = (\<lambda>k. if k \<in> fst ` set del then None else map_of cur k)"
  unfolding delLoop_def
proof (induction del arbitrary: cur)
  case Nil
  then show ?case by simp
next
  case (Cons p del)
  then show ?case by (auto simp: fun_eq_iff split: prod.splits)
qed

lemma map_of_addLoop: "mwf add \<Longrightarrow> map_of (addLoop add cur) = map_of cur ++ map_of add"
  unfolding addLoop_def
proof (induction add arbitrary: cur)
  case Nil
  then show ?case by simp
next
  case (Cons p add)
  obtain k v where p: "p = (k, v)" by fastforce
  with Cons.prems have k: "map_of add k = None" and wf: "mwf add"
    by (auto simp: mwf_def map_of_eq_None_iff)
  have "map_of (mput k v (mdel k cur)) = (map_of cur)(k \<mapsto> v)"
    by (simp add: fun_eq_iff)
  then have "map_of (fold (\<lambda>(k, v) m. mput k v (mdel k m)) add (mput k v (mdel k cur)))
      = (map_of cur)(k \<mapsto> v) ++ map_of add"
    using Cons.IH [OF wf, of "mput k v (mdel k cur)"] by metis
  also have "\<dots> = map_of cur ++ map_of (p # add)"
    using k by (auto simp: p fun_eq_iff map_add_def split: option.splits)
  finally show ?case by (simp only: p fold_simps prod.case)
qed

lemma clearLoop_Nil [simp]: "clearLoop m = []"
proof -
  have "k \<notin> fst ` set (clearLoop m)" for k
    unfolding map_of_eq_None_iff [symmetric]
    by (simp add: clearLoop_def map_of_delLoop) (simp add: map_of_eq_None_iff)
  then show ?thesis by (metis equals0I image_is_empty set_empty)
qed

lemma mwf_addLoop [simp]: "mwf cur \<Longrightarrow> mwf (addLoop add cur)"
  unfolding addLoop_def by (induction add arbitrary: cur) auto

lemma mwf_delLoop [simp]: "mwf cur \<Longrightarrow> mwf (delLoop del cur)"
  unfolding delLoop_def by (induction del arbitrary: cur) auto

lemma addLoop_Nil [simp]: "addLoop [] cur = cur"
  by (simp add: addLoop_def)

lemma delLoop_Nil [simp]: "delLoop [] cur = cur"
  by (simp add: delLoop_def)

lemma length_mwf: "mwf m \<Longrightarrow> length m = card (dom (map_of m))"
  by (metis distinct_card dom_map_of_conv_image_fst length_map mwf_def set_map)

text \<open>The wrap-around of a product of 64-bit words, written out.\<close>

lemma unat_mult_mod: "unat (x * y) = unat x * unat y mod 2 ^ 64" for x y :: "64 word"
proof -
  have L: "LENGTH(64) = 64" by simp
  show ?thesis by (simp only: unat_word_ariths(2) L)
qed

end
