(* ===== verification/GoStd.thy ===== *)
theory GoStd
  imports Prelude
begin

text \<open>
  The parts of the Go standard library the chain uses, as the language documents them:
  \<open>encoding/binary\<close> (fixed-width integers as bytes), \<open>strconv\<close> (decimal integers),
  \<open>encoding/hex\<close>, \<open>time\<close> and the integer division that panics. Round trips are proved
  where the chain relies on them.
\<close>

section \<open>Fixed-width integers as bytes\<close>

fun be_nat :: "nat \<Rightarrow> nat \<Rightarrow> bytes" where
  "be_nat 0 x = []"
| "be_nat (Suc n) x = be_nat n (x div 256) @ [word_of_nat x]"

definition be_bytes :: "nat \<Rightarrow> 'a::len word \<Rightarrow> bytes" where
  "be_bytes n w = be_nat n (unat w)"

definition le_bytes :: "nat \<Rightarrow> 'a::len word \<Rightarrow> bytes" where
  "le_bytes n w = rev (be_bytes n w)"

definition be_horner :: "bytes \<Rightarrow> nat" where
  "be_horner bs = foldl (\<lambda>a b. 256 * a + unat b) 0 bs"

definition be_val :: "bytes \<Rightarrow> 'a::len word" where
  "be_val bs = word_of_nat (be_horner bs)"

text \<open>\<open>binary.BigEndian.Uint64\<close> reads eight bytes and panics on a shorter slice.\<close>

definition BigEndian_Uint64 :: "bytes \<Rightarrow> err + u64" where
  "BigEndian_Uint64 bs =
     (if length bs < 8 then Inl (Panic ''index out of range'') else Inr (be_val (take 8 bs)))"

definition BigEndian_PutUint64 :: "u64 \<Rightarrow> bytes" where
  "BigEndian_PutUint64 v = be_bytes 8 v"

lemma length_be_nat [simp]: "length (be_nat n x) = n"
  by (induction n arbitrary: x) auto

lemma length_be_bytes [simp]: "length (be_bytes n w) = n"
  by (simp add: be_bytes_def)

lemma be_horner_snoc: "be_horner (bs @ [b]) = 256 * be_horner bs + unat b"
  by (simp add: be_horner_def)

lemma be_horner_be_nat: "be_horner (be_nat n x) = x mod 256 ^ n"
proof (induction n arbitrary: x)
  case 0
  then show ?case by (simp add: be_horner_def)
next
  case (Suc n)
  have "be_horner (be_nat (Suc n) x) = 256 * (x div 256 mod 256 ^ n) + x mod 256"
    using Suc.IH by (simp add: be_horner_snoc unat_of_nat)
  also have "\<dots> = x mod (256 * 256 ^ n)"
    by (simp add: mod_mult2_eq)
  finally show ?case by simp
qed

lemma be_horner_be_bytes:
  "LENGTH('a) \<le> 8 * n \<Longrightarrow> be_horner (be_bytes n (w :: 'a::len word)) = unat w"
proof -
  assume n: "LENGTH('a) \<le> 8 * n"
  have "unat w < 2 ^ LENGTH('a)" by (rule unsigned_less)
  also have "\<dots> \<le> (2::nat) ^ (8 * n)" using n by (simp add: power_increasing)
  also have "\<dots> = 256 ^ n" by (simp add: power_mult)
  finally show ?thesis by (simp add: be_bytes_def be_horner_be_nat)
qed

lemma be_val_be_bytes [simp]:
  "LENGTH('a) \<le> 8 * n \<Longrightarrow> be_val (be_bytes n (w :: 'a::len word)) = w"
  by (simp add: be_val_def be_horner_be_bytes)

lemma be_bytes_inject [simp]:
  "LENGTH('a) \<le> 8 * n \<Longrightarrow> be_bytes n (w :: 'a::len word) = be_bytes n w' \<longleftrightarrow> w = w'"
  by (metis be_val_be_bytes)

lemma BigEndian_roundtrip [simp]: "BigEndian_Uint64 (BigEndian_PutUint64 v) = Inr v"
  by (simp add: BigEndian_Uint64_def BigEndian_PutUint64_def)

section \<open>strconv\<close>

definition digit_val :: "char \<Rightarrow> nat option" where
  "digit_val c = (let n = of_char c :: nat in if 48 \<le> n \<and> n \<le> 57 then Some (n - 48) else None)"

definition digit_char :: "nat \<Rightarrow> char" where
  "digit_char d = char_of (48 + d)"

fun parse_digits :: "nat \<Rightarrow> string \<Rightarrow> err + u64" where
  "parse_digits n [] = Inr (word_of_nat n)"
| "parse_digits n (c # cs) =
     (case digit_val c of
        None \<Rightarrow> Inl (Errorf ''strconv.ParseUint: invalid syntax'')
      | Some d \<Rightarrow>
          if 2 ^ 64 \<le> 10 * n + d then Inl (Errorf ''strconv.ParseUint: value out of range'')
          else parse_digits (10 * n + d) cs)"

text \<open>\<open>strconv.ParseUint(s, 10, 64)\<close>.\<close>

definition ParseUint :: "string \<Rightarrow> err + u64" where
  "ParseUint s = (if s = [] then Inl (Errorf ''strconv.ParseUint: invalid syntax'')
                  else parse_digits 0 s)"

fun dec_digits :: "nat \<Rightarrow> string" where
  "dec_digits n = (if n < 10 then [digit_char n] else dec_digits (n div 10) @ [digit_char (n mod 10)])"

declare dec_digits.simps [simp del]

text \<open>\<open>strconv.FormatUint(x, 10)\<close>.\<close>

definition FormatUint :: "u64 \<Rightarrow> string" where
  "FormatUint x = dec_digits (unat x)"

lemma digit_val_char [simp]: "d < 10 \<Longrightarrow> digit_val (digit_char d) = Some d"
  by (simp add: digit_val_def digit_char_def Let_def)

lemma dec_digits_not_Nil [simp]: "dec_digits n \<noteq> []"
  by (subst dec_digits.simps) simp

fun dec_value :: "nat \<Rightarrow> string \<Rightarrow> nat option" where
  "dec_value n [] = Some n"
| "dec_value n (c # cs) = (case digit_val c of None \<Rightarrow> None | Some d \<Rightarrow> dec_value (10 * n + d) cs)"

lemma dec_value_append:
  "dec_value n (xs @ ys) = (case dec_value n xs of None \<Rightarrow> None | Some m \<Rightarrow> dec_value m ys)"
  by (induction xs arbitrary: n) (auto split: option.splits)

lemma dec_value_dec_digits: "dec_value 0 (dec_digits n) = Some n"
proof (induction n rule: dec_digits.induct)
  case (1 n)
  show ?case
  proof (cases "n < 10")
    case True
    then show ?thesis by (subst dec_digits.simps) simp
  next
    case False
    then have "dec_value 0 (dec_digits n)
        = (case dec_value 0 (dec_digits (n div 10)) of None \<Rightarrow> None
           | Some m \<Rightarrow> dec_value m [digit_char (n mod 10)])"
      by (subst dec_digits.simps) (simp add: dec_value_append del: dec_value.simps)
    also have "\<dots> = Some n" using False 1 by simp
    finally show ?thesis .
  qed
qed

lemma dec_value_ge: "dec_value n cs = Some m \<Longrightarrow> n \<le> m"
  by (induction cs arbitrary: n) (fastforce split: option.splits)+

lemma parse_digits_dec_value:
  "dec_value n cs = Some m \<Longrightarrow> m < 2 ^ 64 \<Longrightarrow> parse_digits n cs = Inr (word_of_nat m)"
proof (induction cs arbitrary: n)
  case Nil
  then show ?case by simp
next
  case (Cons c cs)
  then obtain d where d: "digit_val c = Some d" and m: "dec_value (10 * n + d) cs = Some m"
    by (auto split: option.splits)
  have "10 * n + d < 2 ^ 64" using dec_value_ge [OF m] Cons.prems(2) by linarith
  then show ?case using d Cons.IH [OF m Cons.prems(2)] by simp
qed

lemma ParseUint_FormatUint [simp]: "ParseUint (FormatUint x) = Inr x"
proof -
  have "unat x < 2 ^ 64" using unsigned_less [of x] by simp
  then have "parse_digits 0 (dec_digits (unat x)) = Inr (word_of_nat (unat x))"
    by (intro parse_digits_dec_value dec_value_dec_digits)
  then show ?thesis by (simp add: ParseUint_def FormatUint_def)
qed

section \<open>encoding/hex\<close>

definition hex_val :: "char \<Rightarrow> nat option" where
  "hex_val c = (let n = of_char c :: nat in
     if 48 \<le> n \<and> n \<le> 57 then Some (n - 48)
     else if 97 \<le> n \<and> n \<le> 102 then Some (n - 87)
     else if 65 \<le> n \<and> n \<le> 70 then Some (n - 55) else None)"

text \<open>\<open>hex.DecodeString\<close>: pairs of digits; an odd trailing digit is an error.\<close>

fun hex_DecodeString :: "string \<Rightarrow> err + bytes" where
  "hex_DecodeString [] = Inr []"
| "hex_DecodeString [c] =
     (case hex_val c of None \<Rightarrow> Inl (Errorf ''encoding/hex: invalid byte'')
      | Some _ \<Rightarrow> Inl (Errorf ''encoding/hex: odd length hex string''))"
| "hex_DecodeString (c # d # cs) =
     (case (hex_val c, hex_val d) of
        (Some a, Some b) \<Rightarrow>
          (case hex_DecodeString cs of Inl e \<Rightarrow> Inl e
           | Inr bs \<Rightarrow> Inr (word_of_nat (16 * a + b) # bs))
      | _ \<Rightarrow> Inl (Errorf ''encoding/hex: invalid byte''))"

section \<open>Time, signed values and division\<close>

text \<open>
  The clock is read as nanoseconds since the epoch. \<open>time.Now().Unix()\<close> is the second;
  \<open>time.Unix(int64(x), 0)\<close> is the instant \<open>x\<close> seconds after the epoch, \<open>x\<close> read as
  signed.
\<close>

definition unix_now :: "int \<Rightarrow> u64" where
  "unix_now now = word_of_int (now div 1000000000)"

definition now_After :: "int \<Rightarrow> u64 \<Rightarrow> bool" where
  "now_After now x \<longleftrightarrow> sint x * 1000000000 < now"

definition now_Before :: "int \<Rightarrow> u64 \<Rightarrow> bool" where
  "now_Before now x \<longleftrightarrow> now < sint x * 1000000000"

definition divU :: "'a::len word \<Rightarrow> 'a word \<Rightarrow> err + 'a word" where
  "divU a b = (if b = 0 then Inl (Panic ''integer divide by zero'') else Inr (a div b))"

lemma divU_Inr_iff: "divU a b = Inr q \<longleftrightarrow> b \<noteq> 0 \<and> q = a div b"
  by (auto simp: divU_def)

text \<open>\<open>bytes.Compare\<close>: -1, 0 or 1.\<close>

fun bytes_Compare :: "bytes \<Rightarrow> bytes \<Rightarrow> int" where
  "bytes_Compare [] [] = 0"
| "bytes_Compare [] (_ # _) = -1"
| "bytes_Compare (_ # _) [] = 1"
| "bytes_Compare (a # as) (b # bs) =
     (if a < b then -1 else if b < a then 1 else bytes_Compare as bs)"

lemma bytes_Compare_ge: "-1 \<le> bytes_Compare xs ys"
  by (induction xs ys rule: bytes_Compare.induct) auto

end
