(* ===== verification/Ext.thy ===== *)
theory Ext
  imports Complex_Main GoStd
begin

text \<open>
  The interfaces of code outside the repository: the avalanchego database and codec, the
  go-ethereum helpers, IEEE floating point. Each is a record of functions that the model
  takes as an argument; a predicate per interface states the documented behaviour that the
  properties rely on. Nothing here defines what that code does.
\<close>

section \<open>The key-value database\<close>

text \<open>
  \<open>database.Database\<close> and \<open>versiondb\<close> of avalanchego. A value of type \<open>'db\<close> is one
  state of a database as its reader sees it; \<open>vdb_New\<close> puts an empty overlay on it and
  \<open>vdb_Commit\<close> gives the state of the parent after the overlay is written through;
  \<open>vdb_SetDatabase d base\<close> puts the overlay of \<open>d\<close> on another parent. An iterator is the list
  of entries it visits.
\<close>

record 'db dbops =
  db_Get :: "'db \<Rightarrow> bytes \<Rightarrow> err + bytes"
  db_Has :: "'db \<Rightarrow> bytes \<Rightarrow> err + bool"
  db_Put :: "'db \<Rightarrow> bytes \<Rightarrow> bytes \<Rightarrow> err + 'db"
  db_Delete :: "'db \<Rightarrow> bytes \<Rightarrow> err + 'db"
  db_IterPrefix :: "'db \<Rightarrow> bytes \<Rightarrow> (bytes \<times> bytes) list"
  db_IterStart :: "'db \<Rightarrow> bytes \<Rightarrow> (bytes \<times> bytes) list"
  vdb_New :: "'db \<Rightarrow> 'db"
  vdb_Commit :: "'db \<Rightarrow> err + 'db"
  vdb_SetDatabase :: "'db \<Rightarrow> 'db \<Rightarrow> err + 'db"

definition get_put_ok :: "'db dbops \<Rightarrow> bool" where
  "get_put_ok D \<longleftrightarrow> (\<forall>d k v d'. db_Put D d k v = Inr d' \<longrightarrow>
     (\<forall>k'. db_Get D d' k' = (if k' = k then Inr v else db_Get D d k')))"

definition get_delete_ok :: "'db dbops \<Rightarrow> bool" where
  "get_delete_ok D \<longleftrightarrow> (\<forall>d k d'. db_Delete D d k = Inr d' \<longrightarrow>
     (\<forall>k'. db_Get D d' k' = (if k' = k then Inl ErrNotFound else db_Get D d k')))"

definition has_ok :: "'db dbops \<Rightarrow> bool" where
  "has_ok D \<longleftrightarrow> (\<forall>d k. db_Has D d k =
     (case db_Get D d k of Inr _ \<Rightarrow> Inr True
      | Inl e \<Rightarrow> if e = ErrNotFound then Inr False else Inl e))"

definition iter_ok :: "'db dbops \<Rightarrow> bool" where
  "iter_ok D \<longleftrightarrow> (\<forall>d p. distinct (map fst (db_IterPrefix D d p)) \<and>
     set (db_IterPrefix D d p) = {(k, v). prefix p k \<and> db_Get D d k = Inr v})"

definition vdb_ok :: "'db dbops \<Rightarrow> bool" where
  "vdb_ok D \<longleftrightarrow> (\<forall>d. db_Get D (vdb_New D d) = db_Get D d) \<and>
     (\<forall>d d'. vdb_Commit D d = Inr d' \<longrightarrow> db_Get D d' = db_Get D d)"

definition db_ok :: "'db dbops \<Rightarrow> bool" where
  "db_ok D \<longleftrightarrow> get_put_ok D \<and> get_delete_ok D \<and> has_ok D \<and> iter_ok D \<and> vdb_ok D"

lemma db_ok_put: "db_ok D \<Longrightarrow> db_Put D d k v = Inr d' \<Longrightarrow>
    db_Get D d' k' = (if k' = k then Inr v else db_Get D d k')"
  by (simp add: db_ok_def get_put_ok_def)

lemma db_ok_delete: "db_ok D \<Longrightarrow> db_Delete D d k = Inr d' \<Longrightarrow>
    db_Get D d' k' = (if k' = k then Inl ErrNotFound else db_Get D d k')"
  by (simp add: db_ok_def get_delete_ok_def)

lemma db_ok_has: "db_ok D \<Longrightarrow> db_Has D d k =
    (case db_Get D d k of Inr _ \<Rightarrow> Inr True | Inl e \<Rightarrow> if e = ErrNotFound then Inr False else Inl e)"
  by (simp add: db_ok_def has_ok_def)

lemma db_ok_iter: "db_ok D \<Longrightarrow> (k, v) \<in> set (db_IterPrefix D d p) \<longleftrightarrow> prefix p k \<and> db_Get D d k = Inr v"
  by (simp add: db_ok_def iter_ok_def)

lemma db_ok_iter_distinct: "db_ok D \<Longrightarrow> distinct (map fst (db_IterPrefix D d p))"
  by (simp add: db_ok_def iter_ok_def)

lemma db_ok_new: "db_ok D \<Longrightarrow> db_Get D (vdb_New D d) k = db_Get D d k"
  by (simp add: db_ok_def vdb_ok_def)

lemma db_ok_commit: "db_ok D \<Longrightarrow> vdb_Commit D d = Inr d' \<Longrightarrow> db_Get D d' k = db_Get D d k"
  by (simp add: db_ok_def vdb_ok_def)

text \<open>The database calls of a method whose receiver is a component of type \<open>'s\<close>.\<close>

definition dbGet :: "'db dbops \<Rightarrow> bytes \<Rightarrow> ('db \<times> 's, bytes) sm" where
  [sm_defs]: "dbGet D k = (\<lambda>(d, s). (db_Get D d k, (d, s)))"

definition dbPut :: "'db dbops \<Rightarrow> bytes \<Rightarrow> bytes \<Rightarrow> ('db \<times> 's, unit) sm" where
  [sm_defs]: "dbPut D k v = (\<lambda>(d, s). case db_Put D d k v of
     Inl e \<Rightarrow> (Inl e, (d, s)) | Inr d' \<Rightarrow> (Inr (), (d', s)))"

definition dbDelete :: "'db dbops \<Rightarrow> bytes \<Rightarrow> ('db \<times> 's, unit) sm" where
  [sm_defs]: "dbDelete D k = (\<lambda>(d, s). case db_Delete D d k of
     Inl e \<Rightarrow> (Inl e, (d, s)) | Inr d' \<Rightarrow> (Inr (), (d', s)))"

text \<open>The part of the state that is the method's receiver.\<close>

definition getC :: "('s \<Rightarrow> 'a) \<Rightarrow> ('db \<times> 's, 'a) sm" where
  [sm_defs]: "getC f = getS (\<lambda>(d, s). f s)"

definition modC :: "('s \<Rightarrow> 's) \<Rightarrow> ('db \<times> 's, unit) sm" where
  [sm_defs]: "modC f = modS (\<lambda>(d, s). (d, f s))"

text \<open>The same calls where the database is the whole state.\<close>

definition putD :: "'db dbops \<Rightarrow> bytes \<Rightarrow> bytes \<Rightarrow> ('db, unit) sm" where
  [sm_defs]: "putD D k v = (\<lambda>d. case db_Put D d k v of
     Inl e \<Rightarrow> (Inl e, d) | Inr d' \<Rightarrow> (Inr (), d'))"

lemma putD_iff [sm_iff]: "putD D k v d = (Inr u, d') \<longleftrightarrow> db_Put D d k v = Inr d'"
  by (auto simp: putD_def split: sum.splits)

lemma dbPut_iff [sm_iff]:
  "dbPut D k v (d, s) = (Inr u, w) \<longleftrightarrow> (\<exists>d'. db_Put D d k v = Inr d' \<and> w = (d', s))"
  by (auto simp: dbPut_def split: sum.splits)

lemma dbDelete_iff [sm_iff]:
  "dbDelete D k (d, s) = (Inr u, w) \<longleftrightarrow> (\<exists>d'. db_Delete D d k = Inr d' \<and> w = (d', s))"
  by (auto simp: dbDelete_def split: sum.splits)

lemma dbGet_iff [sm_iff]:
  "dbGet D k (d, s) = (Inr v, w) \<longleftrightarrow> db_Get D d k = Inr v \<and> w = (d, s)"
  by (auto simp: dbGet_def)

lemma modC_iff [sm_iff]: "modC f (d, s) = (Inr u, w) \<longleftrightarrow> w = (d, f s)"
  by (auto simp: modC_def modS_def)

lemma getC_iff [sm_iff]: "getC f (d, s) = (Inr v, w) \<longleftrightarrow> v = f s \<and> w = (d, s)"
  by (auto simp: getC_def getS_def)

lemma snd_dbPut [simp]: "snd (snd (dbPut D k v w)) = snd w"
  and snd_dbGet [simp]: "snd (snd (dbGet D k w)) = snd w"
  and snd_dbDelete [simp]: "snd (snd (dbDelete D k w)) = snd w"
  by (auto simp: dbPut_def dbGet_def dbDelete_def split: prod.splits sum.splits)

text \<open>A predicate on the receiver alone is kept by every database call.\<close>

lemma pres_dbPut [pres_intro]: "pres (\<lambda>w. P (snd w)) (dbPut D k v)"
  and pres_dbGet [pres_intro]: "pres (\<lambda>w. P (snd w)) (dbGet D k)"
  and pres_dbDelete [pres_intro]: "pres (\<lambda>w. P (snd w)) (dbDelete D k)"
  and pres_getC [pres_intro]: "pres Q (getC f)"
  by (auto simp: pres_def sm_defs split: prod.splits sum.splits)

lemma pres_modC: "(\<And>s. P s \<Longrightarrow> P (f s)) \<Longrightarrow> pres (\<lambda>w. P (snd w)) (modC f)"
  by (auto simp: pres_def modC_def modS_def)

section \<open>The codec\<close>

text \<open>
  \<open>chain.Marshal\<close> and \<open>chain.Unmarshal\<close> wrap avalanchego's linear codec; which bytes a
  value becomes is the codec's business. What the chain relies on: unmarshalling what was
  marshalled gives the value back.
\<close>

record 'a codec =
  enc :: "'a \<Rightarrow> err + bytes"
  dec :: "bytes \<Rightarrow> err + 'a"

definition codec_ok :: "'a codec \<Rightarrow> bool" where
  "codec_ok C \<longleftrightarrow> (\<forall>x b. enc C x = Inr b \<longrightarrow> dec C b = Inr x)"

lemma codec_okD: "codec_ok C \<Longrightarrow> enc C x = Inr b \<Longrightarrow> dec C b = Inr x"
  by (simp add: codec_ok_def)

section \<open>Bounded caches\<close>

text \<open>
  \<open>cache.LRU\<close> and \<open>metercacher\<close> of avalanchego: a bounded map that may drop entries.
  \<open>lru_items\<close> is the set of entries in the cache, for the specification only; a lookup may
  reorder the cache.
\<close>

record ('k, 'v, 'c) lruops =
  lru_Get :: "'c \<Rightarrow> 'k \<Rightarrow> 'v option \<times> 'c"
  lru_Put :: "'k \<Rightarrow> 'v \<Rightarrow> 'c \<Rightarrow> 'c"
  lru_Evict :: "'k \<Rightarrow> 'c \<Rightarrow> 'c"
  lru_items :: "'c \<Rightarrow> ('k \<times> 'v) set"

definition lru_ok :: "('k, 'v, 'c) lruops \<Rightarrow> bool" where
  "lru_ok R \<longleftrightarrow>
     (\<forall>c k v c'. lru_Get R c k = (Some v, c') \<longrightarrow> (k, v) \<in> lru_items R c) \<and>
     (\<forall>c k. lru_items R (snd (lru_Get R c k)) \<subseteq> lru_items R c) \<and>
     (\<forall>c k v. lru_items R (lru_Put R k v c) \<subseteq> insert (k, v) {p \<in> lru_items R c. fst p \<noteq> k}) \<and>
     (\<forall>c k. lru_items R (lru_Evict R k c) \<subseteq> {p \<in> lru_items R c. fst p \<noteq> k})"

section \<open>Functions of the libraries\<close>

text \<open>
  go-ethereum's \<open>common\<close>, \<open>common/math\<close>, \<open>common/hexutil\<close> and \<open>crypto\<close>, avalanchego's
  \<open>ids\<close>, and the floating-point unit: \<open>x_pow08 i\<close> is the value of \<open>math.Pow(0.8, float64(i))\<close>,
  \<open>x_rnd\<close> rounds an exact result to a \<open>float64\<close>, \<open>x_f2u\<close> converts a \<open>float64\<close> to \<open>uint64\<close>
  and \<open>x_undef\<close> is what that conversion makes of an infinity or a NaN (the language leaves
  it to the implementation).
\<close>

type_synonym pubkey = bytes
type_synonym privkey = bytes

record lib =
  x_SafeAdd :: "u64 \<Rightarrow> u64 \<Rightarrow> u64 \<times> bool"
  x_SafeSub :: "u64 \<Rightarrow> u64 \<Rightarrow> u64 \<times> bool"
  x_Keccak256 :: "bytes \<Rightarrow> hash"
  x_UnmarshalPubkey :: "bytes \<Rightarrow> err + pubkey"
  x_PubkeyToAddress :: "pubkey \<Rightarrow> address"
  x_SigToPub :: "bytes \<Rightarrow> bytes \<Rightarrow> err + pubkey"
  x_Sign :: "bytes \<Rightarrow> privkey \<Rightarrow> err + bytes"
  x_HexToAddress :: "string \<Rightarrow> address"
  x_AddressHex :: "address \<Rightarrow> string"
  x_IDString :: "id \<Rightarrow> string"
  x_IDFromString :: "string \<Rightarrow> err + id"
  x_ShortString :: "short_id \<Rightarrow> string"
  x_ShortFromString :: "string \<Rightarrow> err + short_id"
  x_ToID :: "bytes \<Rightarrow> err + id"
  x_HashHex :: "hash \<Rightarrow> string"
  x_hexEncode :: "bytes \<Rightarrow> string"
  x_hexDecode :: "string \<Rightarrow> err + bytes"
  x_IsHexAddress :: "string \<Rightarrow> bool"
  x_HexOrDecimal256 :: "string \<Rightarrow> err + int"
  x_U256Bytes :: "int \<Rightarrow> bytes"
  x_PaddedBigBytes :: "int \<Rightarrow> nat \<Rightarrow> bytes"
  x_pow08 :: "u32 \<Rightarrow> rat"
  x_rnd :: "rat \<Rightarrow> rat"
  x_f2u :: "rat \<Rightarrow> u64"
  x_undef :: u64

definition math_ok :: "lib \<Rightarrow> bool" where
  "math_ok L \<longleftrightarrow> (\<forall>a b. x_SafeAdd L a b = (a + b, 2 ^ 64 \<le> unat a + unat b)) \<and>
     (\<forall>a b. x_SafeSub L a b = (a - b, unat a < unat b))"

text \<open>
  Text forms: parsing what was printed gives the value back (addresses, block and action
  ids, byte strings).
\<close>

definition text_ok :: "lib \<Rightarrow> bool" where
  "text_ok L \<longleftrightarrow> (\<forall>a. x_HexToAddress L (x_AddressHex L a) = a) \<and>
     (\<forall>i. x_IDFromString L (x_IDString L i) = Inr i) \<and>
     (\<forall>i. x_ShortFromString L (x_ShortString L i) = Inr i) \<and>
     (\<forall>b. x_hexDecode L (x_hexEncode L b) = Inr b) \<and>
     (\<forall>i. x_ToID L (be_bytes 32 i) = Inr i)"

text \<open>
  The number formats of go-ethereum's \<open>common/math\<close>: the text of an address is an address,
  a decimal \<open>uint64\<close> is read back, and \<open>U256Bytes\<close> writes 32 bytes from which a number below
  \<open>2 ^ 256\<close> can be told.
\<close>

definition num_ok :: "lib \<Rightarrow> bool" where
  "num_ok L \<longleftrightarrow> (\<forall>a. x_IsHexAddress L (x_AddressHex L a)) \<and>
     (\<forall>x :: u64. x_HexOrDecimal256 L (FormatUint x) = Inr (uint x)) \<and>
     (\<forall>i. length (x_U256Bytes L i) = 32) \<and>
     (\<forall>i j. 0 \<le> i \<and> i < 2 ^ 256 \<and> 0 \<le> j \<and> j < 2 ^ 256 \<longrightarrow> x_U256Bytes L i = x_U256Bytes L j \<longrightarrow> i = j)"

text \<open>
  IEEE double precision as far as the reward formula needs it: rounding is monotone and
  exact on integers below \<open>2 ^ 53\<close>; the power is 1 at 0, and lies strictly between 0 and 1
  elsewhere or has underflowed to 0; the conversion truncates in range.
\<close>

definition float_ok :: "lib \<Rightarrow> bool" where
  "float_ok L \<longleftrightarrow> (\<forall>x y. x \<le> y \<longrightarrow> x_rnd L x \<le> x_rnd L y) \<and>
     (\<forall>n. n < (2::nat) ^ 53 \<longrightarrow> x_rnd L (of_nat n) = of_nat n) \<and>
     x_pow08 L 0 = 1 \<and> (\<forall>i. i \<noteq> 0 \<longrightarrow> 0 \<le> x_pow08 L i \<and> x_pow08 L i < 1) \<and>
     (\<forall>x. 0 \<le> x \<and> x < 2 ^ 64 \<longrightarrow> x_f2u L x = word_of_int \<lfloor>x\<rfloor>)"

lemma math_ok_add: "math_ok L \<Longrightarrow> x_SafeAdd L a b = (a + b, 2 ^ 64 \<le> unat a + unat b)"
  and math_ok_sub: "math_ok L \<Longrightarrow> x_SafeSub L a b = (a - b, unat a < unat b)"
  by (simp_all add: math_ok_def)

lemma text_ok_simps:
  assumes "text_ok L"
  shows "x_HexToAddress L (x_AddressHex L a) = a"
    and "x_IDFromString L (x_IDString L i) = Inr i"
    and "x_ShortFromString L (x_ShortString L s) = Inr s"
    and "x_hexDecode L (x_hexEncode L b) = Inr b"
    and "x_ToID L (be_bytes 32 i) = Inr i"
  using assms by (simp_all add: text_ok_def)

lemma num_ok_simps:
  assumes "num_ok L"
  shows "x_IsHexAddress L (x_AddressHex L a)"
    and "x_HexOrDecimal256 L (FormatUint x) = Inr (uint x)"
    and "length (x_U256Bytes L i) = 32"
  using assms by (simp_all add: num_ok_def)

lemma U256Bytes_inject:
  assumes "num_ok L"
  shows "x_U256Bytes L (uint (x :: u64)) = x_U256Bytes L (uint y) \<longleftrightarrow> x = y"
proof -
  have "0 \<le> uint z \<and> uint z < 2 ^ 256" for z :: u64
    using uint_lt2p [of z] by simp
  then show ?thesis using assms unfolding num_ok_def by (metis word_uint_eq_iff)
qed

text \<open>\<open>chain.ValueHash\<close> (\<open>chain/common_tx.go\<close>): the Keccak hash of a value.\<close>

definition ValueHash :: "lib \<Rightarrow> bytes \<Rightarrow> hash" where
  "ValueHash L v = x_Keccak256 L v"

end
