(* ===== verification/TData.thy ===== *)
theory TData
  imports Ext
begin

text \<open>
  \<open>tdata/tdata.go\<close>: EIP-712 typed data, from which the digest that a sender signs is
  computed. A value of Go's \<open>interface{}\<close> is a \<open>jval\<close>; a text is the list of its bytes as
  characters.
\<close>

section \<open>Data\<close>

datatype jval =
    JNil
  | JStr string
  | JBool bool
  | JNum rat
  | JBytes bytes
  | JBig int
  | JArr "jval list"
  | JMap "(string \<times> jval) list"

record tdType =
  ty_Name :: string
  ty_Type :: string

type_synonym Types = "(string, tdType list) gomap"
type_synonym TypedDataMessage = "(string, jval) gomap"

record TypedDataDomain =
  dom_Name :: string
  dom_Magic :: string

record TypedData =
  td_Types :: Types
  td_PrimaryType :: string
  td_Domain :: TypedDataDomain
  td_Message :: TypedDataMessage

definition EIP712Domain :: "tdType list" where
  "EIP712Domain = [\<lparr> ty_Name = ''name'', ty_Type = ''string'' \<rparr>, \<lparr> ty_Name = ''magic'', ty_Type = ''uint64'' \<rparr>]"

definition samaDomain :: "u64 \<Rightarrow> TypedDataDomain" where
  "samaDomain m = \<lparr> dom_Name = ''Sama'', dom_Magic = FormatUint m \<rparr>"

text \<open>The domain's own entry comes second in the literal, so it wins over a type of that name.\<close>

definition CreateTypedData :: "u64 \<Rightarrow> string \<Rightarrow> tdType list \<Rightarrow> TypedDataMessage \<Rightarrow> TypedData" where
  "CreateTypedData magic txType txFields msg =
     \<lparr> td_Types = mput ''EIP712Domain'' EIP712Domain [(txType, txFields)],
       td_PrimaryType = txType, td_Domain = samaDomain magic, td_Message = msg \<rparr>"

definition Domain_Map :: "TypedDataDomain \<Rightarrow> TypedDataMessage" where
  "Domain_Map d = [(''name'', JStr (dom_Name d)), (''magic'', JStr (dom_Magic d))]"

section \<open>The encoding of a type\<close>

text \<open>
  \<open>Dependencies\<close>: each call extends the list of the types found; a type already found, or
  not declared, adds nothing. The inner loop adds what the call for a field's type returns
  and is not there yet.
\<close>

definition addMissing :: "string list \<Rightarrow> string list \<Rightarrow> string list" where
  "addMissing deps found = fold (\<lambda>dep f. if dep \<in> set f then f else f @ [dep]) deps found"

lemma addMissing_superset: "set found \<subseteq> set (addMissing deps found)"
  unfolding addMissing_def by (induction deps arbitrary: found) (fastforce split: if_splits)+

definition openTypes :: "Types \<Rightarrow> string list \<Rightarrow> nat" where
  "openTypes T found = card (dom (map_of T) - set found)"

lemma openTypes_mono: "set found \<subseteq> set found' \<Longrightarrow> openTypes T found' \<le> openTypes T found"
  unfolding openTypes_def by (rule card_mono) (auto simp: finite_dom_map_of)

lemma openTypes_less:
  "map_of T p = Some fs \<Longrightarrow> p \<notin> set found \<Longrightarrow> openTypes T (found @ [p]) < openTypes T found"
  unfolding openTypes_def by (rule psubset_card_mono) (auto simp: finite_dom_map_of)

function (sequential) Dependencies :: "Types \<Rightarrow> string \<Rightarrow> string list \<Rightarrow> string list"
  and depFields :: "Types \<Rightarrow> tdType list \<Rightarrow> string list \<Rightarrow> string list" where
  "Dependencies T primaryType found =
     (if primaryType \<in> set found then found
      else
        case map_of T primaryType of
          None \<Rightarrow> found
        | Some fs \<Rightarrow> depFields T fs (found @ [primaryType]))"
| "depFields T [] found = found"
| "depFields T (field # fs) found =
     depFields T fs (addMissing (Dependencies T (ty_Type field) found) found)"
  by pat_completeness auto

termination
proof (relation "inv_image (less_than <*lex*> less_than)
    (\<lambda>x. case x of Inl (T, p, found) \<Rightarrow> (openTypes T found, 0)
       | Inr (T, fs, found) \<Rightarrow> (openTypes T found, Suc (length fs)))", goal_cases)
  case 1
  then show ?case by auto
next
  case (2 T p found fs)
  then show ?case by (auto simp: openTypes_less)
next
  case (3 T field fs found)
  then show ?case by auto
next
  case (4 T field fs found)
  have "openTypes T (addMissing (Dependencies T (ty_Type field) found) found) \<le> openTypes T found"
    by (rule openTypes_mono [OF addMissing_superset])
  then show ?case by (auto simp: le_less)
qed

text \<open>\<open>sort.Strings\<close>: by bytes.\<close>

definition string_bytes :: "string \<Rightarrow> bytes" where
  "string_bytes s = map of_char s"

fun insertString :: "string \<Rightarrow> string list \<Rightarrow> string list" where
  "insertString s [] = [s]"
| "insertString s (t # ts) =
     (if bytes_Compare (string_bytes s) (string_bytes t) \<le> 0 then s # t # ts else t # insertString s ts)"

definition sortStrings :: "string list \<Rightarrow> string list" where
  "sortStrings ss = foldr insertString ss []"

text \<open>The buffer is truncated by one character after the fields: the last comma.\<close>

definition encodeDep :: "Types \<Rightarrow> string \<Rightarrow> string" where
  "encodeDep T dep =
     butlast (dep @ ''('' @ concat (map (\<lambda>obj. ty_Type obj @ '' '' @ ty_Name obj @ '','')
       (case map_of T dep of None \<Rightarrow> [] | Some fs \<Rightarrow> fs))) @ '')''"

definition EncodeType :: "Types \<Rightarrow> string \<Rightarrow> bytes" where
  "EncodeType T primaryType =
     (let deps = Dependencies T primaryType [];
          deps' = (if deps = [] then [] else primaryType # sortStrings (tl deps))
      in string_bytes (concat (map (encodeDep T) deps')))"

definition TypeHash :: "lib \<Rightarrow> Types \<Rightarrow> string \<Rightarrow> bytes" where
  "TypeHash L T primaryType = be_bytes 32 (x_Keccak256 L (EncodeType T primaryType))"

section \<open>Primitive values\<close>

definition dataMismatchError :: err where
  "dataMismatchError = Errorf ''provided data doesn't match type''"

definition parseBytes :: "lib \<Rightarrow> jval \<Rightarrow> bytes option" where
  "parseBytes L v = (case v of
     JBytes b \<Rightarrow> Some b
   | JStr s \<Rightarrow> (case x_hexDecode L s of Inl _ \<Rightarrow> None | Inr b \<Rightarrow> Some b)
   | _ \<Rightarrow> None)"

text \<open>\<open>strconv.Atoi\<close>: an optional sign and decimal digits, in the range of an \<open>int\<close>.\<close>

definition Atoi :: "string \<Rightarrow> err + int" where
  "Atoi s =
     (let (neg, ds) = (case s of [] \<Rightarrow> (False, [])
            | c # cs \<Rightarrow> if c = CHR ''-'' then (True, cs) else if c = CHR ''+'' then (False, cs) else (False, s))
      in if ds = [] then Inl (Errorf ''strconv.Atoi: invalid syntax'')
         else case dec_value 0 ds of
           None \<Rightarrow> Inl (Errorf ''strconv.Atoi: invalid syntax'')
         | Some n \<Rightarrow>
             let i = (if neg then - int n else int n) in
             if - (2 ^ 63) \<le> i \<and> i < 2 ^ 63 then Inr i else Inl (Errorf ''strconv.Atoi: value out of range''))"

definition TrimPrefix :: "string \<Rightarrow> string \<Rightarrow> string" where
  "TrimPrefix s p = (if prefix p s then drop (length p) s else s)"

text \<open>\<open>big.Int.BitLen\<close>: the length of the absolute value in bits.\<close>

fun bitlen :: "nat \<Rightarrow> int" where
  "bitlen n = (if n = 0 then 0 else 1 + bitlen (n div 2))"

declare bitlen.simps [simp del]

definition BitLen :: "int \<Rightarrow> int" where
  "BitLen b = bitlen (nat \<bar>b\<bar>)"

definition intSize :: "string \<Rightarrow> err + int" where
  "intSize encType =
     (if encType = ''int'' \<or> encType = ''uint'' then Inr 256
      else case Atoi (if prefix ''uint'' encType then TrimPrefix encType ''uint'' else TrimPrefix encType ''int'') of
        Inl _ \<Rightarrow> Inl (Errorf ''invalid size on integer'')
      | Inr n \<Rightarrow> Inr n)"

definition parseInteger :: "lib \<Rightarrow> string \<Rightarrow> jval \<Rightarrow> err + int" where
  "parseInteger L encType v =
     bindE (intSize encType) (\<lambda>len.
     bindE (case v of
        JBig b \<Rightarrow> Inr (Some b)
      | JStr s \<Rightarrow> bindE (x_HexOrDecimal256 L s) (\<lambda>b. Inr (Some b))
      | JNum x \<Rightarrow> if of_int \<lfloor>x\<rfloor> = x \<and> - (2 ^ 63) \<le> x \<and> x < 2 ^ 63 then Inr (Some \<lfloor>x\<rfloor>)
                  else Inl (Errorf ''invalid float value'')
      | _ \<Rightarrow> Inr None) (\<lambda>r.
     case r of
       None \<Rightarrow> Inl (Errorf ''invalid integer value'')
     | Some b \<Rightarrow>
         if BitLen b > len then Inl (Errorf ''integer larger than type'')
         else if \<not> prefix ''int'' encType \<and> b < 0 then Inl (Errorf ''invalid negative value for unsigned type'')
         else Inr b))"

definition EncodePrimitiveValue :: "lib \<Rightarrow> string \<Rightarrow> jval \<Rightarrow> err + bytes" where
  "EncodePrimitiveValue L encType v =
     (if encType = ''address'' then
        (case v of
           JStr s \<Rightarrow> if x_IsHexAddress L s then Inr (replicate 12 0 @ be_bytes 20 (x_HexToAddress L s))
                     else Inl dataMismatchError
         | _ \<Rightarrow> Inl dataMismatchError)
      else if encType = ''bool'' then
        (case v of
           JBool b \<Rightarrow> Inr (x_PaddedBigBytes L (if b then 1 else 0) 32)
         | _ \<Rightarrow> Inl dataMismatchError)
      else if encType = ''string'' then
        (case v of
           JStr s \<Rightarrow> Inr (be_bytes 32 (x_Keccak256 L (string_bytes s)))
         | _ \<Rightarrow> Inl dataMismatchError)
      else if encType = ''bytes'' then
        (case parseBytes L v of
           Some b \<Rightarrow> Inr (be_bytes 32 (x_Keccak256 L b))
         | None \<Rightarrow> Inl dataMismatchError)
      else if prefix ''bytes'' encType then
        (case Atoi (TrimPrefix encType ''bytes'') of
           Inl _ \<Rightarrow> Inl (Errorf ''invalid size on bytes'')
         | Inr len \<Rightarrow>
             if len < 0 \<or> len > 32 then Inl (Errorf ''invalid size on bytes'')
             else case parseBytes L v of
               None \<Rightarrow> Inl dataMismatchError
             | Some b \<Rightarrow> if int (length b) \<noteq> len then Inl dataMismatchError
                         else Inr (b @ replicate (32 - length b) 0))
      else if prefix ''int'' encType \<or> prefix ''uint'' encType then
        bindE (parseInteger L encType v) (\<lambda>b. Inr (x_U256Bytes L b))
      else Inl (Errorf ''unrecognized type''))"

section \<open>The encoding of the data\<close>

definition msgGet :: "TypedDataMessage \<Rightarrow> string \<Rightarrow> jval" where
  "msgGet m k = (case map_of m k of None \<Rightarrow> JNil | Some v \<Rightarrow> v)"

lemma msgGet_size: "size (msgGet m k) \<le> size_list (size_prod (\<lambda>_. 0) size) m \<or> msgGet m k = JNil"
proof (cases "map_of m k")
  case (Some v)
  then have "(k, v) \<in> set m" by (rule map_of_SomeD)
  then have "size_prod (\<lambda>_. 0) size (k, v) \<le> size_list (size_prod (\<lambda>_. 0) size) m"
    by (meson le_refl size_list_estimation')
  then show ?thesis using Some by (simp add: msgGet_def)
qed (simp add: msgGet_def)

lemma msgGet_JMap: "msgGet m k = JMap m' \<Longrightarrow>
    size_list (size_prod (\<lambda>_. 0) size) m' < size_list (size_prod (\<lambda>_. 0) size) m"
  using msgGet_size [of m k] by auto

lemma msgGet_JArr: "msgGet m k = JArr xs \<Longrightarrow> size_list size xs < size_list (size_prod (\<lambda>_. 0) size) m"
  using msgGet_size [of m k] by auto

abbreviation msgSize :: "TypedDataMessage \<Rightarrow> nat" where
  "msgSize \<equiv> size_list (size_prod (\<lambda>_. 0) size)"

text \<open>
  \<open>EncodeData\<close>, its loop over the fields and its loop over the items of an array. The
  recursion goes into the data, so it ends whatever the types say.
\<close>

function (sequential)
  EncodeData :: "lib \<Rightarrow> Types \<Rightarrow> string \<Rightarrow> TypedDataMessage \<Rightarrow> err + bytes"
  and encodeFields :: "lib \<Rightarrow> Types \<Rightarrow> tdType list \<Rightarrow> TypedDataMessage \<Rightarrow> err + bytes"
  and encodeItems :: "lib \<Rightarrow> Types \<Rightarrow> string \<Rightarrow> jval list \<Rightarrow> err + bytes" where
  "EncodeData L T primaryType data =
     (let fs = (case map_of T primaryType of None \<Rightarrow> [] | Some ts \<Rightarrow> ts) in
      if length fs < length data then Inl (Errorf ''there is extra data provided in the message'')
      else bindE (encodeFields L T fs data) (\<lambda>b. Inr (TypeHash L T primaryType @ b)))"
| "encodeFields L T [] data = Inr []"
| "encodeFields L T (field # fs) data =
     (let encType = ty_Type field; encValue = msgGet data (ty_Name field) in
      bindE
        (if encType = [] then Inl (Panic ''slice bounds out of range'')
         else if last encType = CHR '']'' then
           (case encValue of
              JArr items \<Rightarrow>
                bindE (encodeItems L T (takeWhile (\<lambda>c. c \<noteq> CHR ''['') encType) items) (\<lambda>b.
                  Inr (be_bytes 32 (x_Keccak256 L b)))
            | _ \<Rightarrow> Inl dataMismatchError)
         else if map_of T encType \<noteq> None then
           (case encValue of
              JMap m \<Rightarrow> bindE (EncodeData L T encType m) (\<lambda>b. Inr (be_bytes 32 (x_Keccak256 L b)))
            | _ \<Rightarrow> Inl dataMismatchError)
         else EncodePrimitiveValue L encType encValue) (\<lambda>b.
      bindE (encodeFields L T fs data) (\<lambda>bs. Inr (b @ bs))))"
| "encodeItems L T parsedType [] = Inr []"
| "encodeItems L T parsedType (item # items) =
     bindE
       (if map_of T parsedType \<noteq> None then
          (case item of JMap m \<Rightarrow> EncodeData L T parsedType m | _ \<Rightarrow> Inl dataMismatchError)
        else EncodePrimitiveValue L parsedType item) (\<lambda>b.
     bindE (encodeItems L T parsedType items) (\<lambda>bs. Inr (b @ bs)))"
  by pat_completeness auto

termination
  by (relation "inv_image (less_than <*lex*> less_than <*lex*> less_than)
      (\<lambda>x. case x of
         Inl (L, T, p, data) \<Rightarrow> (msgSize data, 1, 0)
       | Inr (Inl (L, T, fs, data)) \<Rightarrow> (msgSize data, 0, length fs)
       | Inr (Inr (L, T, p, xs)) \<Rightarrow> (size_list size xs, 0, 0))")
    (auto dest!: msgGet_JMap [OF sym] msgGet_JArr [OF sym])

section \<open>The digest\<close>

definition HashStruct :: "lib \<Rightarrow> Types \<Rightarrow> string \<Rightarrow> TypedDataMessage \<Rightarrow> err + bytes" where
  "HashStruct L T primaryType data =
     bindE (EncodeData L T primaryType data) (\<lambda>b. Inr (be_bytes 32 (x_Keccak256 L b)))"

definition tdata_DigestHash :: "lib \<Rightarrow> TypedData \<Rightarrow> err + bytes" where
  "tdata_DigestHash L td =
     bindE (HashStruct L (td_Types td) (td_PrimaryType td) (td_Message td)) (\<lambda>typedDataHash.
     bindE (HashStruct L (td_Types td) ''EIP712Domain'' (Domain_Map (td_Domain td))) (\<lambda>domainSeparator.
     Inr (be_bytes 32 (x_Keccak256 L ([0x19, 0x01] @ domainSeparator @ typedDataHash)))))"

end
