(* ===== verification/GenesisCfg.thy ===== *)
theory GenesisCfg
  imports GoStd
begin

text \<open>
  The genesis parameters of \<open>chain/genesis.go\<close>: the struct, its defaults and the check that
  the VM makes when it starts. The signed fields \<open>LookbackWindow\<close> and \<open>TargetBlockRate\<close> are
  words that the code reads as \<open>int64\<close>.
\<close>

record CustomAllocation =
  ca_Address :: address
  ca_Balance :: u64

record Genesis =
  g_Magic :: u64
  g_BaseTxUnits :: u64
  g_ValueUnitSize :: u64
  g_MaxValueSize :: u64
  g_MinPrice :: u64
  g_LookbackWindow :: i64
  g_TargetBlockRate :: i64
  g_TargetBlockSize :: u64
  g_MaxBlockSize :: u64
  g_BlockCostEnabled :: bool
  g_CustomAllocation :: "CustomAllocation list"
  g_AirdropHash :: string
  g_AirdropUnits :: u64
  g_TotalTokens :: u64
  g_ClaimMinUnits :: u64
  g_ClaimMinInterval :: u64
  g_TotalYears :: u32
  g_RateSustainYears :: u32
  g_ChainCreateTime :: u64
  g_MinerPerc :: u32
  g_FoundationPerc :: u32
  g_RoutePerc :: u32
  g_SerPerc :: u32
  g_ValidatorPerc :: u32
  g_BaseSerPerc :: u32
  g_MeritSerPerc :: u32
  g_BaseRoutePerc :: u32
  g_MeritRoutePerc :: u32
  g_BurnPerc :: u32
  g_RouteStake :: u64
  g_SerStake :: u64
  g_MonthCard :: u64
  g_SeasonCard :: u64
  g_AnnualCard :: u64
  g_MinStakeTime :: u64
  g_RootAddress :: string
  g_FoundationAddr :: string

definition MinBlockCost :: u64 where
  "MinBlockCost = 0"

definition DefaultValueUnitSize :: u64 where
  "DefaultValueUnitSize = 1024"

definition DefaultLookbackWindow :: i64 where
  "DefaultLookbackWindow = 60"

definition DefaultGenesis :: Genesis where
  "DefaultGenesis = \<lparr>
     g_Magic = 0,
     g_BaseTxUnits = 1,
     g_ValueUnitSize = DefaultValueUnitSize,
     g_MaxValueSize = 200 * 1024,
     g_MinPrice = 0,
     g_LookbackWindow = DefaultLookbackWindow,
     g_TargetBlockRate = 1,
     g_TargetBlockSize = 225,
     g_MaxBlockSize = 246,
     g_BlockCostEnabled = True,
     g_CustomAllocation = [],
     g_AirdropHash = '''',
     g_AirdropUnits = 0,
     g_TotalTokens = 2100000000000,
     g_ClaimMinUnits = 100,
     g_ClaimMinInterval = 7 * 24 * 60 * 60,
     g_TotalYears = 10,
     g_RateSustainYears = 1,
     g_ChainCreateTime = 1668125288,
     g_MinerPerc = 20,
     g_FoundationPerc = 40,
     g_RoutePerc = 30,
     g_SerPerc = 50,
     g_ValidatorPerc = 20,
     g_BaseSerPerc = 20,
     g_MeritSerPerc = 80,
     g_BaseRoutePerc = 20,
     g_MeritRoutePerc = 80,
     g_BurnPerc = 20,
     g_RouteStake = 200000000,
     g_SerStake = 100000000,
     g_MonthCard = 100,
     g_SeasonCard = 300,
     g_AnnualCard = 1200,
     g_MinStakeTime = 90 * 24 * 60 * 60,
     g_RootAddress = ''0x8db97c7cece249c2b98bdc0226cc4c2a57bf52fc'',
     g_FoundationAddr = ''0x8db97c7cece249c2b98bdc0226cc4c2a57bf52fc'' \<rparr>"

definition Genesis_Verify :: "Genesis \<Rightarrow> err + unit" where
  "Genesis_Verify g =
     (if g_Magic g = 0 then Inl ErrInvalidMagic
      else if g_TargetBlockRate g = 0 then Inl ErrInvalidBlockRate
      else Inr ())"

text \<open>\<open>valueUnits\<close> of \<open>chain/common_tx.go\<close>; Go panics when the unit size is zero.\<close>

definition valueUnits :: "Genesis \<Rightarrow> u64 \<Rightarrow> err + u64" where
  "valueUnits g sz = (case divU sz (g_ValueUnitSize g) of Inl e \<Rightarrow> Inl e | Inr q \<Rightarrow> Inr (q + 1))"

end
