(* ===== verification/TxData.thy ===== *)
theory TxData
  imports Ext GenesisCfg
begin

text \<open>
  The transactions of the chain: the fields of each of the thirteen kinds (\<open>chain/*_tx.go\<close>),
  the embedded \<open>BaseTx\<close>, the fees, the copies and the activity records. In Go each kind
  embeds a pointer to its \<open>BaseTx\<close>, which may be nil; here the pointer is an option next
  to the kind's own fields.
\<close>

section \<open>Data\<close>

record BaseTx =
  b_BlockID :: id
  b_Magic :: u64
  b_Price :: u64

record SetTx =
  set_Value :: bytes

record TransferTx =
  tr_To :: address
  tr_Units :: u64

record StakeTx =
  stx_StakerType :: u64
  stx_StakeAmount :: u64
  stx_StakerAddr :: address

record UnStakeTx =
  ux_RewardAmount :: u64
  ux_StakerType :: u64
  ux_EndTime :: u64

record ClaimTx =
  cx_RewardAmount :: u64
  cx_EndTime :: u64

record RegisterTx =
  rx_ActionID :: short_id
  rx_StakerType :: u64
  rx_Country :: string
  rx_LocalIP :: string
  rx_PublicIP :: string
  rx_MinPort :: u64
  rx_MaxPort :: u64
  rx_CheckPort :: u64
  rx_WorkKey :: string
  rx_StakerAddr :: address

record RefreshTx =
  fx_Country :: string
  fx_LocalIP :: string
  fx_PublicIP :: string
  fx_MinPort :: u64
  fx_MaxPort :: u64
  fx_CheckPort :: u64
  fx_WorkKey :: string

record AddUserTx =
  ax_StartTime :: u64
  ax_EndTime :: u64
  ax_PayAmount :: u64
  ax_Connections :: u64
  ax_UserType :: u64
  ax_Address :: address

record GovernTx =
  gx_ActionID :: short_id

record VoteTx =
  vx_ActionID :: short_id

record WithdrawnTx =
  wx_ActionID :: short_id

record ProofTx =
  px_Netflow :: u64
  px_StartTime :: u64
  px_EndTime :: u64
  px_Ser :: address

record ProposalTx =
  qx_ActionID :: short_id
  qx_StartTime :: u64
  qx_EndTime :: u64
  qx_ActionType :: u64
  qx_Key :: string
  qx_NewValue :: string

datatype txbody =
    TSet SetTx
  | TTransfer TransferTx
  | TStake StakeTx
  | TUnStake UnStakeTx
  | TClaim ClaimTx
  | TRegister RegisterTx
  | TRefresh RefreshTx
  | TAddUser AddUserTx
  | TGovern GovernTx
  | TVote VoteTx
  | TWithdrawn WithdrawnTx
  | TProof ProofTx
  | TProposal ProposalTx

record UnsignedTransaction =
  u_BaseTx :: "BaseTx option"
  u_body :: txbody

text \<open>
  \<open>chain/tx.go\<close>: the signed transaction and what \<open>Init\<close> computes from it.
\<close>

record Transaction =
  tx_Unsigned :: UnsignedTransaction
  tx_Signature :: bytes
  tx_digestHash :: bytes
  tx_bytes :: bytes
  tx_id :: id
  tx_size :: u64
  tx_sender :: address

definition NewTx :: "UnsignedTransaction \<Rightarrow> bytes \<Rightarrow> Transaction" where
  "NewTx utx sig = \<lparr> tx_Unsigned = utx, tx_Signature = sig, tx_digestHash = [], tx_bytes = [],
     tx_id = 0, tx_size = 0, tx_sender = 0 \<rparr>"

section \<open>The embedded base\<close>

definition emptyBaseTx :: BaseTx where
  "emptyBaseTx = \<lparr> b_BlockID = 0, b_Magic = 0, b_Price = 0 \<rparr>"

text \<open>Reading a field of a nil base panics.\<close>

definition baseOf :: "UnsignedTransaction \<Rightarrow> err + BaseTx" where
  "baseOf t = (case u_BaseTx t of None \<Rightarrow> Inl (Panic ''nil pointer dereference'') | Some b \<Rightarrow> Inr b)"

definition GetBlockID :: "UnsignedTransaction \<Rightarrow> err + id" where
  "GetBlockID t = bindE (baseOf t) (\<lambda>b. Inr (b_BlockID b))"

definition GetPrice :: "UnsignedTransaction \<Rightarrow> err + u64" where
  "GetPrice t = bindE (baseOf t) (\<lambda>b. Inr (b_Price b))"

definition SetBlockID :: "id \<Rightarrow> UnsignedTransaction \<Rightarrow> err + UnsignedTransaction" where
  "SetBlockID i t = bindE (baseOf t) (\<lambda>b. Inr (t\<lparr>u_BaseTx := Some (b\<lparr>b_BlockID := i\<rparr>)\<rparr>))"

definition SetMagic :: "u64 \<Rightarrow> UnsignedTransaction \<Rightarrow> err + UnsignedTransaction" where
  "SetMagic m t = bindE (baseOf t) (\<lambda>b. Inr (t\<lparr>u_BaseTx := Some (b\<lparr>b_Magic := m\<rparr>)\<rparr>))"

definition SetPrice :: "u64 \<Rightarrow> UnsignedTransaction \<Rightarrow> err + UnsignedTransaction" where
  "SetPrice p t = bindE (baseOf t) (\<lambda>b. Inr (t\<lparr>u_BaseTx := Some (b\<lparr>b_Price := p\<rparr>)\<rparr>))"

definition ExecuteBase :: "Genesis \<Rightarrow> BaseTx \<Rightarrow> err + unit" where
  "ExecuteBase g b =
     (if b_BlockID b = 0 then Inl ErrInvalidBlockID
      else if b_Magic b \<noteq> g_Magic g then Inl ErrInvalidMagic
      else if b_Price b < g_MinPrice g then Inl ErrInvalidPrice
      else Inr ())"

definition BaseTx_FeeUnits :: "Genesis \<Rightarrow> u64" where
  "BaseTx_FeeUnits g = g_BaseTxUnits g"

definition BaseTx_Copy :: "BaseTx \<Rightarrow> BaseTx" where
  "BaseTx_Copy b = \<lparr> b_BlockID = b_BlockID b, b_Magic = b_Magic b, b_Price = b_Price b \<rparr>"

section \<open>Fees\<close>

definition SetTx_FeeUnits :: "Genesis \<Rightarrow> SetTx \<Rightarrow> err + u64" where
  "SetTx_FeeUnits g s =
     bindE (valueUnits g (word_of_nat (length (set_Value s)))) (\<lambda>v. Inr (BaseTx_FeeUnits g + v))"

definition ProofTx_FeeUnits :: "Genesis \<Rightarrow> ProofTx \<Rightarrow> u64" where
  "ProofTx_FeeUnits g p = 0"

definition RefreshTx_FeeUnits :: "Genesis \<Rightarrow> RefreshTx \<Rightarrow> u64" where
  "RefreshTx_FeeUnits g r = 0"

text \<open>The other kinds cost the base units.\<close>

definition FeeUnits :: "Genesis \<Rightarrow> txbody \<Rightarrow> err + u64" where
  "FeeUnits g t = (case t of
     TSet s \<Rightarrow> SetTx_FeeUnits g s
   | TProof p \<Rightarrow> Inr (ProofTx_FeeUnits g p)
   | TRefresh r \<Rightarrow> Inr (RefreshTx_FeeUnits g r)
   | _ \<Rightarrow> Inr (BaseTx_FeeUnits g))"

text \<open>\<open>LoadUnits\<close> is \<open>FeeUnits\<close> for every kind.\<close>

definition LoadUnits :: "Genesis \<Rightarrow> txbody \<Rightarrow> err + u64" where
  "LoadUnits g t = FeeUnits g t"

section \<open>Copies\<close>

definition SetTx_Copy :: "SetTx \<Rightarrow> SetTx" where
  "SetTx_Copy s = \<lparr> set_Value = set_Value s \<rparr>"

definition TransferTx_Copy :: "TransferTx \<Rightarrow> TransferTx" where
  "TransferTx_Copy t = \<lparr> tr_To = tr_To t, tr_Units = tr_Units t \<rparr>"

definition StakeTx_Copy :: "StakeTx \<Rightarrow> StakeTx" where
  "StakeTx_Copy s = \<lparr> stx_StakerType = stx_StakerType s, stx_StakeAmount = stx_StakeAmount s,
     stx_StakerAddr = stx_StakerAddr s \<rparr>"

text \<open>The copy of an unstake has no reward amount and no end time.\<close>

definition UnStakeTx_Copy :: "UnStakeTx \<Rightarrow> UnStakeTx" where
  "UnStakeTx_Copy u = \<lparr> ux_RewardAmount = 0, ux_StakerType = ux_StakerType u, ux_EndTime = 0 \<rparr>"

definition ClaimTx_Copy :: "ClaimTx \<Rightarrow> ClaimTx" where
  "ClaimTx_Copy c = \<lparr> cx_RewardAmount = cx_RewardAmount c, cx_EndTime = cx_EndTime c \<rparr>"

definition RegisterTx_Copy :: "RegisterTx \<Rightarrow> RegisterTx" where
  "RegisterTx_Copy r = \<lparr> rx_ActionID = rx_ActionID r, rx_StakerType = rx_StakerType r,
     rx_Country = rx_Country r, rx_LocalIP = rx_LocalIP r, rx_PublicIP = rx_PublicIP r,
     rx_MinPort = rx_MinPort r, rx_MaxPort = rx_MaxPort r, rx_CheckPort = rx_CheckPort r,
     rx_WorkKey = rx_WorkKey r, rx_StakerAddr = rx_StakerAddr r \<rparr>"

definition RefreshTx_Copy :: "RefreshTx \<Rightarrow> RefreshTx" where
  "RefreshTx_Copy r = \<lparr> fx_Country = fx_Country r, fx_LocalIP = fx_LocalIP r, fx_PublicIP = fx_PublicIP r,
     fx_MinPort = fx_MinPort r, fx_MaxPort = fx_MaxPort r, fx_CheckPort = fx_CheckPort r,
     fx_WorkKey = fx_WorkKey r \<rparr>"

definition AddUserTx_Copy :: "AddUserTx \<Rightarrow> AddUserTx" where
  "AddUserTx_Copy a = \<lparr> ax_StartTime = ax_StartTime a, ax_EndTime = ax_EndTime a,
     ax_PayAmount = ax_PayAmount a, ax_Connections = ax_Connections a, ax_UserType = ax_UserType a,
     ax_Address = ax_Address a \<rparr>"

definition GovernTx_Copy :: "GovernTx \<Rightarrow> GovernTx" where
  "GovernTx_Copy g = \<lparr> gx_ActionID = gx_ActionID g \<rparr>"

definition VoteTx_Copy :: "VoteTx \<Rightarrow> VoteTx" where
  "VoteTx_Copy v = \<lparr> vx_ActionID = vx_ActionID v \<rparr>"

definition WithdrawnTx_Copy :: "WithdrawnTx \<Rightarrow> WithdrawnTx" where
  "WithdrawnTx_Copy w = \<lparr> wx_ActionID = wx_ActionID w \<rparr>"

definition ProofTx_Copy :: "ProofTx \<Rightarrow> ProofTx" where
  "ProofTx_Copy p = \<lparr> px_Netflow = px_Netflow p, px_StartTime = px_StartTime p, px_EndTime = px_EndTime p,
     px_Ser = px_Ser p \<rparr>"

text \<open>The copy of a proposal has no action type.\<close>

definition ProposalTx_Copy :: "ProposalTx \<Rightarrow> ProposalTx" where
  "ProposalTx_Copy p = \<lparr> qx_ActionID = qx_ActionID p, qx_StartTime = qx_StartTime p,
     qx_EndTime = qx_EndTime p, qx_ActionType = 0, qx_Key = qx_Key p, qx_NewValue = qx_NewValue p \<rparr>"

definition body_Copy :: "txbody \<Rightarrow> txbody" where
  "body_Copy t = (case t of
     TSet s \<Rightarrow> TSet (SetTx_Copy s)
   | TTransfer s \<Rightarrow> TTransfer (TransferTx_Copy s)
   | TStake s \<Rightarrow> TStake (StakeTx_Copy s)
   | TUnStake s \<Rightarrow> TUnStake (UnStakeTx_Copy s)
   | TClaim s \<Rightarrow> TClaim (ClaimTx_Copy s)
   | TRegister s \<Rightarrow> TRegister (RegisterTx_Copy s)
   | TRefresh s \<Rightarrow> TRefresh (RefreshTx_Copy s)
   | TAddUser s \<Rightarrow> TAddUser (AddUserTx_Copy s)
   | TGovern s \<Rightarrow> TGovern (GovernTx_Copy s)
   | TVote s \<Rightarrow> TVote (VoteTx_Copy s)
   | TWithdrawn s \<Rightarrow> TWithdrawn (WithdrawnTx_Copy s)
   | TProof s \<Rightarrow> TProof (ProofTx_Copy s)
   | TProposal s \<Rightarrow> TProposal (ProposalTx_Copy s))"

definition Unsigned_Copy :: "UnsignedTransaction \<Rightarrow> err + UnsignedTransaction" where
  "Unsigned_Copy t = bindE (baseOf t) (\<lambda>b.
     Inr \<lparr> u_BaseTx = Some (BaseTx_Copy b), u_body = body_Copy (u_body t) \<rparr>)"

definition Transaction_Copy :: "Transaction \<Rightarrow> err + Transaction" where
  "Transaction_Copy t = bindE (Unsigned_Copy (tx_Unsigned t)) (\<lambda>u. Inr (NewTx u (tx_Signature t)))"

lemmas tx_copy_defs = SetTx_Copy_def TransferTx_Copy_def StakeTx_Copy_def UnStakeTx_Copy_def ClaimTx_Copy_def
  RegisterTx_Copy_def RefreshTx_Copy_def AddUserTx_Copy_def GovernTx_Copy_def VoteTx_Copy_def
  WithdrawnTx_Copy_def ProofTx_Copy_def ProposalTx_Copy_def body_Copy_def

section \<open>Activity\<close>

definition ByteToLower :: "char \<Rightarrow> char" where
  "ByteToLower c = (let n = of_char c :: nat in if 65 \<le> n \<and> n \<le> 90 then char_of (n + 32) else c)"

definition ValueHashString :: "lib \<Rightarrow> bytes \<Rightarrow> string" where
  "ValueHashString L v = map ByteToLower (x_HashHex L (ValueHash L v))"

record Activity =
  av_Tmstmp :: i64
  av_TxID :: id
  av_Typ :: string
  av_Sender :: string
  av_Key :: string
  av_To :: string
  av_Units :: u64
  av_StakerType :: u64
  av_StakeAmount :: u64
  av_StakerAddr :: string
  av_RewardAmount :: u64
  av_StartTime :: u64
  av_EndTime :: u64
  av_PayAmount :: u64
  av_Connections :: u64
  av_Address :: string
  av_ActionID :: short_id
  av_ParamType :: u64
  av_Value :: string
  av_Netflow :: u64
  av_LocalIP :: string
  av_MinPort :: u64
  av_MaxPort :: u64
  av_PublicIP :: string
  av_CheckPort :: u64
  av_Country :: string
  av_WorkKey :: string
  av_UserType :: u64
  av_ActionType :: u64

definition emptyActivity :: Activity where
  "emptyActivity = \<lparr> av_Tmstmp = 0, av_TxID = 0, av_Typ = [], av_Sender = [], av_Key = [], av_To = [],
     av_Units = 0, av_StakerType = 0, av_StakeAmount = 0, av_StakerAddr = [], av_RewardAmount = 0,
     av_StartTime = 0, av_EndTime = 0, av_PayAmount = 0, av_Connections = 0, av_Address = [],
     av_ActionID = 0, av_ParamType = 0, av_Value = [], av_Netflow = 0, av_LocalIP = [], av_MinPort = 0,
     av_MaxPort = 0, av_PublicIP = [], av_CheckPort = 0, av_Country = [], av_WorkKey = [],
     av_UserType = 0, av_ActionType = 0 \<rparr>"

definition SetTx_Activity :: "lib \<Rightarrow> SetTx \<Rightarrow> Activity" where
  "SetTx_Activity L s = emptyActivity\<lparr>av_Typ := ''set'', av_Key := ValueHashString L (set_Value s)\<rparr>"

definition TransferTx_Activity :: "lib \<Rightarrow> TransferTx \<Rightarrow> Activity" where
  "TransferTx_Activity L t =
     emptyActivity\<lparr>av_Typ := ''transfer'', av_To := x_AddressHex L (tr_To t), av_Units := tr_Units t\<rparr>"

definition StakeTx_Activity :: "lib \<Rightarrow> StakeTx \<Rightarrow> Activity" where
  "StakeTx_Activity L s = emptyActivity\<lparr>av_Typ := ''stake'', av_StakerType := stx_StakerType s,
     av_StakeAmount := stx_StakeAmount s, av_StakerAddr := x_AddressHex L (stx_StakerAddr s)\<rparr>"

definition UnStakeTx_Activity :: "UnStakeTx \<Rightarrow> Activity" where
  "UnStakeTx_Activity u = emptyActivity\<lparr>av_Typ := ''unstake'', av_RewardAmount := ux_RewardAmount u,
     av_StakerType := ux_StakerType u\<rparr>"

definition ClaimTx_Activity :: "ClaimTx \<Rightarrow> Activity" where
  "ClaimTx_Activity c = emptyActivity\<lparr>av_Typ := ''claim'', av_RewardAmount := cx_RewardAmount c,
     av_EndTime := cx_EndTime c\<rparr>"

definition RegisterTx_Activity :: "lib \<Rightarrow> RegisterTx \<Rightarrow> Activity" where
  "RegisterTx_Activity L r = emptyActivity\<lparr>av_Typ := ''register'', av_ActionID := rx_ActionID r,
     av_StakerType := rx_StakerType r, av_Country := rx_Country r, av_WorkKey := rx_WorkKey r,
     av_LocalIP := rx_LocalIP r, av_MinPort := rx_MinPort r, av_MaxPort := rx_MaxPort r,
     av_PublicIP := rx_PublicIP r, av_CheckPort := rx_CheckPort r,
     av_StakerAddr := x_AddressHex L (rx_StakerAddr r)\<rparr>"

definition RefreshTx_Activity :: "RefreshTx \<Rightarrow> Activity" where
  "RefreshTx_Activity r = emptyActivity\<lparr>av_Typ := ''refresh'', av_Country := fx_Country r,
     av_WorkKey := fx_WorkKey r, av_LocalIP := fx_LocalIP r, av_MinPort := fx_MinPort r,
     av_MaxPort := fx_MaxPort r, av_PublicIP := fx_PublicIP r, av_CheckPort := fx_CheckPort r\<rparr>"

definition AddUserTx_Activity :: "lib \<Rightarrow> AddUserTx \<Rightarrow> Activity" where
  "AddUserTx_Activity L c = emptyActivity\<lparr>av_Typ := ''addUser'', av_StartTime := ax_StartTime c,
     av_EndTime := ax_EndTime c, av_PayAmount := ax_PayAmount c, av_UserType := ax_UserType c,
     av_Connections := ax_Connections c, av_Address := x_AddressHex L (ax_Address c)\<rparr>"

definition GovernTx_Activity :: "GovernTx \<Rightarrow> Activity" where
  "GovernTx_Activity g = emptyActivity\<lparr>av_Typ := ''govern'', av_ActionID := gx_ActionID g\<rparr>"

text \<open>A vote is reported as a govern.\<close>

definition VoteTx_Activity :: "VoteTx \<Rightarrow> Activity" where
  "VoteTx_Activity v = emptyActivity\<lparr>av_Typ := ''govern'', av_ActionID := vx_ActionID v\<rparr>"

definition WithdrawnTx_Activity :: "WithdrawnTx \<Rightarrow> Activity" where
  "WithdrawnTx_Activity w = emptyActivity\<lparr>av_Typ := ''withdrawn'', av_ActionID := wx_ActionID w\<rparr>"

definition ProofTx_Activity :: "lib \<Rightarrow> ProofTx \<Rightarrow> Activity" where
  "ProofTx_Activity L p = emptyActivity\<lparr>av_Typ := ''proof'', av_StartTime := px_StartTime p,
     av_EndTime := px_EndTime p, av_Netflow := px_Netflow p, av_Address := x_AddressHex L (px_Ser p)\<rparr>"

definition ProposalTx_Activity :: "ProposalTx \<Rightarrow> Activity" where
  "ProposalTx_Activity p = emptyActivity\<lparr>av_Typ := ''proposal'', av_ActionID := qx_ActionID p,
     av_StartTime := qx_StartTime p, av_EndTime := qx_EndTime p, av_ActionType := qx_ActionType p,
     av_Key := qx_Key p, av_Value := qx_NewValue p\<rparr>"

definition body_Activity :: "lib \<Rightarrow> txbody \<Rightarrow> Activity" where
  "body_Activity L t = (case t of
     TSet s \<Rightarrow> SetTx_Activity L s
   | TTransfer s \<Rightarrow> TransferTx_Activity L s
   | TStake s \<Rightarrow> StakeTx_Activity L s
   | TUnStake s \<Rightarrow> UnStakeTx_Activity s
   | TClaim s \<Rightarrow> ClaimTx_Activity s
   | TRegister s \<Rightarrow> RegisterTx_Activity L s
   | TRefresh s \<Rightarrow> RefreshTx_Activity s
   | TAddUser s \<Rightarrow> AddUserTx_Activity L s
   | TGovern s \<Rightarrow> GovernTx_Activity s
   | TVote s \<Rightarrow> VoteTx_Activity s
   | TWithdrawn s \<Rightarrow> WithdrawnTx_Activity s
   | TProof s \<Rightarrow> ProofTx_Activity L s
   | TProposal s \<Rightarrow> ProposalTx_Activity s)"

definition Transaction_Activity :: "lib \<Rightarrow> Transaction \<Rightarrow> Activity" where
  "Transaction_Activity L t = (body_Activity L (u_body (tx_Unsigned t)))
     \<lparr>av_Sender := x_AddressHex L (tx_sender t), av_TxID := tx_id t\<rparr>"

section \<open>Signatures\<close>

definition vOffset :: nat where "vOffset = 64"
definition legacySigAdj :: byte where "legacySigAdj = 27"
definition SignatureLength :: nat where "SignatureLength = 65"

definition Sign :: "lib \<Rightarrow> bytes \<Rightarrow> privkey \<Rightarrow> err + bytes" where
  "Sign L dh priv =
     bindE (x_Sign L dh priv) (\<lambda>sig.
       if vOffset < length sig then Inr (sig[vOffset := sig ! vOffset + legacySigAdj])
       else Inl (Panic ''index out of range''))"

definition DeriveSender :: "lib \<Rightarrow> bytes \<Rightarrow> bytes \<Rightarrow> err + pubkey" where
  "DeriveSender L dh sig =
     (if length sig \<noteq> SignatureLength then Inl ErrInvalidSignature
      else
        let sigcpy = (if legacySigAdj \<le> sig ! vOffset
                      then sig[vOffset := sig ! vOffset - legacySigAdj] else sig) in
        x_SigToPub L dh sigcpy)"

end
