(* ===== verification/TxTyped.thy ===== *)
theory TxTyped
  imports TData TxData
begin

text \<open>
  What a sender signs and how a transaction is read back from it: \<open>TypedData\<close> of each kind
  (\<open>chain/*_tx.go\<close>), \<open>Transaction.Init\<close> (\<open>chain/tx.go\<close>), and the two parsers of
  \<open>chain/decoder.go\<close>, of a JSON input and of typed data.
\<close>

section \<open>Names\<close>

named_theorems td_names "the names of the kinds and of the fields"

definition kSet :: string where [td_names]: "kSet = ''set''"
definition kTransfer :: string where [td_names]: "kTransfer = ''transfer''"
definition kStake :: string where [td_names]: "kStake = ''stake''"
definition kUnStake :: string where [td_names]: "kUnStake = ''unstake''"
definition kAddUser :: string where [td_names]: "kAddUser = ''addUser''"
definition kGovern :: string where [td_names]: "kGovern = ''govern''"
definition kProof :: string where [td_names]: "kProof = ''proof''"
definition kClaim :: string where [td_names]: "kClaim = ''claim''"
definition kRegister :: string where [td_names]: "kRegister = ''register''"
definition kRefresh :: string where [td_names]: "kRefresh = ''refresh''"
definition kWithdrawn :: string where [td_names]: "kWithdrawn = ''withdrawn''"
definition kVote :: string where [td_names]: "kVote = ''vote''"
definition kProposal :: string where [td_names]: "kProposal = ''proposal''"

definition tdString :: string where [td_names]: "tdString = ''string''"
definition tdUint64 :: string where [td_names]: "tdUint64 = ''uint64''"
definition tdBytes :: string where [td_names]: "tdBytes = ''bytes''"
definition tdAddress :: string where [td_names]: "tdAddress = ''address''"
definition tdBlockID :: string where [td_names]: "tdBlockID = ''blockID''"
definition tdPrice :: string where [td_names]: "tdPrice = ''price''"
definition tdValue :: string where [td_names]: "tdValue = ''value''"
definition tdUnits :: string where [td_names]: "tdUnits = ''units''"
definition tdTo :: string where [td_names]: "tdTo = ''to''"
definition tdStakerType :: string where [td_names]: "tdStakerType = ''stakerType''"
definition tdStakeAddr :: string where [td_names]: "tdStakeAddr = ''stakerAddr''"
definition tdAmount :: string where [td_names]: "tdAmount = ''stakeAmount''"
definition tdEndTime :: string where [td_names]: "tdEndTime = ''endTime''"
definition tdStartTime :: string where [td_names]: "tdStartTime = ''startTime''"
definition tdConnections :: string where [td_names]: "tdConnections = ''connections''"
definition tdActionID :: string where [td_names]: "tdActionID = ''actionID''"
definition tdKey :: string where [td_names]: "tdKey = ''key''"
definition tdReward :: string where [td_names]: "tdReward = ''reward''"
definition tdSer :: string where [td_names]: "tdSer = ''ser''"
definition tdNetflow :: string where [td_names]: "tdNetflow = ''netflow''"
definition tdLocalIP :: string where [td_names]: "tdLocalIP = ''localIP''"
definition tdMinPort :: string where [td_names]: "tdMinPort = ''minPort''"
definition tdMaxPort :: string where [td_names]: "tdMaxPort = ''maxPort''"
definition tdPublicIP :: string where [td_names]: "tdPublicIP = ''publicIP''"
definition tdCheckPort :: string where [td_names]: "tdCheckPort = ''checkPort''"
definition tdNewValue :: string where [td_names]: "tdNewValue = ''newValue''"
definition tdCountry :: string where [td_names]: "tdCountry = ''country''"
definition tdWorkKey :: string where [td_names]: "tdWorkKey = ''workKey''"
definition tdUserType :: string where [td_names]: "tdUserType = ''userType''"
definition tdActionType :: string where [td_names]: "tdActionType = ''actionType''"

section \<open>Typed data of each kind\<close>

definition fld :: "string \<Rightarrow> string \<Rightarrow> tdType" where
  "fld n t = \<lparr> ty_Name = n, ty_Type = t \<rparr>"

definition u64Val :: "u64 \<Rightarrow> jval" where
  "u64Val x = JStr (FormatUint x)"

definition SetTx_TypedData :: "lib \<Rightarrow> BaseTx \<Rightarrow> SetTx \<Rightarrow> TypedData" where
  "SetTx_TypedData L b s = CreateTypedData (b_Magic b) kSet
     [fld tdValue tdBytes, fld tdPrice tdUint64, fld tdBlockID tdString]
     [(tdValue, JStr (x_hexEncode L (set_Value s))), (tdPrice, u64Val (b_Price b)),
      (tdBlockID, JStr (x_IDString L (b_BlockID b)))]"

definition TransferTx_TypedData :: "lib \<Rightarrow> BaseTx \<Rightarrow> TransferTx \<Rightarrow> TypedData" where
  "TransferTx_TypedData L b t = CreateTypedData (b_Magic b) kTransfer
     [fld tdTo tdAddress, fld tdUnits tdUint64, fld tdPrice tdUint64, fld tdBlockID tdString]
     [(tdTo, JStr (x_AddressHex L (tr_To t))), (tdUnits, u64Val (tr_Units t)),
      (tdPrice, u64Val (b_Price b)), (tdBlockID, JStr (x_IDString L (b_BlockID b)))]"

definition StakeTx_TypedData :: "lib \<Rightarrow> BaseTx \<Rightarrow> StakeTx \<Rightarrow> TypedData" where
  "StakeTx_TypedData L b s = CreateTypedData (b_Magic b) kStake
     [fld tdStakeAddr tdAddress, fld tdStakerType tdUint64, fld tdAmount tdUint64,
      fld tdPrice tdUint64, fld tdBlockID tdString]
     [(tdStakeAddr, JStr (x_AddressHex L (stx_StakerAddr s))),
      (tdStakerType, u64Val (stx_StakerType s)), (tdAmount, u64Val (stx_StakeAmount s)),
      (tdPrice, u64Val (b_Price b)), (tdBlockID, JStr (x_IDString L (b_BlockID b)))]"

definition UnStakeTx_TypedData :: "lib \<Rightarrow> BaseTx \<Rightarrow> UnStakeTx \<Rightarrow> TypedData" where
  "UnStakeTx_TypedData L b u = CreateTypedData (b_Magic b) kUnStake
     [fld tdStakerType tdUint64, fld tdAmount tdUint64, fld tdPrice tdUint64,
      fld tdBlockID tdString]
     [(tdStakerType, u64Val (ux_StakerType u)), (tdAmount, u64Val (ux_RewardAmount u)),
      (tdPrice, u64Val (b_Price b)), (tdBlockID, JStr (x_IDString L (b_BlockID b)))]"

definition ClaimTx_TypedData :: "lib \<Rightarrow> BaseTx \<Rightarrow> ClaimTx \<Rightarrow> TypedData" where
  "ClaimTx_TypedData L b c = CreateTypedData (b_Magic b) kClaim
     [fld tdReward tdUint64, fld tdEndTime tdUint64, fld tdPrice tdUint64,
      fld tdBlockID tdString]
     [(tdReward, u64Val (cx_RewardAmount c)), (tdEndTime, u64Val (cx_EndTime c)),
      (tdPrice, u64Val (b_Price b)), (tdBlockID, JStr (x_IDString L (b_BlockID b)))]"

definition RegisterTx_TypedData :: "lib \<Rightarrow> BaseTx \<Rightarrow> RegisterTx \<Rightarrow> TypedData" where
  "RegisterTx_TypedData L b r = CreateTypedData (b_Magic b) kRegister
     [fld tdActionID tdString, fld tdStakerType tdUint64, fld tdCountry tdString,
      fld tdWorkKey tdString, fld tdLocalIP tdString, fld tdMinPort tdUint64,
      fld tdMaxPort tdUint64, fld tdPublicIP tdString, fld tdCheckPort tdUint64,
      fld tdStakeAddr tdAddress, fld tdPrice tdUint64, fld tdBlockID tdString]
     [(tdActionID, JStr (x_ShortString L (rx_ActionID r))),
      (tdStakerType, u64Val (rx_StakerType r)), (tdCountry, JStr (rx_Country r)),
      (tdWorkKey, JStr (rx_WorkKey r)), (tdLocalIP, JStr (rx_LocalIP r)),
      (tdMinPort, u64Val (rx_MinPort r)), (tdMaxPort, u64Val (rx_MaxPort r)),
      (tdPublicIP, JStr (rx_PublicIP r)), (tdCheckPort, u64Val (rx_CheckPort r)),
      (tdStakeAddr, JStr (x_AddressHex L (rx_StakerAddr r))), (tdPrice, u64Val (b_Price b)),
      (tdBlockID, JStr (x_IDString L (b_BlockID b)))]"

definition RefreshTx_TypedData :: "lib \<Rightarrow> BaseTx \<Rightarrow> RefreshTx \<Rightarrow> TypedData" where
  "RefreshTx_TypedData L b r = CreateTypedData (b_Magic b) kRefresh
     [fld tdCountry tdString, fld tdWorkKey tdString, fld tdLocalIP tdString,
      fld tdMinPort tdUint64, fld tdMaxPort tdUint64, fld tdPublicIP tdString,
      fld tdCheckPort tdUint64, fld tdPrice tdUint64, fld tdBlockID tdString]
     [(tdCountry, JStr (fx_Country r)), (tdWorkKey, JStr (fx_WorkKey r)),
      (tdLocalIP, JStr (fx_LocalIP r)), (tdMinPort, u64Val (fx_MinPort r)),
      (tdMaxPort, u64Val (fx_MaxPort r)), (tdPublicIP, JStr (fx_PublicIP r)),
      (tdCheckPort, u64Val (fx_CheckPort r)), (tdPrice, u64Val (b_Price b)),
      (tdBlockID, JStr (x_IDString L (b_BlockID b)))]"

definition AddUserTx_TypedData :: "lib \<Rightarrow> BaseTx \<Rightarrow> AddUserTx \<Rightarrow> TypedData" where
  "AddUserTx_TypedData L b c = CreateTypedData (b_Magic b) kAddUser
     [fld tdAddress tdAddress, fld tdStartTime tdUint64, fld tdEndTime tdUint64,
      fld tdAmount tdUint64, fld tdUserType tdUint64, fld tdConnections tdUint64,
      fld tdPrice tdUint64, fld tdBlockID tdString]
     [(tdAddress, JStr (x_AddressHex L (ax_Address c))), (tdStartTime, u64Val (ax_StartTime c)),
      (tdEndTime, u64Val (ax_EndTime c)), (tdAmount, u64Val (ax_PayAmount c)),
      (tdUserType, u64Val (ax_UserType c)), (tdConnections, u64Val (ax_Connections c)),
      (tdPrice, u64Val (b_Price b)), (tdBlockID, JStr (x_IDString L (b_BlockID b)))]"

definition GovernTx_TypedData :: "lib \<Rightarrow> BaseTx \<Rightarrow> GovernTx \<Rightarrow> TypedData" where
  "GovernTx_TypedData L b g = CreateTypedData (b_Magic b) kGovern
     [fld tdActionID tdString, fld tdPrice tdUint64, fld tdBlockID tdString]
     [(tdActionID, JStr (x_ShortString L (gx_ActionID g))), (tdPrice, u64Val (b_Price b)),
      (tdBlockID, JStr (x_IDString L (b_BlockID b)))]"

definition VoteTx_TypedData :: "lib \<Rightarrow> BaseTx \<Rightarrow> VoteTx \<Rightarrow> TypedData" where
  "VoteTx_TypedData L b v = CreateTypedData (b_Magic b) kGovern
     [fld tdActionID tdString, fld tdPrice tdUint64, fld tdBlockID tdString]
     [(tdActionID, JStr (x_ShortString L (vx_ActionID v))), (tdPrice, u64Val (b_Price b)),
      (tdBlockID, JStr (x_IDString L (b_BlockID b)))]"

definition WithdrawnTx_TypedData :: "lib \<Rightarrow> BaseTx \<Rightarrow> WithdrawnTx \<Rightarrow> TypedData" where
  "WithdrawnTx_TypedData L b w = CreateTypedData (b_Magic b) kWithdrawn
     [fld tdActionID tdString, fld tdPrice tdUint64, fld tdBlockID tdString]
     [(tdActionID, JStr (x_ShortString L (wx_ActionID w))), (tdPrice, u64Val (b_Price b)),
      (tdBlockID, JStr (x_IDString L (b_BlockID b)))]"

definition ProofTx_TypedData :: "lib \<Rightarrow> BaseTx \<Rightarrow> ProofTx \<Rightarrow> TypedData" where
  "ProofTx_TypedData L b p = CreateTypedData (b_Magic b) kProof
     [fld tdSer tdAddress, fld tdStartTime tdUint64, fld tdEndTime tdUint64,
      fld tdNetflow tdUint64, fld tdPrice tdUint64, fld tdBlockID tdString]
     [(tdSer, JStr (x_AddressHex L (px_Ser p))), (tdStartTime, u64Val (px_StartTime p)),
      (tdEndTime, u64Val (px_EndTime p)), (tdNetflow, u64Val (px_Netflow p)),
      (tdPrice, u64Val (b_Price b)), (tdBlockID, JStr (x_IDString L (b_BlockID b)))]"

definition ProposalTx_TypedData :: "lib \<Rightarrow> BaseTx \<Rightarrow> ProposalTx \<Rightarrow> TypedData" where
  "ProposalTx_TypedData L b p = CreateTypedData (b_Magic b) kProposal
     [fld tdActionID tdString, fld tdKey tdString, fld tdNewValue tdString,
      fld tdStartTime tdUint64, fld tdEndTime tdUint64, fld tdActionType tdUint64,
      fld tdPrice tdUint64, fld tdBlockID tdString]
     [(tdActionID, JStr (x_ShortString L (qx_ActionID p))), (tdKey, JStr (qx_Key p)),
      (tdNewValue, JStr (qx_NewValue p)), (tdStartTime, u64Val (qx_StartTime p)),
      (tdEndTime, u64Val (qx_EndTime p)), (tdActionType, u64Val (qx_ActionType p)),
      (tdPrice, u64Val (b_Price b)), (tdBlockID, JStr (x_IDString L (b_BlockID b)))]"

definition body_TypedData :: "lib \<Rightarrow> BaseTx \<Rightarrow> txbody \<Rightarrow> TypedData" where
  "body_TypedData L b t = (case t of
     TSet s \<Rightarrow> SetTx_TypedData L b s
   | TTransfer s \<Rightarrow> TransferTx_TypedData L b s
   | TStake s \<Rightarrow> StakeTx_TypedData L b s
   | TUnStake s \<Rightarrow> UnStakeTx_TypedData L b s
   | TClaim s \<Rightarrow> ClaimTx_TypedData L b s
   | TRegister s \<Rightarrow> RegisterTx_TypedData L b s
   | TRefresh s \<Rightarrow> RefreshTx_TypedData L b s
   | TAddUser s \<Rightarrow> AddUserTx_TypedData L b s
   | TGovern s \<Rightarrow> GovernTx_TypedData L b s
   | TVote s \<Rightarrow> VoteTx_TypedData L b s
   | TWithdrawn s \<Rightarrow> WithdrawnTx_TypedData L b s
   | TProof s \<Rightarrow> ProofTx_TypedData L b s
   | TProposal s \<Rightarrow> ProposalTx_TypedData L b s)"

lemmas typed_data_defs = SetTx_TypedData_def TransferTx_TypedData_def StakeTx_TypedData_def UnStakeTx_TypedData_def ClaimTx_TypedData_def RegisterTx_TypedData_def RefreshTx_TypedData_def AddUserTx_TypedData_def GovernTx_TypedData_def VoteTx_TypedData_def WithdrawnTx_TypedData_def ProofTx_TypedData_def ProposalTx_TypedData_def
  body_TypedData_def CreateTypedData_def fld_def u64Val_def

text \<open>The typed data of a transaction with a nil base panics.\<close>

definition TypedData_of :: "lib \<Rightarrow> UnsignedTransaction \<Rightarrow> err + TypedData" where
  "TypedData_of L u = bindE (baseOf u) (\<lambda>b. Inr (body_TypedData L b (u_body u)))"

definition DigestHash :: "lib \<Rightarrow> UnsignedTransaction \<Rightarrow> err + bytes" where
  "DigestHash L u = bindE (TypedData_of L u) (tdata_DigestHash L)"

text \<open>
  \<open>Transaction.Init\<close>: the bytes, the id, the digest, the sender and the size. Only the
  unsigned transaction and the signature are marshalled. A transaction whose \<open>Init\<close> failed
  is dropped by every caller, so the fields already set do not matter then.
\<close>

definition wireTx :: "Transaction \<Rightarrow> Transaction" where
  "wireTx t = NewTx (tx_Unsigned t) (tx_Signature t)"

definition Transaction_Init :: "lib \<Rightarrow> Transaction codec \<Rightarrow> Transaction \<Rightarrow> err + Transaction" where
  "Transaction_Init L C t =
     bindE (enc C (wireTx t)) (\<lambda>stx.
     bindE (x_ToID L (be_bytes 32 (x_Keccak256 L stx))) (\<lambda>i.
     bindE (DigestHash L (tx_Unsigned t)) (\<lambda>dh.
     bindE (DeriveSender L dh (tx_Signature t)) (\<lambda>pk.
     Inr (t\<lparr>tx_bytes := stx, tx_id := i, tx_digestHash := dh, tx_sender := x_PubkeyToAddress L pk,
            tx_size := word_of_nat (length stx)\<rparr>)))))"

section \<open>The JSON input\<close>

record Input =
  in_Typ :: string
  in_Key :: string
  in_Value :: bytes
  in_To :: address
  in_Units :: u64
  in_StakerType :: u64
  in_StakerAddr :: address
  in_StakeAmount :: u64
  in_RewardAmount :: u64
  in_ActionID :: short_id
  in_LocalIP :: string
  in_MinPort :: u64
  in_MaxPort :: u64
  in_PublicIP :: string
  in_CheckPort :: u64
  in_Netflow :: u64
  in_StartTime :: u64
  in_EndTime :: u64
  in_Ser :: address
  in_NewValue :: string
  in_Country :: string
  in_WorkKey :: string

text \<open>
  The fields a literal of the source does not name are zero: the end time of an unstake, the
  action type of a proposal, and the base of a vote, which stays nil.
\<close>

definition Input_Decode :: "Input \<Rightarrow> err + UnsignedTransaction" where
  "Input_Decode i =
     (let mk = (\<lambda>b. Inr \<lparr> u_BaseTx = Some emptyBaseTx, u_body = b \<rparr>) in
      if in_Typ i = kSet then mk (TSet \<lparr> set_Value = in_Value i \<rparr>)
      else if in_Typ i = kTransfer then mk (TTransfer \<lparr> tr_To = in_To i, tr_Units = in_Units i \<rparr>)
      else if in_Typ i = kStake then
        mk (TStake \<lparr> stx_StakerType = in_StakerType i, stx_StakeAmount = in_StakeAmount i,
                     stx_StakerAddr = in_StakerAddr i \<rparr>)
      else if in_Typ i = kUnStake then
        mk (TUnStake \<lparr> ux_RewardAmount = in_RewardAmount i, ux_StakerType = in_StakerType i, ux_EndTime = 0 \<rparr>)
      else if in_Typ i = kRegister then
        mk (TRegister \<lparr> rx_ActionID = in_ActionID i, rx_StakerType = in_StakerType i,
              rx_Country = in_Country i, rx_LocalIP = in_LocalIP i, rx_PublicIP = in_PublicIP i,
              rx_MinPort = in_MinPort i, rx_MaxPort = in_MaxPort i, rx_CheckPort = in_CheckPort i,
              rx_WorkKey = in_WorkKey i, rx_StakerAddr = in_StakerAddr i \<rparr>)
      else if in_Typ i = kRefresh then
        mk (TRefresh \<lparr> fx_Country = in_Country i, fx_LocalIP = in_LocalIP i, fx_PublicIP = in_PublicIP i,
              fx_MinPort = in_MinPort i, fx_MaxPort = in_MaxPort i, fx_CheckPort = in_CheckPort i,
              fx_WorkKey = in_WorkKey i \<rparr>)
      else if in_Typ i = kProof then
        mk (TProof \<lparr> px_Netflow = in_Netflow i, px_StartTime = in_StartTime i, px_EndTime = in_EndTime i,
              px_Ser = in_Ser i \<rparr>)
      else if in_Typ i = kGovern then mk (TGovern \<lparr> gx_ActionID = in_ActionID i \<rparr>)
      else if in_Typ i = kClaim then
        mk (TClaim \<lparr> cx_RewardAmount = in_RewardAmount i, cx_EndTime = in_EndTime i \<rparr>)
      else if in_Typ i = kVote then
        Inr \<lparr> u_BaseTx = None, u_body = TVote \<lparr> vx_ActionID = in_ActionID i \<rparr> \<rparr>
      else if in_Typ i = kProposal then
        mk (TProposal \<lparr> qx_ActionID = in_ActionID i, qx_StartTime = in_StartTime i, qx_EndTime = in_EndTime i,
              qx_ActionType = 0, qx_Key = in_Key i, qx_NewValue = in_NewValue i \<rparr>)
      else Inl ErrInvalidType)"

section \<open>Parsing typed data\<close>

definition msgStr :: "TypedData \<Rightarrow> string \<Rightarrow> err + string" where
  "msgStr td k = (case msgGet (td_Message td) k of JStr s \<Rightarrow> Inr s | _ \<Rightarrow> Inl ErrTypedDataKeyMissing)"

definition parseUint64Message :: "TypedData \<Rightarrow> string \<Rightarrow> err + u64" where
  "parseUint64Message td k = bindE (msgStr td k) ParseUint"

definition parseBaseTx :: "lib \<Rightarrow> TypedData \<Rightarrow> err + BaseTx" where
  "parseBaseTx L td =
     bindE (msgStr td tdBlockID) (\<lambda>rblockID.
     bindE (x_IDFromString L rblockID) (\<lambda>blockID.
     bindE (ParseUint (dom_Magic (td_Domain td))) (\<lambda>magic.
     bindE (parseUint64Message td tdPrice) (\<lambda>price.
     Inr \<lparr> b_BlockID = blockID, b_Magic = magic, b_Price = price \<rparr>))))"

text \<open>\<open>actionID, _ := ids.ShortFromString(...)\<close>: the empty id when the text is not one.\<close>

definition parseActionID :: "lib \<Rightarrow> TypedData \<Rightarrow> err + short_id" where
  "parseActionID L td =
     bindE (msgStr td tdActionID) (\<lambda>r. Inr (case x_ShortFromString L r of Inl _ \<Rightarrow> 0 | Inr i \<Rightarrow> i))"

text \<open>The second half of the cases.\<close>

definition parseRest :: "lib \<Rightarrow> TypedData \<Rightarrow> err + txbody" where
  "parseRest L td =
     (let typ = td_PrimaryType td; str = msgStr td; num = parseUint64Message td in
      if typ = kRefresh then
        bindE (str tdLocalIP) (\<lambda>localIP.
        bindE (str tdCountry) (\<lambda>country.
        bindE (str tdWorkKey) (\<lambda>workKey.
        bindE (num tdMinPort) (\<lambda>minPort.
        bindE (num tdMaxPort) (\<lambda>maxPort.
        bindE (str tdPublicIP) (\<lambda>publicIP.
        bindE (num tdCheckPort) (\<lambda>checkPort.
        Inr (TRefresh \<lparr> fx_Country = country, fx_LocalIP = localIP, fx_PublicIP = publicIP,
               fx_MinPort = minPort, fx_MaxPort = maxPort, fx_CheckPort = checkPort,
               fx_WorkKey = workKey \<rparr>))))))))
      else if typ = kProof then
        bindE (num tdNetflow) (\<lambda>n. bindE (num tdStartTime) (\<lambda>s. bindE (num tdEndTime) (\<lambda>e.
        bindE (str tdSer) (\<lambda>ser.
        Inr (TProof \<lparr> px_Netflow = n, px_StartTime = s, px_EndTime = e, px_Ser = x_HexToAddress L ser \<rparr>)))))
      else if typ = kGovern then
        bindE (parseActionID L td) (\<lambda>i. Inr (TGovern \<lparr> gx_ActionID = i \<rparr>))
      else if typ = kProposal then
        bindE (parseActionID L td) (\<lambda>i.
        bindE (str tdKey) (\<lambda>key. bindE (str tdNewValue) (\<lambda>v.
        bindE (num tdStartTime) (\<lambda>s. bindE (num tdEndTime) (\<lambda>e.
        Inr (TProposal \<lparr> qx_ActionID = i, qx_StartTime = s, qx_EndTime = e, qx_ActionType = 0,
               qx_Key = key, qx_NewValue = v \<rparr>))))))
      else if typ = kClaim then
        bindE (num tdAmount) (\<lambda>n. bindE (num tdEndTime) (\<lambda>e.
        Inr (TClaim \<lparr> cx_RewardAmount = n, cx_EndTime = e \<rparr>)))
      else if typ = kVote then
        bindE (parseActionID L td) (\<lambda>i. Inr (TVote \<lparr> vx_ActionID = i \<rparr>))
      else Inl ErrInvalidType)"

definition parseBody :: "lib \<Rightarrow> TypedData \<Rightarrow> err + txbody" where
  "parseBody L td =
     (let typ = td_PrimaryType td; str = msgStr td; num = parseUint64Message td in
      if typ = kSet then
        bindE (str tdValue) (\<lambda>rvalue. bindE (x_hexDecode L rvalue) (\<lambda>v. Inr (TSet \<lparr> set_Value = v \<rparr>)))
      else if typ = kTransfer then
        bindE (str tdTo) (\<lambda>to. bindE (num tdUnits) (\<lambda>u.
        Inr (TTransfer \<lparr> tr_To = x_HexToAddress L to, tr_Units = u \<rparr>)))
      else if typ = kStake then
        bindE (str tdStakeAddr) (\<lambda>a. bindE (num tdStakerType) (\<lambda>t. bindE (num tdAmount) (\<lambda>n.
        Inr (TStake \<lparr> stx_StakerType = t, stx_StakeAmount = n, stx_StakerAddr = x_HexToAddress L a \<rparr>))))
      else if typ = kUnStake then
        bindE (num tdStakerType) (\<lambda>t. bindE (num tdAmount) (\<lambda>n. bindE (num tdEndTime) (\<lambda>e.
        Inr (TUnStake \<lparr> ux_RewardAmount = n, ux_StakerType = t, ux_EndTime = e \<rparr>))))
      else if typ = kRegister then
        bindE (parseActionID L td) (\<lambda>actionID.
        bindE (str tdLocalIP) (\<lambda>localIP.
        bindE (str tdCountry) (\<lambda>country.
        bindE (str tdWorkKey) (\<lambda>workKey.
        bindE (num tdMinPort) (\<lambda>minPort.
        bindE (num tdMaxPort) (\<lambda>maxPort.
        bindE (str tdPublicIP) (\<lambda>publicIP.
        bindE (num tdCheckPort) (\<lambda>checkPort.
        bindE (num tdStakerType) (\<lambda>stakerType.
        bindE (str tdStakeAddr) (\<lambda>stakerAddr.
        Inr (TRegister \<lparr> rx_ActionID = actionID, rx_StakerType = stakerType, rx_Country = country,
               rx_LocalIP = localIP, rx_PublicIP = publicIP, rx_MinPort = minPort, rx_MaxPort = maxPort,
               rx_CheckPort = checkPort, rx_WorkKey = workKey,
               rx_StakerAddr = x_HexToAddress L stakerAddr \<rparr>)))))))))))
      else parseRest L td)"

definition ParseTypedData :: "lib \<Rightarrow> TypedData \<Rightarrow> err + UnsignedTransaction" where
  "ParseTypedData L td =
     bindE (parseBaseTx L td) (\<lambda>b. bindE (parseBody L td) (\<lambda>t. Inr \<lparr> u_BaseTx = Some b, u_body = t \<rparr>))"

section \<open>What survives the typed data\<close>

text \<open>
  \<open>reparsed b\<close> is what a node reads from the typed data of a transaction with the body \<open>b\<close>:
  the kinds with a parser come back, a vote comes back as a govern, a proposal without its
  action type; an unstake, a claim, an added user and a withdrawal do not parse.
\<close>

definition reparsed :: "txbody \<Rightarrow> err + txbody" where
  "reparsed t = (case t of
     TUnStake _ \<Rightarrow> Inl ErrTypedDataKeyMissing
   | TClaim _ \<Rightarrow> Inl ErrTypedDataKeyMissing
   | TAddUser _ \<Rightarrow> Inl ErrInvalidType
   | TWithdrawn _ \<Rightarrow> Inl ErrInvalidType
   | TVote v \<Rightarrow> Inr (TGovern \<lparr> gx_ActionID = vx_ActionID v \<rparr>)
   | TProposal p \<Rightarrow> Inr (TProposal (p\<lparr>qx_ActionType := 0\<rparr>))
   | _ \<Rightarrow> Inr t)"

lemmas parse_defs = ParseTypedData_def parseBaseTx_def parseBody_def parseRest_def parseActionID_def parseUint64Message_def
  msgStr_def msgGet_def Let_def

lemma parse_TypedData:
  assumes "text_ok L"
  shows "ParseTypedData L (body_TypedData L b t) =
    bindE (reparsed t) (\<lambda>t'. Inr \<lparr> u_BaseTx = Some b, u_body = t' \<rparr>)"
proof -
  note t = text_ok_simps [OF assms]
  show ?thesis
    by (cases t) (simp_all add: typed_data_defs td_names parse_defs samaDomain_def reparsed_def t)
qed

section \<open>The digest is defined for every transaction with a base\<close>

lemma bitlen_le: "n < 2 ^ k \<Longrightarrow> bitlen n \<le> int k"
proof (induction k arbitrary: n)
  case 0
  then show ?case by (simp add: bitlen.simps)
next
  case (Suc k)
  then have "bitlen (n div 2) \<le> int k" by (intro Suc.IH) (simp add: less_mult_imp_div_less)
  then show ?case by (subst bitlen.simps) simp
qed

lemma Atoi_64: "Atoi ''64'' = Inr 64"
  by (simp add: Atoi_def digit_val_def)

lemma encode_uint64:
  "num_ok L \<Longrightarrow> EncodePrimitiveValue L tdUint64 (u64Val x) = Inr (x_U256Bytes L (uint x))"
proof -
  assume "num_ok L"
  moreover have "unat x < 2 ^ LENGTH(64)" by (rule unsigned_less)
  then have "BitLen (uint x) \<le> 64" using bitlen_le [of "unat x" 64] by (simp add: BitLen_def)
  ultimately show ?thesis
    by (simp add: EncodePrimitiveValue_def parseInteger_def intSize_def TrimPrefix_def Atoi_64
        num_ok_simps u64Val_def td_names)
qed

lemma encode_string:
  "EncodePrimitiveValue L tdString (JStr s) = Inr (be_bytes 32 (x_Keccak256 L (string_bytes s)))"
  by (simp add: EncodePrimitiveValue_def td_names)

lemma encode_address:
  "num_ok L \<Longrightarrow> text_ok L \<Longrightarrow>
   EncodePrimitiveValue L tdAddress (JStr (x_AddressHex L a)) = Inr (replicate 12 0 @ be_bytes 20 a)"
  by (simp add: EncodePrimitiveValue_def td_names num_ok_simps text_ok_simps)

lemma encode_bytes:
  "text_ok L \<Longrightarrow> EncodePrimitiveValue L tdBytes (JStr (x_hexEncode L v)) = Inr (be_bytes 32 (x_Keccak256 L v))"
  by (simp add: EncodePrimitiveValue_def td_names parseBytes_def text_ok_simps)

lemmas encode_prim = encode_uint64 encode_string encode_address encode_bytes

lemmas encode_prim' = encode_prim [unfolded td_names u64Val_def]

text \<open>\<open>Init\<close> can only fail in the codec and in the signature.\<close>

lemma digest_total:
  assumes "num_ok L" and "text_ok L"
  shows "\<exists>h. tdata_DigestHash L (body_TypedData L b t) = Inr h"
  using assms
  by (cases t) (simp_all add: tdata_DigestHash_def HashStruct_def typed_data_defs td_names msgGet_def
      encode_prim' EIP712Domain_def Domain_Map_def samaDomain_def)

text \<open>What the digest binds: the encoded data of a transfer and of an unstake.\<close>

lemma transfer_EncodeData:
  assumes "num_ok L" and "text_ok L"
  shows "EncodeData L (td_Types (TransferTx_TypedData L b t)) kTransfer (td_Message (TransferTx_TypedData L b t)) =
    Inr (TypeHash L (td_Types (TransferTx_TypedData L b t)) kTransfer @
      (replicate 12 0 @ be_bytes 20 (tr_To t)) @ x_U256Bytes L (uint (tr_Units t)) @
      x_U256Bytes L (uint (b_Price b)) @ be_bytes 32 (x_Keccak256 L (string_bytes (x_IDString L (b_BlockID b)))))"
  using assms
  by (simp add: typed_data_defs td_names msgGet_def encode_prim')

end
