(* ===== verification/Keys.thy ===== *)
theory Keys
  imports GoStd
begin

text \<open>
  The layout of the database: the one-byte table prefixes of \<open>chain/storage.go\<close>, the key
  builders of every table of the chain package and the prefixes of its iterators. The
  abstract type \<open>dbkey\<close> names the entry a key is for; \<open>key_bytes\<close> is injective, so no two
  entries share a key, and each iterator prefix is characterised by the entries it visits.
\<close>

section \<open>Prefixes\<close>

named_theorems key_defs "unfolding of the key builders"

definition blockPrefix :: byte where [key_defs]: "blockPrefix = 0x0"
definition txPrefix :: byte where [key_defs]: "txPrefix = 0x1"
definition txValuePrefix :: byte where [key_defs]: "txValuePrefix = 0x2"
definition keyPrefix :: byte where [key_defs]: "keyPrefix = 0x3"
definition balancePrefix :: byte where [key_defs]: "balancePrefix = 0x4"
definition stakerPrefix :: byte where [key_defs]: "stakerPrefix = 0x5"
definition routePrefix :: byte where [key_defs]: "routePrefix = 0x6"
definition serPrefix :: byte where [key_defs]: "serPrefix = 0x7"
definition rewardPrefix :: byte where [key_defs]: "rewardPrefix = 0x8"
definition basePrefix :: byte where [key_defs]: "basePrefix = 0x9"
definition yieldPrefix :: byte where [key_defs]: "yieldPrefix = 0xa"
definition meritPrefix :: byte where [key_defs]: "meritPrefix = 0xb"
definition powPrefix :: byte where [key_defs]: "powPrefix = 0xc"
definition yieldsPrefix :: byte where [key_defs]: "yieldsPrefix = 0xd"
definition detailsPrefix :: byte where [key_defs]: "detailsPrefix = 0xe"
definition usersPrefix :: byte where [key_defs]: "usersPrefix = 0xf"
definition sysParamPrefix :: byte where [key_defs]: "sysParamPrefix = 0x10"
definition actionsPrefix :: byte where [key_defs]: "actionsPrefix = 0x11"
definition validatorPrefix :: byte where [key_defs]: "validatorPrefix = 0x12"
definition userTypesPrefix :: byte where [key_defs]: "userTypesPrefix = 0x13"
definition ByteDelimiter :: byte where [key_defs]: "ByteDelimiter = 0x2f"
definition LocalPrefix :: byte where [key_defs]: "LocalPrefix = 0"
definition GlobalPrefix :: byte where [key_defs]: "GlobalPrefix = 1"

text \<open>The bytes of \<open>"last_accepted"\<close>.\<close>

definition lastAccepted :: bytes where
  [key_defs]: "lastAccepted = [0x6c, 0x61, 0x73, 0x74, 0x5f, 0x61, 0x63, 0x63, 0x65, 0x70, 0x74, 0x65, 0x64]"

section \<open>Key builders\<close>

definition PrefixBlockKey :: "id \<Rightarrow> bytes" where
  [key_defs]: "PrefixBlockKey blockID = blockPrefix # ByteDelimiter # be_bytes 32 blockID"

definition PrefixTxKey :: "id \<Rightarrow> bytes" where
  [key_defs]: "PrefixTxKey txID = txPrefix # ByteDelimiter # be_bytes 32 txID"

definition PrefixTxValueKey :: "id \<Rightarrow> bytes" where
  [key_defs]: "PrefixTxValueKey txID = txValuePrefix # ByteDelimiter # be_bytes 32 txID"

definition ValueKey :: "hash \<Rightarrow> bytes" where
  [key_defs]: "ValueKey key = keyPrefix # ByteDelimiter # be_bytes 32 key"

definition PrefixBalanceKey :: "address \<Rightarrow> bytes" where
  [key_defs]: "PrefixBalanceKey a = balancePrefix # ByteDelimiter # be_bytes 20 a"

definition PrefixStakeKey :: "address \<Rightarrow> bytes" where
  [key_defs]: "PrefixStakeKey a = stakerPrefix # ByteDelimiter # be_bytes 20 a"

definition PrefixSysParamsKey :: bytes where
  [key_defs]: "PrefixSysParamsKey = [sysParamPrefix, ByteDelimiter]"

definition PrefixDetailsKey :: "address \<Rightarrow> bytes" where
  [key_defs]: "PrefixDetailsKey a = detailsPrefix # ByteDelimiter # be_bytes 20 a"

definition baseDetailsPrefix :: bytes where
  [key_defs]: "baseDetailsPrefix = [detailsPrefix, ByteDelimiter]"

definition PrefixStaker4Key :: "byte \<Rightarrow> address \<Rightarrow> bytes" where
  [key_defs]: "PrefixStaker4Key stakerType a =
     stakerPrefix # ByteDelimiter # stakerType # ByteDelimiter # be_bytes 20 a"

definition baseStakerPrefix :: "byte \<Rightarrow> bytes" where
  [key_defs]: "baseStakerPrefix stakerType = [stakerPrefix, ByteDelimiter, stakerType, ByteDelimiter]"

definition PrefixPowKey :: "byte \<Rightarrow> address \<Rightarrow> bytes" where
  [key_defs]: "PrefixPowKey powType a =
     powPrefix # ByteDelimiter # powType # ByteDelimiter # be_bytes 20 a"

definition basePowPrefix :: "byte \<Rightarrow> bytes" where
  [key_defs]: "basePowPrefix powType = [powPrefix, ByteDelimiter, powType, ByteDelimiter]"

definition PrefixRewardKey :: "address \<Rightarrow> bytes" where
  [key_defs]: "PrefixRewardKey a =
     rewardPrefix # ByteDelimiter # LocalPrefix # ByteDelimiter # be_bytes 20 a"

definition baseRewardPrefix :: bytes where
  [key_defs]: "baseRewardPrefix = [rewardPrefix, ByteDelimiter, LocalPrefix, ByteDelimiter]"

definition RewardGlobalPrefix :: bytes where
  [key_defs]: "RewardGlobalPrefix = [rewardPrefix, ByteDelimiter, GlobalPrefix, ByteDelimiter]"

definition PrefixActionsKey :: "short_id \<Rightarrow> bytes" where
  [key_defs]: "PrefixActionsKey actionID = actionsPrefix # ByteDelimiter # be_bytes 20 actionID"

definition baseActionsPrefix :: bytes where
  [key_defs]: "baseActionsPrefix = [actionsPrefix, ByteDelimiter]"

definition PrefixYieldsKey :: bytes where
  [key_defs]: "PrefixYieldsKey = [yieldsPrefix, ByteDelimiter]"

definition PrefixUsersKey :: "address \<Rightarrow> bytes" where
  [key_defs]: "PrefixUsersKey a = usersPrefix # ByteDelimiter # be_bytes 20 a"

definition baseUsersPrefix :: bytes where
  [key_defs]: "baseUsersPrefix = [usersPrefix, ByteDelimiter]"

definition PrefixUserTypesKey :: "u64 \<Rightarrow> bytes" where
  [key_defs]: "PrefixUserTypesKey i = usersPrefix # ByteDelimiter # BigEndian_PutUint64 i"

definition baseUserTypesPrefix :: bytes where
  [key_defs]: "baseUserTypesPrefix = [userTypesPrefix, ByteDelimiter]"

section \<open>The entries of the database\<close>

datatype dbkey =
    KLastAccepted
  | KBlock id
  | KTx id
  | KTxValue id
  | KValue hash
  | KBalance address
  | KStakeBalance address
  | KStaker byte address
  | KReward address
  | KRewardGlobal
  | KPow byte address
  | KYields
  | KDetails address
  | KUser address
  | KUserType u64
  | KSysParams
  | KAction short_id

fun key_bytes :: "dbkey \<Rightarrow> bytes" where
  "key_bytes KLastAccepted = lastAccepted"
| "key_bytes (KBlock i) = PrefixBlockKey i"
| "key_bytes (KTx i) = PrefixTxKey i"
| "key_bytes (KTxValue i) = PrefixTxValueKey i"
| "key_bytes (KValue h) = ValueKey h"
| "key_bytes (KBalance a) = PrefixBalanceKey a"
| "key_bytes (KStakeBalance a) = PrefixStakeKey a"
| "key_bytes (KStaker t a) = PrefixStaker4Key t a"
| "key_bytes (KReward a) = PrefixRewardKey a"
| "key_bytes KRewardGlobal = RewardGlobalPrefix"
| "key_bytes (KPow t a) = PrefixPowKey t a"
| "key_bytes KYields = PrefixYieldsKey"
| "key_bytes (KDetails a) = PrefixDetailsKey a"
| "key_bytes (KUser a) = PrefixUsersKey a"
| "key_bytes (KUserType i) = PrefixUserTypesKey i"
| "key_bytes KSysParams = PrefixSysParamsKey"
| "key_bytes (KAction i) = PrefixActionsKey i"

lemma length_BigEndian [simp]: "length (BigEndian_PutUint64 v) = 8"
  by (simp add: BigEndian_PutUint64_def)

lemma BigEndian_inject [simp]: "BigEndian_PutUint64 v = BigEndian_PutUint64 v' \<longleftrightarrow> v = v'"
  by (simp add: BigEndian_PutUint64_def)

lemma length_neqI: "length xs \<noteq> length ys \<Longrightarrow> xs \<noteq> ys"
  by auto

lemma be_20_neq [simp]:
  "be_bytes 20 v \<noteq> x # y # be_bytes 20 w" "x # y # be_bytes 20 w \<noteq> be_bytes 20 v"
  "be_bytes 20 v \<noteq> BigEndian_PutUint64 i" "BigEndian_PutUint64 i \<noteq> be_bytes 20 v"
  by (rule length_neqI; simp)+

text \<open>
  Keys of one table have one length, and the first byte or the length tells the tables
  apart.
\<close>

lemma key_bytes_eq_iff: "key_bytes x = key_bytes y \<longleftrightarrow> x = y"
proof
  assume eq: "key_bytes x = key_bytes y"
  then show "x = y"
    by (cases x; cases y; simp add: key_defs)
qed simp

lemma key_bytes_neq: "x \<noteq> y \<Longrightarrow> key_bytes x \<noteq> key_bytes y"
  by (simp add: key_bytes_eq_iff)

section \<open>What the iterators visit\<close>

lemma scan_details: "prefix baseDetailsPrefix (key_bytes x) \<longleftrightarrow> (\<exists>a. x = KDetails a)"
  by (cases x; simp add: key_defs)

lemma scan_actions: "prefix baseActionsPrefix (key_bytes x) \<longleftrightarrow> (\<exists>i. x = KAction i)"
  by (cases x; simp add: key_defs)

lemma scan_pow: "prefix (basePowPrefix t) (key_bytes x) \<longleftrightarrow> (\<exists>a. x = KPow t a)"
  by (cases x; simp add: key_defs; fastforce)

lemma scan_reward: "prefix baseRewardPrefix (key_bytes x) \<longleftrightarrow> (\<exists>a. x = KReward a)"
  by (cases x; simp add: key_defs)

text \<open>
  The staker scan also visits the stake balance of an address whose first two bytes are the
  staker type and the delimiter; the user scan also visits the user types, and the user-type
  scan visits nothing, because \<open>PrefixUserTypesKey\<close> writes under \<open>usersPrefix\<close>.
\<close>

lemma scan_stakers: "prefix (baseStakerPrefix t) (key_bytes x) \<longleftrightarrow>
    (\<exists>a. x = KStaker t a) \<or> (\<exists>a. x = KStakeBalance a \<and> prefix [t, ByteDelimiter] (be_bytes 20 a))"
  by (cases x; simp add: key_defs; fastforce)

lemma scan_users: "prefix baseUsersPrefix (key_bytes x) \<longleftrightarrow>
    (\<exists>a. x = KUser a) \<or> (\<exists>i. x = KUserType i)"
  by (cases x; simp add: key_defs)

lemma scan_user_types: "\<not> prefix baseUserTypesPrefix (key_bytes x)"
  by (cases x; simp add: key_defs)

end
