(* ===== verification/PendingTable.thy ===== *)
theory PendingTable
  imports Ext
begin

text \<open>
  The contract that every cached table of the chain package follows: a map of committed
  entries, a map of pending additions and a map of pending deletions. A put or a delete
  touches the pending maps only (and writes the entry through to the block's database); a
  commit applies the pending maps and empties them; an abort empties them. The locale
  \<open>pending_table\<close> states the contract and what follows from it; \<open>stored_table\<close> adds the
  database. Each table of the chain is an interpretation, in the theory that models it.
\<close>

section \<open>The overlay a table stands for\<close>

text \<open>
  The map a table stands for: the committed entries, overridden by the pending additions,
  less the pending deletions. It is what the next commit will make of the committed map.
\<close>

definition overlay :: "('k, 'v) gomap \<Rightarrow> ('k, 'v) gomap \<Rightarrow> ('k, 'w) gomap \<Rightarrow> 'k \<Rightarrow> 'v option" where
  "overlay cur add del =
     (\<lambda>k. if map_of del k \<noteq> None then None else (map_of cur ++ map_of add) k)"

text \<open>Well-formed: distinct keys, and no key both added and deleted.\<close>

definition table_ok :: "('k, 'v) gomap \<Rightarrow> ('k, 'v) gomap \<Rightarrow> ('k, 'w) gomap \<Rightarrow> bool" where
  "table_ok cur add del \<longleftrightarrow> mwf cur \<and> mwf add \<and> mwf del \<and>
     dom (map_of add) \<inter> dom (map_of del) = {}"

lemma overlay_put: "overlay cur (mput k v add) (mdel k del) = (overlay cur add del)(k \<mapsto> v)"
  by (auto simp: overlay_def fun_eq_iff map_add_def)

lemma overlay_rem: "overlay cur (mdel k add) (mput k x del) = (overlay cur add del)(k := None)"
  by (auto simp: overlay_def fun_eq_iff map_add_def split: option.splits)

lemma overlay_clear [simp]: "overlay cur [] [] = map_of cur"
  by (auto simp: overlay_def fun_eq_iff)

lemma overlay_commit: "mwf add \<Longrightarrow> map_of (delLoop del (addLoop add cur)) = overlay cur add del"
  by (auto simp: overlay_def fun_eq_iff map_of_delLoop map_of_addLoop map_of_eq_None_iff)

lemma table_ok_put: "table_ok cur add del \<Longrightarrow> table_ok cur (mput k v add) (mdel k del)"
  by (auto simp: table_ok_def)

lemma table_ok_rem: "table_ok cur add del \<Longrightarrow> table_ok cur (mdel k add) (mput k x del)"
  by (auto simp: table_ok_def)

text \<open>What the database returns for a key agrees with what a table holds for it.\<close>

definition db_entry :: "'v codec \<Rightarrow> err + bytes \<Rightarrow> 'v option \<Rightarrow> bool" where
  "db_entry C r x \<longleftrightarrow>
     (case x of None \<Rightarrow> r = Inl ErrNotFound | Some v \<Rightarrow> \<exists>b. r = Inr b \<and> dec C b = Inr v)"

lemma db_entry_simps [simp]:
  "db_entry C r None \<longleftrightarrow> r = Inl ErrNotFound"
  "db_entry C r (Some v) \<longleftrightarrow> (\<exists>b. r = Inr b \<and> dec C b = Inr v)"
  by (simp_all add: db_entry_def)

section \<open>The contract\<close>

locale pending_table =
  fixes cur :: "'s \<Rightarrow> ('k, 'v) gomap"
    and add :: "'s \<Rightarrow> ('k, 'v) gomap"
    and del :: "'s \<Rightarrow> ('k, 'v) gomap"
    and put :: "'k \<Rightarrow> 'v \<Rightarrow> 's \<Rightarrow> 's"
    and rem :: "'k \<Rightarrow> 's \<Rightarrow> 's"
    and commit :: "'s \<Rightarrow> 's"
    and abort :: "'s \<Rightarrow> 's"
  assumes cur_put: "cur (put k v s) = cur s"
    and add_put: "add (put k v s) = mput k v (add s)"
    and del_put: "del (put k v s) = mdel k (del s)"
    and cur_rem: "cur (rem k s) = cur s"
    and add_rem: "add (rem k s) = mdel k (add s)"
    and del_rem: "\<exists>x. del (rem k s) = mput k x (del s)"
    and cur_commit: "cur (commit s) = delLoop (del s) (addLoop (add s) (cur s))"
    and add_commit: "add (commit s) = []"
    and del_commit: "del (commit s) = []"
    and cur_abort: "cur (abort s) = cur s"
    and add_abort: "add (abort s) = []"
    and del_abort: "del (abort s) = []"
begin

definition ok :: "'s \<Rightarrow> bool" where
  "ok s \<longleftrightarrow> table_ok (cur s) (add s) (del s)"

definition view :: "'s \<Rightarrow> 'k \<Rightarrow> 'v option" where
  "view s = overlay (cur s) (add s) (del s)"

lemma ok_put: "ok s \<Longrightarrow> ok (put k v s)"
  by (simp add: ok_def cur_put add_put del_put table_ok_put)

lemma ok_rem: "ok s \<Longrightarrow> ok (rem k s)"
  using del_rem [of k s] by (auto simp: ok_def cur_rem add_rem table_ok_rem)

lemma ok_commit: "ok s \<Longrightarrow> ok (commit s)"
  by (simp add: ok_def cur_commit add_commit del_commit table_ok_def)

lemma ok_abort: "ok s \<Longrightarrow> ok (abort s)"
  by (simp add: ok_def cur_abort add_abort del_abort table_ok_def)

text \<open>Refinement: the operations on the three maps are the operations on one map.\<close>

lemma view_put: "view (put k v s) = (view s)(k \<mapsto> v)"
  by (simp add: view_def cur_put add_put del_put overlay_put)

lemma view_rem: "view (rem k s) = (view s)(k := None)"
  using del_rem [of k s] by (auto simp: view_def cur_rem add_rem overlay_rem)

lemma cur_commit_view: "ok s \<Longrightarrow> map_of (cur (commit s)) = view s"
  by (simp add: ok_def table_ok_def cur_commit view_def overlay_commit)

lemma view_commit: "ok s \<Longrightarrow> view (commit s) = view s"
  by (simp add: view_def [of "commit s"] add_commit del_commit cur_commit_view)

lemma view_abort: "view (abort s) = map_of (cur s)"
  by (simp add: view_def cur_abort add_abort del_abort)

lemma commit_put_lookup: "ok s \<Longrightarrow> map_of (cur (commit (put k v s))) k = Some v"
  by (simp add: cur_commit_view ok_put view_put)

lemma commit_rem_lookup: "ok s \<Longrightarrow> map_of (cur (commit (rem k s))) k = None"
  by (simp add: cur_commit_view ok_rem view_rem)

lemma put_not_visible: "map_of (cur (put k v s)) = map_of (cur s)"
  by (simp add: cur_put)

end

section \<open>The contract with the database\<close>

text \<open>
  A table whose put and delete also write the entry to the block's database under
  \<open>key k\<close>. In Go the pending maps change first, so they have changed even when marshalling
  or the database fails.
\<close>

locale stored_table = pending_table cur add del put rem commit abort
  for cur :: "'s \<Rightarrow> ('k, 'v) gomap" and add and del and put and rem and commit and abort +
  fixes D :: "'db dbops"
    and C :: "'v codec"
    and key :: "'k \<Rightarrow> bytes"
    and putS :: "'k \<Rightarrow> 'v \<Rightarrow> ('db \<times> 's, unit) sm"
    and remS :: "'k \<Rightarrow> ('db \<times> 's, unit) sm"
  assumes key_inj: "key k = key k' \<Longrightarrow> k = k'"
    and putS: "putS k v = bindS (modC (put k v)) (\<lambda>_. bindS (liftS (enc C v)) (dbPut D (key k)))"
    and remS: "remS k = bindS (modC (rem k)) (\<lambda>_. dbDelete D (key k))"
begin

text \<open>The database holds exactly the entries the table stands for.\<close>

definition stored :: "'db \<Rightarrow> 's \<Rightarrow> bool" where
  "stored d s \<longleftrightarrow> (\<forall>k. db_entry C (db_Get D d (key k)) (view s k))"

lemma key_eq_iff: "key k = key k' \<longleftrightarrow> k = k'"
  using key_inj by blast

lemma putS_iff: "putS k v (d, s) = (Inr u, w) \<longleftrightarrow>
    (\<exists>b d'. enc C v = Inr b \<and> db_Put D d (key k) b = Inr d' \<and> w = (d', put k v s))"
  by (auto simp: putS sm_iff)

lemma remS_iff: "remS k (d, s) = (Inr u, w) \<longleftrightarrow>
    (\<exists>d'. db_Delete D d (key k) = Inr d' \<and> w = (d', rem k s))"
  by (auto simp: remS sm_iff)

lemma putS_stored:
  assumes "db_ok D" and "codec_ok C" and "stored d s" and "putS k v (d, s) = (Inr u, (d', s'))"
  shows "stored d' s'"
proof -
  obtain b where b: "enc C v = Inr b" and d': "db_Put D d (key k) b = Inr d'" and s': "s' = put k v s"
    using assms(4) by (auto simp: putS_iff)
  have "db_Get D d' (key k') = (if k' = k then Inr b else db_Get D d (key k'))" for k'
    using db_ok_put [OF assms(1) d', of "key k'"] by (simp add: key_eq_iff)
  moreover have "dec C b = Inr v" using assms(2) b by (rule codec_okD)
  ultimately show ?thesis
    using assms(3) by (simp add: stored_def s' view_put)
qed

lemma remS_stored:
  assumes "db_ok D" and "stored d s" and "remS k (d, s) = (Inr u, (d', s'))"
  shows "stored d' s'"
proof -
  have d': "db_Delete D d (key k) = Inr d'" and s': "s' = rem k s"
    using assms(3) by (auto simp: remS_iff)
  have "db_Get D d' (key k') = (if k' = k then Inl ErrNotFound else db_Get D d (key k'))" for k'
    using db_ok_delete [OF assms(1) d', of "key k'"] by (simp add: key_eq_iff)
  then show ?thesis
    using assms(2) by (simp add: stored_def s' view_rem)
qed

lemma stored_commit: "ok s \<Longrightarrow> stored d s \<Longrightarrow> stored d (commit s)"
  by (simp add: stored_def view_commit)

text \<open>After a commit, the committed map is what the database holds.\<close>

lemma commit_cur_stored:
  "ok s \<Longrightarrow> stored d s \<Longrightarrow> map_of (cur (commit s)) k = Some v \<Longrightarrow>
   \<exists>b. db_Get D d (key k) = Inr b \<and> dec C b = Inr v"
  by (metis cur_commit_view db_entry_simps(2) stored_def)

lemma pres_ok_putS: "pres (\<lambda>w. ok (snd w)) (putS k v)"
  unfolding putS by (intro pres_intro pres_modC ok_put)

lemma pres_ok_remS: "pres (\<lambda>w. ok (snd w)) (remS k)"
  unfolding remS by (intro pres_intro pres_modC ok_rem)

end

section \<open>Reading a table back from its iterator\<close>

text \<open>
  \<open>Reload...\<close>: every value the iterator visits is unmarshalled and entered in the map; the
  first error ends the loop and is returned, with the entries read so far in place.
\<close>

fun reloadLoop :: "(bytes \<Rightarrow> err + 'v) \<Rightarrow> ('v \<Rightarrow> 'm \<Rightarrow> 'm) \<Rightarrow> (bytes \<times> bytes) list \<Rightarrow> 'm \<Rightarrow> (err + unit) \<times> 'm" where
  "reloadLoop de ins [] m = (Inr (), m)"
| "reloadLoop de ins ((k, b) # es) m =
     (case de b of Inl e \<Rightarrow> (Inl e, m) | Inr v \<Rightarrow> reloadLoop de ins es (ins v m))"

lemma reloadLoop_append:
  "reloadLoop de ins (xs @ ys) m =
     (case reloadLoop de ins xs m of (Inl e, m') \<Rightarrow> (Inl e, m') | (Inr _, m') \<Rightarrow> reloadLoop de ins ys m')"
  by (induction de ins xs m rule: reloadLoop.induct) (auto split: sum.splits)

text \<open>
  When each entry decodes to a value filed under the key it is stored at, reloading enters
  exactly the values the iterator visits.
\<close>

lemma reloadLoop_filed:
  assumes "\<And>k b. (k, b) \<in> set es \<Longrightarrow> \<exists>v. de b = Inr v \<and> key (idx v) = k"
    and "distinct (map fst es)" and "inj key"
  shows "\<exists>m'. reloadLoop de (\<lambda>v. mput (idx v) v) es m = (Inr (), m') \<and>
     (\<forall>k b v. (k, b) \<in> set es \<and> de b = Inr v \<longrightarrow> map_of m' (idx v) = Some v) \<and>
     (\<forall>i. key i \<notin> fst ` set es \<longrightarrow> map_of m' i = map_of m i)"
  using assms(1,2)
proof (induction es arbitrary: m)
  case Nil
  then show ?case by simp
next
  case (Cons e es)
  obtain k b where e: "e = (k, b)" by fastforce
  obtain v where v: "de b = Inr v" and kv: "key (idx v) = k"
    using Cons.prems(1) [of k b] e by auto
  have k: "k \<notin> fst ` set es" using Cons.prems(2) e by simp
  obtain m' where r: "reloadLoop de (\<lambda>v. mput (idx v) v) es (mput (idx v) v m) = (Inr (), m')"
    and ent: "\<And>k b v. (k, b) \<in> set es \<Longrightarrow> de b = Inr v \<Longrightarrow> map_of m' (idx v) = Some v"
    and rest: "\<And>i. key i \<notin> fst ` set es \<Longrightarrow> map_of m' i = map_of (mput (idx v) v m) i"
    using Cons.IH [of "mput (idx v) v m"] Cons.prems by auto
  have "map_of m' (idx v) = Some v" using rest [of "idx v"] k kv by simp
  moreover have "map_of m' i = map_of m i" if "key i \<notin> fst ` set (e # es)" for i
    using that rest [of i] kv e by (auto simp: map_of_mput)
  ultimately show ?case using r v e ent by auto
qed

text \<open>
  Restart: when the database holds what a table stands for, and the iterator visits keys of
  that table only, reading the table back gives the map it stands for.
\<close>

lemma reload_stored:
  assumes db: "db_ok D" and inj: "inj key"
    and st: "\<And>k. db_entry C (db_Get D d (key k)) (view k)"
    and idx: "\<And>k v. view k = Some v \<Longrightarrow> idx v = k"
    and scan: "\<And>x b. db_Get D d x = Inr b \<Longrightarrow> prefix p x \<Longrightarrow> \<exists>k. x = key k"
    and pre: "\<And>k. prefix p (key k)"
  shows "\<exists>m'. reloadLoop (dec C) (\<lambda>v. mput (idx v) v) (db_IterPrefix D d p) [] = (Inr (), m') \<and>
     map_of m' = view"
proof -
  let ?es = "db_IterPrefix D d p"
  have ent: "\<exists>k v. x = key k \<and> view k = Some v \<and> dec C b = Inr v" if "(x, b) \<in> set ?es" for x b
  proof -
    have x: "prefix p x" "db_Get D d x = Inr b" using that db by (simp_all add: db_ok_iter)
    then obtain k where k: "x = key k" using scan by blast
    then show ?thesis using st [of k] x by (cases "view k") auto
  qed
  have "\<exists>v. dec C b = Inr v \<and> key (idx v) = x" if "(x, b) \<in> set ?es" for x b
    using ent [OF that] idx by blast
  then obtain m' where r: "reloadLoop (dec C) (\<lambda>v. mput (idx v) v) ?es [] = (Inr (), m')"
    and got: "\<And>x b v. (x, b) \<in> set ?es \<Longrightarrow> dec C b = Inr v \<Longrightarrow> map_of m' (idx v) = Some v"
    and rest: "\<And>i. key i \<notin> fst ` set ?es \<Longrightarrow> map_of m' i = None"
    using reloadLoop_filed [OF _ db_ok_iter_distinct [OF db] inj, of d p "dec C" idx "[]"] by auto
  have "map_of m' k = view k" for k
  proof (cases "view k")
    case None
    have "db_Get D d (key k) = Inl ErrNotFound" using st [of k] None by simp
    then have "key k \<notin> fst ` set ?es" using db by (auto simp: db_ok_iter)
    then show ?thesis using rest None by simp
  next
    case (Some v)
    then obtain b where b: "db_Get D d (key k) = Inr b" "dec C b = Inr v" using st [of k] by auto
    then have "(key k, b) \<in> set ?es" using db pre by (simp add: db_ok_iter)
    then show ?thesis using got b(2) idx [OF Some] Some by metis
  qed
  then show ?thesis using r by blast
qed

end
