(* ===== verification/Storage.thy ===== *)
theory Storage
  imports Ext Keys GenesisCfg PendingTable
begin

text \<open>
  The balance ledger and the value store of \<open>chain/storage.go\<close>, and the genesis allocation
  of \<open>chain/genesis.go\<close>. Balances and stake balances are two tables with one contract, the
  locale \<open>ledger\<close>: a change either happens exactly, or fails and changes nothing.
\<close>

section \<open>Balances\<close>

definition GetBalance :: "'db dbops \<Rightarrow> 'db \<Rightarrow> address \<Rightarrow> err + u64" where
  "GetBalance D d a =
     (case db_Get D d (PrefixBalanceKey a) of
        Inl e \<Rightarrow> if e = ErrNotFound then Inr 0 else Inl e
      | Inr v \<Rightarrow> BigEndian_Uint64 v)"

definition SetBalance :: "'db dbops \<Rightarrow> address \<Rightarrow> u64 \<Rightarrow> ('db, unit) sm" where
  "SetBalance D a bal = putD D (PrefixBalanceKey a) (BigEndian_PutUint64 bal)"

definition ModifyBalance :: "lib \<Rightarrow> 'db dbops \<Rightarrow> address \<Rightarrow> bool \<Rightarrow> u64 \<Rightarrow> ('db, u64) sm" where
  "ModifyBalance L D a add change = (\<lambda>d. (
     case GetBalance D d a of
       Inl e \<Rightarrow> throwS e
     | Inr b \<Rightarrow>
         (case (if add then x_SafeAdd L b change else x_SafeSub L b change) of (n, xflow) \<Rightarrow>
            if xflow then throwS ErrInvalidBalance
            else bindS (SetBalance D a n) (\<lambda>_. retS n))) d)"

definition GetStakeBalance :: "'db dbops \<Rightarrow> 'db \<Rightarrow> address \<Rightarrow> err + u64" where
  "GetStakeBalance D d a =
     (case db_Get D d (PrefixStakeKey a) of
        Inl e \<Rightarrow> if e = ErrNotFound then Inr 0 else Inl e
      | Inr v \<Rightarrow> BigEndian_Uint64 v)"

definition SetStakeBalance :: "'db dbops \<Rightarrow> address \<Rightarrow> u64 \<Rightarrow> ('db, unit) sm" where
  "SetStakeBalance D a bal = putD D (PrefixStakeKey a) (BigEndian_PutUint64 bal)"

definition ModifyStakeBalance :: "lib \<Rightarrow> 'db dbops \<Rightarrow> address \<Rightarrow> bool \<Rightarrow> u64 \<Rightarrow> ('db, u64) sm" where
  "ModifyStakeBalance L D a add change = (\<lambda>d. (
     case GetStakeBalance D d a of
       Inl e \<Rightarrow> throwS e
     | Inr b \<Rightarrow>
         (case (if add then x_SafeAdd L b change else x_SafeSub L b change) of (n, xflow) \<Rightarrow>
            if xflow then throwS ErrInvalidBalance
            else bindS (SetStakeBalance D a n) (\<lambda>_. retS n))) d)"

section \<open>The contract of a ledger\<close>

text \<open>
  \<open>applied add b c n\<close>: the balance \<open>b\<close> changed by \<open>c\<close> is \<open>n\<close>, with no wrap-around.
\<close>

definition applied :: "bool \<Rightarrow> u64 \<Rightarrow> u64 \<Rightarrow> u64 \<Rightarrow> bool" where
  "applied add b c n \<longleftrightarrow> (if add then unat n = unat b + unat c else unat b = unat n + unat c)"

text \<open>The sum of the balances of a set of accounts.\<close>

definition total :: "('a \<Rightarrow> err + u64) \<Rightarrow> 'a set \<Rightarrow> nat" where
  "total bal A = (\<Sum>a\<in>A. case bal a of Inl _ \<Rightarrow> 0 | Inr b \<Rightarrow> unat b)"

locale ledger =
  fixes env_ok :: bool
    and get :: "'d \<Rightarrow> 'a \<Rightarrow> err + u64"
    and modify :: "'a \<Rightarrow> bool \<Rightarrow> u64 \<Rightarrow> ('d, u64) sm"
  assumes modify_ok: "env_ok \<Longrightarrow> modify a add c d = (Inr n, d') \<Longrightarrow>
      (\<exists>b. get d a = Inr b \<and> applied add b c n) \<and> get d' = (get d)(a := Inr n)"
    and modify_err: "modify a add c d = (Inl e, d') \<Longrightarrow> d' = d"
    and modify_under: "env_ok \<Longrightarrow> get d a = Inr b \<Longrightarrow> b < c \<Longrightarrow>
      modify a False c d = (Inl ErrInvalidBalance, d)"
begin

lemma get_modify_same: "env_ok \<Longrightarrow> modify a add c d = (Inr n, d') \<Longrightarrow> get d' a = Inr n"
  using modify_ok by simp

lemma get_modify_other:
  "env_ok \<Longrightarrow> modify a add c d = (Inr n, d') \<Longrightarrow> a' \<noteq> a \<Longrightarrow> get d' a' = get d a'"
  using modify_ok by simp

lemma total_modify:
  assumes "env_ok" and "modify a add c d = (Inr n, d')" and "finite A" and "a \<in> A"
  shows "if add then total (get d') A = total (get d) A + unat c
         else total (get d) A = total (get d') A + unat c"
proof -
  obtain b where b: "get d a = Inr b" and ap: "applied add b c n" and d': "get d' = (get d)(a := Inr n)"
    using modify_ok [OF assms(1,2)] by blast
  have rest: "total (get d') (A - {a}) = total (get d) (A - {a})"
    unfolding total_def by (rule sum.cong) (auto simp: d')
  have "total (get d) A = unat b + total (get d) (A - {a})"
    using assms(3,4) b by (simp add: total_def sum.remove [of A a])
  moreover have "total (get d') A = unat n + total (get d') (A - {a})"
    using assms(3,4) d' by (simp add: total_def sum.remove [of A a])
  ultimately show ?thesis using ap rest by (auto simp: applied_def)
qed

text \<open>Moving an amount from one account to another keeps every sum that holds both.\<close>

lemma move_conserves:
  assumes "env_ok" and "modify a False c d = (Inr m, d1)" and "modify b True c d1 = (Inr n, d2)"
    and "finite A" and "a \<in> A" and "b \<in> A"
  shows "total (get d2) A = total (get d) A"
  using total_modify [OF assms(1,2,4,5)] total_modify [OF assms(1,3,4,6)] by simp

end

lemma applied_SafeAdd:
  "\<not> 2 ^ 64 \<le> unat b + unat c \<Longrightarrow> applied True b c (b + c)" for b c :: u64
  by (simp add: applied_def unat_word_ariths)

lemma applied_SafeSub: "\<not> unat b < unat c \<Longrightarrow> applied False b c (b - c)" for b c :: u64
  by (simp add: applied_def unat_sub word_le_nat_alt)

lemmas ledger_defs = sm_iff putD_def throwS_def retS_def bindS_def applied_SafeAdd applied_SafeSub

lemma GetBalance_put:
  "db_ok D \<Longrightarrow> db_Put D d (PrefixBalanceKey a) (BigEndian_PutUint64 n) = Inr d' \<Longrightarrow>
   GetBalance D d' = (GetBalance D d)(a := Inr n)"
  by (rule ext) (simp add: GetBalance_def db_ok_put key_defs)

lemma GetStakeBalance_put:
  "db_ok D \<Longrightarrow> db_Put D d (PrefixStakeKey a) (BigEndian_PutUint64 n) = Inr d' \<Longrightarrow>
   GetStakeBalance D d' = (GetStakeBalance D d)(a := Inr n)"
  by (rule ext) (simp add: GetStakeBalance_def db_ok_put key_defs)

interpretation bal: ledger "db_ok D \<and> math_ok L" "GetBalance D" "ModifyBalance L D" for D L
proof
  fix a add c d n d'
  assume ok: "db_ok D \<and> math_ok L" and m: "ModifyBalance L D a add c d = (Inr n, d')"
  show "(\<exists>b. GetBalance D d a = Inr b \<and> applied add b c n) \<and> GetBalance D d' = (GetBalance D d)(a := Inr n)"
    using ok m
    by (auto simp: ModifyBalance_def SetBalance_def math_ok_add math_ok_sub sm_iff GetBalance_put
        applied_SafeAdd applied_SafeSub split: sum.splits if_splits)
next
  fix a add c d e d'
  show "ModifyBalance L D a add c d = (Inl e, d') \<Longrightarrow> d' = d"
    by (auto simp: ModifyBalance_def SetBalance_def sm_defs split: sum.splits if_splits prod.splits)
next
  fix d a b c
  assume "db_ok D \<and> math_ok L" and "GetBalance D d a = Inr b" and "b < c"
  then show "ModifyBalance L D a False c d = (Inl ErrInvalidBalance, d)"
    by (simp add: ModifyBalance_def math_ok_sub throwS_def word_less_nat_alt)
qed

interpretation stake: ledger "db_ok D \<and> math_ok L" "GetStakeBalance D" "ModifyStakeBalance L D" for D L
proof
  fix a add c d n d'
  assume ok: "db_ok D \<and> math_ok L" and m: "ModifyStakeBalance L D a add c d = (Inr n, d')"
  show "(\<exists>b. GetStakeBalance D d a = Inr b \<and> applied add b c n) \<and>
      GetStakeBalance D d' = (GetStakeBalance D d)(a := Inr n)"
    using ok m
    by (auto simp: ModifyStakeBalance_def SetStakeBalance_def math_ok_add math_ok_sub sm_iff
        GetStakeBalance_put applied_SafeAdd applied_SafeSub split: sum.splits if_splits)
next
  fix a add c d e d'
  show "ModifyStakeBalance L D a add c d = (Inl e, d') \<Longrightarrow> d' = d"
    by (auto simp: ModifyStakeBalance_def SetStakeBalance_def sm_defs
        split: sum.splits if_splits prod.splits)
next
  fix d a b c
  assume "db_ok D \<and> math_ok L" and "GetStakeBalance D d a = Inr b" and "b < c"
  then show "ModifyStakeBalance L D a False c d = (Inl ErrInvalidBalance, d)"
    by (simp add: ModifyStakeBalance_def math_ok_sub throwS_def word_less_nat_alt)
qed

text \<open>The two tables do not meet: a change of one leaves the other.\<close>

lemma putD_other_balance:
  "db_ok D \<Longrightarrow> db_Put D d k v = Inr d' \<Longrightarrow> (\<And>a. k \<noteq> PrefixBalanceKey a) \<Longrightarrow>
   GetBalance D d' = GetBalance D d"
  by (rule ext) (auto simp: GetBalance_def db_ok_put)

lemma ModifyStakeBalance_GetBalance:
  assumes "db_ok D" and "ModifyStakeBalance L D a add c d = (r, d')"
  shows "GetBalance D d' = GetBalance D d"
proof -
  have "GetBalance D d'' = GetBalance D d"
    if "db_Put D d (PrefixStakeKey a) v = Inr d''" for v d''
    using assms(1) that by (intro ext) (simp add: GetBalance_def db_ok_put key_defs)
  then show ?thesis using assms(2)
    by (auto simp: ModifyStakeBalance_def SetStakeBalance_def sm_defs
        split: sum.splits if_splits prod.splits)
qed

lemma ModifyBalance_GetStakeBalance:
  assumes "db_ok D" and "ModifyBalance L D a add c d = (r, d')"
  shows "GetStakeBalance D d' = GetStakeBalance D d"
proof -
  have "GetStakeBalance D d'' = GetStakeBalance D d"
    if "db_Put D d (PrefixBalanceKey a) v = Inr d''" for v d''
    using assms(1) that by (intro ext) (simp add: GetStakeBalance_def db_ok_put key_defs)
  then show ?thesis using assms(2)
    by (auto simp: ModifyBalance_def SetBalance_def sm_defs split: sum.splits if_splits prod.splits)
qed

section \<open>Values\<close>

record ValueMeta =
  vm_Size :: u64
  vm_TxID :: id
  vm_Created :: u64

definition GetValueMeta :: "'db dbops \<Rightarrow> ValueMeta codec \<Rightarrow> 'db \<Rightarrow> hash \<Rightarrow> err + ValueMeta option" where
  "GetValueMeta D C d key =
     (case db_Get D d (ValueKey key) of
        Inl e \<Rightarrow> if e = ErrNotFound then Inr None else Inl e
      | Inr b \<Rightarrow> (case dec C b of Inl e \<Rightarrow> Inl e | Inr m \<Rightarrow> Inr (Some m)))"

definition HasKey :: "'db dbops \<Rightarrow> 'db \<Rightarrow> hash \<Rightarrow> err + bool" where
  "HasKey D d key = db_Has D d (ValueKey key)"

definition PutKey :: "'db dbops \<Rightarrow> ValueMeta codec \<Rightarrow> hash \<Rightarrow> ValueMeta \<Rightarrow> ('db, unit) sm" where
  "PutKey D C key m = bindS (liftS (enc C m)) (putD D (ValueKey key))"

definition SetTransaction :: "'db dbops \<Rightarrow> id \<Rightarrow> ('db, unit) sm" where
  "SetTransaction D txID = putD D (PrefixTxKey txID) []"

definition HasTransaction :: "'db dbops \<Rightarrow> 'db \<Rightarrow> id \<Rightarrow> err + bool" where
  "HasTransaction D d txID = db_Has D d (PrefixTxKey txID)"

definition HasLastAccepted :: "'db dbops \<Rightarrow> 'db \<Rightarrow> err + bool" where
  "HasLastAccepted D d = db_Has D d lastAccepted"

definition GetLastAccepted :: "lib \<Rightarrow> 'db dbops \<Rightarrow> 'db \<Rightarrow> err + id" where
  "GetLastAccepted L D d =
     (case db_Get D d lastAccepted of
        Inl e \<Rightarrow> if e = ErrNotFound then Inr 0 else Inl e
      | Inr v \<Rightarrow> x_ToID L v)"

text \<open>
  \<open>getLinkedValue\<close> looks in the process-wide cache of linked transactions first, then in
  the database, and fills the cache.
\<close>

definition getLinkedValue ::
  "lib \<Rightarrow> 'db dbops \<Rightarrow> (bytes, bytes, 'lc) lruops \<Rightarrow> 'db \<Rightarrow> bytes \<Rightarrow> ('lc, bytes) sm" where
  "getLinkedValue L D R d b = (\<lambda>c. case lru_Get R c b of
     (Some v, c') \<Rightarrow> (Inr v, c')
   | (None, c') \<Rightarrow>
       (case x_ToID L b of
          Inl e \<Rightarrow> (Inl e, c')
        | Inr txID \<Rightarrow>
            (case db_Get D d (PrefixTxValueKey txID) of
               Inl e \<Rightarrow> (Inl e, c')
             | Inr v \<Rightarrow> (Inr v, lru_Put R b v c'))))"

definition GetValue ::
  "lib \<Rightarrow> 'db dbops \<Rightarrow> ValueMeta codec \<Rightarrow> (bytes, bytes, 'lc) lruops \<Rightarrow> 'db \<Rightarrow> hash \<Rightarrow>
   ('lc, bytes option) sm" where
  "GetValue L D C R d key =
     (case db_Get D d (ValueKey key) of
        Inl e \<Rightarrow> if e = ErrNotFound then retS None else throwS e
      | Inr rvmeta \<Rightarrow>
          (case dec C rvmeta of
             Inl e \<Rightarrow> throwS e
           | Inr vmeta \<Rightarrow>
               bindS (getLinkedValue L D R d (be_bytes 32 (vm_TxID vmeta))) (\<lambda>v. retS (Some v))))"

text \<open>
  \<open>SelectRandomValue\<close>: the loop over the iterator that starts at the hashed seed. The empty
  list is Go's \<open>nil\<close>.
\<close>

fun selectLoop :: "(bytes \<times> bytes) list \<Rightarrow> bytes" where
  "selectLoop [] = []"
| "selectLoop ((curKey, v) # es) =
     (if bytes_Compare [keyPrefix, ByteDelimiter] curKey < -1 then selectLoop es
      else if \<not> prefix [keyPrefix, ByteDelimiter] curKey then []
      else v)"

definition SelectRandomValue :: "lib \<Rightarrow> 'db dbops \<Rightarrow> 'db \<Rightarrow> bytes \<Rightarrow> bytes" where
  "SelectRandomValue L D d seed = selectLoop (db_IterStart D d (ValueKey (ValueHash L seed)))"

definition generateAccessProof :: "lib \<Rightarrow> 'db dbops \<Rightarrow> 'db \<Rightarrow> id \<Rightarrow> u64 \<Rightarrow> hash" where
  "generateAccessProof L D d pid hght =
     (let seed = be_bytes 32 pid @ le_bytes 8 hght;
          v = SelectRandomValue L D d seed
      in if v = [] then 0 else ValueHash L (v @ be_bytes 32 pid))"

lemma selectLoop_first: "selectLoop es =
    (case es of [] \<Rightarrow> [] | (k, v) # _ \<Rightarrow> if prefix [keyPrefix, ByteDelimiter] k then v else [])"
proof (cases es)
  case (Cons e es')
  have "\<not> bytes_Compare [keyPrefix, ByteDelimiter] (fst e) < -1"
    using bytes_Compare_ge [of "[keyPrefix, ByteDelimiter]" "fst e"] by linarith
  then show ?thesis by (cases e) (simp add: Cons)
qed simp

section \<open>The genesis allocation\<close>

text \<open>
  \<open>parse\<close> stands for \<open>encoding/json\<close> on the airdrop file: the addresses it lists. The
  writes go to an overlay that is committed only when all of them succeed.
\<close>

definition Genesis_Load ::
  "lib \<Rightarrow> 'db dbops \<Rightarrow> (bytes \<Rightarrow> err + address list) \<Rightarrow> Genesis \<Rightarrow> bytes \<Rightarrow> ('db, unit) sm" where
  "Genesis_Load L D parse g airdropData = (\<lambda>d.
     case bindS
       (if g_AirdropHash g \<noteq> '''' then
          bindS (failIf (g_AirdropHash g \<noteq> x_HashHex L (x_Keccak256 L airdropData))
                  (Errorf ''unexpected standard allocation'')) (\<lambda>_.
          bindS (liftS (parse airdropData)) (\<lambda>airdrop.
          forS airdrop (\<lambda>a. SetBalance D a (g_AirdropUnits g))))
        else retS ()) (\<lambda>_.
       forS (g_CustomAllocation g) (\<lambda>alloc. SetBalance D (ca_Address alloc) (ca_Balance alloc)))
       (vdb_New D d) of
       (Inl e, _) \<Rightarrow> (Inl e, d)
     | (Inr _, vdb) \<Rightarrow> (case vdb_Commit D vdb of Inl e \<Rightarrow> (Inl e, d) | Inr d' \<Rightarrow> (Inr (), d')))"

lemma SetBalance_GetBalance:
  "db_ok D \<Longrightarrow> SetBalance D a b d = (Inr u, d') \<Longrightarrow> GetBalance D d' = (GetBalance D d)(a := Inr b)"
  by (auto simp: SetBalance_def sm_iff GetBalance_put)

text \<open>Setting balances from a list: the last entry for an address wins.\<close>

lemma forS_SetBalance:
  assumes "db_ok D"
  shows "forS xs (\<lambda>x. SetBalance D (f x) (g x)) d = (Inr u, d') \<Longrightarrow>
    GetBalance D d' a = (case map_of (rev (map (\<lambda>x. (f x, g x)) xs)) a of
       None \<Rightarrow> GetBalance D d a | Some b \<Rightarrow> Inr b)"
proof (induction xs arbitrary: d)
  case Nil
  then show ?case by (simp add: retS_def)
next
  case (Cons x xs)
  then obtain d1 where d1: "SetBalance D (f x) (g x) d = (Inr (), d1)"
    and r: "forS xs (\<lambda>x. SetBalance D (f x) (g x)) d1 = (Inr u, d')"
    by (auto simp: bindS_iff)
  have "GetBalance D d1 = (GetBalance D d)(f x := Inr (g x))"
    by (rule SetBalance_GetBalance [OF assms d1])
  with Cons.IH [OF r] show ?case
    by (auto simp: map_add_def split: option.splits)
qed

lemma GetBalance_view: "(\<And>k. db_Get D d' k = db_Get D d k) \<Longrightarrow> GetBalance D d' a = GetBalance D d a"
  by (simp add: GetBalance_def)

end
