(* ===== verification/Blocks.thy ===== *)
theory Blocks
  imports TxTyped Storage
begin

text \<open>
  \<open>chain/block.go\<close> and the block store of \<open>chain/storage.go\<close>: blocks as data, how they are
  parsed and given their id, and how they are written to and read from disk. The values of
  set transactions are stored once, under the transaction's id; in the stored block each is
  replaced by that id.
\<close>

section \<open>Data\<close>

record StatefulBlock =
  sf_Prnt :: id
  sf_Tmstmp :: i64
  sf_Hght :: u64
  sf_Price :: u64
  sf_Cost :: u64
  sf_AccessProof :: hash
  sf_Txs :: "Transaction list"

text \<open>\<open>choices.Status\<close>, the values the chain uses.\<close>

datatype Status = Processing | Accepted | Rejected

text \<open>
  A stateless block is an object with identity; \<open>sb_children\<close> holds pointers to such objects
  and \<open>sb_onAcceptDB\<close> the overlay left by verification, if any.
\<close>

type_synonym ptr = nat

record 'db StatelessBlock =
  sb_block :: StatefulBlock
  sb_id :: id
  sb_st :: Status
  sb_t :: i64
  sb_bytes :: bytes
  sb_children :: "ptr list"
  sb_onAcceptDB :: "'db option"

text \<open>The codecs of the block layer.\<close>

record blkcodecs =
  bc_Block :: "StatefulBlock codec"
  bc_Tx :: "Transaction codec"
  bc_ValueMeta :: "ValueMeta codec"

text \<open>The seconds of Go's zero time.\<close>

definition zeroTime :: i64 where "zeroTime = word_of_int (- 62135596800)"

definition NewBlock :: "id \<Rightarrow> u64 \<Rightarrow> i64 \<Rightarrow> u64 \<Rightarrow> u64 \<Rightarrow> 'db StatelessBlock" where
  "NewBlock parentID parentHeight tmstp nextPrice nextCost =
     \<lparr> sb_block = \<lparr> sf_Prnt = parentID, sf_Tmstmp = tmstp, sf_Hght = parentHeight + 1, sf_Price = nextPrice,
         sf_Cost = nextCost, sf_AccessProof = 0, sf_Txs = [] \<rparr>,
       sb_id = 0, sb_st = Processing, sb_t = zeroTime, sb_bytes = [], sb_children = [],
       sb_onAcceptDB = None \<rparr>"

text \<open>Marshalling a block sees only the exported fields of its transactions.\<close>

definition wireBlock :: "StatefulBlock \<Rightarrow> StatefulBlock" where
  "wireBlock b = b\<lparr>sf_Txs := map wireTx (sf_Txs b)\<rparr>"

definition marshalBlock :: "blkcodecs \<Rightarrow> StatefulBlock \<Rightarrow> err + bytes" where
  "marshalBlock B b = enc (bc_Block B) (wireBlock b)"

text \<open>\<open>ids.ToID(crypto.Keccak256(bytes))\<close>.\<close>

definition bytesID :: "lib \<Rightarrow> bytes \<Rightarrow> err + id" where
  "bytesID L b = x_ToID L (be_bytes 32 (x_Keccak256 L b))"

fun initTxs :: "lib \<Rightarrow> Transaction codec \<Rightarrow> Transaction list \<Rightarrow> err + Transaction list" where
  "initTxs L C [] = Inr []"
| "initTxs L C (tx # txs) =
     bindE (Transaction_Init L C tx) (\<lambda>tx'. bindE (initTxs L C txs) (\<lambda>txs'. Inr (tx' # txs')))"

section \<open>Parsing\<close>

definition ParseStatefulBlock ::
  "lib \<Rightarrow> blkcodecs \<Rightarrow> StatefulBlock \<Rightarrow> bytes \<Rightarrow> Status \<Rightarrow> err + 'db StatelessBlock" where
  "ParseStatefulBlock L B blk source status =
     bindE (if source = [] then marshalBlock B blk else Inr source) (\<lambda>source.
     bindE (bytesID L source) (\<lambda>i.
     bindE (initTxs L (bc_Tx B) (sf_Txs blk)) (\<lambda>txs.
     Inr \<lparr> sb_block = blk\<lparr>sf_Txs := txs\<rparr>, sb_id = i, sb_st = status, sb_t = sf_Tmstmp blk,
           sb_bytes = source, sb_children = [], sb_onAcceptDB = None \<rparr>)))"

definition ParseBlock :: "lib \<Rightarrow> blkcodecs \<Rightarrow> bytes \<Rightarrow> Status \<Rightarrow> err + 'db StatelessBlock" where
  "ParseBlock L B source status =
     bindE (dec (bc_Block B) source) (\<lambda>blk. ParseStatefulBlock L B blk source status)"

definition StatelessBlock_init :: "lib \<Rightarrow> blkcodecs \<Rightarrow> 'db StatelessBlock \<Rightarrow> err + 'db StatelessBlock" where
  "StatelessBlock_init L B b =
     bindE (marshalBlock B (sb_block b)) (\<lambda>bs.
     bindE (bytesID L bs) (\<lambda>i.
     bindE (initTxs L (bc_Tx B) (sf_Txs (sb_block b))) (\<lambda>txs.
     Inr (b\<lparr>sb_bytes := bs, sb_id := i, sb_t := sf_Tmstmp (sb_block b),
            sb_block := (sb_block b)\<lparr>sf_Txs := txs\<rparr>\<rparr>))))"

text \<open>The block used to run a transaction outside any block.\<close>

definition DummyBlock :: "i64 \<Rightarrow> Transaction \<Rightarrow> 'db StatelessBlock" where
  "DummyBlock tmstp tx =
     \<lparr> sb_block = \<lparr> sf_Prnt = 0, sf_Tmstmp = tmstp, sf_Hght = 0, sf_Price = 0, sf_Cost = 0,
         sf_AccessProof = 0, sf_Txs = [tx] \<rparr>,
       sb_id = 0, sb_st = Processing, sb_t = zeroTime, sb_bytes = [], sb_children = [], sb_onAcceptDB = None \<rparr>"

definition genesisBlock :: "Genesis \<Rightarrow> StatefulBlock" where
  "genesisBlock g = \<lparr> sf_Prnt = 0, sf_Tmstmp = 0, sf_Hght = 0, sf_Price = g_MinPrice g,
     sf_Cost = MinBlockCost, sf_AccessProof = 0, sf_Txs = [] \<rparr>"

section \<open>The block store\<close>

definition setValue :: "bytes \<Rightarrow> Transaction \<Rightarrow> Transaction" where
  "setValue v tx = tx\<lparr>tx_Unsigned := (tx_Unsigned tx)\<lparr>u_body := TSet \<lparr> set_Value = v \<rparr>\<rparr>\<rparr>"

text \<open>
  \<open>linkValues\<close>: the state is the database and the transactions of the block, the first ones
  already linked; the result is the list of the original transactions, copied where the
  block's own were changed.
\<close>

fun linkLoop ::
  "lib \<Rightarrow> 'db dbops \<Rightarrow> Transaction codec \<Rightarrow> Transaction list \<Rightarrow> Transaction list \<Rightarrow> Transaction list \<Rightarrow>
   'db \<Rightarrow> (err + Transaction list) \<times> ('db \<times> Transaction list)" where
  "linkLoop L D C linked ogTxs [] d = (Inr ogTxs, (d, linked))"
| "linkLoop L D C linked ogTxs (tx # txs) d =
     (case u_body (tx_Unsigned tx) of
        TSet t \<Rightarrow>
          if set_Value t = [] then linkLoop L D C (linked @ [tx]) (ogTxs @ [tx]) txs d
          else
            (case bindE (Transaction_Copy tx) (Transaction_Init L C) of
               Inl e \<Rightarrow> (Inl e, (d, linked @ tx # txs))
             | Inr cptx \<Rightarrow>
                 (case db_Put D d (PrefixTxValueKey (tx_id tx)) (set_Value t) of
                    Inl e \<Rightarrow> (Inl e, (d, linked @ tx # txs))
                  | Inr d' \<Rightarrow>
                      linkLoop L D C (linked @ [setValue (be_bytes 32 (tx_id tx)) tx]) (ogTxs @ [cptx]) txs d'))
      | _ \<Rightarrow> linkLoop L D C (linked @ [tx]) (ogTxs @ [tx]) txs d)"

definition linkValues ::
  "lib \<Rightarrow> 'db dbops \<Rightarrow> Transaction codec \<Rightarrow> ('db \<times> 'db StatelessBlock, Transaction list) sm" where
  "linkValues L D C = (\<lambda>(d, b). case linkLoop L D C [] [] (sf_Txs (sb_block b)) d of
     (r, (d', txs)) \<Rightarrow> (r, (d', b\<lparr>sb_block := (sb_block b)\<lparr>sf_Txs := txs\<rparr>\<rparr>)))"

fun restoreLoop :: "lib \<Rightarrow> 'db dbops \<Rightarrow> 'db \<Rightarrow> Transaction list \<Rightarrow> err + Transaction list" where
  "restoreLoop L D d [] = Inr []"
| "restoreLoop L D d (tx # txs) =
     bindE
       (case u_body (tx_Unsigned tx) of
          TSet t \<Rightarrow>
            if set_Value t = [] then Inr tx
            else bindE (x_ToID L (set_Value t)) (\<lambda>txID.
                 bindE (db_Get D d (PrefixTxValueKey txID)) (\<lambda>b. Inr (setValue b tx)))
        | _ \<Rightarrow> Inr tx) (\<lambda>tx'.
     bindE (restoreLoop L D d txs) (\<lambda>txs'. Inr (tx' # txs')))"

definition restoreValues :: "lib \<Rightarrow> 'db dbops \<Rightarrow> 'db \<Rightarrow> StatefulBlock \<Rightarrow> err + StatefulBlock" where
  "restoreValues L D d b = bindE (restoreLoop L D d (sf_Txs b)) (\<lambda>txs. Inr (b\<lparr>sf_Txs := txs\<rparr>))"

definition SetLastAccepted ::
  "lib \<Rightarrow> 'db dbops \<Rightarrow> blkcodecs \<Rightarrow> ('db \<times> 'db StatelessBlock, unit) sm" where
  "SetLastAccepted L D B =
     bindS (getC sb_id) (\<lambda>bid.
     bindS (dbPut D lastAccepted (be_bytes 32 bid)) (\<lambda>_.
     bindS (linkValues L D (bc_Tx B)) (\<lambda>ogTxs.
     bindS (getC (\<lambda>b. marshalBlock B (sb_block b))) (\<lambda>r.
     bindS (liftS r) (\<lambda>sbytes.
     bindS (dbPut D (PrefixBlockKey bid) sbytes) (\<lambda>_.
     modC (\<lambda>b. b\<lparr>sb_block := (sb_block b)\<lparr>sf_Txs := ogTxs\<rparr>\<rparr>)))))))"

definition GetBlock :: "lib \<Rightarrow> 'db dbops \<Rightarrow> blkcodecs \<Rightarrow> 'db \<Rightarrow> id \<Rightarrow> err + StatefulBlock" where
  "GetBlock L D B d bid =
     bindE (db_Get D d (PrefixBlockKey bid)) (\<lambda>b.
     bindE (dec (bc_Block B) b) (restoreValues L D d))"

section \<open>What is stored is what is read\<close>

text \<open>The value that is moved out of a transaction, and the transaction left in its place.\<close>

definition linkedVal :: "Transaction \<Rightarrow> bytes option" where
  "linkedVal tx = (case u_body (tx_Unsigned tx) of
     TSet t \<Rightarrow> if set_Value t = [] then None else Some (set_Value t) | _ \<Rightarrow> None)"

definition linkTx :: "Transaction \<Rightarrow> Transaction" where
  "linkTx tx = (if linkedVal tx = None then tx else setValue (be_bytes 32 (tx_id tx)) tx)"

text \<open>Two transactions of a block with one id carry one value (the id is a hash of it).\<close>

definition same_values :: "Transaction list \<Rightarrow> bool" where
  "same_values txs \<longleftrightarrow> (\<forall>t \<in> set txs. \<forall>t' \<in> set txs. tx_id t = tx_id t' \<longrightarrow>
     linkedVal t \<noteq> None \<longrightarrow> linkedVal t' \<noteq> None \<longrightarrow> linkedVal t = linkedVal t')"

lemma be_bytes_not_Nil [simp]: "0 < n \<Longrightarrow> be_bytes n w \<noteq> []"
  by (metis length_be_bytes length_greater_0_conv)

lemma Copy_Init_wire:
  assumes "bindE (Transaction_Copy tx) (Transaction_Init L C) = Inr cptx" and "u_body (tx_Unsigned tx) = TSet t"
  shows "wireTx cptx = wireTx tx"
proof -
  obtain b where b: "u_BaseTx (tx_Unsigned tx) = Some b"
    using assms(1) by (auto simp: sm_iff Transaction_Copy_def Unsigned_Copy_def baseOf_def split: option.splits)
  have "\<lparr> u_BaseTx = Some (BaseTx_Copy b), u_body = TSet (SetTx_Copy t) \<rparr> = tx_Unsigned tx"
    using b assms(2) by (simp add: BaseTx_Copy_def SetTx_Copy_def)
  then show ?thesis
    using assms b by (auto simp: sm_iff Transaction_Copy_def Unsigned_Copy_def baseOf_def body_Copy_def
        Transaction_Init_def wireTx_def NewTx_def)
qed

lemma PrefixTxValueKey_inject [simp]: "PrefixTxValueKey i = PrefixTxValueKey j \<longleftrightarrow> i = j"
  using key_bytes_eq_iff [of "KTxValue i" "KTxValue j"] by simp

lemma linkLoop_cons_other:
  "linkedVal tx = None \<Longrightarrow>
   linkLoop L D C l og (tx # txs) d = linkLoop L D C (l @ [tx]) (og @ [tx]) txs d"
  by (auto simp: linkedVal_def split: txbody.splits if_splits)

lemma linkLoop_cons_set:
  assumes "linkedVal tx = Some v" and "linkLoop L D C l og (tx # txs) d = (Inr og', (d', l'))"
  shows "\<exists>d1 cptx. db_Put D d (PrefixTxValueKey (tx_id tx)) v = Inr d1 \<and> wireTx cptx = wireTx tx \<and>
    linkLoop L D C (l @ [linkTx tx]) (og @ [cptx]) txs d1 = (Inr og', (d', l'))"
proof -
  obtain t where t: "u_body (tx_Unsigned tx) = TSet t" "set_Value t = v" "v \<noteq> []"
    using assms(1) by (auto simp: linkedVal_def split: txbody.splits if_splits)
  obtain cptx where c: "bindE (Transaction_Copy tx) (Transaction_Init L C) = Inr cptx"
    using assms(2) t by (auto split: sum.splits)
  then show ?thesis
    using assms t Copy_Init_wire [OF c t(1)] by (auto simp: linkTx_def split: sum.splits)
qed

lemma linkLoop_ok:
  assumes "db_ok D"
  shows "linkLoop L D C l og txs d = (Inr og', (d', l')) \<Longrightarrow> same_values txs \<Longrightarrow>
    l' = l @ map linkTx txs \<and> map wireTx og' = map wireTx (og @ txs) \<and>
    (\<forall>tx \<in> set txs. \<forall>v. linkedVal tx = Some v \<longrightarrow> db_Get D d' (PrefixTxValueKey (tx_id tx)) = Inr v) \<and>
    (\<forall>k. (\<forall>tx \<in> set txs. linkedVal tx \<noteq> None \<longrightarrow> k \<noteq> PrefixTxValueKey (tx_id tx)) \<longrightarrow> db_Get D d' k = db_Get D d k)"
proof (induction txs arbitrary: l og d)
  case Nil
  then show ?case by simp
next
  case (Cons tx txs)
  have sv: "same_values txs" using Cons.prems(2) by (auto simp: same_values_def)
  show ?case
  proof (cases "linkedVal tx")
    case None
    then show ?thesis
      using Cons.IH [of "l @ [tx]" "og @ [tx]" d] Cons.prems(1) sv
      by (simp add: linkLoop_cons_other linkTx_def del: linkLoop.simps)
  next
    case (Some v)
    then obtain d1 cptx where p: "db_Put D d (PrefixTxValueKey (tx_id tx)) v = Inr d1"
      and w: "wireTx cptx = wireTx tx"
      and r: "linkLoop L D C (l @ [linkTx tx]) (og @ [cptx]) txs d1 = (Inr og', (d', l'))"
      using linkLoop_cons_set [OF Some Cons.prems(1)] by blast
    note IH = Cons.IH [OF r sv]
    have d1: "db_Get D d1 k = (if k = PrefixTxValueKey (tx_id tx) then Inr v else db_Get D d k)" for k
      using db_ok_put [OF assms p] by simp
    have "db_Get D d' (PrefixTxValueKey (tx_id tx)) = Inr v"
    proof (cases "\<exists>t \<in> set txs. linkedVal t \<noteq> None \<and> tx_id t = tx_id tx")
      case True
      then obtain t where t: "t \<in> set txs" "linkedVal t \<noteq> None" "tx_id t = tx_id tx" by blast
      then have "linkedVal t = Some v" using Cons.prems(2) Some by (fastforce simp: same_values_def)
      then show ?thesis using IH t by fastforce
    next
      case False
      have frame: "\<And>k. (\<forall>tx \<in> set txs. linkedVal tx \<noteq> None \<longrightarrow> k \<noteq> PrefixTxValueKey (tx_id tx)) \<Longrightarrow>
          db_Get D d' k = db_Get D d1 k"
        using IH by blast
      have "db_Get D d' (PrefixTxValueKey (tx_id tx)) = db_Get D d1 (PrefixTxValueKey (tx_id tx))"
        by (rule frame) (use False in force)
      then show ?thesis using d1 by simp
    qed
    then show ?thesis using IH w d1 Some by auto
  qed
qed

lemma wire_setValue: "wireTx (setValue v tx) = setValue v (wireTx tx)"
  by (simp add: wireTx_def NewTx_def setValue_def)

lemma restoreLoop_link:
  assumes "text_ok L"
    and "\<forall>tx \<in> set txs. \<forall>v. linkedVal tx = Some v \<longrightarrow> db_Get D d (PrefixTxValueKey (tx_id tx)) = Inr v"
  shows "restoreLoop L D d (map (wireTx \<circ> linkTx) txs) = Inr (map wireTx txs)"
  using assms(2)
proof (induction txs)
  case Nil
  then show ?case by simp
next
  case (Cons tx txs)
  show ?case
  proof (cases "linkedVal tx")
    case None
    then have "u_body (tx_Unsigned tx) = TSet t \<Longrightarrow> set_Value t = []" for t
      by (auto simp: linkedVal_def split: if_splits)
    then show ?thesis using Cons None by (auto simp: linkTx_def wireTx_def NewTx_def split: txbody.splits)
  next
    case (Some v)
    then obtain t where t: "u_body (tx_Unsigned tx) = TSet t" "set_Value t = v"
      by (auto simp: linkedVal_def split: txbody.splits if_splits)
    have "setValue v (wireTx tx) = wireTx tx"
      using t by (cases t) (simp add: wireTx_def NewTx_def setValue_def)
    moreover have "db_Get D d (PrefixTxValueKey (tx_id tx)) = Inr v" using Cons.prems Some by simp
    ultimately show ?thesis
      using Cons Some by (simp add: linkTx_def setValue_def wireTx_def NewTx_def text_ok_simps [OF assms(1)])
  qed
qed

text \<open>
  The round trip of a block through the store: after \<open>SetLastAccepted\<close> the last accepted id
  is the block's, and \<open>GetBlock\<close> gives the block back as it would be marshalled, so parsing
  it gives the same bytes and the same id.
\<close>

lemma linkValues_iff:
  "linkValues L D C (d, b) = (Inr og, w) \<longleftrightarrow>
   (\<exists>d' txs. linkLoop L D C [] [] (sf_Txs (sb_block b)) d = (Inr og, (d', txs)) \<and>
      w = (d', b\<lparr>sb_block := (sb_block b)\<lparr>sf_Txs := txs\<rparr>\<rparr>))"
  by (auto simp: linkValues_def split: prod.splits)

lemma SetLastAccepted_inv:
  assumes "SetLastAccepted L D B (d, b) = (Inr (), (d', b'))"
  shows "\<exists>d1 d2 og txs sb. db_Put D d lastAccepted (be_bytes 32 (sb_id b)) = Inr d1 \<and>
    linkLoop L D (bc_Tx B) [] [] (sf_Txs (sb_block b)) d1 = (Inr og, (d2, txs)) \<and>
    marshalBlock B ((sb_block b)\<lparr>sf_Txs := txs\<rparr>) = Inr sb \<and>
    db_Put D d2 (PrefixBlockKey (sb_id b)) sb = Inr d' \<and>
    b' = b\<lparr>sb_block := (sb_block b)\<lparr>sf_Txs := og\<rparr>\<rparr>"
  using assms
  by (auto simp: SetLastAccepted_def linkValues_iff sm_iff)

lemma SetLastAccepted_ok:
  assumes D: "db_ok D" and B: "codec_ok (bc_Block B)" and L: "text_ok L"
    and sv: "same_values (sf_Txs (sb_block b))"
    and run: "SetLastAccepted L D B (d, b) = (Inr (), (d', b'))"
  shows "GetLastAccepted L D d' = Inr (sb_id b)"
    and "GetBlock L D B d' (sb_id b) = Inr (wireBlock (sb_block b))"
    and "wireBlock (sb_block b') = wireBlock (sb_block b) \<and> sb_id b' = sb_id b \<and> sb_bytes b' = sb_bytes b"
proof -
  obtain d1 d2 og txs sb where p1: "db_Put D d lastAccepted (be_bytes 32 (sb_id b)) = Inr d1"
    and lk: "linkLoop L D (bc_Tx B) [] [] (sf_Txs (sb_block b)) d1 = (Inr og, (d2, txs))"
    and m: "marshalBlock B ((sb_block b)\<lparr>sf_Txs := txs\<rparr>) = Inr sb"
    and p2: "db_Put D d2 (PrefixBlockKey (sb_id b)) sb = Inr d'"
    and b': "b' = b\<lparr>sb_block := (sb_block b)\<lparr>sf_Txs := og\<rparr>\<rparr>"
    using SetLastAccepted_inv [OF run] by blast
  note lok = linkLoop_ok [OF D lk sv]
  have g1: "db_Get D d1 k = (if k = lastAccepted then Inr (be_bytes 32 (sb_id b)) else db_Get D d k)" for k
    using db_ok_put [OF D p1] by simp
  have g2: "db_Get D d' k = (if k = PrefixBlockKey (sb_id b) then Inr sb else db_Get D d2 k)" for k
    using db_ok_put [OF D p2] by simp
  have ne: "lastAccepted \<noteq> PrefixTxValueKey i" "PrefixBlockKey i \<noteq> PrefixTxValueKey j"
    "lastAccepted \<noteq> PrefixBlockKey i" for i j
    using key_bytes_neq [of KLastAccepted "KTxValue i"] key_bytes_neq [of "KBlock i" "KTxValue j"]
      key_bytes_neq [of KLastAccepted "KBlock i"] by simp_all
  have "db_Get D d' lastAccepted = Inr (be_bytes 32 (sb_id b))"
    using lok g1 g2 ne by simp
  then show "GetLastAccepted L D d' = Inr (sb_id b)"
    by (simp add: GetLastAccepted_def text_ok_simps [OF L])
  have txs: "txs = map linkTx (sf_Txs (sb_block b))" and og: "map wireTx og = map wireTx (sf_Txs (sb_block b))"
    using lok by simp_all
  have "dec (bc_Block B) sb = Inr (wireBlock ((sb_block b)\<lparr>sf_Txs := txs\<rparr>))"
    using codec_okD [OF B] m by (simp add: marshalBlock_def)
  moreover have "restoreLoop L D d' (map (wireTx \<circ> linkTx) (sf_Txs (sb_block b))) =
      Inr (map wireTx (sf_Txs (sb_block b)))"
    by (rule restoreLoop_link [OF L]) (use lok g2 ne ne [symmetric] in auto)
  ultimately show "GetBlock L D B d' (sb_id b) = Inr (wireBlock (sb_block b))"
    by (simp add: GetBlock_def g2 wireBlock_def txs restoreValues_def)
  show "wireBlock (sb_block b') = wireBlock (sb_block b) \<and> sb_id b' = sb_id b \<and> sb_bytes b' = sb_bytes b"
    using og by (simp add: b' wireBlock_def)
qed

end
