(* ===== verification/GoHeap.thy ===== *)
theory GoHeap
  imports Prelude "HOL-Library.Multiset"
begin

text \<open>
  The loops of Go's \<open>container/heap\<close> on a list of keys: \<open>up\<close> and \<open>down\<close>, and that they
  restore the heap order. The order is a strict comparison \<open>lt\<close> whose negation is
  transitive and total, the only thing that \<open>Less\<close> must satisfy; the locale states it and
  is interpreted on both directions of the comparison of prices.
\<close>

section \<open>The loops\<close>

definition swapL :: "nat \<Rightarrow> nat \<Rightarrow> 'k list \<Rightarrow> 'k list" where
  "swapL i j xs = xs[i := xs ! j, j := xs ! i]"

lemma length_swapL [simp]: "length (swapL i j xs) = length xs"
  by (simp add: swapL_def)

lemma nth_swapL:
  "i < length xs \<Longrightarrow> j < length xs \<Longrightarrow>
   swapL i j xs ! k = (if k = j then xs ! i else if k = i then xs ! j else xs ! k)"
  by (auto simp: swapL_def nth_list_update)

lemma mset_swapL: "i < length xs \<Longrightarrow> j < length xs \<Longrightarrow> mset (swapL i j xs) = mset xs"
  unfolding swapL_def by (rule mset_swap)

text \<open>\<open>(j - 1) / 2\<close>, Go's division truncating towards zero.\<close>

definition parent :: "nat \<Rightarrow> nat" where
  "parent j = (j - 1) div 2"

lemma parent_less: "0 < j \<Longrightarrow> parent j < j"
  by (simp add: parent_def)

lemma parent_le: "parent j \<le> j"
  by (simp add: parent_def)

lemma parent_child: "parent k = i \<and> 0 < k \<longleftrightarrow> k = 2 * i + 1 \<or> k = 2 * i + 2"
  unfolding parent_def by presburger

text \<open>\<open>up\<close> stops when \<open>i == j\<close>, which is at the root, or when the parent is not larger.\<close>

function upL :: "('k \<Rightarrow> 'k \<Rightarrow> bool) \<Rightarrow> nat \<Rightarrow> 'k list \<Rightarrow> 'k list" where
  "upL lt j xs =
     (if parent j = j \<or> \<not> lt (xs ! j) (xs ! parent j) then xs
      else upL lt (parent j) (swapL (parent j) j xs))"
  by pat_completeness auto
termination
  by (relation "measure (\<lambda>(_, j, _). j)") (auto intro: le_neq_implies_less [OF parent_le])

declare upL.simps [simp del]

text \<open>The child that \<open>down\<close> compares with: the smaller one below \<open>n\<close>.\<close>

definition childL :: "('k \<Rightarrow> 'k \<Rightarrow> bool) \<Rightarrow> nat \<Rightarrow> nat \<Rightarrow> 'k list \<Rightarrow> nat" where
  "childL lt n i xs =
     (if 2 * i + 2 < n \<and> lt (xs ! (2 * i + 2)) (xs ! (2 * i + 1)) then 2 * i + 2 else 2 * i + 1)"

lemma childL_cases: "childL lt n i xs = 2 * i + 1 \<or> childL lt n i xs = 2 * i + 2"
  by (simp add: childL_def)

lemma childL_less: "2 * i + 1 < n \<Longrightarrow> childL lt n i xs < n"
  by (simp add: childL_def)

lemma childL_gt: "i < childL lt n i xs"
  by (simp add: childL_def)

function downL :: "('k \<Rightarrow> 'k \<Rightarrow> bool) \<Rightarrow> nat \<Rightarrow> nat \<Rightarrow> 'k list \<Rightarrow> nat \<times> 'k list" where
  "downL lt n i xs =
     (if n \<le> 2 * i + 1 \<or> \<not> lt (xs ! childL lt n i xs) (xs ! i) then (i, xs)
      else downL lt n (childL lt n i xs) (swapL i (childL lt n i xs) xs))"
  by pat_completeness auto
termination
proof (relation "measure (\<lambda>(_, n, i, _). n - i)", goal_cases)
  case (2 lt n i xs)
  then show ?case using childL_gt [of i lt n xs] by auto
qed simp

declare downL.simps [simp del]

section \<open>The heap order\<close>

locale heap_order =
  fixes lt :: "'k \<Rightarrow> 'k \<Rightarrow> bool"
  assumes nlt_trans: "\<not> lt y x \<Longrightarrow> \<not> lt z y \<Longrightarrow> \<not> lt z x"
    and nlt_total: "\<not> lt x y \<or> \<not> lt y x"
begin

abbreviation le :: "'k \<Rightarrow> 'k \<Rightarrow> bool" where
  "le x y \<equiv> \<not> lt y x"

lemma le_refl: "le x x"
  using nlt_total by blast

lemma lt_le: "lt x y \<Longrightarrow> le x y"
  using nlt_total by blast

text \<open>Every node below \<open>n\<close> but the root is not smaller than its parent.\<close>

definition heap :: "nat \<Rightarrow> 'k list \<Rightarrow> bool" where
  "heap n xs \<longleftrightarrow> (\<forall>k. 0 < k \<and> k < n \<longrightarrow> le (xs ! parent k) (xs ! k))"

text \<open>The same but for the node \<open>j\<close>, whose children are not smaller than its parent.\<close>

definition heap_up :: "nat \<Rightarrow> nat \<Rightarrow> 'k list \<Rightarrow> bool" where
  "heap_up n j xs \<longleftrightarrow> (\<forall>k. 0 < k \<and> k < n \<and> k \<noteq> j \<longrightarrow> le (xs ! parent k) (xs ! k)) \<and>
     (\<forall>k. 0 < k \<and> k < n \<and> parent k = j \<and> 0 < j \<longrightarrow> le (xs ! parent j) (xs ! k))"

text \<open>The same but for the children of \<open>i\<close>, which are not smaller than the parent of \<open>i\<close>.\<close>

definition heap_down :: "nat \<Rightarrow> nat \<Rightarrow> 'k list \<Rightarrow> bool" where
  "heap_down n i xs \<longleftrightarrow> (\<forall>k. 0 < k \<and> k < n \<and> parent k \<noteq> i \<longrightarrow> le (xs ! parent k) (xs ! k)) \<and>
     (\<forall>k. 0 < k \<and> k < n \<and> parent k = i \<and> 0 < i \<longrightarrow> le (xs ! parent i) (xs ! k))"

lemma heap_up_step:
  assumes up: "heap_up n j xs" and j: "j < n" "n \<le> length xs" "0 < j"
    and lt: "lt (xs ! j) (xs ! parent j)"
  shows "heap_up n (parent j) (swapL (parent j) j xs)"
proof -
  let ?p = "parent j" and ?ys = "swapL (parent j) j xs"
  have p: "?p < j" using j(3) by (rule parent_less)
  then have len: "?p < length xs" "j < length xs" using j by simp_all
  note nth = nth_swapL [OF len]
  have ok: "\<And>k. 0 < k \<Longrightarrow> k < n \<Longrightarrow> k \<noteq> j \<Longrightarrow> le (xs ! parent k) (xs ! k)"
    and gp: "\<And>k. 0 < k \<Longrightarrow> k < n \<Longrightarrow> parent k = j \<Longrightarrow> le (xs ! ?p) (xs ! k)"
    using up j(3) by (auto simp: heap_up_def)
  have "le (?ys ! parent k) (?ys ! k)" if k: "0 < k" "k < n" "k \<noteq> ?p" for k
  proof (cases "k = j")
    case True
    then show ?thesis using lt p by (simp add: nth lt_le)
  next
    case False
    consider "parent k = j" | "parent k = ?p" "parent k \<noteq> j" | "parent k \<noteq> j" "parent k \<noteq> ?p" by blast
    then show ?thesis
    proof cases
      case 1
      then show ?thesis using gp k False p parent_less [of k] by (auto simp: nth)
    next
      case 2
      then have "le (xs ! ?p) (xs ! k)" using ok [OF k(1,2) False] by simp
      then show ?thesis using 2 False k(3) nlt_trans [OF lt_le [OF lt]] by (simp add: nth)
    next
      case 3
      then show ?thesis using ok [OF k(1,2) False] False k(3) by (simp add: nth)
    qed
  qed
  moreover have "le (?ys ! parent ?p) (?ys ! k)"
    if k: "0 < k" "k < n" "parent k = ?p" "0 < ?p" for k
  proof -
    have pp: "parent ?p < ?p" using k(4) by (rule parent_less)
    have "le (xs ! parent ?p) (xs ! ?p)" using ok [of ?p] k(4) p j(1) by simp
    moreover have "le (xs ! ?p) (xs ! k)" if "k \<noteq> j" using ok [OF k(1,2) that] k(3) by simp
    ultimately have "le (xs ! parent ?p) (xs ! k)" if "k \<noteq> j" using that nlt_trans by blast
    moreover have "k \<noteq> ?p" using k(1,3) parent_less [of k] by auto
    moreover have "parent ?p \<noteq> j" "parent ?p \<noteq> ?p" using pp p by simp_all
    ultimately show ?thesis
      using \<open>le (xs ! parent ?p) (xs ! ?p)\<close> by (cases "k = j") (simp_all add: nth)
  qed
  ultimately show ?thesis by (simp add: heap_up_def)
qed

lemma heap_up_done:
  assumes "heap_up n j xs" and "parent j = j \<or> le (xs ! parent j) (xs ! j)"
  shows "heap n xs"
proof -
  have "le (xs ! parent k) (xs ! k)" if "0 < k" "k < n" for k
  proof (cases "k = j")
    case True
    then have "parent j \<noteq> j" using that(1) parent_less [of j] by simp
    then show ?thesis using assms(2) True by simp
  next
    case False
    then show ?thesis using assms(1) that by (simp add: heap_up_def)
  qed
  then show ?thesis by (simp add: heap_def)
qed

lemma upL_heap: "heap_up n j xs \<Longrightarrow> j < n \<Longrightarrow> n \<le> length xs \<Longrightarrow> heap n (upL lt j xs)"
proof (induction j arbitrary: xs rule: less_induct)
  case (less j)
  show ?case
  proof (cases "parent j = j \<or> le (xs ! parent j) (xs ! j)")
    case True
    then show ?thesis using heap_up_done [OF less.prems(1)] by (subst upL.simps) auto
  next
    case False
    then have j: "0 < j" and lt: "lt (xs ! j) (xs ! parent j)" by (auto simp: parent_def)
    then have p: "parent j < j" by (simp add: parent_less)
    have "heap_up n (parent j) (swapL (parent j) j xs)"
      using heap_up_step [OF less.prems(1-3) j lt] .
    then have "heap n (upL lt (parent j) (swapL (parent j) j xs))"
      using less.IH [OF p] less.prems p by simp
    then show ?thesis using False by (subst upL.simps) auto
  qed
qed

lemma heap_down_step:
  assumes dn: "heap_down n i xs" and n: "n \<le> length xs" and ci: "2 * i + 1 < n"
    and lt: "lt (xs ! childL lt n i xs) (xs ! i)"
  shows "heap_down n (childL lt n i xs) (swapL i (childL lt n i xs) xs)"
proof -
  let ?c = "childL lt n i xs"
  let ?ys = "swapL i ?c xs"
  have c: "?c < n" "i < ?c" using childL_less [OF ci] childL_gt by auto
  have pc: "parent ?c = i" using childL_cases [of lt n i xs] by (auto simp: parent_def)
  have len: "i < length xs" "?c < length xs" using c n by simp_all
  note nth = nth_swapL [OF len]
  have ok: "\<And>k. 0 < k \<Longrightarrow> k < n \<Longrightarrow> parent k \<noteq> i \<Longrightarrow> le (xs ! parent k) (xs ! k)"
    and gp: "\<And>k. 0 < k \<Longrightarrow> k < n \<Longrightarrow> parent k = i \<Longrightarrow> 0 < i \<Longrightarrow> le (xs ! parent i) (xs ! k)"
    using dn by (auto simp: heap_down_def)
  have small: "le (xs ! ?c) (xs ! k)" if "0 < k" "k < n" "parent k = i" for k
  proof -
    have "k = 2 * i + 1 \<or> k = 2 * i + 2" using that parent_child by blast
    then show ?thesis using that(2) lt_le le_refl by (auto simp: childL_def)
  qed
  have "le (?ys ! parent k) (?ys ! k)" if k: "0 < k" "k < n" "parent k \<noteq> ?c" for k
  proof -
    consider "k = i" | "k \<noteq> i" "parent k = i" "k = ?c" | "k \<noteq> i" "parent k = i" "k \<noteq> ?c"
      | "k \<noteq> i" "parent k \<noteq> i" by blast
    then show ?thesis
    proof cases
      case 1
      have "parent i < i" using 1 k(1) parent_less by simp
      moreover have "le (xs ! parent i) (xs ! ?c)" using gp [of ?c] c pc 1 k(1) by simp
      ultimately show ?thesis using 1 c by (simp add: nth)
    next
      case 2
      then show ?thesis using lt c by (simp add: nth lt_le)
    next
      case 3
      then show ?thesis using small [of k] k c by (simp add: nth)
    next
      case 4
      have "k \<noteq> ?c" using 4 pc by auto
      then show ?thesis using ok [OF k(1,2)] 4 k(3) by (simp add: nth)
    qed
  qed
  moreover have "le (?ys ! parent ?c) (?ys ! k)" if k: "0 < k" "k < n" "parent k = ?c" for k
  proof -
    have "le (xs ! ?c) (xs ! k)" using ok [OF k(1,2)] k(3) c by simp
    moreover have "k \<noteq> ?c" "k \<noteq> i" using parent_less [OF k(1)] k(3) c by auto
    ultimately show ?thesis using pc c by (simp add: nth)
  qed
  ultimately show ?thesis by (simp add: heap_down_def)
qed

text \<open>
  After \<open>down\<close> from \<open>i\<close> the nodes below \<open>n\<close> are a heap, except that a node that did not
  move may be smaller than its parent.
\<close>

lemma downL_ge: "i \<le> fst (downL lt n i xs)"
proof (induction "n - i" arbitrary: i xs rule: less_induct)
  case less
  show ?case
  proof (cases "n \<le> 2 * i + 1 \<or> \<not> lt (xs ! childL lt n i xs) (xs ! i)")
    case True
    then show ?thesis by (subst downL.simps) simp
  next
    case False
    let ?c = "childL lt n i xs"
    have "i < ?c" by (rule childL_gt)
    moreover have "i < n" using False by auto
    ultimately have "n - ?c < n - i" by (simp add: diff_less_mono2)
    then have "?c \<le> fst (downL lt n ?c (swapL i ?c xs))" by (rule less)
    then show ?thesis using False \<open>i < ?c\<close> by (subst downL.simps) auto
  qed
qed

lemma heap_down_done:
  assumes "heap_down n i xs" and "n \<le> 2 * i + 1 \<or> le (xs ! i) (xs ! childL lt n i xs)"
    and "k < n" "0 < k"
  shows "le (xs ! parent k) (xs ! k)"
proof (cases "parent k = i")
  case False
  then show ?thesis using assms by (simp add: heap_down_def)
next
  case True
  then have k: "k = 2 * i + 1 \<or> k = 2 * i + 2" using assms(4) parent_child by blast
  then have "le (xs ! i) (xs ! childL lt n i xs)" using assms(2,3) by auto
  moreover have "le (xs ! childL lt n i xs) (xs ! k)"
    using k assms(3) lt_le le_refl by (auto simp: childL_def)
  ultimately show ?thesis using True nlt_trans by blast
qed

lemma downL_heap:
  "heap_down n i xs \<Longrightarrow> n \<le> length xs \<Longrightarrow> heap n (snd (downL lt n i xs))"
proof (induction "n - i" arbitrary: i xs rule: less_induct)
  case less
  show ?case
  proof (cases "n \<le> 2 * i + 1 \<or> \<not> lt (xs ! childL lt n i xs) (xs ! i)")
    case True
    then have "heap n xs"
      using heap_down_done [OF less.prems(1)] unfolding heap_def by blast
    then show ?thesis using True by (subst downL.simps) simp
  next
    case False
    let ?c = "childL lt n i xs"
    have "i < n" using False by auto
    then have "n - ?c < n - i" using childL_gt [of i lt n xs] by (simp add: diff_less_mono2)
    moreover have "heap_down n ?c (swapL i ?c xs)"
      using heap_down_step [OF less.prems] False by simp
    ultimately have "heap n (snd (downL lt n ?c (swapL i ?c xs)))"
      using less.hyps less.prems(2) by simp
    then show ?thesis using False by (subst downL.simps) auto
  qed
qed

text \<open>
  \<open>heap.Push\<close>: the new key at the end, moved up. \<open>heap.Remove\<close>: the last key takes the
  place of the removed one, then moves down, or up when it did not move down.
\<close>

lemma heap_snoc_up: "heap (length xs) xs \<Longrightarrow> heap_up (Suc (length xs)) (length xs) (xs @ [x])"
proof -
  assume h: "heap (length xs) xs"
  have "le ((xs @ [x]) ! parent k) ((xs @ [x]) ! k)" if "0 < k" "k < length xs" for k
    using h that parent_less [OF that(1)] by (simp add: heap_def nth_append)
  moreover have "parent k \<noteq> length xs" if "0 < k" "k < Suc (length xs)" for k
    using parent_less [OF that(1)] that(2) by simp
  ultimately show ?thesis by (auto simp: heap_up_def less_Suc_eq)
qed

lemma push_heap: "heap (length xs) xs \<Longrightarrow> heap (Suc (length xs)) (upL lt (length xs) (xs @ [x]))"
  by (rule upL_heap [OF heap_snoc_up]) simp_all

lemma length_upL [simp]: "length (upL lt j xs) = length xs"
proof (induction j arbitrary: xs rule: less_induct)
  case (less j)
  show ?case
  proof (cases "parent j = j")
    case True
    then show ?thesis by (subst upL.simps) simp
  next
    case False
    then have "parent j < j" using le_neq_implies_less [OF parent_le] by blast
    then show ?thesis using less by (subst upL.simps) simp
  qed
qed

definition removeL :: "nat \<Rightarrow> 'k list \<Rightarrow> 'k list" where
  "removeL i xs = (let n = length xs - 1 in
     if n = i then xs
     else (case downL lt n i (swapL i n xs) of (m, ys) \<Rightarrow> if i < m then ys else upL lt i ys))"

lemma downL_stays: "fst (downL lt n i xs) = i \<Longrightarrow> snd (downL lt n i xs) = xs \<and>
    (n \<le> 2 * i + 1 \<or> le (xs ! i) (xs ! childL lt n i xs))"
proof -
  assume eq: "fst (downL lt n i xs) = i"
  show ?thesis
  proof (cases "n \<le> 2 * i + 1 \<or> \<not> lt (xs ! childL lt n i xs) (xs ! i)")
    case True
    then show ?thesis by (subst downL.simps) simp
  next
    case False
    then have "fst (downL lt n i xs) = fst (downL lt n (childL lt n i xs) (swapL i (childL lt n i xs) xs))"
      by (subst downL.simps) auto
    then have "childL lt n i xs \<le> i" using eq downL_ge by metis
    then show ?thesis using childL_gt [of i lt n xs] by simp
  qed
qed

lemma downL_root: "le (xs ! i) (xs ! childL lt n i xs) \<Longrightarrow> downL lt n i xs = (i, xs)"
  by (subst downL.simps) simp

lemma remove_heap:
  assumes h: "heap (length xs) xs" and i: "i < length xs"
  shows "heap (length xs - 1) (removeL i xs)"
proof -
  define n where "n = length xs - 1"
  have len: "length xs = Suc n" using i by (simp add: n_def)
  have hn: "heap n xs" using h by (simp add: heap_def len)
  have rm: "removeL i xs = (if n = i then xs
      else (case downL lt n i (swapL i n xs) of (m, ys) \<Rightarrow> if i < m then ys else upL lt i ys))"
    and n: "length xs - 1 = n"
    by (simp_all add: removeL_def n_def Let_def)
  show ?thesis
    unfolding n
  proof (cases "n = i")
    case True
    then show "heap n (removeL i xs)" using hn by (simp add: rm)
  next
    case False
    then have i: "i < n" using i len by simp
    let ?ys = "swapL i n xs"
    have nth: "?ys ! k = (if k = i then xs ! n else xs ! k)" if "k < n" for k
      using that i len by (simp add: nth_swapL)
    have ok: "le (?ys ! parent k) (?ys ! k)" if "0 < k" "k < n" "k \<noteq> i" "parent k \<noteq> i" for k
      using that hn parent_less [OF that(1)] by (simp add: nth heap_def)
    have gp: "le (?ys ! parent i) (?ys ! k)" if "0 < k" "k < n" "parent k = i" "0 < i" for k
    proof -
      have "le (xs ! parent i) (xs ! i)" "le (xs ! i) (xs ! k)" using hn that i by (auto simp: heap_def)
      then have "le (xs ! parent i) (xs ! k)" using nlt_trans by blast
      then show ?thesis using that parent_less [OF that(1)] parent_less [OF that(4)] by (simp add: nth)
    qed
    show "heap n (removeL i xs)"
    proof (cases "0 < i \<and> lt (?ys ! i) (?ys ! parent i)")
      case True
      have up: "heap_up n i ?ys" unfolding heap_up_def
      proof (intro conjI allI impI)
        fix k assume k: "0 < k \<and> k < n \<and> k \<noteq> i"
        then show "le (?ys ! parent k) (?ys ! k)"
          using ok gp [of k] True nlt_trans [OF lt_le] by (cases "parent k = i") auto
      qed (use gp in auto)
      have stay: "downL lt n i ?ys = (i, ?ys)"
      proof (cases "n \<le> 2 * i + 1")
        case False
        let ?c = "childL lt n i ?ys"
        have "?c < n" "0 < ?c" "parent ?c = i"
          using childL_less [of i n] False childL_gt [of i lt n ?ys] childL_cases [of lt n i ?ys]
          by (auto simp: parent_def)
        then have "le (?ys ! i) (?ys ! ?c)" using gp [of ?c] True nlt_trans [OF lt_le] by blast
        then show ?thesis by (rule downL_root)
      qed (subst downL.simps, simp)
      have "heap n (upL lt i ?ys)" by (rule upL_heap [OF up i]) (simp add: len)
      then show ?thesis using False stay by (simp add: rm)
    next
      case no: False
      have "heap_down n i ?ys" unfolding heap_down_def
      proof (intro conjI allI impI)
        fix k assume k: "0 < k \<and> k < n \<and> parent k \<noteq> i"
        then show "le (?ys ! parent k) (?ys ! k)" using ok no by (cases "k = i") auto
      qed (use gp in auto)
      then have hd: "heap n (snd (downL lt n i ?ys))" by (rule downL_heap) (simp add: len)
      obtain m zs where d: "downL lt n i ?ys = (m, zs)" by fastforce
      show ?thesis
      proof (cases "i < m")
        case True
        then show ?thesis using False d hd by (simp add: rm)
      next
        case False
        then have "m = i" using downL_ge [of i n ?ys] d by simp
        then have "zs = ?ys" using downL_stays [of n i ?ys] d by simp
        then have "upL lt i zs = zs" using no by (subst upL.simps) (auto simp: parent_def)
        then show ?thesis using \<open>n \<noteq> i\<close> False d hd by (simp add: rm)
      qed
    qed
  qed
qed

text \<open>The root of a heap is not larger than any key.\<close>

lemma heap_root: "heap n xs \<Longrightarrow> k < n \<Longrightarrow> le (xs ! 0) (xs ! k)"
proof (induction k rule: less_induct)
  case (less k)
  show ?case
  proof (cases "k = 0")
    case True
    then show ?thesis by (simp add: le_refl)
  next
    case False
    then have p: "parent k < k" by (simp add: parent_less)
    then have "le (xs ! 0) (xs ! parent k)" using less by simp
    moreover have "le (xs ! parent k) (xs ! k)" using less.prems False by (simp add: heap_def)
    ultimately show ?thesis using nlt_trans by blast
  qed
qed

end

end
