(* ===== verification/TxHeap.thy ===== *)
theory TxHeap
  imports GoHeap TxData
begin

text \<open>
  \<open>mempool/tx_heap.go\<close>: the priority queue of pending transactions, driven by Go's
  \<open>container/heap\<close>. The slice holds pointers to entries and the lookup map holds the same
  pointers; as \<open>Push\<close> refuses an id it has, an entry is named here by its transaction id,
  the slice is a list of names and the lookup map is the store of the entries, so an
  update of an entry's index is seen through both, as in Go.
\<close>

section \<open>State and methods\<close>

record txEntry =
  te_id :: id
  te_tx :: Transaction
  te_price :: u64
  te_index :: nat

record txHeap =
  th_isMinHeap :: bool
  th_items :: "id list"
  th_lookup :: "(id, txEntry) gomap"

definition newTxHeap :: "bool \<Rightarrow> txHeap" where
  "newTxHeap isMin = \<lparr> th_isMinHeap = isMin, th_items = [], th_lookup = [] \<rparr>"

definition entry :: "txHeap \<Rightarrow> id \<Rightarrow> txEntry" where
  "entry th i = the (map_of (th_lookup th) i)"

definition txHeap_Len :: "txHeap \<Rightarrow> nat" where
  "txHeap_Len th = length (th_items th)"

text \<open>The comparison of \<open>Less\<close>, on prices.\<close>

definition price_lt :: "bool \<Rightarrow> u64 \<Rightarrow> u64 \<Rightarrow> bool" where
  "price_lt isMin p q \<longleftrightarrow> (if isMin then p < q else p > q)"

definition txHeap_Less :: "txHeap \<Rightarrow> nat \<Rightarrow> nat \<Rightarrow> bool" where
  "txHeap_Less th i j = price_lt (th_isMinHeap th)
     (te_price (entry th (th_items th ! i))) (te_price (entry th (th_items th ! j)))"

definition setIndex :: "id \<Rightarrow> nat \<Rightarrow> txHeap \<Rightarrow> txHeap" where
  "setIndex i k th = th\<lparr>th_lookup := mput i ((entry th i)\<lparr>te_index := k\<rparr>) (th_lookup th)\<rparr>"

definition txHeap_Swap :: "nat \<Rightarrow> nat \<Rightarrow> txHeap \<Rightarrow> txHeap" where
  "txHeap_Swap i j th =
     (let items = swapL i j (th_items th) in
      setIndex (items ! j) j (setIndex (items ! i) i (th\<lparr>th_items := items\<rparr>)))"

definition txHeap_Get :: "txHeap \<Rightarrow> id \<Rightarrow> txEntry option" where
  "txHeap_Get th i = map_of (th_lookup th) i"

definition txHeap_Has :: "txHeap \<Rightarrow> id \<Rightarrow> bool" where
  "txHeap_Has th i \<longleftrightarrow> txHeap_Get th i \<noteq> None"

definition txHeap_Push :: "txEntry \<Rightarrow> txHeap \<Rightarrow> txHeap" where
  "txHeap_Push e th =
     (if txHeap_Has th (te_id e) then th
      else th\<lparr>th_items := th_items th @ [te_id e], th_lookup := mput (te_id e) e (th_lookup th)\<rparr>)"

definition txHeap_Pop :: "txHeap \<Rightarrow> txEntry \<times> txHeap" where
  "txHeap_Pop th =
     (let n = length (th_items th); item = entry th (th_items th ! (n - 1)) in
      (item, th\<lparr>th_items := take (n - 1) (th_items th), th_lookup := mdel (te_id item) (th_lookup th)\<rparr>))"

section \<open>The heap functions on it\<close>

function heapUp :: "nat \<Rightarrow> txHeap \<Rightarrow> txHeap" where
  "heapUp j th =
     (if parent j = j \<or> \<not> txHeap_Less th j (parent j) then th
      else heapUp (parent j) (txHeap_Swap (parent j) j th))"
  by pat_completeness auto
termination
  by (relation "measure fst") (auto intro: le_neq_implies_less [OF parent_le])

declare heapUp.simps [simp del]

definition heapChild :: "nat \<Rightarrow> nat \<Rightarrow> txHeap \<Rightarrow> nat" where
  "heapChild n i th =
     (if 2 * i + 2 < n \<and> txHeap_Less th (2 * i + 2) (2 * i + 1) then 2 * i + 2 else 2 * i + 1)"

function heapDown :: "nat \<Rightarrow> nat \<Rightarrow> txHeap \<Rightarrow> nat \<times> txHeap" where
  "heapDown n i th =
     (if n \<le> 2 * i + 1 \<or> \<not> txHeap_Less th (heapChild n i th) i then (i, th)
      else heapDown n (heapChild n i th) (txHeap_Swap i (heapChild n i th) th))"
  by pat_completeness auto
termination
  by (relation "measure (\<lambda>(n, i, _). n - i)") (auto simp: heapChild_def)

declare heapDown.simps [simp del]

definition heap_Push :: "txEntry \<Rightarrow> txHeap \<Rightarrow> txHeap" where
  "heap_Push e th = (let th1 = txHeap_Push e th in heapUp (txHeap_Len th1 - 1) th1)"

definition heap_Remove :: "nat \<Rightarrow> txHeap \<Rightarrow> txEntry \<times> txHeap" where
  "heap_Remove i th =
     (let n = txHeap_Len th - 1 in
      txHeap_Pop
        (if n \<noteq> i then
           (case heapDown n i (txHeap_Swap i n th) of (m, th1) \<Rightarrow> if m > i then th1 else heapUp i th1)
         else th))"

section \<open>The order of prices\<close>

interpretation prices: heap_order "price_lt isMin" for isMin
  by unfold_locales (auto simp: price_lt_def split: if_splits)

definition keys :: "txHeap \<Rightarrow> u64 list" where
  "keys th = map (\<lambda>i. te_price (entry th i)) (th_items th)"

text \<open>
  Well-formed: the slice and the lookup map hold the same entries, each under its own id,
  and every entry knows its place in the slice.
\<close>

definition heap_wf :: "txHeap \<Rightarrow> bool" where
  "heap_wf th \<longleftrightarrow> distinct (th_items th) \<and> mwf (th_lookup th) \<and>
     dom (map_of (th_lookup th)) = set (th_items th) \<and>
     (\<forall>i \<in> set (th_items th). te_id (entry th i) = i) \<and>
     (\<forall>k < length (th_items th). te_index (entry th (th_items th ! k)) = k)"

definition heap_ok :: "txHeap \<Rightarrow> bool" where
  "heap_ok th \<longleftrightarrow> heap_wf th \<and> prices.heap (th_isMinHeap th) (length (th_items th)) (keys th)"

text \<open>What the heap holds: each transaction with its price, whatever its place.\<close>

definition contents :: "txHeap \<Rightarrow> id \<Rightarrow> (Transaction \<times> u64) option" where
  "contents th i = map_option (\<lambda>e. (te_tx e, te_price e)) (map_of (th_lookup th) i)"

lemma length_keys [simp]: "length (keys th) = length (th_items th)"
  by (simp add: keys_def)

lemma Less_keys: "i < length (th_items th) \<Longrightarrow> j < length (th_items th) \<Longrightarrow>
    txHeap_Less th i j = price_lt (th_isMinHeap th) (keys th ! i) (keys th ! j)"
  by (simp add: txHeap_Less_def keys_def)

lemma entry_setIndex: "entry (setIndex i k th) x = (if x = i then (entry th i)\<lparr>te_index := k\<rparr> else entry th x)"
  by (simp add: setIndex_def entry_def)

lemma setIndex_fields [simp]:
  "th_isMinHeap (setIndex i k th) = th_isMinHeap th" "th_items (setIndex i k th) = th_items th"
  by (simp_all add: setIndex_def)

lemma contents_setIndex: "i \<in> dom (map_of (th_lookup th)) \<Longrightarrow> contents (setIndex i k th) = contents th"
  by (auto simp: contents_def setIndex_def entry_def fun_eq_iff)

lemma dom_setIndex: "i \<in> dom (map_of (th_lookup th)) \<Longrightarrow>
    dom (map_of (th_lookup (setIndex i k th))) = dom (map_of (th_lookup th))"
  by (auto simp: setIndex_def)

lemma mwf_setIndex: "mwf (th_lookup th) \<Longrightarrow> mwf (th_lookup (setIndex i k th))"
  by (simp add: setIndex_def)

lemma entry_items [simp]: "entry (th\<lparr>th_items := xs\<rparr>) = entry th"
  by (simp add: entry_def fun_eq_iff)

lemma contents_items [simp]: "contents (th\<lparr>th_items := xs\<rparr>) = contents th"
  by (simp add: contents_def fun_eq_iff)

lemma Swap_fields [simp]:
  "th_isMinHeap (txHeap_Swap i j th) = th_isMinHeap th" "th_items (txHeap_Swap i j th) = swapL i j (th_items th)"
  by (simp_all add: txHeap_Swap_def Let_def)

lemma set_swapL: "i < length xs \<Longrightarrow> j < length xs \<Longrightarrow> set (swapL i j xs) = set xs"
  by (metis mset_swapL set_mset_mset)

lemma swapL_map: "i < length xs \<Longrightarrow> j < length xs \<Longrightarrow> swapL i j (map f xs) = map f (swapL i j xs)"
  by (simp add: swapL_def map_update)

lemma price_Swap: "te_price (entry (txHeap_Swap i j th) x) = te_price (entry th x)"
  by (simp add: txHeap_Swap_def Let_def entry_setIndex)

lemma keys_Swap:
  "i < length (th_items th) \<Longrightarrow> j < length (th_items th) \<Longrightarrow> keys (txHeap_Swap i j th) = swapL i j (keys th)"
  by (simp add: keys_def price_Swap swapL_map)

lemma swap_dom:
  assumes "heap_wf th" and "i < length (th_items th)" and "j < length (th_items th)"
  shows "swapL i j (th_items th) ! i \<in> dom (map_of (th_lookup th))"
    and "swapL i j (th_items th) ! j \<in> dom (map_of (th_lookup th))"
  using assms by (auto simp: heap_wf_def nth_swapL)

lemma contents_Swap:
  assumes "heap_wf th" and "i < length (th_items th)" and "j < length (th_items th)"
  shows "contents (txHeap_Swap i j th) = contents th"
  using swap_dom [OF assms] by (simp add: txHeap_Swap_def Let_def contents_setIndex dom_setIndex)

lemma wf_Swap:
  assumes wf: "heap_wf th" and i: "i < length (th_items th)" and j: "j < length (th_items th)"
  shows "heap_wf (txHeap_Swap i j th)"
proof -
  let ?th = "txHeap_Swap i j th" and ?xs = "th_items th"
  note dom = swap_dom [OF wf i j]
  have dist: "distinct ?xs" using wf by (simp add: heap_wf_def)
  have "distinct (swapL i j ?xs)"
    using dist mset_swapL [OF i j] by (metis mset_eq_imp_distinct_iff)
  moreover have "dom (map_of (th_lookup ?th)) = set (swapL i j ?xs)"
    using wf dom set_swapL [OF i j] by (simp add: txHeap_Swap_def Let_def dom_setIndex heap_wf_def)
  moreover have "mwf (th_lookup ?th)"
    using wf by (simp add: txHeap_Swap_def Let_def mwf_setIndex heap_wf_def)
  moreover have "te_id (entry ?th x) = x" if "x \<in> set (swapL i j ?xs)" for x
    using that wf set_swapL [OF i j] i j
    by (auto simp: txHeap_Swap_def Let_def entry_setIndex heap_wf_def nth_swapL)
  moreover have "te_index (entry ?th (swapL i j ?xs ! k)) = k" if k: "k < length ?xs" for k
    using that wf i j dist
    by (auto simp: txHeap_Swap_def Let_def entry_setIndex heap_wf_def nth_swapL nth_eq_iff_index_eq)
  ultimately show ?thesis by (simp add: heap_wf_def)
qed

section \<open>Simulation by the list of prices\<close>

lemma heapUp_sim:
  assumes "heap_wf th" and "j < length (th_items th)"
  shows "heap_wf (heapUp j th) \<and> th_isMinHeap (heapUp j th) = th_isMinHeap th \<and>
    keys (heapUp j th) = upL (price_lt (th_isMinHeap th)) j (keys th) \<and>
    mset (th_items (heapUp j th)) = mset (th_items th) \<and> contents (heapUp j th) = contents th"
  using assms
proof (induction j arbitrary: th rule: less_induct)
  case (less j)
  let ?p = "parent j"
  have p: "?p < length (th_items th)" using less.prems(2) parent_le [of j] by simp
  have cond: "(?p = j \<or> \<not> txHeap_Less th j ?p) \<longleftrightarrow>
      (?p = j \<or> \<not> price_lt (th_isMinHeap th) (keys th ! j) (keys th ! ?p))"
    using Less_keys [OF less.prems(2) p] by simp
  show ?case
  proof (cases "?p = j \<or> \<not> txHeap_Less th j ?p")
    case True
    then have "heapUp j th = th" by (subst heapUp.simps) simp
    moreover have "upL (price_lt (th_isMinHeap th)) j (keys th) = keys th"
      using True cond by (subst upL.simps) simp
    ultimately show ?thesis using less.prems(1) by simp
  next
    case False
    let ?th = "txHeap_Swap ?p j th"
    have "?p < j" using False le_neq_implies_less [OF parent_le] by blast
    then have IH: "heap_wf (heapUp ?p ?th) \<and> th_isMinHeap (heapUp ?p ?th) = th_isMinHeap ?th \<and>
        keys (heapUp ?p ?th) = upL (price_lt (th_isMinHeap ?th)) ?p (keys ?th) \<and>
        mset (th_items (heapUp ?p ?th)) = mset (th_items ?th) \<and> contents (heapUp ?p ?th) = contents ?th"
      using wf_Swap [OF less.prems(1) p less.prems(2)] p by (intro less.IH) simp_all
    have "heapUp j th = heapUp ?p ?th" using False by (subst heapUp.simps) simp
    moreover have "upL (price_lt (th_isMinHeap th)) j (keys th) =
        upL (price_lt (th_isMinHeap th)) ?p (swapL ?p j (keys th))"
      using False cond by (subst upL.simps) simp
    ultimately show ?thesis
      using IH keys_Swap [OF p less.prems(2)] contents_Swap [OF less.prems(1) p less.prems(2)]
        mset_swapL [OF p less.prems(2)] by simp
  qed
qed

lemma heapChild_keys:
  "n \<le> length (th_items th) \<Longrightarrow> heapChild n i th = childL (price_lt (th_isMinHeap th)) n i (keys th)"
  by (auto simp: heapChild_def childL_def Less_keys)

lemma heapDown_sim:
  assumes "heap_wf th" and "n \<le> length (th_items th)" and "i < n"
  shows "heap_wf (snd (heapDown n i th)) \<and> th_isMinHeap (snd (heapDown n i th)) = th_isMinHeap th \<and>
    (fst (heapDown n i th), keys (snd (heapDown n i th))) =
      downL (price_lt (th_isMinHeap th)) n i (keys th) \<and>
    mset (th_items (snd (heapDown n i th))) = mset (th_items th) \<and>
    drop n (th_items (snd (heapDown n i th))) = drop n (th_items th) \<and>
    contents (snd (heapDown n i th)) = contents th"
  using assms
proof (induction "n - i" arbitrary: i th rule: less_induct)
  case less
  let ?c = "heapChild n i th"
  have c: "?c = childL (price_lt (th_isMinHeap th)) n i (keys th)"
    by (rule heapChild_keys) (rule less.prems(2))
  show ?case
  proof (cases "n \<le> 2 * i + 1")
    case True
    then have "heapDown n i th = (i, th)" by (subst heapDown.simps) simp
    moreover have "downL (price_lt (th_isMinHeap th)) n i (keys th) = (i, keys th)"
      using True by (subst downL.simps) simp
    ultimately show ?thesis using less.prems(1) by simp
  next
    case in_range: False
    have cn: "?c < n" "i < ?c" using in_range by (auto simp: heapChild_def)
    have lens: "i < length (th_items th)" "?c < length (th_items th)" using less.prems(2,3) cn by simp_all
    have cond: "txHeap_Less th ?c i = price_lt (th_isMinHeap th) (keys th ! ?c) (keys th ! i)"
      by (rule Less_keys) (use lens in simp_all)
    show ?thesis
    proof (cases "txHeap_Less th ?c i")
      case False
      then have "heapDown n i th = (i, th)" by (subst heapDown.simps) simp
      moreover have "downL (price_lt (th_isMinHeap th)) n i (keys th) = (i, keys th)"
        using False cond c by (subst downL.simps) simp
      ultimately show ?thesis using less.prems(1) by simp
    next
      case True
      let ?th = "txHeap_Swap i ?c th"
      have dn: "heapDown n i th = heapDown n ?c ?th" using True in_range by (subst heapDown.simps) simp
      have "n - ?c < n - i" using cn less.prems(3) by (simp add: diff_less_mono2)
      then have IH: "heap_wf (snd (heapDown n ?c ?th)) \<and>
          th_isMinHeap (snd (heapDown n ?c ?th)) = th_isMinHeap ?th \<and>
          (fst (heapDown n ?c ?th), keys (snd (heapDown n ?c ?th))) =
            downL (price_lt (th_isMinHeap ?th)) n ?c (keys ?th) \<and>
          mset (th_items (snd (heapDown n ?c ?th))) = mset (th_items ?th) \<and>
          drop n (th_items (snd (heapDown n ?c ?th))) = drop n (th_items ?th) \<and>
          contents (snd (heapDown n ?c ?th)) = contents ?th"
        by (rule less.hyps) (use wf_Swap [OF less.prems(1) lens] less.prems(2) cn in simp_all)
      moreover have "downL (price_lt (th_isMinHeap th)) n i (keys th) =
          downL (price_lt (th_isMinHeap th)) n ?c (swapL i ?c (keys th))"
        using True in_range cond c by (subst downL.simps) simp
      moreover have "drop n (swapL i ?c (th_items th)) = drop n (th_items th)"
        using cn by (simp add: swapL_def drop_update_cancel)
      ultimately show ?thesis
        using keys_Swap [OF lens] contents_Swap [OF less.prems(1) lens] mset_swapL [OF lens]
        by (simp add: dn)
    qed
  qed
qed

lemma heapUp_last:
  assumes "heap_wf th" and "j < length (th_items th) - 1"
  shows "last (th_items (heapUp j th)) = last (th_items th)"
  using assms
proof (induction j arbitrary: th rule: less_induct)
  case (less j)
  let ?p = "parent j"
  have p: "?p < length (th_items th) - 1" using less.prems(2) parent_le [of j] by simp
  show ?case
  proof (cases "?p = j \<or> \<not> txHeap_Less th j ?p")
    case True
    then show ?thesis by (subst heapUp.simps) simp
  next
    case False
    then have "?p < j" using le_neq_implies_less [OF parent_le] by blast
    moreover have "heap_wf (txHeap_Swap ?p j th)"
      using wf_Swap [OF less.prems(1)] p less.prems(2) by simp
    ultimately have "last (th_items (heapUp ?p (txHeap_Swap ?p j th))) = last (swapL ?p j (th_items th))"
      using less.IH [of ?p "txHeap_Swap ?p j th"] p by simp
    moreover have "last (swapL ?p j (th_items th)) = last (th_items th)"
    proof -
      have ne: "th_items th \<noteq> []" "swapL ?p j (th_items th) \<noteq> []" using p by (auto simp: swapL_def)
      show ?thesis using p less.prems(2) by (simp add: last_conv_nth [OF ne(1)] last_conv_nth [OF ne(2)] nth_swapL)
    qed
    ultimately show ?thesis using False by (subst heapUp.simps) simp
  qed
qed

section \<open>Push and remove\<close>

lemma contents_Push: "\<not> txHeap_Has th (te_id e) \<Longrightarrow>
    contents (txHeap_Push e th) = (contents th)(te_id e \<mapsto> (te_tx e, te_price e))"
  by (auto simp: txHeap_Push_def contents_def fun_eq_iff)

lemma entry_Push: "\<not> txHeap_Has th (te_id e) \<Longrightarrow>
    entry (txHeap_Push e th) x = (if x = te_id e then e else entry th x)"
  by (simp add: txHeap_Push_def entry_def)

lemma heap_Push_ok:
  assumes ok: "heap_ok th" and new: "\<not> txHeap_Has th (te_id e)"
    and ix: "te_index e = length (th_items th)"
  shows "heap_ok (heap_Push e th) \<and> th_isMinHeap (heap_Push e th) = th_isMinHeap th \<and>
    contents (heap_Push e th) = (contents th)(te_id e \<mapsto> (te_tx e, te_price e)) \<and>
    length (th_items (heap_Push e th)) = Suc (length (th_items th))"
proof -
  let ?th = "txHeap_Push e th" and ?n = "length (th_items th)"
  have wf: "heap_wf th" and hp: "prices.heap (th_isMinHeap th) ?n (keys th)"
    using ok by (simp_all add: heap_ok_def)
  have items: "th_items ?th = th_items th @ [te_id e]" and min: "th_isMinHeap ?th = th_isMinHeap th"
    using new by (simp_all add: txHeap_Push_def)
  have fresh: "te_id e \<notin> set (th_items th)"
    using new wf by (auto simp: txHeap_Has_def txHeap_Get_def heap_wf_def)
  have ks: "keys ?th = keys th @ [te_price e]"
    using fresh by (auto simp: keys_def items entry_Push [OF new])
  have wf': "heap_wf ?th"
  proof -
    have "dom (map_of (th_lookup ?th)) = set (th_items ?th)" "mwf (th_lookup ?th)"
      using wf new by (auto simp: heap_wf_def txHeap_Push_def)
    moreover have "te_index (entry ?th (th_items ?th ! k)) = k" if "k < Suc ?n" for k
    proof -
      have "th_items th ! k \<noteq> te_id e" if "k < ?n" using that fresh nth_mem by metis
      then show ?thesis
        using that wf ix by (auto simp: items entry_Push [OF new] nth_append heap_wf_def less_Suc_eq)
    qed
    moreover have "te_id (entry ?th x) = x" if "x \<in> set (th_items ?th)" for x
      using that wf by (auto simp: items entry_Push [OF new] heap_wf_def)
    ultimately show ?thesis using wf fresh by (simp add: heap_wf_def items)
  qed
  have up: "heap_Push e th = heapUp ?n ?th" by (simp add: heap_Push_def txHeap_Len_def items Let_def)
  have sim: "heap_wf (heapUp ?n ?th)" "th_isMinHeap (heapUp ?n ?th) = th_isMinHeap ?th"
    "keys (heapUp ?n ?th) = upL (price_lt (th_isMinHeap ?th)) ?n (keys ?th)"
    "mset (th_items (heapUp ?n ?th)) = mset (th_items ?th)" "contents (heapUp ?n ?th) = contents ?th"
    using heapUp_sim [OF wf', of ?n] by (simp_all add: items)
  have len: "length (th_items (heapUp ?n ?th)) = Suc ?n"
    using arg_cong [OF sim(4), of size] by (simp add: items)
  have "prices.heap (th_isMinHeap th) (Suc ?n) (keys (heapUp ?n ?th))"
    using prices.push_heap [of "th_isMinHeap th" "keys th" "te_price e"] hp by (simp add: sim(3) ks min)
  then show ?thesis
    by (simp add: up heap_ok_def sim min len contents_Push [OF new])
qed

lemma Pop_ok:
  assumes wf: "heap_wf th" and ne: "th_items th \<noteq> []"
    and hp: "prices.heap (th_isMinHeap th) (length (th_items th) - 1) (keys th)"
  shows "heap_ok (snd (txHeap_Pop th)) \<and> th_isMinHeap (snd (txHeap_Pop th)) = th_isMinHeap th \<and>
    fst (txHeap_Pop th) = entry th (last (th_items th)) \<and>
    contents (snd (txHeap_Pop th)) = (contents th)(last (th_items th) := None) \<and>
    length (th_items (snd (txHeap_Pop th))) = length (th_items th) - 1"
proof -
  let ?n = "length (th_items th) - 1" and ?th = "snd (txHeap_Pop th)"
  have last: "last (th_items th) = th_items th ! ?n" using ne by (rule last_conv_nth)
  then have id: "te_id (entry th (th_items th ! ?n)) = last (th_items th)"
    using wf ne by (simp add: heap_wf_def)
  have items: "th_items ?th = take ?n (th_items th)" "th_items th = take ?n (th_items th) @ [last (th_items th)]"
    using append_butlast_last_id [OF ne] by (simp_all add: txHeap_Pop_def Let_def butlast_conv_take)
  have min: "th_isMinHeap ?th = th_isMinHeap th"
    and lookup: "th_lookup ?th = mdel (last (th_items th)) (th_lookup th)"
    using id by (simp_all add: txHeap_Pop_def Let_def)
  have "distinct (take ?n (th_items th) @ [last (th_items th)])"
    using wf unfolding items(2) [symmetric] by (simp add: heap_wf_def)
  then have dist: "distinct (take ?n (th_items th))" "last (th_items th) \<notin> set (take ?n (th_items th))"
    by simp_all
  have ent: "entry ?th x = entry th x" if "x \<in> set (take ?n (th_items th))" for x
    using that dist(2) by (auto simp: entry_def lookup)
  have "dom (map_of (th_lookup ?th)) = set (th_items ?th)"
  proof -
    have "set (th_items th) = insert (last (th_items th)) (set (take ?n (th_items th)))"
      using arg_cong [OF items(2), of set] by simp
    moreover have "dom (map_of (th_lookup ?th)) = dom (map_of (th_lookup th)) - {last (th_items th)}"
      by (auto simp: lookup split: if_splits)
    ultimately show ?thesis using wf dist(2) by (simp add: heap_wf_def items(1))
  qed
  moreover have "mwf (th_lookup ?th)" using wf by (simp add: heap_wf_def lookup)
  moreover have "te_id (entry ?th x) = x" if "x \<in> set (th_items ?th)" for x
  proof -
    have x: "x \<in> set (take ?n (th_items th))" using that by (simp only: items(1))
    then have "x \<in> set (th_items th)" by (rule in_set_takeD)
    then show ?thesis using wf by (simp only: ent [OF x] heap_wf_def)
  qed
  moreover have "te_index (entry ?th (th_items ?th ! k)) = k" if "k < length (th_items ?th)" for k
  proof -
    have "th_items ?th ! k \<in> set (th_items ?th)" using that by (rule nth_mem)
    then have "entry ?th (th_items ?th ! k) = entry th (th_items ?th ! k)"
      by (intro ent) (simp only: items(1))
    moreover have "k < length (th_items th)" "th_items ?th ! k = th_items th ! k"
      using that by (simp_all add: items(1))
    ultimately show ?thesis using wf by (simp add: heap_wf_def)
  qed
  ultimately have "heap_wf ?th" using dist by (simp add: heap_wf_def items(1))
  moreover have "keys ?th = take ?n (keys th)"
  proof -
    have "keys ?th = map (\<lambda>x. te_price (entry th x)) (take ?n (th_items th))"
      unfolding keys_def items(1) by (rule map_cong) (simp_all add: ent)
    then show ?thesis by (simp add: keys_def take_map)
  qed
  then have "prices.heap (th_isMinHeap ?th) ?n (keys ?th)"
    using hp less_trans [OF parent_less] by (simp add: min prices.heap_def)
  moreover have "contents ?th = (contents th)(last (th_items th) := None)"
    by (auto simp: contents_def lookup fun_eq_iff)
  moreover have "fst (txHeap_Pop th) = entry th (last (th_items th))"
    by (simp add: txHeap_Pop_def Let_def last)
  ultimately show ?thesis by (simp add: heap_ok_def items(1) min)
qed

text \<open>\<open>heap.Remove\<close> takes out the entry at \<open>i\<close>, and only it.\<close>

lemma heap_Remove_ok:
  assumes ok: "heap_ok th" and i: "i < length (th_items th)"
  shows "heap_ok (snd (heap_Remove i th)) \<and>
    th_isMinHeap (snd (heap_Remove i th)) = th_isMinHeap th \<and>
    te_tx (fst (heap_Remove i th)) = te_tx (entry th (th_items th ! i)) \<and>
    contents (snd (heap_Remove i th)) = (contents th)(th_items th ! i := None) \<and>
    length (th_items (snd (heap_Remove i th))) = length (th_items th) - 1"
proof -
  let ?n = "length (th_items th) - 1" and ?x = "th_items th ! i" and ?min = "th_isMinHeap th"
  define th1 where "th1 = (if ?n \<noteq> i then
      (case heapDown ?n i (txHeap_Swap i ?n th) of (m, t) \<Rightarrow> if m > i then t else heapUp i t) else th)"
  have wf: "heap_wf th" and hp: "prices.heap ?min (length (keys th)) (keys th)"
    using ok by (simp_all add: heap_ok_def)
  have rm: "heap_Remove i th = txHeap_Pop th1"
    by (simp add: heap_Remove_def th1_def txHeap_Len_def Let_def)
  have "heap_wf th1 \<and> th_isMinHeap th1 = ?min \<and> keys th1 = prices.removeL ?min i (keys th) \<and>
      mset (th_items th1) = mset (th_items th) \<and> contents th1 = contents th \<and> last (th_items th1) = ?x"
  proof (cases "?n = i")
    case True
    moreover have "th_items th \<noteq> []" using i by auto
    ultimately have "last (th_items th) = ?x" using last_conv_nth [of "th_items th"] by simp
    then show ?thesis using True wf by (simp add: th1_def prices.removeL_def)
  next
    case False
    let ?s = "txHeap_Swap i ?n th"
    have lens: "i < length (th_items th)" "?n < length (th_items th)" "i < ?n" using i False by auto
    obtain m t where d: "heapDown ?n i ?s = (m, t)" by fastforce
    have t: "heap_wf t" "th_isMinHeap t = ?min" "(m, keys t) = downL (price_lt ?min) ?n i (keys ?s)"
      "mset (th_items t) = mset (th_items ?s)" "drop ?n (th_items t) = drop ?n (th_items ?s)"
      "contents t = contents th"
      using heapDown_sim [OF wf_Swap [OF wf lens(1,2)], of ?n i] lens d contents_Swap [OF wf lens(1,2)]
      by simp_all
    have lent: "length (th_items t) = length (th_items th)"
      using arg_cong [OF t(4), of size] by simp
    have "last (th_items t) = th_items t ! ?n"
      using lens lent by (metis last_conv_nth less_nat_zero_code list.size(3))
    also have "\<dots> = th_items ?s ! ?n"
      using t(5) lens lent by (metis hd_drop_conv_nth length_swapL Swap_fields(2))
    also have "\<dots> = ?x" using lens by (simp add: nth_swapL)
    finally have last: "last (th_items t) = ?x" .
    have rmL: "prices.removeL ?min i (keys th) = (if i < m then keys t else upL (price_lt ?min) i (keys t))"
      using False t(3) [symmetric] keys_Swap [OF lens(1,2)] by (simp add: prices.removeL_def Let_def)
    show ?thesis
    proof (cases "m > i")
      case True
      then show ?thesis
        using False d t last rmL mset_swapL [OF lens(1,2)] by (simp add: th1_def)
    next
      case False
      have up: "heap_wf (heapUp i t) \<and> th_isMinHeap (heapUp i t) = th_isMinHeap t \<and>
          keys (heapUp i t) = upL (price_lt (th_isMinHeap t)) i (keys t) \<and>
          mset (th_items (heapUp i t)) = mset (th_items t) \<and> contents (heapUp i t) = contents t"
        by (rule heapUp_sim) (use t lens lent in simp_all)
      have "last (th_items (heapUp i t)) = last (th_items t)"
        by (rule heapUp_last) (use t lens lent in simp_all)
      then show ?thesis
        using False \<open>?n \<noteq> i\<close> d t last rmL mset_swapL [OF lens(1,2)] up by (simp add: th1_def)
    qed
  qed
  then have 1: "heap_wf th1" "th_isMinHeap th1 = ?min" "keys th1 = prices.removeL ?min i (keys th)"
    "mset (th_items th1) = mset (th_items th)" "contents th1 = contents th" "last (th_items th1) = ?x"
    by blast+
  have len: "length (th_items th1) = length (th_items th)" using arg_cong [OF 1(4), of size] by simp
  have "prices.heap ?min ?n (keys th1)"
    using prices.remove_heap [OF hp, of i] i by (simp add: 1(3))
  then have pop: "heap_ok (snd (txHeap_Pop th1)) \<and> th_isMinHeap (snd (txHeap_Pop th1)) = th_isMinHeap th1 \<and>
      fst (txHeap_Pop th1) = entry th1 (last (th_items th1)) \<and>
      contents (snd (txHeap_Pop th1)) = (contents th1)(last (th_items th1) := None) \<and>
      length (th_items (snd (txHeap_Pop th1))) = length (th_items th1) - 1"
    using 1(1,2) len i by (intro Pop_ok) auto
  have "?x \<in> dom (map_of (th_lookup th1))" "?x \<in> dom (map_of (th_lookup th))"
    using 1(1,4) wf i by (auto simp: heap_wf_def) (metis mset_eq_setD nth_mem)+
  moreover have "contents th1 ?x = contents th ?x" using 1(5) by simp
  ultimately have "te_tx (entry th1 ?x) = te_tx (entry th ?x)" by (auto simp: contents_def entry_def)
  then show ?thesis using pop 1 len by (simp add: rm)
qed

end
