(* ===== verification/Mempool.thy ===== *)
theory Mempool
  imports TxHeap
begin

text \<open>
  \<open>mempool/mempool.go\<close>: the pool of pending transactions, two heaps over the same
  transactions, one by highest and one by lowest price, a bound on their number, the
  signal to the block builder and the list of transactions to gossip. Each method runs
  under the pool's mutex, so it is one step here.
\<close>

section \<open>State and methods\<close>

text \<open>\<open>mp_Pending\<close>: the channel of capacity one holds an item.\<close>

record Mempool =
  mp_g :: Genesis
  mp_maxSize :: int
  mp_maxHeap :: txHeap
  mp_minHeap :: txHeap
  mp_Pending :: bool
  mp_newTxs :: "Transaction list"

definition Mempool_New :: "Genesis \<Rightarrow> int \<Rightarrow> Mempool" where
  "Mempool_New g maxSize = \<lparr> mp_g = g, mp_maxSize = maxSize, mp_maxHeap = newTxHeap False,
     mp_minHeap = newTxHeap True, mp_Pending = False, mp_newTxs = [] \<rparr>"

definition Mempool_Len :: "Mempool \<Rightarrow> nat" where
  "Mempool_Len th = txHeap_Len (mp_maxHeap th)"

definition Mempool_Has :: "Mempool \<Rightarrow> id \<Rightarrow> bool" where
  "Mempool_Has th i = txHeap_Has (mp_maxHeap th) i"

definition Mempool_Get :: "Mempool \<Rightarrow> id \<Rightarrow> Transaction option" where
  "Mempool_Get th i = map_option te_tx (txHeap_Get (mp_maxHeap th) i)"

definition addPending :: "Mempool \<Rightarrow> Mempool" where
  "addPending th = th\<lparr>mp_Pending := True\<rparr>"

text \<open>\<open>remove\<close>: nil when the id is unknown or the heaps are out of step.\<close>

definition Mempool_remove :: "id \<Rightarrow> Mempool \<Rightarrow> Transaction option \<times> Mempool" where
  "Mempool_remove i th =
     (case txHeap_Get (mp_maxHeap th) i of
        None \<Rightarrow> (None, th)
      | Some maxEntry \<Rightarrow>
          let th1 = th\<lparr>mp_maxHeap := snd (heap_Remove (te_index maxEntry) (mp_maxHeap th))\<rparr> in
          (case txHeap_Get (mp_minHeap th1) i of
             None \<Rightarrow> (None, th1)
           | Some minEntry \<Rightarrow>
               (case heap_Remove (te_index minEntry) (mp_minHeap th1) of
                  (txe, mn) \<Rightarrow> (Some (te_tx txe), th1\<lparr>mp_minHeap := mn\<rparr>))))"

text \<open>The first item of a heap; Go panics when there is none.\<close>

definition heapTop :: "txHeap \<Rightarrow> err + txEntry" where
  "heapTop th = (case th_items th of [] \<Rightarrow> Inl (Panic ''index out of range'') | i # _ \<Rightarrow> Inr (entry th i))"

definition Mempool_popMin :: "Mempool \<Rightarrow> err + (Transaction option \<times> u64) \<times> Mempool" where
  "Mempool_popMin th = bindE (heapTop (mp_minHeap th)) (\<lambda>item.
     case Mempool_remove (te_id item) th of (t, th1) \<Rightarrow> Inr ((t, te_price item), th1))"

definition Mempool_PopMax :: "Mempool \<Rightarrow> err + (Transaction option \<times> u64) \<times> Mempool" where
  "Mempool_PopMax th = bindE (heapTop (mp_maxHeap th)) (\<lambda>item.
     case Mempool_remove (te_id item) th of (t, th1) \<Rightarrow> Inr ((t, te_price item), th1))"

definition Mempool_PeekMax :: "Mempool \<Rightarrow> err + Transaction \<times> u64" where
  "Mempool_PeekMax th = bindE (heapTop (mp_maxHeap th)) (\<lambda>e. Inr (te_tx e, te_price e))"

definition Mempool_PeekMin :: "Mempool \<Rightarrow> err + Transaction \<times> u64" where
  "Mempool_PeekMin th = bindE (heapTop (mp_minHeap th)) (\<lambda>e. Inr (te_tx e, te_price e))"

definition Mempool_Add :: "Transaction \<Rightarrow> Mempool \<Rightarrow> err + bool \<times> Mempool" where
  "Mempool_Add tx th =
     bindE (GetPrice (tx_Unsigned tx)) (\<lambda>price.
       if txHeap_Has (mp_maxHeap th) (tx_id tx) then Inr (False, th)
       else
         let e = \<lparr> te_id = tx_id tx, te_tx = tx, te_price = price, te_index = txHeap_Len (mp_maxHeap th) \<rparr>;
             th1 = th\<lparr>mp_maxHeap := heap_Push e (mp_maxHeap th), mp_minHeap := heap_Push e (mp_minHeap th)\<rparr>;
             accept = (\<lambda>th2. Inr (True, addPending (th2\<lparr>mp_newTxs := mp_newTxs th2 @ [tx]\<rparr>))) in
         if int (txHeap_Len (mp_maxHeap th1)) > mp_maxSize th1 then
           bindE (Mempool_popMin th1) (\<lambda>((t, _), th2).
             case t of
               None \<Rightarrow> Inl (Panic ''nil pointer dereference'')
             | Some lowest \<Rightarrow> if tx_id lowest = tx_id tx then Inr (False, th2) else accept th2)
         else accept th1)"

definition pruneIDs :: "id set \<Rightarrow> txHeap \<Rightarrow> err + id list" where
  "pruneIDs valid h = foldE (\<lambda>i toRemove.
     bindE (GetBlockID (tx_Unsigned (te_tx (entry h i)))) (\<lambda>b.
       Inr (if b \<notin> valid then toRemove @ [te_id (entry h i)] else toRemove))) (th_items h) []"

definition Mempool_Prune :: "id set \<Rightarrow> Mempool \<Rightarrow> err + Mempool" where
  "Mempool_Prune valid th =
     bindE (pruneIDs valid (mp_maxHeap th)) (\<lambda>ids. Inr (fold (\<lambda>i m. snd (Mempool_remove i m)) ids th))"

fun newTxsLoop ::
  "Genesis \<Rightarrow> (id \<Rightarrow> bool) \<Rightarrow> u64 \<Rightarrow> u64 \<Rightarrow> Transaction list \<Rightarrow> Transaction list \<Rightarrow>
   err + Transaction list \<times> Transaction list" where
  "newTxsLoop g has maxUnits units selected [] = Inr (selected, [])"
| "newTxsLoop g has maxUnits units selected (tx # txs) =
     (if \<not> has (tx_id tx) then newTxsLoop g has maxUnits units selected txs
      else
        bindE (LoadUnits g (u_body (tx_Unsigned tx))) (\<lambda>txUnits.
          if txUnits > maxUnits - units then Inr (selected, tx # txs)
          else newTxsLoop g has maxUnits (units + txUnits) (selected @ [tx]) txs))"

definition Mempool_NewTxs :: "u64 \<Rightarrow> Mempool \<Rightarrow> err + Transaction list \<times> Mempool" where
  "Mempool_NewTxs maxUnits th =
     bindE (newTxsLoop (mp_g th) (Mempool_Has th) maxUnits 0 [] (mp_newTxs th)) (\<lambda>(selected, rest).
       Inr (selected, th\<lparr>mp_newTxs := rest\<rparr>))"

section \<open>The invariant\<close>

text \<open>
  Both heaps are heaps over the same transactions, each filed under its own id with its own
  price, and there are no more than the bound.
\<close>

definition filed :: "(id \<Rightarrow> (Transaction \<times> u64) option) \<Rightarrow> bool" where
  "filed c \<longleftrightarrow> (\<forall>i t p. c i = Some (t, p) \<longrightarrow> tx_id t = i \<and> GetPrice (tx_Unsigned t) = Inr p)"

definition mem_sync :: "Mempool \<Rightarrow> bool" where
  "mem_sync th \<longleftrightarrow> heap_ok (mp_maxHeap th) \<and> heap_ok (mp_minHeap th) \<and>
     \<not> th_isMinHeap (mp_maxHeap th) \<and> th_isMinHeap (mp_minHeap th) \<and>
     contents (mp_maxHeap th) = contents (mp_minHeap th) \<and> filed (contents (mp_maxHeap th))"

definition mem_ok :: "Mempool \<Rightarrow> bool" where
  "mem_ok th \<longleftrightarrow> mem_sync th \<and> int (Mempool_Len th) \<le> mp_maxSize th"

text \<open>The pool a mempool stands for.\<close>

definition pool :: "Mempool \<Rightarrow> id \<Rightarrow> (Transaction \<times> u64) option" where
  "pool th = contents (mp_maxHeap th)"

lemma New_ok: "0 \<le> n \<Longrightarrow> mem_ok (Mempool_New g n) \<and> pool (Mempool_New g n) = Map.empty"
  by (simp add: mem_ok_def mem_sync_def Mempool_New_def newTxHeap_def heap_ok_def heap_wf_def Mempool_Len_def
      txHeap_Len_def contents_def filed_def pool_def prices.heap_def fun_eq_iff)

lemma dom_contents: "heap_wf h \<Longrightarrow> dom (contents h) = set (th_items h)"
  by (auto simp: heap_wf_def contents_def dom_def)

lemma len_contents: "heap_ok h \<Longrightarrow> length (th_items h) = card (dom (contents h))"
  using distinct_card [of "th_items h"] by (simp add: heap_ok_def dom_contents heap_wf_def)

lemma Len_card: "mem_sync th \<Longrightarrow> Mempool_Len th = card (dom (pool th))"
  by (simp add: Mempool_Len_def txHeap_Len_def pool_def mem_sync_def len_contents)

lemma len_heaps: "mem_sync th \<Longrightarrow> length (th_items (mp_minHeap th)) = length (th_items (mp_maxHeap th))"
  by (simp add: mem_sync_def len_contents)

lemma Get_contents: "txHeap_Get h i = Some e \<Longrightarrow> contents h i = Some (te_tx e, te_price e)"
  by (simp add: txHeap_Get_def contents_def)

lemma Get_None_contents: "txHeap_Get h i = None \<longleftrightarrow> contents h i = None"
  by (simp add: txHeap_Get_def contents_def)

lemma entry_place:
  assumes "heap_wf h" and "txHeap_Get h i = Some e"
  shows "te_index e < length (th_items h) \<and> th_items h ! te_index e = i"
proof -
  have "i \<in> set (th_items h)" using assms by (auto simp: heap_wf_def txHeap_Get_def)
  then obtain k where k: "k < length (th_items h)" "th_items h ! k = i" by (metis in_set_conv_nth)
  moreover have "entry h i = e" using assms(2) by (simp add: entry_def txHeap_Get_def)
  ultimately show ?thesis using assms(1) by (auto simp: heap_wf_def)
qed

lemma heap_Remove_entry:
  assumes ok: "heap_ok h" and e: "txHeap_Get h i = Some e"
  shows "heap_ok (snd (heap_Remove (te_index e) h)) \<and>
    th_isMinHeap (snd (heap_Remove (te_index e) h)) = th_isMinHeap h \<and>
    te_tx (fst (heap_Remove (te_index e) h)) = te_tx e \<and>
    contents (snd (heap_Remove (te_index e) h)) = (contents h)(i := None) \<and>
    length (th_items (snd (heap_Remove (te_index e) h))) = length (th_items h) - 1"
proof -
  have p: "te_index e < length (th_items h)" "th_items h ! te_index e = i"
    using entry_place ok e by (auto simp: heap_ok_def)
  have "entry h i = e" using e by (simp add: entry_def txHeap_Get_def)
  then show ?thesis using heap_Remove_ok [OF ok p(1)] p(2) by simp
qed

text \<open>Removing keeps the heaps in step and takes out that transaction only.\<close>

lemma remove_ok:
  assumes ok: "mem_sync th"
  shows "mem_sync (snd (Mempool_remove i th)) \<and>
    pool (snd (Mempool_remove i th)) = (pool th)(i := None) \<and>
    fst (Mempool_remove i th) = map_option fst (pool th i) \<and>
    mp_maxSize (snd (Mempool_remove i th)) = mp_maxSize th \<and>
    mp_newTxs (snd (Mempool_remove i th)) = mp_newTxs th \<and> mp_g (snd (Mempool_remove i th)) = mp_g th"
proof (cases "txHeap_Get (mp_maxHeap th) i")
  case None
  then have "pool th i = None" by (simp add: pool_def Get_None_contents)
  then show ?thesis using ok None by (auto simp: Mempool_remove_def fun_eq_iff)
next
  case (Some e)
  have hx: "heap_ok (mp_maxHeap th)" and hn: "heap_ok (mp_minHeap th)"
    and c: "contents (mp_maxHeap th) = contents (mp_minHeap th)"
    and ms: "\<not> th_isMinHeap (mp_maxHeap th)" "th_isMinHeap (mp_minHeap th)" "filed (contents (mp_maxHeap th))"
    using ok by (auto simp: mem_sync_def)
  have "contents (mp_minHeap th) i = Some (te_tx e, te_price e)" using Get_contents [OF Some] c by simp
  then obtain e2 where e2: "txHeap_Get (mp_minHeap th) i = Some e2" and tx: "te_tx e2 = te_tx e"
    by (auto simp: contents_def txHeap_Get_def)
  let ?rx = "heap_Remove (te_index e) (mp_maxHeap th)" and ?rn = "heap_Remove (te_index e2) (mp_minHeap th)"
  note rx = heap_Remove_entry [OF hx Some] and rn = heap_Remove_entry [OF hn e2]
  have eq: "Mempool_remove i th =
      (Some (te_tx (fst ?rn)), th\<lparr>mp_maxHeap := snd ?rx, mp_minHeap := snd ?rn\<rparr>)"
    using Some e2 by (simp add: Mempool_remove_def Let_def split: prod.splits)
  have "filed ((contents (mp_maxHeap th))(i := None))" using ms(3) by (simp add: filed_def)
  then show ?thesis
    using rx rn c ms Get_contents [OF Some] tx by (simp add: eq mem_sync_def pool_def)
qed

text \<open>The first item of a heap has the extreme price.\<close>

lemma heapTop_ok:
  assumes ok: "heap_ok h" and ne: "th_items h \<noteq> []"
  shows "\<exists>e. heapTop h = Inr e \<and> txHeap_Get h (te_id e) = Some e \<and>
    (\<forall>i t p. contents h i = Some (t, p) \<longrightarrow> \<not> price_lt (th_isMinHeap h) p (te_price e))"
proof -
  obtain x xs where items: "th_items h = x # xs" using ne by (auto simp: neq_Nil_conv)
  let ?e = "entry h x"
  have wf: "heap_wf h" and hp: "prices.heap (th_isMinHeap h) (length (th_items h)) (keys h)"
    using ok by (simp_all add: heap_ok_def)
  have id: "te_id ?e = x" using wf items by (simp add: heap_wf_def)
  have "x \<in> dom (map_of (th_lookup h))" using wf items by (simp add: heap_wf_def)
  then have "txHeap_Get h x = Some ?e" by (auto simp: txHeap_Get_def entry_def)
  moreover have "\<not> price_lt (th_isMinHeap h) p (te_price ?e)" if "contents h i = Some (t, p)" for i t p
  proof -
    have "i \<in> set (th_items h)" using that dom_contents [OF wf] by blast
    then obtain k where k: "k < length (th_items h)" "th_items h ! k = i" by (metis in_set_conv_nth)
    have "te_price (entry h i) = p" using that by (auto simp: contents_def entry_def)
    then have "keys h ! k = p" using k by (simp add: keys_def)
    moreover have "keys h ! 0 = te_price ?e" using items by (simp add: keys_def)
    ultimately have "keys h ! k = p" "keys h ! 0 = te_price ?e" by simp_all
    then show ?thesis using prices.heap_root [OF hp k(1)] by simp
  qed
  ultimately show ?thesis using items id by (auto simp: heapTop_def)
qed

text \<open>\<open>PopMax\<close> and \<open>popMin\<close>: a transaction of extreme price leaves the pool.\<close>

lemma pop_ok:
  assumes ok: "mem_sync th" and ne: "Mempool_Len th \<noteq> 0"
  shows "\<exists>t p th'. Mempool_PopMax th = Inr ((Some t, p), th') \<and> mem_sync th' \<and>
      pool th (tx_id t) = Some (t, p) \<and> pool th' = (pool th)(tx_id t := None) \<and>
      (\<forall>i t' p'. pool th i = Some (t', p') \<longrightarrow> p' \<le> p) \<and> mp_maxSize th' = mp_maxSize th"
    and "\<exists>t p th'. Mempool_popMin th = Inr ((Some t, p), th') \<and> mem_sync th' \<and>
      pool th (tx_id t) = Some (t, p) \<and> pool th' = (pool th)(tx_id t := None) \<and>
      (\<forall>i t' p'. pool th i = Some (t', p') \<longrightarrow> p \<le> p') \<and> mp_maxSize th' = mp_maxSize th"
proof -
  have hx: "heap_ok (mp_maxHeap th)" and hn: "heap_ok (mp_minHeap th)"
    and c: "contents (mp_minHeap th) = pool th" and cx: "contents (mp_maxHeap th) = pool th"
    and ms: "\<not> th_isMinHeap (mp_maxHeap th)" "th_isMinHeap (mp_minHeap th)" "filed (pool th)"
    using ok by (auto simp: mem_sync_def pool_def)
  have nx: "th_items (mp_maxHeap th) \<noteq> []" using ne by (simp add: Mempool_Len_def txHeap_Len_def)
  then have nn: "th_items (mp_minHeap th) \<noteq> []" using len_heaps [OF ok] by auto
  obtain e where e: "heapTop (mp_maxHeap th) = Inr e" "txHeap_Get (mp_maxHeap th) (te_id e) = Some e"
    "\<And>i t p. pool th i = Some (t, p) \<Longrightarrow> p \<le> te_price e"
    using heapTop_ok [OF hx nx] ms(1) by (force simp: cx price_lt_def not_less)
  have pe: "pool th (te_id e) = Some (te_tx e, te_price e)" using Get_contents [OF e(2)] by (simp add: cx)
  then have ie: "tx_id (te_tx e) = te_id e" using ms(3) by (simp add: filed_def)
  show "\<exists>t p th'. Mempool_PopMax th = Inr ((Some t, p), th') \<and> mem_sync th' \<and>
      pool th (tx_id t) = Some (t, p) \<and> pool th' = (pool th)(tx_id t := None) \<and>
      (\<forall>i t' p'. pool th i = Some (t', p') \<longrightarrow> p' \<le> p) \<and> mp_maxSize th' = mp_maxSize th"
    using remove_ok [OF ok, of "te_id e"] pe ie e(1,3)
    by (auto simp: Mempool_PopMax_def split: prod.splits)
  obtain f where f: "heapTop (mp_minHeap th) = Inr f" "txHeap_Get (mp_minHeap th) (te_id f) = Some f"
    "\<And>i t p. pool th i = Some (t, p) \<Longrightarrow> te_price f \<le> p"
    using heapTop_ok [OF hn nn] ms(2) by (force simp: c price_lt_def not_less)
  have pf: "pool th (te_id f) = Some (te_tx f, te_price f)" using Get_contents [OF f(2)] by (simp add: c)
  then have iff: "tx_id (te_tx f) = te_id f" using ms(3) by (simp add: filed_def)
  show "\<exists>t p th'. Mempool_popMin th = Inr ((Some t, p), th') \<and> mem_sync th' \<and>
      pool th (tx_id t) = Some (t, p) \<and> pool th' = (pool th)(tx_id t := None) \<and>
      (\<forall>i t' p'. pool th i = Some (t', p') \<longrightarrow> p \<le> p') \<and> mp_maxSize th' = mp_maxSize th"
    using remove_ok [OF ok, of "te_id f"] pf iff f(1,3)
    by (auto simp: Mempool_popMin_def split: prod.splits)
qed

text \<open>
  \<open>Add\<close>: a known transaction is refused; a new one enters, and when the pool is over its
  bound one of the lowest price leaves, which may be the new one.
\<close>

lemma push_both:
  assumes ok: "mem_sync th" and p: "GetPrice (tx_Unsigned tx) = Inr p" and new: "pool th (tx_id tx) = None"
  defines "e \<equiv> \<lparr> te_id = tx_id tx, te_tx = tx, te_price = p, te_index = txHeap_Len (mp_maxHeap th) \<rparr>"
  defines "th1 \<equiv> th\<lparr>mp_maxHeap := heap_Push e (mp_maxHeap th), mp_minHeap := heap_Push e (mp_minHeap th)\<rparr>"
  shows "mem_sync th1 \<and> pool th1 = (pool th)(tx_id tx \<mapsto> (tx, p)) \<and>
    Mempool_Len th1 = Suc (Mempool_Len th) \<and> mp_maxSize th1 = mp_maxSize th"
proof -
  have hx: "heap_ok (mp_maxHeap th)" and hn: "heap_ok (mp_minHeap th)"
    and c: "contents (mp_minHeap th) = contents (mp_maxHeap th)" and fi: "filed (contents (mp_maxHeap th))"
    and ms: "\<not> th_isMinHeap (mp_maxHeap th)" "th_isMinHeap (mp_minHeap th)"
    using ok by (auto simp: mem_sync_def)
  have "contents (mp_maxHeap th) (tx_id tx) = None" using new by (simp add: pool_def)
  then have nx: "\<not> txHeap_Has (mp_maxHeap th) (te_id e)" and nn: "\<not> txHeap_Has (mp_minHeap th) (te_id e)"
    using c Get_None_contents by (simp_all add: txHeap_Has_def e_def)
  note px = heap_Push_ok [OF hx nx] and pn = heap_Push_ok [OF hn nn]
  have ix: "te_index e = length (th_items (mp_maxHeap th))" "te_index e = length (th_items (mp_minHeap th))"
    using len_heaps [OF ok] by (simp_all add: e_def txHeap_Len_def)
  have "filed ((contents (mp_maxHeap th))(te_id e \<mapsto> (te_tx e, te_price e)))"
    using fi p by (simp add: filed_def e_def)
  then show ?thesis
    using px [OF ix(1)] pn [OF ix(2)] ms c
    by (simp add: mem_sync_def pool_def th1_def Mempool_Len_def txHeap_Len_def)
      (simp add: e_def)
qed

lemma Add_ok:
  assumes ok: "mem_ok th" and p: "GetPrice (tx_Unsigned tx) = Inr p"
  shows "\<exists>b th'. Mempool_Add tx th = Inr (b, th') \<and> mem_ok th' \<and>
    (if pool th (tx_id tx) \<noteq> None then \<not> b \<and> th' = th
     else
       let P = (pool th)(tx_id tx \<mapsto> (tx, p)) in
       if int (Mempool_Len th) < mp_maxSize th then b \<and> pool th' = P
       else \<exists>t q. P (tx_id t) = Some (t, q) \<and> (\<forall>i t' q'. P i = Some (t', q') \<longrightarrow> q \<le> q') \<and>
              pool th' = P(tx_id t := None) \<and> b = (tx_id t \<noteq> tx_id tx))"
proof (cases "pool th (tx_id tx) = None")
  case False
  then have "txHeap_Has (mp_maxHeap th) (tx_id tx)"
    by (metis Get_None_contents pool_def txHeap_Has_def)
  then show ?thesis using ok p False by (auto simp: Mempool_Add_def)
next
  case True
  have sync: "mem_sync th" and le: "int (Mempool_Len th) \<le> mp_maxSize th" using ok by (simp_all add: mem_ok_def)
  define e where "e = \<lparr> te_id = tx_id tx, te_tx = tx, te_price = p, te_index = txHeap_Len (mp_maxHeap th) \<rparr>"
  define th1 where "th1 = th\<lparr>mp_maxHeap := heap_Push e (mp_maxHeap th), mp_minHeap := heap_Push e (mp_minHeap th)\<rparr>"
  have both: "mem_sync th1" "pool th1 = (pool th)(tx_id tx \<mapsto> (tx, p))"
    "Mempool_Len th1 = Suc (Mempool_Len th)" "mp_maxSize th1 = mp_maxSize th"
    using push_both [OF sync p True] by (simp_all add: th1_def e_def)
  define acc where "acc th2 = addPending (th2\<lparr>mp_newTxs := mp_newTxs th2 @ [tx]\<rparr>)" for th2
  have acc: "mem_sync (acc t) = mem_sync t" "pool (acc t) = pool t" "Mempool_Len (acc t) = Mempool_Len t"
    "mp_maxSize (acc t) = mp_maxSize t" for t
    by (simp_all add: acc_def addPending_def mem_sync_def pool_def Mempool_Len_def)
  have has: "\<not> txHeap_Has (mp_maxHeap th) (tx_id tx)"
    using True by (metis Get_None_contents pool_def txHeap_Has_def)
  have len1: "txHeap_Len (mp_maxHeap th1) = Suc (Mempool_Len th)" using both by (simp add: Mempool_Len_def)
  have len2: "txHeap_Len (heap_Push e (mp_maxHeap th)) = Suc (Mempool_Len th)" using len1 by (simp add: th1_def)
  have add: "Mempool_Add tx th =
      (if int (Suc (Mempool_Len th)) > mp_maxSize th then
         bindE (Mempool_popMin th1) (\<lambda>((t, _), th2).
             case t of
               None \<Rightarrow> Inl (Panic ''nil pointer dereference'')
             | Some lowest \<Rightarrow> if tx_id lowest = tx_id tx then Inr (False, th2) else Inr (True, acc th2))
       else Inr (True, acc th1))"
    using p has len2 both(4) unfolding Mempool_Add_def Let_def acc_def
    by (simp add: e_def [symmetric] th1_def [symmetric])
  show ?thesis
  proof (cases "int (Mempool_Len th) < mp_maxSize th")
    case True
    then have "Mempool_Add tx th = Inr (True, acc th1)" using add by simp
    moreover have "mem_ok (acc th1)" using True both by (simp add: mem_ok_def acc)
    ultimately show ?thesis using True both \<open>pool th (tx_id tx) = None\<close> by (auto simp: acc Let_def)
  next
    case False
    have "Mempool_Len th1 \<noteq> 0" using both by simp
    then obtain t q th2 where pm: "Mempool_popMin th1 = Inr ((Some t, q), th2)" and s2: "mem_sync th2"
      and pt: "pool th1 (tx_id t) = Some (t, q)" and p2: "pool th2 = (pool th1)(tx_id t := None)"
      and min: "\<forall>i t' q'. pool th1 i = Some (t', q') \<longrightarrow> q \<le> q'" and m2: "mp_maxSize th2 = mp_maxSize th1"
      using pop_ok(2) [OF both(1)] by blast
    have "Mempool_Len th2 = Mempool_Len th"
    proof -
      have "card (dom (pool th2)) = card (dom (pool th1)) - 1"
        using pt by (simp add: p2 dom_fun_upd card_Diff_singleton domI)
      then show ?thesis using both(1,3) s2 Len_card by simp
    qed
    then have ok2: "mem_ok th2" using s2 le m2 both(4) by (simp add: mem_ok_def)
    define b where "b = (tx_id t \<noteq> tx_id tx)"
    define th' where "th' = (if b then acc th2 else th2)"
    define P where "P = (pool th)(tx_id tx \<mapsto> (tx, p))"
    have add2: "Mempool_Add tx th = Inr (b, th')"
      using add False pm by (simp add: b_def th'_def)
    have ok': "mem_ok th'" using ok2 by (simp add: th'_def acc mem_ok_def)
    have pool': "pool th' = P(tx_id t := None)" using p2 both(2) by (simp add: th'_def acc P_def)
    have pt': "P (tx_id t) = Some (t, q)" and min': "\<forall>i t' q'. P i = Some (t', q') \<longrightarrow> q \<le> q'"
      using pt min both(2) by (simp_all add: P_def)
    show ?thesis
      unfolding P_def [symmetric] Let_def
      using add2 ok' pool' pt' min' b_def False \<open>pool th (tx_id tx) = None\<close> by auto
  qed
qed

section \<open>Pruning and gossip\<close>

lemma fold_remove:
  "mem_sync th \<Longrightarrow> mem_sync (fold (\<lambda>i m. snd (Mempool_remove i m)) is th) \<and>
    pool (fold (\<lambda>i m. snd (Mempool_remove i m)) is th) = (\<lambda>i. if i \<in> set is then None else pool th i) \<and>
    mp_maxSize (fold (\<lambda>i m. snd (Mempool_remove i m)) is th) = mp_maxSize th"
proof (induction "is" arbitrary: th)
  case Nil
  then show ?case by simp
next
  case (Cons i "is")
  then show ?case using remove_ok [OF Cons.prems, of i] by (auto simp: fun_eq_iff)
qed

lemma pruneIDs_fold:
  assumes wf: "heap_wf h" and f: "filed (contents h)"
  shows "set is \<subseteq> set (th_items h) \<Longrightarrow>
    \<exists>r. foldE (\<lambda>i toRemove. bindE (GetBlockID (tx_Unsigned (te_tx (entry h i)))) (\<lambda>b.
         Inr (if b \<notin> valid then toRemove @ [te_id (entry h i)] else toRemove))) is acc = Inr r \<and>
      set r = set acc \<union> {i \<in> set is. \<forall>t p. contents h i = Some (t, p) \<longrightarrow>
        (\<forall>b. GetBlockID (tx_Unsigned t) = Inr b \<longrightarrow> b \<notin> valid)}"
proof (induction "is" arbitrary: acc)
  case Nil
  then show ?case by simp
next
  case (Cons i "is")
  have i: "i \<in> set (th_items h)" using Cons.prems by simp
  then have "i \<in> dom (contents h)" using dom_contents [OF wf] by simp
  then have c: "contents h i = Some (te_tx (entry h i), te_price (entry h i))"
    by (auto simp: contents_def entry_def)
  then have "GetPrice (tx_Unsigned (te_tx (entry h i))) = Inr (te_price (entry h i))"
    using f by (simp add: filed_def)
  then obtain b where b: "GetBlockID (tx_Unsigned (te_tx (entry h i))) = Inr b"
    by (auto simp: GetPrice_def GetBlockID_def sm_iff)
  have id: "te_id (entry h i) = i" using wf i by (simp add: heap_wf_def)
  show ?case
    using Cons.IH [of "if b \<notin> valid then acc @ [i] else acc"] Cons.prems b c id by auto
qed

text \<open>\<open>Prune\<close> keeps exactly the transactions whose block id is still valid.\<close>

lemma Prune_ok:
  assumes ok: "mem_ok th"
  shows "\<exists>th'. Mempool_Prune valid th = Inr th' \<and> mem_ok th' \<and>
    (\<forall>i. pool th' i = (case pool th i of None \<Rightarrow> None
       | Some (t, p) \<Rightarrow> if (\<exists>b \<in> valid. GetBlockID (tx_Unsigned t) = Inr b) then Some (t, p) else None))"
proof -
  have sync: "mem_sync th" using ok by (simp add: mem_ok_def)
  have wf: "heap_wf (mp_maxHeap th)" and f: "filed (contents (mp_maxHeap th))"
    using sync by (auto simp: mem_sync_def heap_ok_def)
  obtain r where r: "pruneIDs valid (mp_maxHeap th) = Inr r"
    and set_r: "set r = {i \<in> set (th_items (mp_maxHeap th)). \<forall>t p. contents (mp_maxHeap th) i = Some (t, p) \<longrightarrow>
        (\<forall>b. GetBlockID (tx_Unsigned t) = Inr b \<longrightarrow> b \<notin> valid)}"
    using pruneIDs_fold [OF wf f subset_refl, of valid "[]"] by (auto simp: pruneIDs_def)
  let ?th = "fold (\<lambda>i m. snd (Mempool_remove i m)) r th"
  have fr: "mem_sync ?th" "pool ?th = (\<lambda>i. if i \<in> set r then None else pool th i)" "mp_maxSize ?th = mp_maxSize th"
    using fold_remove [OF sync, of r] by blast+
  have "dom (pool ?th) \<subseteq> dom (pool th)" by (auto simp: fr(2) split: if_splits)
  moreover have "finite (dom (pool th))" using dom_contents [OF wf] by (simp add: pool_def)
  ultimately have "Mempool_Len ?th \<le> Mempool_Len th"
    using Len_card [OF sync] Len_card [OF fr(1)] card_mono by metis
  then have "mem_ok ?th" using ok fr(1,3) by (simp add: mem_ok_def)
  moreover have "pool ?th i = (case pool th i of None \<Rightarrow> None
      | Some (t, p) \<Rightarrow> if (\<exists>b \<in> valid. GetBlockID (tx_Unsigned t) = Inr b) then Some (t, p) else None)" for i
  proof (cases "pool th i")
    case None
    then show ?thesis by (simp add: fr(2))
  next
    case (Some tp)
    then have "i \<in> set (th_items (mp_maxHeap th))" using dom_contents [OF wf] by (auto simp: pool_def)
    moreover obtain t p where tp: "tp = (t, p)" by fastforce
    ultimately have "i \<in> set r \<longleftrightarrow> (\<forall>b. GetBlockID (tx_Unsigned t) = Inr b \<longrightarrow> b \<notin> valid)"
      using Some set_r by (simp add: pool_def)
    then show ?thesis using Some tp by (auto simp: fr(2))
  qed
  ultimately show ?thesis using r by (simp add: Mempool_Prune_def)
qed

text \<open>
  \<open>NewTxs\<close> hands out, in order, transactions that are still in the pool, within the unit
  budget.
\<close>

lemma newTxsLoop_ok:
  assumes "newTxsLoop g has maxUnits units sel txs = Inr (out, rest)" and "units \<le> maxUnits"
  shows "\<exists>more. out = sel @ more \<and> subseq more txs \<and> suffix rest txs \<and> (\<forall>t \<in> set more. has (tx_id t)) \<and>
    (\<forall>t \<in> set more. \<exists>u. LoadUnits g (u_body (tx_Unsigned t)) = Inr u) \<and>
    unat units + (\<Sum>t\<leftarrow>more. case LoadUnits g (u_body (tx_Unsigned t)) of Inr u \<Rightarrow> unat u | Inl _ \<Rightarrow> 0)
      \<le> unat maxUnits"
  using assms
proof (induction g has maxUnits units sel txs rule: newTxsLoop.induct)
  case (1 g has maxUnits units sel)
  then show ?case by (auto simp: word_le_nat_alt)
next
  case (2 g has maxUnits units sel tx txs)
  show ?case
  proof (cases "has (tx_id tx)")
    case False
    then show ?thesis using 2 by (auto simp: suffix_Cons)
  next
    case True
    then obtain u where u: "LoadUnits g (u_body (tx_Unsigned tx)) = Inr u"
      using 2(3) by (auto simp: sm_iff)
    show ?thesis
    proof (cases "u > maxUnits - units")
      case over: True
      then have "out = sel" "rest = tx # txs" using 2(3) True u by simp_all
      then show ?thesis using 2(4) by (auto simp: word_le_nat_alt)
    next
      case fits: False
      have lim: "unat maxUnits < 2 ^ LENGTH(64)" by (rule unsigned_less)
      have sum: "unat (units + u) = unat units + unat u" and le: "units + u \<le> maxUnits"
        using fits 2(4) lim
        by (auto simp: word_le_nat_alt not_less unat_sub_if' unat_plus_if_size word_size)
      obtain more where m: "out = (sel @ [tx]) @ more" "subseq more txs" "suffix rest txs"
        "\<forall>t \<in> set more. has (tx_id t)" "\<forall>t \<in> set more. \<exists>u. LoadUnits g (u_body (tx_Unsigned t)) = Inr u"
        "unat (units + u) + (\<Sum>t\<leftarrow>more. case LoadUnits g (u_body (tx_Unsigned t)) of Inr u \<Rightarrow> unat u | Inl _ \<Rightarrow> 0)
          \<le> unat maxUnits"
        using 2(2) [OF _ fits _ le] 2(3) True u fits by auto
      show ?thesis
        by (rule exI [of _ "tx # more"]) (use m True u sum in \<open>auto simp: suffix_Cons\<close>)
    qed
  qed
qed

end
