(* ===== verification/StakerState.thy ===== *)
theory StakerState
  imports PendingTable Keys
begin

text \<open>
  \<open>chain/stake_status.go\<close>: the stakers of the three roles. A method that receives an unknown
  role gets Go's \<open>nil\<close> maps: reading them finds nothing, writing to them panics.
\<close>

section \<open>State\<close>

definition stakerTypeRoute :: byte where [key_defs]: "stakerTypeRoute = routePrefix"
definition stakerTypeSer :: byte where [key_defs]: "stakerTypeSer = serPrefix"
definition stakerTypeValidator :: byte where [key_defs]: "stakerTypeValidator = validatorPrefix"

definition RouteStake :: u64 where "RouteStake = ucast stakerTypeRoute"
definition SerStake :: u64 where "SerStake = ucast stakerTypeSer"
definition ValidatorStake :: u64 where "ValidatorStake = ucast stakerTypeValidator"

definition StakerTypes :: "byte list" where
  "StakerTypes = [stakerTypeRoute, stakerTypeSer, stakerTypeValidator]"

record StakerMeta =
  stk_TxID :: id
  stk_StakerType :: u64
  stk_StakeAmount :: u64
  stk_StakeTime :: u64
  stk_StakerAddr :: address

record stakerState =
  ss_curRoute :: "(address, StakerMeta) gomap"
  ss_curSer :: "(address, StakerMeta) gomap"
  ss_curValidator :: "(address, StakerMeta) gomap"
  ss_pendingRouteAdd :: "(address, StakerMeta) gomap"
  ss_pendingSerAdd :: "(address, StakerMeta) gomap"
  ss_pendingValidatorAdd :: "(address, StakerMeta) gomap"
  ss_pendingRouteDel :: "(address, StakerMeta) gomap"
  ss_pendingSerDel :: "(address, StakerMeta) gomap"
  ss_pendingValidatorDel :: "(address, StakerMeta) gomap"

definition emptyStakerState :: stakerState where
  "emptyStakerState = \<lparr> ss_curRoute = [], ss_curSer = [], ss_curValidator = [],
     ss_pendingRouteAdd = [], ss_pendingSerAdd = [], ss_pendingValidatorAdd = [],
     ss_pendingRouteDel = [], ss_pendingSerDel = [], ss_pendingValidatorDel = [] \<rparr>"

definition emptyStakerMeta :: StakerMeta where
  "emptyStakerMeta = \<lparr> stk_TxID = 0, stk_StakerType = 0, stk_StakeAmount = 0, stk_StakeTime = 0,
     stk_StakerAddr = 0 \<rparr>"

section \<open>Reading\<close>

definition GetPendingStakers ::
  "stakerState \<Rightarrow> byte \<Rightarrow> err + (address, StakerMeta) gomap \<times> (address, StakerMeta) gomap" where
  "GetPendingStakers s t =
     (if t = stakerTypeSer then Inr (ss_pendingSerAdd s, ss_pendingSerDel s)
      else if t = stakerTypeRoute then Inr (ss_pendingRouteAdd s, ss_pendingRouteDel s)
      else if t = stakerTypeValidator then Inr (ss_pendingValidatorAdd s, ss_pendingValidatorDel s)
      else Inl ErrIDErr)"

definition GetCurStakes :: "stakerState \<Rightarrow> byte \<Rightarrow> err + (address, StakerMeta) gomap" where
  "GetCurStakes s t =
     (if t = stakerTypeSer then Inr (ss_curSer s)
      else if t = stakerTypeRoute then Inr (ss_curRoute s)
      else if t = stakerTypeValidator then Inr (ss_curValidator s)
      else Inl ErrIDErr)"

text \<open>\<open>curMap, _ := s.GetCurStakes(t)\<close>: a nil map when the role is unknown.\<close>

definition curStakes :: "byte \<Rightarrow> stakerState \<Rightarrow> (address, StakerMeta) gomap" where
  "curStakes t s = (case GetCurStakes s t of Inl _ \<Rightarrow> [] | Inr m \<Rightarrow> m)"

definition GetStakersNum :: "stakerState \<Rightarrow> nat \<times> nat \<times> nat" where
  "GetStakersNum s = (length (ss_curRoute s), length (ss_curSer s), length (ss_curValidator s))"

definition IsStaker :: "stakerState \<Rightarrow> address \<Rightarrow> bool \<times> byte" where
  "IsStaker s a =
     (case find (\<lambda>t. map_of (curStakes t s) a \<noteq> None) StakerTypes of
        Some t \<Rightarrow> (True, t) | None \<Rightarrow> (False, 0))"

definition IsRoute :: "stakerState \<Rightarrow> address \<Rightarrow> bool" where
  "IsRoute s a \<longleftrightarrow> map_of (curStakes stakerTypeRoute s) a \<noteq> None"

definition IsSer :: "stakerState \<Rightarrow> address \<Rightarrow> bool" where
  "IsSer s a \<longleftrightarrow> map_of (curStakes stakerTypeSer s) a \<noteq> None"

definition IsValidator :: "stakerState \<Rightarrow> address \<Rightarrow> bool" where
  "IsValidator s a \<longleftrightarrow> map_of (curStakes stakerTypeValidator s) a \<noteq> None"

definition GetStakerMeta :: "stakerState \<Rightarrow> byte \<Rightarrow> address \<Rightarrow> StakerMeta option" where
  "GetStakerMeta s t a = map_of (curStakes t s) a"

definition GetStakers :: "stakerState \<Rightarrow> byte \<Rightarrow> StakerMeta list" where
  "GetStakers s t = map snd (curStakes t s)"

section \<open>Writing\<close>

text \<open>The maps that \<open>GetPendingStakers\<close> and \<open>GetCurStakes\<close> handed out, written through.\<close>

definition setPendingStakers ::
  "byte \<Rightarrow> (address, StakerMeta) gomap \<times> (address, StakerMeta) gomap \<Rightarrow> stakerState \<Rightarrow> stakerState" where
  "setPendingStakers t p s =
     (if t = stakerTypeSer then s\<lparr>ss_pendingSerAdd := fst p, ss_pendingSerDel := snd p\<rparr>
      else if t = stakerTypeRoute then s\<lparr>ss_pendingRouteAdd := fst p, ss_pendingRouteDel := snd p\<rparr>
      else if t = stakerTypeValidator then
        s\<lparr>ss_pendingValidatorAdd := fst p, ss_pendingValidatorDel := snd p\<rparr>
      else s)"

definition setCurStakes :: "byte \<Rightarrow> (address, StakerMeta) gomap \<Rightarrow> stakerState \<Rightarrow> stakerState" where
  "setCurStakes t m s =
     (if t = stakerTypeSer then s\<lparr>ss_curSer := m\<rparr>
      else if t = stakerTypeRoute then s\<lparr>ss_curRoute := m\<rparr>
      else if t = stakerTypeValidator then s\<lparr>ss_curValidator := m\<rparr>
      else s)"

definition pendStaker :: "byte \<Rightarrow> address \<Rightarrow> StakerMeta \<Rightarrow> stakerState \<Rightarrow> stakerState" where
  "pendStaker t a staker s =
     (case GetPendingStakers s t of
        Inl _ \<Rightarrow> s
      | Inr (add, del) \<Rightarrow> setPendingStakers t (mput a staker add, mdel a del) s)"

definition dropStaker :: "byte \<Rightarrow> address \<Rightarrow> stakerState \<Rightarrow> stakerState" where
  "dropStaker t a s =
     (case GetPendingStakers s t of
        Inl _ \<Rightarrow> s
      | Inr (add, del) \<Rightarrow> setPendingStakers t (mdel a add, mput a emptyStakerMeta del) s)"

definition storeStaker ::
  "'db dbops \<Rightarrow> StakerMeta codec \<Rightarrow> byte \<Rightarrow> address \<Rightarrow> StakerMeta \<Rightarrow> ('db \<times> stakerState, unit) sm" where
  "storeStaker D C t a staker =
     bindS (modC (pendStaker t a staker)) (\<lambda>_.
     bindS (liftS (enc C staker)) (dbPut D (PrefixStaker4Key t a)))"

definition PutStaker ::
  "'db dbops \<Rightarrow> StakerMeta codec \<Rightarrow> StakerMeta \<Rightarrow> ('db \<times> stakerState, unit) sm" where
  "PutStaker D C staker =
     (let t = ucast (stk_StakerType staker) in
      if t \<in> set StakerTypes then storeStaker D C t (stk_StakerAddr staker) staker
      else throwS (Panic ''assignment to entry in nil map''))"

definition DelStaker :: "'db dbops \<Rightarrow> byte \<Rightarrow> address \<Rightarrow> ('db \<times> stakerState, unit) sm" where
  "DelStaker D t a =
     (if t \<in> set StakerTypes then
        bindS (modC (dropStaker t a)) (\<lambda>_. dbDelete D (PrefixStaker4Key t a))
      else throwS (Panic ''assignment to entry in nil map''))"

definition ReloadStakers :: "'db dbops \<Rightarrow> StakerMeta codec \<Rightarrow> 'db \<Rightarrow> (stakerState, unit) sm" where
  "ReloadStakers D C d = forS StakerTypes (\<lambda>t.
     zoomS (curStakes t) (setCurStakes t)
       (reloadLoop (dec C) (\<lambda>v. mput (stk_StakerAddr v) v) (db_IterPrefix D d (baseStakerPrefix t))))"

definition NewStakerState :: "'db dbops \<Rightarrow> StakerMeta codec \<Rightarrow> 'db \<Rightarrow> (err + unit) \<times> stakerState" where
  "NewStakerState D C d = ReloadStakers D C d emptyStakerState"

section \<open>Commit and abort\<close>

definition commitStakers :: "byte \<Rightarrow> stakerState \<Rightarrow> stakerState" where
  "commitStakers t s =
     (case GetPendingStakers s t of
        Inl _ \<Rightarrow> s
      | Inr (add, del) \<Rightarrow>
          setPendingStakers t (clearLoop add, clearLoop del)
            (setCurStakes t (delLoop del (addLoop add (curStakes t s))) s))"

definition abortStakers :: "byte \<Rightarrow> stakerState \<Rightarrow> stakerState" where
  "abortStakers t s =
     (case GetPendingStakers s t of
        Inl _ \<Rightarrow> s
      | Inr (add, del) \<Rightarrow> setPendingStakers t (clearLoop add, clearLoop del) s)"

definition CacheStakersCommit :: "stakerState \<Rightarrow> stakerState" where
  "CacheStakersCommit s = fold commitStakers StakerTypes s"

definition CacheStakersAbort :: "stakerState \<Rightarrow> stakerState" where
  "CacheStakersAbort s = fold abortStakers StakerTypes s"

section \<open>The three tables\<close>

lemmas staker_defs = StakerTypes_def GetPendingStakers_def GetCurStakes_def curStakes_def
  setPendingStakers_def setCurStakes_def pendStaker_def dropStaker_def storeStaker_def DelStaker_def
  commitStakers_def abortStakers_def CacheStakersCommit_def CacheStakersAbort_def

lemma staker_types_distinct [simp]:
  "stakerTypeRoute \<noteq> stakerTypeSer" "stakerTypeSer \<noteq> stakerTypeRoute"
  "stakerTypeRoute \<noteq> stakerTypeValidator" "stakerTypeValidator \<noteq> stakerTypeRoute"
  "stakerTypeSer \<noteq> stakerTypeValidator" "stakerTypeValidator \<noteq> stakerTypeSer"
  by (simp_all add: key_defs)

lemma curStakes_simps [simp]:
  "curStakes stakerTypeRoute = ss_curRoute"
  "curStakes stakerTypeSer = ss_curSer"
  "curStakes stakerTypeValidator = ss_curValidator"
  by (simp_all add: fun_eq_iff curStakes_def GetCurStakes_def)

lemma Staker4Key_inject: "PrefixStaker4Key t a = PrefixStaker4Key t' a' \<longleftrightarrow> t = t' \<and> a = a'"
  by (simp add: key_defs)

interpretation routes: stored_table ss_curRoute ss_pendingRouteAdd ss_pendingRouteDel
  "pendStaker stakerTypeRoute" "dropStaker stakerTypeRoute" CacheStakersCommit CacheStakersAbort
  D C "PrefixStaker4Key stakerTypeRoute" "storeStaker D C stakerTypeRoute" "DelStaker D stakerTypeRoute"
  for D C
  by unfold_locales (auto simp: staker_defs Staker4Key_inject)

interpretation sers: stored_table ss_curSer ss_pendingSerAdd ss_pendingSerDel
  "pendStaker stakerTypeSer" "dropStaker stakerTypeSer" CacheStakersCommit CacheStakersAbort
  D C "PrefixStaker4Key stakerTypeSer" "storeStaker D C stakerTypeSer" "DelStaker D stakerTypeSer"
  for D C
  by unfold_locales (auto simp: staker_defs Staker4Key_inject)

interpretation validators: stored_table ss_curValidator ss_pendingValidatorAdd ss_pendingValidatorDel
  "pendStaker stakerTypeValidator" "dropStaker stakerTypeValidator" CacheStakersCommit CacheStakersAbort
  D C "PrefixStaker4Key stakerTypeValidator" "storeStaker D C stakerTypeValidator"
  "DelStaker D stakerTypeValidator"
  for D C
  by unfold_locales (auto simp: staker_defs Staker4Key_inject)

end
