(* ===== verification/PowState.thy ===== *)
theory PowState
  imports PendingTable Keys
begin

text \<open>
  \<open>chain/pow_status.go\<close>: the proofs of work of the two miner roles. The switch of
  \<open>GetPendingPow\<close> hands the route maps to the ser role and the ser maps to the route role;
  every method goes through it, so the two pending tables are swapped consistently. As for
  the stakers, an unknown role gets nil maps: reading finds nothing, writing panics.
\<close>

section \<open>State\<close>

definition powTypeSer :: byte where [key_defs]: "powTypeSer = serPrefix"
definition powTypeRoute :: byte where [key_defs]: "powTypeRoute = routePrefix"

definition powTypes :: "byte list" where
  "powTypes = [powTypeSer, powTypeRoute]"

record ProofMeta =
  pr_Netflow :: u64
  pr_WorkTime :: u64
  pr_Miner :: address
  pr_TxID :: id
  pr_UpdateTime :: u64

record PowMeta =
  pow_PowType :: u64
  pow_TotalTime :: u64
  pow_Totalflow :: u64
  pow_LastUpdateTime :: u64
  pow_LastUpdateTXID :: id
  pow_Miner :: address

record powState =
  ps_updateTime :: u64
  ps_curSer :: "(address, PowMeta) gomap"
  ps_curRoute :: "(address, PowMeta) gomap"
  ps_pendingRouteAdd :: "(address, PowMeta) gomap"
  ps_pendingSerAdd :: "(address, PowMeta) gomap"
  ps_pendingRouteDel :: "(address, PowMeta) gomap"
  ps_pendingSerDel :: "(address, PowMeta) gomap"

definition emptyPowState :: powState where
  "emptyPowState = \<lparr> ps_updateTime = 0, ps_curSer = [], ps_curRoute = [],
     ps_pendingRouteAdd = [], ps_pendingSerAdd = [], ps_pendingRouteDel = [], ps_pendingSerDel = [] \<rparr>"

definition emptyPowMeta :: PowMeta where
  "emptyPowMeta = \<lparr> pow_PowType = 0, pow_TotalTime = 0, pow_Totalflow = 0, pow_LastUpdateTime = 0,
     pow_LastUpdateTXID = 0, pow_Miner = 0 \<rparr>"

section \<open>Reading\<close>

definition GetPendingPow ::
  "powState \<Rightarrow> byte \<Rightarrow> err + (address, PowMeta) gomap \<times> (address, PowMeta) gomap" where
  "GetPendingPow f t =
     (if t = powTypeSer then Inr (ps_pendingRouteAdd f, ps_pendingRouteDel f)
      else if t = powTypeRoute then Inr (ps_pendingSerAdd f, ps_pendingSerDel f)
      else Inl ErrIDErr)"

definition GetCurPow :: "powState \<Rightarrow> byte \<Rightarrow> err + (address, PowMeta) gomap" where
  "GetCurPow f t =
     (if t = powTypeSer then Inr (ps_curSer f)
      else if t = powTypeRoute then Inr (ps_curRoute f)
      else Inl ErrIDErr)"

text \<open>The maps with the error dropped: nil for an unknown role.\<close>

definition curPow :: "byte \<Rightarrow> powState \<Rightarrow> (address, PowMeta) gomap" where
  "curPow t f = (case GetCurPow f t of Inl _ \<Rightarrow> [] | Inr m \<Rightarrow> m)"

definition pendingPowAdd :: "byte \<Rightarrow> powState \<Rightarrow> (address, PowMeta) gomap" where
  "pendingPowAdd t f = (case GetPendingPow f t of Inl _ \<Rightarrow> [] | Inr (add, _) \<Rightarrow> add)"

definition pendingPowDel :: "byte \<Rightarrow> powState \<Rightarrow> (address, PowMeta) gomap" where
  "pendingPowDel t f = (case GetPendingPow f t of Inl _ \<Rightarrow> [] | Inr (_, del) \<Rightarrow> del)"

definition GetPowMeta :: "powState \<Rightarrow> byte \<Rightarrow> address \<Rightarrow> PowMeta option" where
  "GetPowMeta f t a = map_of (curPow t f) a"

definition GetPows :: "powState \<Rightarrow> byte \<Rightarrow> PowMeta list" where
  "GetPows f t = map snd (curPow t f)"

definition TotalPowTime :: "powState \<Rightarrow> byte \<Rightarrow> u64" where
  "TotalPowTime f t = foldl (\<lambda>total p. total + pow_TotalTime (snd p)) 0 (curPow t f)"

section \<open>Writing\<close>

definition setPendingPow ::
  "byte \<Rightarrow> (address, PowMeta) gomap \<times> (address, PowMeta) gomap \<Rightarrow> powState \<Rightarrow> powState" where
  "setPendingPow t p f =
     (if t = powTypeSer then f\<lparr>ps_pendingRouteAdd := fst p, ps_pendingRouteDel := snd p\<rparr>
      else if t = powTypeRoute then f\<lparr>ps_pendingSerAdd := fst p, ps_pendingSerDel := snd p\<rparr>
      else f)"

definition setCurPow :: "byte \<Rightarrow> (address, PowMeta) gomap \<Rightarrow> powState \<Rightarrow> powState" where
  "setCurPow t m f =
     (if t = powTypeSer then f\<lparr>ps_curSer := m\<rparr>
      else if t = powTypeRoute then f\<lparr>ps_curRoute := m\<rparr>
      else f)"

definition undelPow :: "byte \<Rightarrow> address \<Rightarrow> powState \<Rightarrow> powState" where
  "undelPow t a f = setPendingPow t (pendingPowAdd t f, mdel a (pendingPowDel t f)) f"

definition addPow :: "byte \<Rightarrow> address \<Rightarrow> PowMeta \<Rightarrow> powState \<Rightarrow> powState" where
  "addPow t a m f = setPendingPow t (mput a m (pendingPowAdd t f), pendingPowDel t f) f"

definition dropPow :: "byte \<Rightarrow> address \<Rightarrow> powState \<Rightarrow> powState" where
  "dropPow t a f =
     setPendingPow t (mdel a (pendingPowAdd t f), mput a emptyPowMeta (pendingPowDel t f)) f"

text \<open>
  The entry \<open>PutPow\<close> files: the pending one of the miner with the proof added, else the
  committed one with the proof added, whose type must be the role's, else a fresh one.
\<close>

definition accumPow :: "powState \<Rightarrow> byte \<Rightarrow> ProofMeta \<Rightarrow> err + PowMeta" where
  "accumPow f t proof =
     (case map_of (pendingPowAdd t f) (pr_Miner proof) of
        Some p \<Rightarrow> Inr (p\<lparr>pow_Totalflow := pow_Totalflow p + pr_Netflow proof,
                         pow_TotalTime := pow_TotalTime p + pr_WorkTime proof,
                         pow_LastUpdateTXID := pr_TxID proof,
                         pow_LastUpdateTime := pr_UpdateTime proof\<rparr>)
      | None \<Rightarrow>
          (case map_of (curPow t f) (pr_Miner proof) of
             Some c \<Rightarrow>
               if pow_PowType c \<noteq> ucast t then Inl (Errorf ''pow type err'')
               else Inr \<lparr> pow_PowType = ucast t,
                          pow_TotalTime = pow_TotalTime c + pr_WorkTime proof,
                          pow_Totalflow = pow_Totalflow c + pr_Netflow proof,
                          pow_LastUpdateTime = pr_UpdateTime proof,
                          pow_LastUpdateTXID = pr_TxID proof,
                          pow_Miner = pr_Miner proof \<rparr>
           | None \<Rightarrow>
               Inr \<lparr> pow_PowType = ucast t, pow_TotalTime = pr_WorkTime proof,
                     pow_Totalflow = pr_Netflow proof, pow_LastUpdateTime = pr_UpdateTime proof,
                     pow_LastUpdateTXID = pr_TxID proof, pow_Miner = pr_Miner proof \<rparr>))"

definition PutPow ::
  "'db dbops \<Rightarrow> PowMeta codec \<Rightarrow> byte \<Rightarrow> ProofMeta \<Rightarrow> ('db \<times> powState, unit) sm" where
  "PutPow D C t proof =
     (if t \<notin> set powTypes then throwS (Panic ''assignment to entry in nil map'')
      else
        bindS (modC (undelPow t (pr_Miner proof))) (\<lambda>_.
        bindS (getC (\<lambda>f. accumPow f t proof)) (\<lambda>r.
        bindS (liftS r) (\<lambda>m.
        bindS (modC (addPow t (pr_Miner proof) m)) (\<lambda>_.
        bindS (liftS (enc C m)) (dbPut D (PrefixPowKey t (pr_Miner proof))))))))"

definition DelPow :: "'db dbops \<Rightarrow> byte \<Rightarrow> address \<Rightarrow> ('db \<times> powState, unit) sm" where
  "DelPow D t a =
     (if t \<in> set powTypes then
        bindS (modC (dropPow t a)) (\<lambda>_. dbDelete D (PrefixPowKey t a))
      else throwS (Panic ''assignment to entry in nil map''))"

definition ReloadPows :: "'db dbops \<Rightarrow> PowMeta codec \<Rightarrow> 'db \<Rightarrow> (powState, unit) sm" where
  "ReloadPows D C d = forS powTypes (\<lambda>t.
     zoomS (curPow t) (setCurPow t)
       (reloadLoop (dec C) (\<lambda>v. mput (pow_Miner v) v) (db_IterPrefix D d (basePowPrefix t))))"

definition NewPowState :: "'db dbops \<Rightarrow> PowMeta codec \<Rightarrow> 'db \<Rightarrow> (err + unit) \<times> powState" where
  "NewPowState D C d = ReloadPows D C d emptyPowState"

section \<open>Commit and abort\<close>

definition commitPows :: "byte \<Rightarrow> powState \<Rightarrow> powState" where
  "commitPows t f =
     setPendingPow t (clearLoop (pendingPowAdd t f), clearLoop (pendingPowDel t f))
       (setCurPow t (delLoop (pendingPowDel t f) (addLoop (pendingPowAdd t f) (curPow t f))) f)"

definition abortPows :: "byte \<Rightarrow> powState \<Rightarrow> powState" where
  "abortPows t f = setPendingPow t (clearLoop (pendingPowAdd t f), clearLoop (pendingPowDel t f)) f"

definition CachePowsCommit :: "powState \<Rightarrow> powState" where
  "CachePowsCommit f = fold commitPows powTypes f"

definition CachePowsAbort :: "powState \<Rightarrow> powState" where
  "CachePowsAbort f = fold abortPows powTypes f"

section \<open>The two tables\<close>

definition pendPow :: "byte \<Rightarrow> address \<Rightarrow> PowMeta \<Rightarrow> powState \<Rightarrow> powState" where
  "pendPow t a m f = addPow t a m (undelPow t a f)"

definition storePow ::
  "'db dbops \<Rightarrow> PowMeta codec \<Rightarrow> byte \<Rightarrow> address \<Rightarrow> PowMeta \<Rightarrow> ('db \<times> powState, unit) sm" where
  "storePow D C t a m =
     bindS (modC (pendPow t a m)) (\<lambda>_. bindS (liftS (enc C m)) (dbPut D (PrefixPowKey t a)))"

lemmas pow_defs = powTypes_def GetPendingPow_def GetCurPow_def curPow_def pendingPowAdd_def
  pendingPowDel_def setPendingPow_def setCurPow_def undelPow_def addPow_def dropPow_def pendPow_def
  storePow_def DelPow_def commitPows_def abortPows_def CachePowsCommit_def CachePowsAbort_def

lemma pow_types_distinct [simp]: "powTypeRoute \<noteq> powTypeSer" "powTypeSer \<noteq> powTypeRoute"
  by (simp_all add: key_defs)

lemma curPow_simps [simp]: "curPow powTypeRoute = ps_curRoute" "curPow powTypeSer = ps_curSer"
  by (simp_all add: fun_eq_iff curPow_def GetCurPow_def)

lemma PowKey_inject: "PrefixPowKey t a = PrefixPowKey t' a' \<longleftrightarrow> t = t' \<and> a = a'"
  by (simp add: key_defs)

interpretation serPows: stored_table ps_curSer ps_pendingRouteAdd ps_pendingRouteDel
  "pendPow powTypeSer" "dropPow powTypeSer" CachePowsCommit CachePowsAbort
  D C "PrefixPowKey powTypeSer" "storePow D C powTypeSer" "DelPow D powTypeSer"
  for D C
  by unfold_locales (auto simp: pow_defs PowKey_inject)

interpretation routePows: stored_table ps_curRoute ps_pendingSerAdd ps_pendingSerDel
  "pendPow powTypeRoute" "dropPow powTypeRoute" CachePowsCommit CachePowsAbort
  D C "PrefixPowKey powTypeRoute" "storePow D C powTypeRoute" "DelPow D powTypeRoute"
  for D C
  by unfold_locales (auto simp: pow_defs PowKey_inject)

text \<open>A proof that is accepted files the accumulated entry.\<close>

lemma accumPow_undel [simp]: "accumPow (undelPow t a f) t proof = accumPow f t proof"
  by (simp add: accumPow_def pow_defs split: option.splits)

lemma PutPow_iff: "PutPow D C t proof (d, f) = (Inr u, w) \<longleftrightarrow>
    t \<in> set powTypes \<and>
    (\<exists>m. accumPow f t proof = Inr m \<and> storePow D C t (pr_Miner proof) m (d, f) = (Inr u, w))"
  by (auto simp: PutPow_def storePow_def pendPow_def sm_iff)

text \<open>The sum of the work times, whatever the order in which \<open>range\<close> visits the map.\<close>

lemma TotalPowTime_sum_list: "TotalPowTime f t = sum_list (map (pow_TotalTime \<circ> snd) (curPow t f))"
proof -
  have "foldl (\<lambda>total p. total + pow_TotalTime (snd p)) n m = n + sum_list (map (pow_TotalTime \<circ> snd) m)"
    for n m
    by (induction m arbitrary: n) (auto simp: add.assoc)
  from this [of 0] show ?thesis by (simp add: TotalPowTime_def)
qed

end
