(* ===== verification/RewardState.thy ===== *)
theory RewardState
  imports PendingTable Keys
begin

text \<open>
  \<open>chain/reward_status.go\<close>: the rewards of each address and the global record of the last
  distribution. The global record is written to the database only; the pending copy that
  \<open>CacheRewardsCommit\<close> would publish is set by no operation.
\<close>

section \<open>State\<close>

record RewardGlobal =
  rg_LastOprTime :: u64
  rg_LastOprTXID :: id

record RewardMeta =
  rw_YieldReward :: u64
  rw_BaseReward :: u64
  rw_MeritReward :: u64
  rw_LastOprTime :: u64
  rw_LastOprTXID :: id
  rw_LastClaimTime :: u64
  rw_LastClaimTXID :: id
  rw_RewardAddr :: address

record rewardState =
  rs_curGlobal :: RewardGlobal
  rs_pendigGlobal :: RewardGlobal
  rs_curRewards :: "(address, RewardMeta) gomap"
  rs_pendingRewardsAdd :: "(address, RewardMeta) gomap"
  rs_pendingRewardsDel :: "(address, RewardMeta) gomap"

definition emptyRewardGlobal :: RewardGlobal where
  "emptyRewardGlobal = \<lparr> rg_LastOprTime = 0, rg_LastOprTXID = 0 \<rparr>"

definition emptyRewardMeta :: RewardMeta where
  "emptyRewardMeta = \<lparr> rw_YieldReward = 0, rw_BaseReward = 0, rw_MeritReward = 0, rw_LastOprTime = 0,
     rw_LastOprTXID = 0, rw_LastClaimTime = 0, rw_LastClaimTXID = 0, rw_RewardAddr = 0 \<rparr>"

definition emptyRewardState :: rewardState where
  "emptyRewardState = \<lparr> rs_curGlobal = emptyRewardGlobal, rs_pendigGlobal = emptyRewardGlobal,
     rs_curRewards = [], rs_pendingRewardsAdd = [], rs_pendingRewardsDel = [] \<rparr>"

section \<open>Operations\<close>

definition GetLastUpdateTime :: "rewardState \<Rightarrow> u64" where
  "GetLastUpdateTime r =
     (if rg_LastOprTime (rs_pendigGlobal r) > rg_LastOprTime (rs_curGlobal r)
      then rg_LastOprTime (rs_pendigGlobal r) else rg_LastOprTime (rs_curGlobal r))"

definition GetLastClaimTime :: "rewardState \<Rightarrow> address \<Rightarrow> u64" where
  "GetLastClaimTime r a =
     (case map_of (rs_curRewards r) a of None \<Rightarrow> 0 | Some m \<Rightarrow> rw_LastClaimTime m)"

definition GetRewardMeta :: "rewardState \<Rightarrow> address \<Rightarrow> RewardMeta option" where
  "GetRewardMeta r a = map_of (rs_curRewards r) a"

definition GetRewards :: "rewardState \<Rightarrow> RewardMeta list" where
  "GetRewards r = map snd (rs_curRewards r)"

definition pendReward :: "address \<Rightarrow> RewardMeta \<Rightarrow> rewardState \<Rightarrow> rewardState" where
  "pendReward a m r = r\<lparr>rs_pendingRewardsDel := mdel a (rs_pendingRewardsDel r),
     rs_pendingRewardsAdd := mput a m (rs_pendingRewardsAdd r)\<rparr>"

definition dropReward :: "address \<Rightarrow> rewardState \<Rightarrow> rewardState" where
  "dropReward a r = r\<lparr>rs_pendingRewardsAdd := mdel a (rs_pendingRewardsAdd r),
     rs_pendingRewardsDel := mput a emptyRewardMeta (rs_pendingRewardsDel r)\<rparr>"

definition storeReward ::
  "'db dbops \<Rightarrow> RewardMeta codec \<Rightarrow> address \<Rightarrow> RewardMeta \<Rightarrow> ('db \<times> rewardState, unit) sm" where
  "storeReward D C a m =
     bindS (modC (pendReward a m)) (\<lambda>_. bindS (liftS (enc C m)) (dbPut D (PrefixRewardKey a)))"

definition UpdateOwner ::
  "'db dbops \<Rightarrow> RewardMeta codec \<Rightarrow> RewardMeta \<Rightarrow> ('db \<times> rewardState, unit) sm" where
  "UpdateOwner D C m = storeReward D C (rw_RewardAddr m) m"

definition UpdateGlobal ::
  "'db dbops \<Rightarrow> RewardGlobal codec \<Rightarrow> RewardGlobal \<Rightarrow> ('db \<times> rewardState, unit) sm" where
  "UpdateGlobal D CG g = bindS (liftS (enc CG g)) (dbPut D RewardGlobalPrefix)"

definition UpdateReward ::
  "'db dbops \<Rightarrow> RewardMeta codec \<Rightarrow> RewardGlobal codec \<Rightarrow> RewardGlobal \<Rightarrow> RewardMeta \<Rightarrow>
   ('db \<times> rewardState, unit) sm" where
  "UpdateReward D C CG g m =
     bindS (storeReward D C (rw_RewardAddr m) m) (\<lambda>_.
     bindS (liftS (enc CG g)) (dbPut D RewardGlobalPrefix))"

definition DelReward :: "'db dbops \<Rightarrow> address \<Rightarrow> ('db \<times> rewardState, unit) sm" where
  "DelReward D a = bindS (modC (dropReward a)) (\<lambda>_. dbDelete D (PrefixRewardKey a))"

definition ReloadRewards ::
  "'db dbops \<Rightarrow> RewardMeta codec \<Rightarrow> RewardGlobal codec \<Rightarrow> 'db \<Rightarrow> (rewardState, unit) sm" where
  "ReloadRewards D C CG d =
     bindS (zoomS rs_curRewards (\<lambda>m r. r\<lparr>rs_curRewards := m\<rparr>)
       (reloadLoop (dec C) (\<lambda>v. mput (rw_RewardAddr v) v) (db_IterPrefix D d baseRewardPrefix))) (\<lambda>_.
     (case db_Get D d RewardGlobalPrefix of
        Inl e \<Rightarrow> if e = ErrNotFound then retS () else throwS e
      | Inr b \<Rightarrow> bindS (liftS (dec CG b)) (\<lambda>g. modS (\<lambda>r. r\<lparr>rs_curGlobal := g\<rparr>))))"

definition NewRewardState ::
  "'db dbops \<Rightarrow> RewardMeta codec \<Rightarrow> RewardGlobal codec \<Rightarrow> 'db \<Rightarrow> (err + unit) \<times> rewardState" where
  "NewRewardState D C CG d = ReloadRewards D C CG d emptyRewardState"

definition CacheRewardsCommit :: "rewardState \<Rightarrow> rewardState" where
  "CacheRewardsCommit r =
     (let r1 = r\<lparr>rs_curRewards :=
                   delLoop (rs_pendingRewardsDel r) (addLoop (rs_pendingRewardsAdd r) (rs_curRewards r)),
                 rs_pendingRewardsAdd := clearLoop (rs_pendingRewardsAdd r),
                 rs_pendingRewardsDel := clearLoop (rs_pendingRewardsDel r)\<rparr> in
      if rg_LastOprTime (rs_pendigGlobal r1) \<noteq> 0
      then r1\<lparr>rs_curGlobal := rs_pendigGlobal r1,
              rs_pendigGlobal := (rs_pendigGlobal r1)\<lparr>rg_LastOprTime := 0, rg_LastOprTXID := 0\<rparr>\<rparr>
      else r1)"

definition CacheRewardsAbort :: "rewardState \<Rightarrow> rewardState" where
  "CacheRewardsAbort r =
     r\<lparr>rs_pendingRewardsAdd := clearLoop (rs_pendingRewardsAdd r),
       rs_pendingRewardsDel := clearLoop (rs_pendingRewardsDel r),
       rs_pendigGlobal := (rs_pendigGlobal r)\<lparr>rg_LastOprTime := 0, rg_LastOprTXID := 0\<rparr>\<rparr>"

section \<open>The table\<close>

lemma RewardKey_inject: "PrefixRewardKey a = PrefixRewardKey a' \<longleftrightarrow> a = a'"
  by (simp add: key_defs)

interpretation rewards: stored_table rs_curRewards rs_pendingRewardsAdd rs_pendingRewardsDel
  pendReward dropReward CacheRewardsCommit CacheRewardsAbort
  D C PrefixRewardKey "storeReward D C" "DelReward D"
  for D C
  by unfold_locales
    (auto simp: pendReward_def dropReward_def CacheRewardsCommit_def CacheRewardsAbort_def Let_def
      storeReward_def DelReward_def RewardKey_inject)

text \<open>
  No operation sets the pending global record: once empty it stays empty, so a commit never
  moves the time of the last distribution and only a reload reads it back.
\<close>

definition global_frozen :: "rewardState \<Rightarrow> RewardGlobal \<Rightarrow> bool" where
  "global_frozen r g \<longleftrightarrow> rs_curGlobal r = g \<and> rs_pendigGlobal r = emptyRewardGlobal"

lemma global_frozen_pend [simp]: "global_frozen (pendReward a m r) g = global_frozen r g"
  and global_frozen_drop [simp]: "global_frozen (dropReward a r) g = global_frozen r g"
  by (simp_all add: global_frozen_def pendReward_def dropReward_def)

lemma global_frozen_commit: "global_frozen r g \<Longrightarrow> global_frozen (CacheRewardsCommit r) g"
  and global_frozen_abort: "global_frozen r g \<Longrightarrow> global_frozen (CacheRewardsAbort r) g"
  by (simp_all add: global_frozen_def CacheRewardsCommit_def CacheRewardsAbort_def emptyRewardGlobal_def)

lemma global_frozen_UpdateReward: "pres (\<lambda>w. global_frozen (snd w) g) (UpdateReward D C CG pG m)"
  and global_frozen_UpdateGlobal: "pres (\<lambda>w. global_frozen (snd w) g) (UpdateGlobal D CG pG)"
  and global_frozen_UpdateOwner: "pres (\<lambda>w. global_frozen (snd w) g) (UpdateOwner D C m)"
  and global_frozen_DelReward: "pres (\<lambda>w. global_frozen (snd w) g) (DelReward D a)"
  unfolding UpdateReward_def UpdateGlobal_def UpdateOwner_def DelReward_def storeReward_def
  by (intro pres_intro pres_modC; simp)+

lemma GetLastUpdateTime_frozen: "global_frozen r g \<Longrightarrow> GetLastUpdateTime r = rg_LastOprTime g"
  by (simp add: global_frozen_def GetLastUpdateTime_def emptyRewardGlobal_def)

end
