(* ===== verification/DetailsState.thy ===== *)
theory DetailsState
  imports PendingTable Keys
begin

text \<open>
  \<open>chain/node_params.go\<close>: the node details that miners register. A detail is put under the
  address the caller gives (the miner's work address), but reloading files it under its
  stake address.
\<close>

section \<open>State\<close>

record DetailMeta =
  dt_StakerType :: u64
  dt_Country :: string
  dt_LocalIP :: string
  dt_PublicIP :: string
  dt_MinPort :: u64
  dt_MaxPort :: u64
  dt_CheckPort :: u64
  dt_WorkKey :: string
  dt_TxID :: id
  dt_LastUpdateTime :: u64
  dt_WorkAddress :: address
  dt_StakeAddress :: address

record detailsState =
  ds_curNodes :: "(address, DetailMeta) gomap"
  ds_pendingNodesAdd :: "(address, DetailMeta) gomap"
  ds_pendingNodesDel :: "(address, DetailMeta) gomap"

definition emptyDetailMeta :: DetailMeta where
  "emptyDetailMeta = \<lparr> dt_StakerType = 0, dt_Country = [], dt_LocalIP = [], dt_PublicIP = [],
     dt_MinPort = 0, dt_MaxPort = 0, dt_CheckPort = 0, dt_WorkKey = [], dt_TxID = 0,
     dt_LastUpdateTime = 0, dt_WorkAddress = 0, dt_StakeAddress = 0 \<rparr>"

definition emptyDetailsState :: detailsState where
  "emptyDetailsState = \<lparr> ds_curNodes = [], ds_pendingNodesAdd = [], ds_pendingNodesDel = [] \<rparr>"

section \<open>Operations\<close>

definition GetDetailMeta :: "detailsState \<Rightarrow> address \<Rightarrow> DetailMeta option" where
  "GetDetailMeta s a = map_of (ds_curNodes s) a"

definition GetDetails :: "detailsState \<Rightarrow> DetailMeta list" where
  "GetDetails s = map snd (ds_curNodes s)"

definition pendDetail :: "address \<Rightarrow> DetailMeta \<Rightarrow> detailsState \<Rightarrow> detailsState" where
  "pendDetail a m s = s\<lparr>ds_pendingNodesDel := mdel a (ds_pendingNodesDel s),
     ds_pendingNodesAdd := mput a m (ds_pendingNodesAdd s)\<rparr>"

definition dropDetail :: "address \<Rightarrow> detailsState \<Rightarrow> detailsState" where
  "dropDetail a s = s\<lparr>ds_pendingNodesAdd := mdel a (ds_pendingNodesAdd s),
     ds_pendingNodesDel := mput a emptyDetailMeta (ds_pendingNodesDel s)\<rparr>"

definition PutDetail ::
  "'db dbops \<Rightarrow> DetailMeta codec \<Rightarrow> address \<Rightarrow> DetailMeta \<Rightarrow> ('db \<times> detailsState, unit) sm" where
  "PutDetail D C a m =
     bindS (modC (pendDetail a m)) (\<lambda>_. bindS (liftS (enc C m)) (dbPut D (PrefixDetailsKey a)))"

definition DelDetail :: "'db dbops \<Rightarrow> address \<Rightarrow> ('db \<times> detailsState, unit) sm" where
  "DelDetail D a = bindS (modC (dropDetail a)) (\<lambda>_. dbDelete D (PrefixDetailsKey a))"

definition ReloadDetails :: "'db dbops \<Rightarrow> DetailMeta codec \<Rightarrow> 'db \<Rightarrow> (detailsState, unit) sm" where
  "ReloadDetails D C d = zoomS ds_curNodes (\<lambda>m s. s\<lparr>ds_curNodes := m\<rparr>)
     (reloadLoop (dec C) (\<lambda>v. mput (dt_StakeAddress v) v) (db_IterPrefix D d baseDetailsPrefix))"

definition NewDetailstate :: "'db dbops \<Rightarrow> DetailMeta codec \<Rightarrow> 'db \<Rightarrow> (err + unit) \<times> detailsState" where
  "NewDetailstate D C d = ReloadDetails D C d emptyDetailsState"

definition CacheDetailsCommit :: "detailsState \<Rightarrow> detailsState" where
  "CacheDetailsCommit s =
     s\<lparr>ds_curNodes := delLoop (ds_pendingNodesDel s) (addLoop (ds_pendingNodesAdd s) (ds_curNodes s)),
       ds_pendingNodesAdd := clearLoop (ds_pendingNodesAdd s),
       ds_pendingNodesDel := clearLoop (ds_pendingNodesDel s)\<rparr>"

definition CacheDetailsAbort :: "detailsState \<Rightarrow> detailsState" where
  "CacheDetailsAbort s =
     s\<lparr>ds_pendingNodesAdd := clearLoop (ds_pendingNodesAdd s),
       ds_pendingNodesDel := clearLoop (ds_pendingNodesDel s)\<rparr>"

section \<open>The table\<close>

lemma DetailsKey_inject: "PrefixDetailsKey a = PrefixDetailsKey a' \<longleftrightarrow> a = a'"
  by (simp add: key_defs)

interpretation details: stored_table ds_curNodes ds_pendingNodesAdd ds_pendingNodesDel
  pendDetail dropDetail CacheDetailsCommit CacheDetailsAbort
  D C PrefixDetailsKey "PutDetail D C" "DelDetail D"
  for D C
  by unfold_locales
    (auto simp: pendDetail_def dropDetail_def CacheDetailsCommit_def CacheDetailsAbort_def
      PutDetail_def DelDetail_def DetailsKey_inject)

text \<open>
  After a restart each detail is found under its stake address: reloading a database that
  holds one detail under its work address gives a map with its stake address as the key.
\<close>

lemma ReloadDetails_one:
  "db_IterPrefix D d baseDetailsPrefix = [(k, b)] \<Longrightarrow> dec C b = Inr m \<Longrightarrow>
   NewDetailstate D C d = (Inr (), emptyDetailsState\<lparr>ds_curNodes := [(dt_StakeAddress m, m)]\<rparr>)"
  by (simp add: NewDetailstate_def ReloadDetails_def emptyDetailsState_def zoomS_def)

end
