(* ===== verification/ActionsState.thy ===== *)
theory ActionsState
  imports PendingTable Keys
begin

text \<open>
  \<open>chain/action_status.go\<close>: the governance proposals and their voters. The clock is a
  parameter: an action past its end time is not found, and is not read back at a restart.
\<close>

section \<open>State\<close>

definition actionTypeStart :: u64 where "actionTypeStart = 0"
definition actionTypeAddStaker :: u64 where "actionTypeAddStaker = 1"
definition actionTypeModifySysParam :: u64 where "actionTypeModifySysParam = 2"
definition actionTypeAddUserType :: u64 where "actionTypeAddUserType = 3"
definition actionTypeModifyUserType :: u64 where "actionTypeModifyUserType = 4"
definition actionTypeModifyFoundation :: u64 where "actionTypeModifyFoundation = 5"
definition actionTypeEnd :: u64 where "actionTypeEnd = 6"

lemmas actionType_defs = actionTypeStart_def actionTypeAddStaker_def actionTypeModifySysParam_def
  actionTypeAddUserType_def actionTypeModifyUserType_def actionTypeModifyFoundation_def actionTypeEnd_def

record ActionMeta =
  act_ActionID :: short_id
  act_ActionType :: u64
  act_StartTime :: u64
  act_EndTime :: u64
  act_TxIDs :: "id list"
  act_Voters :: "address list"
  act_Key :: string
  act_NewValue :: string

record actionsState =
  as_curActions :: "(short_id, ActionMeta) gomap"
  as_pendingActionsAdd :: "(short_id, ActionMeta) gomap"
  as_pendingActionsDel :: "(short_id, ActionMeta) gomap"

definition emptyActionMeta :: ActionMeta where
  "emptyActionMeta = \<lparr> act_ActionID = 0, act_ActionType = 0, act_StartTime = 0, act_EndTime = 0,
     act_TxIDs = [], act_Voters = [], act_Key = [], act_NewValue = [] \<rparr>"

definition emptyActionsState :: actionsState where
  "emptyActionsState = \<lparr> as_curActions = [], as_pendingActionsAdd = [], as_pendingActionsDel = [] \<rparr>"

section \<open>Operations\<close>

definition action_overdue :: "int \<Rightarrow> ActionMeta \<Rightarrow> bool" where
  "action_overdue now m \<longleftrightarrow> act_EndTime m < unix_now now"

definition GetActionMeta :: "int \<Rightarrow> actionsState \<Rightarrow> short_id \<Rightarrow> err + ActionMeta option" where
  "GetActionMeta now s i =
     (case map_of (as_curActions s) i of
        None \<Rightarrow> Inr None
      | Some m \<Rightarrow> if action_overdue now m then Inl (Errorf ''action is overdue '') else Inr (Some m))"

definition GetActions :: "actionsState \<Rightarrow> ActionMeta list" where
  "GetActions s = map snd (as_curActions s)"

definition GetVotersNum :: "actionsState \<Rightarrow> u64 \<Rightarrow> string \<Rightarrow> err + nat \<times> short_id" where
  "GetVotersNum s t key =
     (case find (\<lambda>a. act_ActionType a = t \<and> act_Key a = key) (GetActions s) of
        Some a \<Rightarrow> Inr (length (act_Voters a), act_ActionID a)
      | None \<Rightarrow> Inl (Errorf ''not found ''))"

definition pendAction :: "short_id \<Rightarrow> ActionMeta \<Rightarrow> actionsState \<Rightarrow> actionsState" where
  "pendAction i m s = s\<lparr>as_pendingActionsDel := mdel i (as_pendingActionsDel s),
     as_pendingActionsAdd := mput i m (as_pendingActionsAdd s)\<rparr>"

definition dropAction :: "short_id \<Rightarrow> actionsState \<Rightarrow> actionsState" where
  "dropAction i s = s\<lparr>as_pendingActionsAdd := mdel i (as_pendingActionsAdd s),
     as_pendingActionsDel := mput i emptyActionMeta (as_pendingActionsDel s)\<rparr>"

definition PutAction ::
  "'db dbops \<Rightarrow> ActionMeta codec \<Rightarrow> short_id \<Rightarrow> ActionMeta \<Rightarrow> ('db \<times> actionsState, unit) sm" where
  "PutAction D C i m =
     bindS (modC (pendAction i m)) (\<lambda>_. bindS (liftS (enc C m)) (dbPut D (PrefixActionsKey i)))"

definition DelAction :: "'db dbops \<Rightarrow> short_id \<Rightarrow> ('db \<times> actionsState, unit) sm" where
  "DelAction D i = bindS (modC (dropAction i)) (\<lambda>_. dbDelete D (PrefixActionsKey i))"

definition ReloadActions ::
  "'db dbops \<Rightarrow> ActionMeta codec \<Rightarrow> int \<Rightarrow> 'db \<Rightarrow> (actionsState, unit) sm" where
  "ReloadActions D C now d = zoomS as_curActions (\<lambda>m s. s\<lparr>as_curActions := m\<rparr>)
     (reloadLoop (dec C)
       (\<lambda>v m. if action_overdue now v then m else mput (act_ActionID v) v m)
       (db_IterPrefix D d baseActionsPrefix))"

definition NewActionsState ::
  "'db dbops \<Rightarrow> ActionMeta codec \<Rightarrow> int \<Rightarrow> 'db \<Rightarrow> (err + unit) \<times> actionsState" where
  "NewActionsState D C now d = ReloadActions D C now d emptyActionsState"

definition CacheActionsCommit :: "actionsState \<Rightarrow> actionsState" where
  "CacheActionsCommit s =
     s\<lparr>as_curActions :=
         delLoop (as_pendingActionsDel s) (addLoop (as_pendingActionsAdd s) (as_curActions s)),
       as_pendingActionsAdd := clearLoop (as_pendingActionsAdd s),
       as_pendingActionsDel := clearLoop (as_pendingActionsDel s)\<rparr>"

definition CacheActionsAbort :: "actionsState \<Rightarrow> actionsState" where
  "CacheActionsAbort s =
     s\<lparr>as_pendingActionsAdd := clearLoop (as_pendingActionsAdd s),
       as_pendingActionsDel := clearLoop (as_pendingActionsDel s)\<rparr>"

definition ProposalRepeat :: "actionsState \<Rightarrow> short_id \<Rightarrow> string \<Rightarrow> string \<Rightarrow> err + unit" where
  "ProposalRepeat s i key newValue =
     (if map_of (as_curActions s) i \<noteq> None then Inl (Errorf ''action exist curActions'')
      else if \<exists>(_, a) \<in> set (as_curActions s). act_Key a = key then Inl (Errorf ''key exist curActions'')
      else if map_of (as_pendingActionsAdd s) i \<noteq> None then Inl (Errorf ''action id exist pending'')
      else if \<exists>(_, a) \<in> set (as_pendingActionsAdd s). act_Key a = key then Inl (Errorf ''key exist pending'')
      else Inr ())"

definition CheckActionType :: "u64 \<Rightarrow> bool" where
  "CheckActionType t \<longleftrightarrow> t > actionTypeStart \<and> t < actionTypeEnd"

section \<open>The table\<close>

lemma ActionsKey_inject: "PrefixActionsKey i = PrefixActionsKey i' \<longleftrightarrow> i = i'"
  by (simp add: key_defs)

interpretation actions: stored_table as_curActions as_pendingActionsAdd as_pendingActionsDel
  pendAction dropAction CacheActionsCommit CacheActionsAbort
  D C PrefixActionsKey "PutAction D C" "DelAction D"
  for D C
  by unfold_locales
    (auto simp: pendAction_def dropAction_def CacheActionsCommit_def CacheActionsAbort_def
      PutAction_def DelAction_def ActionsKey_inject)

text \<open>
  Two proposals never share a key: after a commit of proposals that each passed
  \<open>ProposalRepeat\<close>, the keys of the committed actions are distinct from one another.
\<close>

definition keys_unique :: "actionsState \<Rightarrow> bool" where
  "keys_unique s \<longleftrightarrow>
     (\<forall>i j a b. (i, a) \<in> set (as_curActions s) \<union> set (as_pendingActionsAdd s) \<and>
       (j, b) \<in> set (as_curActions s) \<union> set (as_pendingActionsAdd s) \<and> act_Key a = act_Key b \<longrightarrow> i = j)"

lemma ProposalRepeat_iff: "ProposalRepeat s i key v = Inr u \<longleftrightarrow>
    map_of (as_curActions s) i = None \<and> map_of (as_pendingActionsAdd s) i = None \<and>
    (\<forall>(j, a) \<in> set (as_curActions s) \<union> set (as_pendingActionsAdd s). act_Key a \<noteq> key)"
  by (auto simp: ProposalRepeat_def)

lemma set_mput_subset: "set (mput k v m) \<subseteq> insert (k, v) (set m)"
  by (induction m) auto

lemma keys_unique_put:
  assumes "keys_unique s" and "ProposalRepeat s i (act_Key m) v = Inr u"
  shows "keys_unique (pendAction i m s)"
proof -
  let ?U = "set (as_curActions s) \<union> set (as_pendingActionsAdd s)"
  have new: "\<And>j a. (j, a) \<in> ?U \<Longrightarrow> act_Key a \<noteq> act_Key m"
    using assms(2) unfolding ProposalRepeat_iff by fast
  have sub: "set (as_curActions (pendAction i m s)) \<union> set (as_pendingActionsAdd (pendAction i m s))
      \<subseteq> insert (i, m) ?U"
    using set_mput_subset by (fastforce simp: pendAction_def)
  show ?thesis
    unfolding keys_unique_def
  proof (intro allI impI)
    fix j k a b
    let ?V = "set (as_curActions (pendAction i m s)) \<union> set (as_pendingActionsAdd (pendAction i m s))"
    assume *: "(j, a) \<in> ?V \<and> (k, b) \<in> ?V \<and> act_Key a = act_Key b"
    then have a: "(j, a) = (i, m) \<or> (j, a) \<in> ?U" and b: "(k, b) = (i, m) \<or> (k, b) \<in> ?U"
      using sub by auto
    from a b show "j = k"
    proof (elim disjE)
      assume "(j, a) \<in> ?U" and "(k, b) \<in> ?U"
      then show ?thesis using assms(1) * unfolding keys_unique_def by blast
    qed (use * new [of k b] new [of j a] in auto)
  qed
qed

lemma keys_unique_subset:
  assumes "keys_unique s"
    and "set (as_curActions s') \<union> set (as_pendingActionsAdd s') \<subseteq>
      set (as_curActions s) \<union> set (as_pendingActionsAdd s)"
  shows "keys_unique s'"
  using assms unfolding keys_unique_def by blast

lemma set_mdel_subset: "set (mdel k m) \<subseteq> set m"
  by (induction m) auto

lemma set_delLoop_subset: "set (delLoop del cur) \<subseteq> set cur"
proof (induction del arbitrary: cur)
  case Nil
  then show ?case by simp
next
  case (Cons p del)
  have "delLoop (p # del) cur = delLoop del (mdel (fst p) cur)"
    by (simp add: delLoop_def split: prod.splits)
  then show ?case using Cons.IH [of "mdel (fst p) cur"] set_mdel_subset [of "fst p" cur] by auto
qed

lemma set_addLoop_subset: "set (addLoop add cur) \<subseteq> set add \<union> set cur"
proof (induction add arbitrary: cur)
  case Nil
  then show ?case by simp
next
  case (Cons p add)
  obtain k v where p: "p = (k, v)" by fastforce
  have "set (mput k v (mdel k cur)) \<subseteq> insert (k, v) (set cur)"
    using set_mput_subset [of k v "mdel k cur"] set_mdel_subset [of k cur] by blast
  moreover have "addLoop (p # add) cur = addLoop add (mput k v (mdel k cur))"
    by (simp add: addLoop_def p)
  ultimately show ?case using Cons.IH [of "mput k v (mdel k cur)"] by (auto simp: p)
qed

lemma keys_unique_commit: "keys_unique s \<Longrightarrow> keys_unique (CacheActionsCommit s)"
  by (erule keys_unique_subset)
    (use set_delLoop_subset set_addLoop_subset in \<open>fastforce simp: CacheActionsCommit_def\<close>)

lemma keys_unique_abort: "keys_unique s \<Longrightarrow> keys_unique (CacheActionsAbort s)"
  by (erule keys_unique_subset) (auto simp: CacheActionsAbort_def)

lemma keys_unique_drop: "keys_unique s \<Longrightarrow> keys_unique (dropAction i s)"
  by (erule keys_unique_subset) (use set_mdel_subset in \<open>fastforce simp: dropAction_def\<close>)

end
