(* ===== verification/UsersState.thy ===== *)
theory UsersState
  imports PendingTable Keys
begin

text \<open>
  \<open>chain/users_status.go\<close>: the users, kept in a bounded cache over the database. A cached
  entry is answered from the cache; a missing one is read from the database the caller
  gives. The cache is code outside the repository, a parameter \<open>R\<close>.
\<close>

section \<open>State\<close>

definition UsersCacheSize :: nat where
  "UsersCacheSize = 8096"

record UserMeta =
  um_StartTime :: u64
  um_EndTime :: u64
  um_Connections :: u64
  um_PayAmount :: u64
  um_TxsID :: "id list"
  um_UserType :: u64
  um_Address :: address

record 'c usersState =
  us_curUsers :: 'c
  us_pendingUsersAdd :: "(address, UserMeta) gomap"
  us_pendingUsersDel :: "(address, UserMeta) gomap"

definition emptyUserMeta :: UserMeta where
  "emptyUserMeta = \<lparr> um_StartTime = 0, um_EndTime = 0, um_Connections = 0, um_PayAmount = 0,
     um_TxsID = [], um_UserType = 0, um_Address = 0 \<rparr>"

type_synonym 'c users_lru = "(address, UserMeta, 'c) lruops"

section \<open>Operations\<close>

definition GetUserMeta ::
  "'c users_lru \<Rightarrow> 'db dbops \<Rightarrow> UserMeta codec \<Rightarrow> 'db \<Rightarrow> address \<Rightarrow> ('c usersState, UserMeta option) sm" where
  "GetUserMeta R D C d a = (\<lambda>s.
     case lru_Get R (us_curUsers s) a of
       (Some m, c') \<Rightarrow> (Inr (Some m), s\<lparr>us_curUsers := c'\<rparr>)
     | (None, c') \<Rightarrow>
         ((case db_Get D d (PrefixUsersKey a) of
             Inl e \<Rightarrow> if e \<noteq> ErrNotFound then Inl e else Inr None
           | Inr b \<Rightarrow> (case dec C b of Inl e \<Rightarrow> Inl e | Inr m \<Rightarrow> Inr (Some m))),
          s\<lparr>us_curUsers := c'\<rparr>))"

definition pendUser :: "address \<Rightarrow> UserMeta \<Rightarrow> 'c usersState \<Rightarrow> 'c usersState" where
  "pendUser a m s = s\<lparr>us_pendingUsersDel := mdel a (us_pendingUsersDel s),
     us_pendingUsersAdd := mput a m (us_pendingUsersAdd s)\<rparr>"

definition dropUser :: "address \<Rightarrow> 'c usersState \<Rightarrow> 'c usersState" where
  "dropUser a s = s\<lparr>us_pendingUsersAdd := mdel a (us_pendingUsersAdd s),
     us_pendingUsersDel := mput a emptyUserMeta (us_pendingUsersDel s)\<rparr>"

definition PutUser ::
  "'db dbops \<Rightarrow> UserMeta codec \<Rightarrow> UserMeta \<Rightarrow> ('db \<times> 'c usersState, unit) sm" where
  "PutUser D C m =
     bindS (modC (pendUser (um_Address m) m)) (\<lambda>_.
     bindS (liftS (enc C m)) (dbPut D (PrefixUsersKey (um_Address m))))"

definition DelUser :: "'db dbops \<Rightarrow> address \<Rightarrow> ('db \<times> 'c usersState, unit) sm" where
  "DelUser D a = bindS (modC (dropUser a)) (\<lambda>_. dbDelete D (PrefixUsersKey a))"

fun decodeAll :: "(bytes \<Rightarrow> err + 'v) \<Rightarrow> (bytes \<times> bytes) list \<Rightarrow> err + 'v list" where
  "decodeAll de [] = Inr []"
| "decodeAll de ((k, b) # es) =
     (case de b of Inl e \<Rightarrow> Inl e
      | Inr v \<Rightarrow> (case decodeAll de es of Inl e \<Rightarrow> Inl e | Inr vs \<Rightarrow> Inr (v # vs)))"

definition GetUsers :: "'db dbops \<Rightarrow> UserMeta codec \<Rightarrow> 'db \<Rightarrow> err + UserMeta list" where
  "GetUsers D C d = decodeAll (dec C) (db_IterPrefix D d baseUsersPrefix)"

fun reloadUsersLoop ::
  "'c users_lru \<Rightarrow> UserMeta codec \<Rightarrow> nat \<Rightarrow> (bytes \<times> bytes) list \<Rightarrow> ('c, unit) sm" where
  "reloadUsersLoop R C count [] c = (Inr (), c)"
| "reloadUsersLoop R C count ((k, b) # es) c =
     (case dec C b of
        Inl e \<Rightarrow> (Inl e, c)
      | Inr m \<Rightarrow>
          (let c' = lru_Put R (um_Address m) m c in
           if count + 1 > UsersCacheSize div 2 then (Inr (), c')
           else reloadUsersLoop R C (count + 1) es c'))"

definition ReloadUsers ::
  "'c users_lru \<Rightarrow> 'db dbops \<Rightarrow> UserMeta codec \<Rightarrow> 'db \<Rightarrow> ('c usersState, unit) sm" where
  "ReloadUsers R D C d = zoomS us_curUsers (\<lambda>c s. s\<lparr>us_curUsers := c\<rparr>)
     (reloadUsersLoop R C 0 (db_IterPrefix D d baseUsersPrefix))"

text \<open>\<open>newCache\<close> is the cache that \<open>metercacher.New\<close> makes, or its error.\<close>

definition NewUserstate ::
  "'c users_lru \<Rightarrow> 'db dbops \<Rightarrow> UserMeta codec \<Rightarrow> err + 'c \<Rightarrow> 'db \<Rightarrow> err + 'c usersState" where
  "NewUserstate R D C newCache d =
     (case newCache of
        Inl e \<Rightarrow> Inl e
      | Inr c \<Rightarrow>
          (case ReloadUsers R D C d
             \<lparr> us_curUsers = c, us_pendingUsersAdd = [], us_pendingUsersDel = [] \<rparr> of
             (Inl e, _) \<Rightarrow> Inl e | (Inr _, s) \<Rightarrow> Inr s))"

definition cacheAdd :: "'c users_lru \<Rightarrow> (address, UserMeta) gomap \<Rightarrow> 'c \<Rightarrow> 'c" where
  "cacheAdd R add c = fold (\<lambda>(a, m) c. lru_Put R a m (lru_Evict R a c)) add c"

definition cacheDel :: "'c users_lru \<Rightarrow> (address, UserMeta) gomap \<Rightarrow> 'c \<Rightarrow> 'c" where
  "cacheDel R del c = fold (\<lambda>(a, _) c. lru_Evict R a c) del c"

definition CacheUsersCommit :: "'c users_lru \<Rightarrow> 'c usersState \<Rightarrow> 'c usersState" where
  "CacheUsersCommit R s =
     s\<lparr>us_curUsers := cacheDel R (us_pendingUsersDel s) (cacheAdd R (us_pendingUsersAdd s) (us_curUsers s)),
       us_pendingUsersAdd := clearLoop (us_pendingUsersAdd s),
       us_pendingUsersDel := clearLoop (us_pendingUsersDel s)\<rparr>"

definition CacheUsersAbort :: "'c usersState \<Rightarrow> 'c usersState" where
  "CacheUsersAbort s =
     s\<lparr>us_pendingUsersAdd := clearLoop (us_pendingUsersAdd s),
       us_pendingUsersDel := clearLoop (us_pendingUsersDel s)\<rparr>"

section \<open>Coherence of the cache\<close>

text \<open>
  \<open>pending_agree\<close>: the database the block writes to agrees with the pending maps;
  \<open>coherent\<close>: every cached entry not pending is what that database holds. Then a committed
  cache answers exactly as the database.
\<close>

definition pending_agree :: "'db dbops \<Rightarrow> UserMeta codec \<Rightarrow> 'db \<Rightarrow> 'c usersState \<Rightarrow> bool" where
  "pending_agree D C d s \<longleftrightarrow>
     mwf (us_pendingUsersAdd s) \<and> mwf (us_pendingUsersDel s) \<and>
     dom (map_of (us_pendingUsersAdd s)) \<inter> dom (map_of (us_pendingUsersDel s)) = {} \<and>
     (\<forall>a m. map_of (us_pendingUsersAdd s) a = Some m \<longrightarrow>
        db_entry C (db_Get D d (PrefixUsersKey a)) (Some m))"

definition coherent :: "'c users_lru \<Rightarrow> 'db dbops \<Rightarrow> UserMeta codec \<Rightarrow> 'db \<Rightarrow> 'c usersState \<Rightarrow> bool" where
  "coherent R D C d s \<longleftrightarrow>
     (\<forall>a m. (a, m) \<in> lru_items R (us_curUsers s) \<and> map_of (us_pendingUsersAdd s) a = None \<and>
        map_of (us_pendingUsersDel s) a = None \<longrightarrow>
        db_entry C (db_Get D d (PrefixUsersKey a)) (Some m))"

lemma lru_okD:
  assumes "lru_ok R"
  shows "lru_Get R c k = (Some v, c') \<Longrightarrow> (k, v) \<in> lru_items R c"
    and "lru_items R (snd (lru_Get R c k)) \<subseteq> lru_items R c"
    and "lru_items R (lru_Put R k v c) \<subseteq> insert (k, v) {p \<in> lru_items R c. fst p \<noteq> k}"
    and "lru_items R (lru_Evict R k c) \<subseteq> {p \<in> lru_items R c. fst p \<noteq> k}"
  using assms unfolding lru_ok_def by blast+

lemma cacheDel_items:
  assumes "lru_ok R"
  shows "lru_items R (cacheDel R del c) \<subseteq> {p \<in> lru_items R c. fst p \<notin> fst ` set del}"
proof (induction del arbitrary: c)
  case Nil
  then show ?case by (auto simp: cacheDel_def)
next
  case (Cons p del)
  have "cacheDel R (p # del) c = cacheDel R del (lru_Evict R (fst p) c)"
    by (simp add: cacheDel_def split: prod.splits)
  with Cons.IH [of "lru_Evict R (fst p) c"] lru_okD(4) [OF assms, of "fst p" c] show ?case by auto
qed

lemma cacheAdd_items:
  assumes "lru_ok R"
  shows "mwf add \<Longrightarrow> lru_items R (cacheAdd R add c) \<subseteq>
    set add \<union> {p \<in> lru_items R c. fst p \<notin> fst ` set add}"
proof (induction add arbitrary: c)
  case Nil
  then show ?case by (auto simp: cacheAdd_def)
next
  case (Cons p add)
  obtain a m where p: "p = (a, m)" by fastforce
  let ?c = "lru_Put R a m (lru_Evict R a c)"
  have c: "lru_items R ?c \<subseteq> insert (a, m) {p \<in> lru_items R c. fst p \<noteq> a}"
    using lru_okD(3) [OF assms, of a m "lru_Evict R a c"] lru_okD(4) [OF assms, of a c] by auto
  have "cacheAdd R (p # add) c = cacheAdd R add ?c"
    by (simp add: cacheAdd_def p)
  moreover have "mwf add" using Cons.prems by (simp add: mwf_def)
  ultimately show ?case using Cons.IH [of ?c] c by (auto simp: p)
qed

lemma coherent_commit:
  assumes R: "lru_ok R" and pa: "pending_agree D C d s" and co: "coherent R D C d s"
  shows "coherent R D C d (CacheUsersCommit R s)"
proof -
  let ?add = "us_pendingUsersAdd s" and ?del = "us_pendingUsersDel s"
  have "db_entry C (db_Get D d (PrefixUsersKey a)) (Some m)"
    if it: "(a, m) \<in> lru_items R (us_curUsers (CacheUsersCommit R s))" for a m
  proof -
    have "(a, m) \<in> {p \<in> lru_items R (cacheAdd R ?add (us_curUsers s)). fst p \<notin> fst ` set ?del}"
      using it by (intro subsetD [OF cacheDel_items [OF R]]) (simp add: CacheUsersCommit_def)
    then have "(a, m) \<in> lru_items R (cacheAdd R ?add (us_curUsers s))" and nd: "a \<notin> fst ` set ?del"
      by simp_all
    moreover have "mwf ?add" using pa by (simp add: pending_agree_def)
    ultimately have "(a, m) \<in> set ?add \<union> {p \<in> lru_items R (us_curUsers s). fst p \<notin> fst ` set ?add}"
      using cacheAdd_items [OF R] by blast
    then have "(a, m) \<in> set ?add \<or> (a, m) \<in> lru_items R (us_curUsers s) \<and> a \<notin> fst ` set ?add"
      by simp
    then show ?thesis
    proof
      assume "(a, m) \<in> set ?add"
      then have "map_of ?add a = Some m" using pa by (simp add: pending_agree_def mwf_def)
      then show ?thesis using pa by (simp add: pending_agree_def)
    next
      assume "(a, m) \<in> lru_items R (us_curUsers s) \<and> a \<notin> fst ` set ?add"
      then show ?thesis using co nd unfolding coherent_def by (metis map_of_eq_None_iff)
    qed
  qed
  then show ?thesis unfolding coherent_def by blast
qed

lemma UsersKey_inject: "PrefixUsersKey a = PrefixUsersKey a' \<longleftrightarrow> a = a'"
  by (simp add: key_defs)

lemma PutUser_coherent:
  assumes D: "db_ok D" and C: "codec_ok C" and "pending_agree D C d s" and "coherent R D C d s"
    and put: "PutUser D C m (d, s) = (Inr u, (d', s'))"
  shows "pending_agree D C d' s' \<and> coherent R D C d' s'"
proof -
  obtain b where b: "enc C m = Inr b" and d': "db_Put D d (PrefixUsersKey (um_Address m)) b = Inr d'"
    and s': "s' = pendUser (um_Address m) m s"
    using put by (auto simp: PutUser_def sm_iff)
  have get: "db_Get D d' (PrefixUsersKey a) =
      (if a = um_Address m then Inr b else db_Get D d (PrefixUsersKey a))" for a
    using db_ok_put [OF D d'] by (simp add: UsersKey_inject)
  have "dec C b = Inr m" using C b by (rule codec_okD)
  then show ?thesis
    using assms(3,4) by (auto simp: s' pendUser_def pending_agree_def coherent_def get)
qed

lemma DelUser_coherent:
  assumes D: "db_ok D" and "pending_agree D C d s" and "coherent R D C d s"
    and del: "DelUser D a (d, s) = (Inr u, (d', s'))"
  shows "pending_agree D C d' s' \<and> coherent R D C d' s'"
proof -
  have d': "db_Delete D d (PrefixUsersKey a) = Inr d'" and s': "s' = dropUser a s"
    using del by (auto simp: DelUser_def sm_iff)
  have get: "db_Get D d' (PrefixUsersKey x) =
      (if x = a then Inl ErrNotFound else db_Get D d (PrefixUsersKey x))" for x
    using db_ok_delete [OF D d'] by (simp add: UsersKey_inject)
  show ?thesis
    using assms(2,3) by (auto simp: s' dropUser_def pending_agree_def coherent_def get)
qed

text \<open>With nothing pending, a lookup answers what the database holds, cached or not.\<close>

lemma GetUserMeta_coherent:
  assumes R: "lru_ok R" and co: "coherent R D C d s"
    and "us_pendingUsersAdd s = []" and "us_pendingUsersDel s = []"
    and get: "GetUserMeta R D C d a s = (Inr r, s')"
  shows "db_entry C (db_Get D d (PrefixUsersKey a)) r"
proof -
  obtain o' c' where g: "lru_Get R (us_curUsers s) a = (o', c')" by fastforce
  show ?thesis
  proof (cases o')
    case None
    then show ?thesis
      using get g by (auto simp: GetUserMeta_def split: sum.splits if_splits)
  next
    case (Some m)
    then have "(a, m) \<in> lru_items R (us_curUsers s)" using lru_okD(1) [OF R] g by blast
    then have "db_entry C (db_Get D d (PrefixUsersKey a)) (Some m)"
      using co assms(3,4) by (simp add: coherent_def)
    then show ?thesis using get g Some by (auto simp: GetUserMeta_def)
  qed
qed

end
