(* ===== verification/UserTypesState.thy ===== *)
theory UserTypesState
  imports PendingTable Keys
begin

text \<open>
  \<open>chain/users_type.go\<close>: the user types with their fees. \<open>PrefixUserTypesKey\<close> writes under
  \<open>usersPrefix\<close> while \<open>ReloadUserTypes\<close> reads under \<open>userTypesPrefix\<close>.
\<close>

section \<open>State\<close>

record UserType =
  ut_TypeName :: string
  ut_TypeID :: u64
  ut_FeeUnits :: u64

record userTypesState =
  uts_curUserTypes :: "(u64, UserType) gomap"
  uts_pendingUserTypesAdd :: "(u64, UserType) gomap"
  uts_pendingUserTypesDel :: "(u64, UserType) gomap"

definition emptyUserType :: UserType where
  "emptyUserType = \<lparr> ut_TypeName = [], ut_TypeID = 0, ut_FeeUnits = 0 \<rparr>"

definition emptyUserTypesState :: userTypesState where
  "emptyUserTypesState = \<lparr> uts_curUserTypes = [], uts_pendingUserTypesAdd = [], uts_pendingUserTypesDel = [] \<rparr>"

section \<open>Operations\<close>

definition GetUserType :: "userTypesState \<Rightarrow> u64 \<Rightarrow> UserType option" where
  "GetUserType s i = map_of (uts_curUserTypes s) i"

definition CheckUserType :: "userTypesState \<Rightarrow> u64 \<Rightarrow> bool" where
  "CheckUserType s i \<longleftrightarrow> map_of (uts_curUserTypes s) i \<noteq> None"

definition CheckFee :: "userTypesState \<Rightarrow> u64 \<Rightarrow> u64 \<Rightarrow> bool" where
  "CheckFee s i fee =
     (case map_of (uts_curUserTypes s) i of None \<Rightarrow> False | Some t \<Rightarrow> fee = ut_FeeUnits t)"

definition GetUserTypes :: "userTypesState \<Rightarrow> (u64, UserType) gomap" where
  "GetUserTypes s = uts_curUserTypes s"

definition pendUserType :: "u64 \<Rightarrow> UserType \<Rightarrow> userTypesState \<Rightarrow> userTypesState" where
  "pendUserType i m s = s\<lparr>uts_pendingUserTypesDel := mdel i (uts_pendingUserTypesDel s),
     uts_pendingUserTypesAdd := mput i m (uts_pendingUserTypesAdd s)\<rparr>"

definition dropUserType :: "u64 \<Rightarrow> userTypesState \<Rightarrow> userTypesState" where
  "dropUserType i s = s\<lparr>uts_pendingUserTypesAdd := mdel i (uts_pendingUserTypesAdd s),
     uts_pendingUserTypesDel := mput i emptyUserType (uts_pendingUserTypesDel s)\<rparr>"

definition storeUserType ::
  "'db dbops \<Rightarrow> UserType codec \<Rightarrow> u64 \<Rightarrow> UserType \<Rightarrow> ('db \<times> userTypesState, unit) sm" where
  "storeUserType D C i m =
     bindS (modC (pendUserType i m)) (\<lambda>_. bindS (liftS (enc C m)) (dbPut D (PrefixUserTypesKey i)))"

definition AddUserType ::
  "'db dbops \<Rightarrow> UserType codec \<Rightarrow> UserType \<Rightarrow> ('db \<times> userTypesState, unit) sm" where
  "AddUserType D C m = storeUserType D C (ut_TypeID m) m"

definition DelUserType :: "'db dbops \<Rightarrow> u64 \<Rightarrow> ('db \<times> userTypesState, unit) sm" where
  "DelUserType D i = bindS (modC (dropUserType i)) (\<lambda>_. dbDelete D (PrefixUserTypesKey i))"

definition ReloadUserTypes :: "'db dbops \<Rightarrow> UserType codec \<Rightarrow> 'db \<Rightarrow> (userTypesState, unit) sm" where
  "ReloadUserTypes D C d = zoomS uts_curUserTypes (\<lambda>m s. s\<lparr>uts_curUserTypes := m\<rparr>)
     (reloadLoop (dec C) (\<lambda>v. mput (ut_TypeID v) v) (db_IterPrefix D d baseUserTypesPrefix))"

definition NewUserTypesState :: "'db dbops \<Rightarrow> UserType codec \<Rightarrow> 'db \<Rightarrow> (err + unit) \<times> userTypesState" where
  "NewUserTypesState D C d = ReloadUserTypes D C d emptyUserTypesState"

definition CacheUserTypesCommit :: "userTypesState \<Rightarrow> userTypesState" where
  "CacheUserTypesCommit s =
     s\<lparr>uts_curUserTypes :=
         delLoop (uts_pendingUserTypesDel s) (addLoop (uts_pendingUserTypesAdd s) (uts_curUserTypes s)),
       uts_pendingUserTypesAdd := clearLoop (uts_pendingUserTypesAdd s),
       uts_pendingUserTypesDel := clearLoop (uts_pendingUserTypesDel s)\<rparr>"

definition CacheUserTypesAbort :: "userTypesState \<Rightarrow> userTypesState" where
  "CacheUserTypesAbort s =
     s\<lparr>uts_pendingUserTypesAdd := clearLoop (uts_pendingUserTypesAdd s),
       uts_pendingUserTypesDel := clearLoop (uts_pendingUserTypesDel s)\<rparr>"

section \<open>The table\<close>

lemma UserTypesKey_inject: "PrefixUserTypesKey i = PrefixUserTypesKey i' \<longleftrightarrow> i = i'"
  by (simp add: key_defs)

interpretation user_types: stored_table uts_curUserTypes uts_pendingUserTypesAdd uts_pendingUserTypesDel
  pendUserType dropUserType CacheUserTypesCommit CacheUserTypesAbort
  D C PrefixUserTypesKey "storeUserType D C" "DelUserType D"
  for D C
  by unfold_locales
    (auto simp: pendUserType_def dropUserType_def CacheUserTypesCommit_def CacheUserTypesAbort_def
      storeUserType_def DelUserType_def UserTypesKey_inject)

text \<open>A restart finds no user type, whatever was added: no key lies under the scanned prefix.\<close>

lemma ReloadUserTypes_empty:
  assumes "db_ok D" and "\<And>k v. db_Get D d k = Inr v \<Longrightarrow> \<exists>x. k = key_bytes x"
  shows "NewUserTypesState D C d = (Inr (), emptyUserTypesState)"
proof -
  have "db_IterPrefix D d baseUserTypesPrefix = []"
  proof (rule ccontr)
    assume "db_IterPrefix D d baseUserTypesPrefix \<noteq> []"
    then obtain k v where "(k, v) \<in> set (db_IterPrefix D d baseUserTypesPrefix)"
      by (metis list.set_intros(1) neq_Nil_conv prod.exhaust)
    then show False using assms scan_user_types by (force simp: db_ok_iter)
  qed
  then show ?thesis
    by (simp add: NewUserTypesState_def ReloadUserTypes_def emptyUserTypesState_def zoomS_def)
qed

end
