(* ===== verification/YieldsState.thy ===== *)
theory YieldsState
  imports Ext Keys
begin

text \<open>
  \<open>chain/yields_status.go\<close>: the yields the chain has collected. One committed record and one
  pending record, whose total being non-zero marks it as pending.
\<close>

section \<open>State\<close>

record YieldMeta =
  ym_Total :: u64
  ym_Undistributed :: u64
  ym_LastOprTime :: u64
  ym_LastOprTXID :: id

record yieldsState =
  ys_curYields :: YieldMeta
  ys_pendingYields :: YieldMeta

definition emptyYieldMeta :: YieldMeta where
  "emptyYieldMeta = \<lparr> ym_Total = 0, ym_Undistributed = 0, ym_LastOprTime = 0, ym_LastOprTXID = 0 \<rparr>"

section \<open>Operations\<close>

definition GetChainYields :: "yieldsState \<Rightarrow> u64" where
  "GetChainYields y = ym_Total (ys_curYields y)"

definition nextYields :: "yieldsState \<Rightarrow> u64 \<Rightarrow> id \<Rightarrow> u64 \<Rightarrow> YieldMeta" where
  "nextYields y yield txID blkTime =
     \<lparr> ym_Total = ym_Total (ys_curYields y) + yield,
       ym_Undistributed = (if yield = 0 then 0 else ym_Undistributed (ys_curYields y) + yield),
       ym_LastOprTime = blkTime, ym_LastOprTXID = txID \<rparr>"

definition ModifyYields ::
  "'db dbops \<Rightarrow> YieldMeta codec \<Rightarrow> u64 \<Rightarrow> id \<Rightarrow> u64 \<Rightarrow> ('db \<times> yieldsState, unit) sm" where
  "ModifyYields D C yield txID blkTime =
     bindS (modC (\<lambda>y. y\<lparr>ys_pendingYields := nextYields y yield txID blkTime\<rparr>)) (\<lambda>_.
     bindS (getC ys_pendingYields) (\<lambda>p.
     bindS (liftS (enc C p)) (dbPut D PrefixYieldsKey)))"

definition ReloadYields :: "'db dbops \<Rightarrow> YieldMeta codec \<Rightarrow> 'db \<Rightarrow> (yieldsState, unit) sm" where
  "ReloadYields D C d =
     bindS (liftS (db_Get D d PrefixYieldsKey)) (\<lambda>b.
     bindS (liftS (dec C b)) (\<lambda>m. modS (\<lambda>y. y\<lparr>ys_curYields := m\<rparr>)))"

definition NewYieldsState :: "'db dbops \<Rightarrow> YieldMeta codec \<Rightarrow> 'db \<Rightarrow> err + yieldsState" where
  "NewYieldsState D C d =
     (case ReloadYields D C d \<lparr> ys_curYields = emptyYieldMeta, ys_pendingYields = emptyYieldMeta \<rparr> of
        (Inl e, s) \<Rightarrow> if e \<noteq> ErrNotFound then Inl e else Inr s
      | (Inr _, s) \<Rightarrow> Inr s)"

definition CacheYieldsCommit :: "yieldsState \<Rightarrow> yieldsState" where
  "CacheYieldsCommit y =
     (if ym_Total (ys_pendingYields y) \<noteq> 0
      then y\<lparr>ys_curYields := ys_pendingYields y,
             ys_pendingYields := (ys_pendingYields y)\<lparr>ym_Total := 0\<rparr>\<rparr>
      else y)"

definition CacheYieldsAbort :: "yieldsState \<Rightarrow> yieldsState" where
  "CacheYieldsAbort y = y\<lparr>ys_pendingYields := (ys_pendingYields y)\<lparr>ym_Total := 0\<rparr>\<rparr>"

section \<open>Lemmas\<close>

lemma ModifyYields_iff: "ModifyYields D C yield txID t (d, y) = (Inr u, w) \<longleftrightarrow>
    (\<exists>b d'. enc C (nextYields y yield txID t) = Inr b \<and> db_Put D d PrefixYieldsKey b = Inr d' \<and>
       w = (d', y\<lparr>ys_pendingYields := nextYields y yield txID t\<rparr>))"
  by (auto simp: ModifyYields_def sm_iff)

text \<open>A committed change of yields is exactly the pending record, whenever its total is not zero.\<close>

lemma commit_ModifyYields:
  "ModifyYields D C yield txID t (d, y) = (Inr u, (d', y')) \<Longrightarrow> ym_Total (ys_curYields y) + yield \<noteq> 0 \<Longrightarrow>
   ys_curYields (CacheYieldsCommit y') = nextYields y yield txID t"
  by (auto simp: ModifyYields_iff CacheYieldsCommit_def nextYields_def)

lemma abort_ModifyYields: "ys_curYields (CacheYieldsAbort y) = ys_curYields y"
  "CacheYieldsCommit (CacheYieldsAbort y) = CacheYieldsAbort y"
  by (simp_all add: CacheYieldsAbort_def CacheYieldsCommit_def)

text \<open>A second change in one block reads the committed record, so it replaces the first.\<close>

lemma ModifyYields_overwrites:
  assumes "ModifyYields D C y1 i1 t1 (d, s) = (Inr u, (d1, s1))"
    and "ModifyYields D C y2 i2 t2 (d1, s1) = (Inr u', (d2, s2))"
  shows "ys_pendingYields s2 = nextYields s y2 i2 t2"
  using assms by (auto simp: ModifyYields_iff nextYields_def)

end
