(* ===== verification/SysParams.thy ===== *)
theory SysParams
  imports Ext Keys GenesisCfg
begin

text \<open>
  \<open>chain/system_params.go\<close>: the parameters of the chain that proposals change. The base and
  merit percentages of a role sum to 100; a change of one sets the other.
\<close>

section \<open>State\<close>

definition MinPercentage :: u32 where "MinPercentage = 5"
definition MaxPercentage :: u32 where "MaxPercentage = 95"

record SysParamsMeta =
  sp_Symbol :: string
  sp_TotalTokens :: u64
  sp_ClaimMinUnits :: u64
  sp_ClaimMinInterval :: u64
  sp_TotalYears :: u32
  sp_RateSustainYears :: u32
  sp_ChainCreateTime :: u64
  sp_MinerPerc :: u32
  sp_FoundationPerc :: u32
  sp_RoutePerc :: u32
  sp_SerPerc :: u32
  sp_ValidatorPerc :: u32
  sp_BaseSerPerc :: u32
  sp_MeritSerPerc :: u32
  sp_BaseRoutePerc :: u32
  sp_MeritRoutePerc :: u32
  sp_RouteStakeAmount :: u64
  sp_SerStakeAmount :: u64
  sp_MinStakeTime :: u64
  sp_MonthCard :: u64
  sp_SeasonCard :: u64
  sp_AnnualCard :: u64
  sp_BurnPerc :: u32
  sp_RootAddress :: string
  sp_FoundationAddr :: string
  sp_UpdateTime :: u64
  sp_UpdateTxID :: id

record sysParams =
  sps_curParams :: SysParamsMeta
  sps_pendingParams :: SysParamsMeta

text \<open>The zero value of the struct.\<close>

definition emptySysParamsMeta :: SysParamsMeta where
  "emptySysParamsMeta = \<lparr> sp_Symbol = [], sp_TotalTokens = 0, sp_ClaimMinUnits = 0,
     sp_ClaimMinInterval = 0, sp_TotalYears = 0, sp_RateSustainYears = 0, sp_ChainCreateTime = 0,
     sp_MinerPerc = 0, sp_FoundationPerc = 0, sp_RoutePerc = 0, sp_SerPerc = 0, sp_ValidatorPerc = 0,
     sp_BaseSerPerc = 0, sp_MeritSerPerc = 0, sp_BaseRoutePerc = 0, sp_MeritRoutePerc = 0,
     sp_RouteStakeAmount = 0, sp_SerStakeAmount = 0, sp_MinStakeTime = 0, sp_MonthCard = 0,
     sp_SeasonCard = 0, sp_AnnualCard = 0, sp_BurnPerc = 0, sp_RootAddress = [], sp_FoundationAddr = [],
     sp_UpdateTime = 0, sp_UpdateTxID = 0 \<rparr>"

text \<open>
  The parameters at the first start. \<open>ValidatorPerc\<close>, \<open>FoundationPerc\<close>, \<open>FoundationAddr\<close> and
  \<open>Symbol\<close> are not taken from the genesis and stay at their zero value.
\<close>

definition genesisParams :: "Genesis \<Rightarrow> SysParamsMeta" where
  "genesisParams g = emptySysParamsMeta\<lparr>
     sp_TotalTokens := g_TotalTokens g,
     sp_ClaimMinUnits := g_ClaimMinUnits g,
     sp_ChainCreateTime := g_ChainCreateTime g,
     sp_ClaimMinInterval := g_ClaimMinInterval g,
     sp_TotalYears := g_TotalYears g,
     sp_RateSustainYears := g_RateSustainYears g,
     sp_RoutePerc := g_RoutePerc g,
     sp_SerPerc := g_SerPerc g,
     sp_MinerPerc := g_MinerPerc g,
     sp_BaseSerPerc := g_BaseSerPerc g,
     sp_MeritSerPerc := g_MeritSerPerc g,
     sp_BaseRoutePerc := g_BaseRoutePerc g,
     sp_MeritRoutePerc := g_MeritRoutePerc g,
     sp_RouteStakeAmount := g_RouteStake g,
     sp_SerStakeAmount := g_SerStake g,
     sp_RootAddress := g_RootAddress g,
     sp_BurnPerc := g_BurnPerc g,
     sp_MonthCard := g_MonthCard g,
     sp_SeasonCard := g_SeasonCard g,
     sp_AnnualCard := g_AnnualCard g,
     sp_MinStakeTime := g_MinStakeTime g\<rparr>"

section \<open>Operations\<close>

definition ReloadParams :: "'db dbops \<Rightarrow> SysParamsMeta codec \<Rightarrow> 'db \<Rightarrow> (sysParams, unit) sm" where
  "ReloadParams D C d =
     (case db_Get D d PrefixSysParamsKey of
        Inl e \<Rightarrow> retS ()
      | Inr b \<Rightarrow> bindS (liftS (dec C b)) (\<lambda>m. modS (\<lambda>s. s\<lparr>sps_curParams := m\<rparr>)))"

definition NewSysParamsState :: "'db dbops \<Rightarrow> SysParamsMeta codec \<Rightarrow> 'db \<Rightarrow> Genesis \<Rightarrow> err + sysParams" where
  "NewSysParamsState D C d g =
     (case ReloadParams D C d \<lparr> sps_curParams = genesisParams g, sps_pendingParams = emptySysParamsMeta \<rparr> of
        (Inl e, s) \<Rightarrow> if e \<noteq> ErrNotFound then Inl e else Inr s
      | (Inr _, s) \<Rightarrow> Inr s)"

definition GetChainSymbol :: "sysParams \<Rightarrow> string" where
  "GetChainSymbol s = sp_Symbol (sps_curParams s)"
definition GetChainTokenAmount :: "sysParams \<Rightarrow> u64" where
  "GetChainTokenAmount s = (sp_TotalTokens (sps_curParams s) div 100) * ucast (sp_MinerPerc (sps_curParams s))"
definition GetPercRoute :: "sysParams \<Rightarrow> u32" where
  "GetPercRoute s = sp_RoutePerc (sps_curParams s)"
definition GetPercSer :: "sysParams \<Rightarrow> u32" where
  "GetPercSer s = sp_SerPerc (sps_curParams s)"
definition GetPercValidator :: "sysParams \<Rightarrow> u32" where
  "GetPercValidator s = sp_ValidatorPerc (sps_curParams s)"
definition GetRoutePercBase :: "sysParams \<Rightarrow> u32" where
  "GetRoutePercBase s = sp_BaseRoutePerc (sps_curParams s)"
definition GetRoutePercMerit :: "sysParams \<Rightarrow> u32" where
  "GetRoutePercMerit s = sp_MeritRoutePerc (sps_curParams s)"
definition GetSerPercBase :: "sysParams \<Rightarrow> u32" where
  "GetSerPercBase s = sp_BaseSerPerc (sps_curParams s)"
definition GetSerPercMerit :: "sysParams \<Rightarrow> u32" where
  "GetSerPercMerit s = sp_MeritSerPerc (sps_curParams s)"
definition GetPercBurn :: "sysParams \<Rightarrow> u32" where
  "GetPercBurn s = sp_BurnPerc (sps_curParams s)"
definition GetPercFoundation :: "sysParams \<Rightarrow> u32" where
  "GetPercFoundation s = sp_FoundationPerc (sps_curParams s)"
definition GetTotalYears :: "sysParams \<Rightarrow> u32" where
  "GetTotalYears s = sp_TotalYears (sps_curParams s)"
definition GetRateSustainYears :: "sysParams \<Rightarrow> u32" where
  "GetRateSustainYears s = sp_RateSustainYears (sps_curParams s)"
definition GetChainCreateTime :: "sysParams \<Rightarrow> u64" where
  "GetChainCreateTime s = sp_ChainCreateTime (sps_curParams s)"
definition GetMonthCardPrice :: "sysParams \<Rightarrow> u64" where
  "GetMonthCardPrice s = sp_MonthCard (sps_curParams s)"
definition GetSeasonCardPrice :: "sysParams \<Rightarrow> u64" where
  "GetSeasonCardPrice s = sp_SeasonCard (sps_curParams s)"
definition GetAnnualCardPrice :: "sysParams \<Rightarrow> u64" where
  "GetAnnualCardPrice s = sp_AnnualCard (sps_curParams s)"
definition GetRootAddress :: "sysParams \<Rightarrow> string" where
  "GetRootAddress s = sp_RootAddress (sps_curParams s)"
definition GetFoundationAddress :: "sysParams \<Rightarrow> string" where
  "GetFoundationAddress s = sp_FoundationAddr (sps_curParams s)"
definition GetMinStakeTime :: "sysParams \<Rightarrow> u64" where
  "GetMinStakeTime s = sp_MinStakeTime (sps_curParams s)"
definition GetSysParams :: "sysParams \<Rightarrow> SysParamsMeta" where
  "GetSysParams s = sps_curParams s"

definition parseErr :: "err \<Rightarrow> string \<Rightarrow> err" where
  "parseErr e v = Errorf (''failed to parse newValue '' @ v)"

text \<open>The if-chain of \<open>ModifyParams\<close>: the parameters with the one the key names changed.\<close>

definition setPerc :: "string \<Rightarrow> u32 \<Rightarrow> SysParamsMeta \<Rightarrow> err + SysParamsMeta" where
  "setPerc key p m =
     (if key = ''routePerc'' then Inr (m\<lparr>sp_RoutePerc := p, sp_SerPerc := 100 - p\<rparr>)
      else if key = ''serPerc'' then Inr (m\<lparr>sp_SerPerc := p, sp_RoutePerc := 100 - p\<rparr>)
      else if key = ''routeBase'' then Inr (m\<lparr>sp_BaseRoutePerc := p, sp_MeritRoutePerc := 100 - p\<rparr>)
      else if key = ''routeMerit'' then Inr (m\<lparr>sp_MeritRoutePerc := p, sp_BaseRoutePerc := 100 - p\<rparr>)
      else if key = ''serBase'' then Inr (m\<lparr>sp_BaseSerPerc := p, sp_MeritSerPerc := 100 - p\<rparr>)
      else if key = ''serMerit'' then Inr (m\<lparr>sp_MeritSerPerc := p, sp_BaseSerPerc := 100 - p\<rparr>)
      else if key = ''burn'' then Inr (m\<lparr>sp_BurnPerc := p\<rparr>)
      else Inl (Errorf (''err key '' @ key)))"

definition ModifyParams ::
  "'db dbops \<Rightarrow> SysParamsMeta codec \<Rightarrow> string \<Rightarrow> string \<Rightarrow> id \<Rightarrow> u64 \<Rightarrow> ('db \<times> sysParams, unit) sm" where
  "ModifyParams D C key newValue txID updateTime =
     bindS (getC sps_curParams) (\<lambda>cur.
     case ParseUint newValue of
       Inl e \<Rightarrow> throwS (parseErr e newValue)
     | Inr perc \<Rightarrow>
         (let newPerc = ucast perc :: u32 in
          bindS (failIf (newPerc > MaxPercentage \<or> newPerc < MinPercentage) (Errorf ''percentage err'')) (\<lambda>_.
          bindS (liftS (setPerc key newPerc (cur\<lparr>sp_UpdateTxID := txID, sp_UpdateTime := updateTime\<rparr>))) (\<lambda>m.
          bindS (modC (\<lambda>s. s\<lparr>sps_pendingParams := m\<rparr>)) (\<lambda>_.
          bindS (liftS (enc C m)) (dbPut D PrefixSysParamsKey))))))"

definition CompCurParam :: "sysParams \<Rightarrow> string \<Rightarrow> string \<Rightarrow> err + unit" where
  "CompCurParam s key newValue =
     (case ParseUint newValue of
        Inl e \<Rightarrow> Inl (parseErr e newValue)
      | Inr newPerc \<Rightarrow>
          (let m = sps_curParams s;
               old = (if key = ''routePerc'' then Inr (sp_RoutePerc m)
                      else if key = ''serPerc'' then Inr (sp_SerPerc m)
                      else if key = ''routeBase'' then Inr (sp_BaseRoutePerc m)
                      else if key = ''routeMerit'' then Inr (sp_MeritRoutePerc m)
                      else if key = ''serBase'' then Inr (sp_BaseSerPerc m)
                      else if key = ''serMerit'' then Inr (sp_MeritSerPerc m)
                      else if key = ''burn'' then Inr (sp_BurnPerc m)
                      else Inl (Errorf (''err key '' @ key))) in
           bindE old (\<lambda>p. if ucast p = newPerc then Inl (Errorf ''equal CurParam'') else Inr ())))"

definition CacheParamsCommit :: "sysParams \<Rightarrow> sysParams" where
  "CacheParamsCommit s =
     (if sp_TotalTokens (sps_pendingParams s) \<noteq> 0
      then s\<lparr>sps_curParams := sps_pendingParams s,
             sps_pendingParams := (sps_pendingParams s)\<lparr>sp_TotalTokens := 0\<rparr>\<rparr>
      else s)"

definition CacheParamsAbort :: "sysParams \<Rightarrow> sysParams" where
  "CacheParamsAbort s = s\<lparr>sps_pendingParams := (sps_pendingParams s)\<lparr>sp_TotalTokens := 0\<rparr>\<rparr>"

section \<open>The invariant of the percentages\<close>

text \<open>
  The base and merit shares of each role sum to 100 and no share exceeds 100. The shares of
  the roles themselves do not start as such a pair (30, 50 and 20 in the default genesis).
\<close>

definition percs_ok :: "SysParamsMeta \<Rightarrow> bool" where
  "percs_ok m \<longleftrightarrow> sp_RoutePerc m \<le> 100 \<and> sp_SerPerc m \<le> 100 \<and> sp_BurnPerc m \<le> 100 \<and>
     sp_BaseRoutePerc m \<le> 100 \<and> sp_MeritRoutePerc m = 100 - sp_BaseRoutePerc m \<and>
     sp_BaseSerPerc m \<le> 100 \<and> sp_MeritSerPerc m = 100 - sp_BaseSerPerc m"

definition params_ok :: "sysParams \<Rightarrow> bool" where
  "params_ok s \<longleftrightarrow> percs_ok (sps_curParams s) \<and>
     (sp_TotalTokens (sps_pendingParams s) = 0 \<or> percs_ok (sps_pendingParams s))"

lemma word_sub_le_100: "p \<le> (95::u32) \<Longrightarrow> 100 - p \<le> 100 \<and> 100 - (100 - p) = p"
  by (simp add: word_le_nat_alt unat_sub_if')

lemma setPerc_percs_ok:
  assumes "setPerc key p m = Inr m'" and "percs_ok m" and "p \<le> 95"
  shows "percs_ok m'"
  using assms(1,2) word_sub_le_100 [OF assms(3)] order_trans [OF assms(3), of 100]
  by (auto simp: setPerc_def percs_ok_def split: if_splits)

lemma setPerc_tokens: "setPerc key p m = Inr m' \<Longrightarrow> sp_TotalTokens m' = sp_TotalTokens m"
  by (auto simp: setPerc_def split: if_splits)

lemma ModifyParams_iff: "ModifyParams D C key v txID t (d, s) = (Inr u, w) \<longleftrightarrow>
    (\<exists>perc m b d'. ParseUint v = Inr perc \<and> (ucast perc :: u32) \<le> MaxPercentage \<and>
       MinPercentage \<le> (ucast perc :: u32) \<and>
       setPerc key (ucast perc) ((sps_curParams s)\<lparr>sp_UpdateTxID := txID, sp_UpdateTime := t\<rparr>) = Inr m \<and>
       enc C m = Inr b \<and> db_Put D d PrefixSysParamsKey b = Inr d' \<and> w = (d', s\<lparr>sps_pendingParams := m\<rparr>))"
  by (auto simp: ModifyParams_def sm_iff Let_def not_less split: sum.splits)

lemma ModifyParams_params_ok:
  assumes "params_ok s" and "ModifyParams D C key v txID t (d, s) = (Inr u, (d', s'))"
  shows "params_ok s'"
proof -
  obtain p :: u32 and m where p: "p \<le> 95"
    and m: "setPerc key p ((sps_curParams s)\<lparr>sp_UpdateTxID := txID, sp_UpdateTime := t\<rparr>) = Inr m"
    and s': "s' = s\<lparr>sps_pendingParams := m\<rparr>"
    using assms(2) by (auto simp: ModifyParams_iff MaxPercentage_def)
  have "percs_ok m"
    by (rule setPerc_percs_ok [OF m _ p]) (use assms(1) in \<open>simp add: params_ok_def percs_ok_def\<close>)
  then show ?thesis using assms(1) by (simp add: params_ok_def s')
qed

lemma params_ok_commit: "params_ok s \<Longrightarrow> params_ok (CacheParamsCommit s)"
  and params_ok_abort: "params_ok s \<Longrightarrow> params_ok (CacheParamsAbort s)"
  by (auto simp: params_ok_def CacheParamsCommit_def CacheParamsAbort_def)

end
