(* ===== verification/SamaState.thy ===== *)
theory SamaState
  imports StakerState PowState RewardState DetailsState ActionsState UsersState UserTypesState
    YieldsState SysParams
begin

text \<open>
  \<open>chain/state.go\<close>: the state of the chain, the nine tables together, with the operations
  that span them: commit and abort, the reward of a staker, and what the transactions do
  to the tables. The functions outside the repository come in one record, the environment.
\<close>

section \<open>State\<close>

record codecs =
  c_Staker :: "StakerMeta codec"
  c_Pow :: "PowMeta codec"
  c_Reward :: "RewardMeta codec"
  c_Global :: "RewardGlobal codec"
  c_Detail :: "DetailMeta codec"
  c_Action :: "ActionMeta codec"
  c_User :: "UserMeta codec"
  c_UserType :: "UserType codec"
  c_Yield :: "YieldMeta codec"
  c_Params :: "SysParamsMeta codec"

definition codecs_ok :: "codecs \<Rightarrow> bool" where
  "codecs_ok C \<longleftrightarrow> codec_ok (c_Staker C) \<and> codec_ok (c_Pow C) \<and> codec_ok (c_Reward C) \<and>
     codec_ok (c_Global C) \<and> codec_ok (c_Detail C) \<and> codec_ok (c_Action C) \<and> codec_ok (c_User C) \<and>
     codec_ok (c_UserType C) \<and> codec_ok (c_Yield C) \<and> codec_ok (c_Params C)"

record ('db, 'c) env =
  e_L :: lib
  e_D :: "'db dbops"
  e_R :: "'c users_lru"
  e_C :: codecs

record 'c samaState =
  sama_SysParams :: sysParams
  sama_StakerState :: stakerState
  sama_RewardState :: rewardState
  sama_PowState :: powState
  sama_YieldsState :: yieldsState
  sama_UsersState :: "'c usersState"
  sama_DetailsState :: detailsState
  sama_ActionsState :: actionsState
  sama_UserTypesState :: userTypesState

text \<open>A method of an embedded table, called on the whole.\<close>

definition onC :: "('s \<Rightarrow> 't) \<Rightarrow> ('t \<Rightarrow> 's \<Rightarrow> 's) \<Rightarrow> ('db \<times> 't, 'a) sm \<Rightarrow> ('db \<times> 's, 'a) sm" where
  "onC g p m = zoomS (\<lambda>(d, s). (d, g s)) (\<lambda>(d, t) (_, s). (d, p t s)) m"

definition onParams :: "('db \<times> sysParams, 'a) sm \<Rightarrow> ('db \<times> 'c samaState, 'a) sm" where
  "onParams = onC sama_SysParams (\<lambda>t s. s\<lparr>sama_SysParams := t\<rparr>)"
definition onStakers :: "('db \<times> stakerState, 'a) sm \<Rightarrow> ('db \<times> 'c samaState, 'a) sm" where
  "onStakers = onC sama_StakerState (\<lambda>t s. s\<lparr>sama_StakerState := t\<rparr>)"
definition onRewards :: "('db \<times> rewardState, 'a) sm \<Rightarrow> ('db \<times> 'c samaState, 'a) sm" where
  "onRewards = onC sama_RewardState (\<lambda>t s. s\<lparr>sama_RewardState := t\<rparr>)"
definition onPows :: "('db \<times> powState, 'a) sm \<Rightarrow> ('db \<times> 'c samaState, 'a) sm" where
  "onPows = onC sama_PowState (\<lambda>t s. s\<lparr>sama_PowState := t\<rparr>)"
definition onYields :: "('db \<times> yieldsState, 'a) sm \<Rightarrow> ('db \<times> 'c samaState, 'a) sm" where
  "onYields = onC sama_YieldsState (\<lambda>t s. s\<lparr>sama_YieldsState := t\<rparr>)"
definition onUsers :: "('db \<times> 'c usersState, 'a) sm \<Rightarrow> ('db \<times> 'c samaState, 'a) sm" where
  "onUsers = onC sama_UsersState (\<lambda>t s. s\<lparr>sama_UsersState := t\<rparr>)"
definition onDetails :: "('db \<times> detailsState, 'a) sm \<Rightarrow> ('db \<times> 'c samaState, 'a) sm" where
  "onDetails = onC sama_DetailsState (\<lambda>t s. s\<lparr>sama_DetailsState := t\<rparr>)"
definition onActions :: "('db \<times> actionsState, 'a) sm \<Rightarrow> ('db \<times> 'c samaState, 'a) sm" where
  "onActions = onC sama_ActionsState (\<lambda>t s. s\<lparr>sama_ActionsState := t\<rparr>)"

lemmas on_defs = onC_def onParams_def onStakers_def onRewards_def onPows_def onYields_def onUsers_def
  onDetails_def onActions_def

lemma onC_iff [sm_iff]: "onC g p m (d, s) = (Inr x, w) \<longleftrightarrow>
    (\<exists>d' t. m (d, g s) = (Inr x, (d', t)) \<and> w = (d', p t s))"
  by (auto simp: onC_def sm_iff)

text \<open>\<open>SamaNew\<close>: the tables are read back in this order; the first error stops it.\<close>

definition result :: "(err + unit) \<times> 's \<Rightarrow> err + 's" where
  "result r = (case r of (Inl e, _) \<Rightarrow> Inl e | (Inr _, s) \<Rightarrow> Inr s)"

definition SamaNew ::
  "('db, 'c) env \<Rightarrow> int \<Rightarrow> err + 'c \<Rightarrow> 'db \<Rightarrow> Genesis \<Rightarrow> err + 'c samaState" where
  "SamaNew E now newCache d g =
     (let D = e_D E; C = e_C E in
      bindE (NewSysParamsState D (c_Params C) d g) (\<lambda>sysParams.
      bindE (result (NewStakerState D (c_Staker C) d)) (\<lambda>stakeState.
      bindE (result (NewRewardState D (c_Reward C) (c_Global C) d)) (\<lambda>rewardState.
      bindE (result (NewPowState D (c_Pow C) d)) (\<lambda>powState.
      bindE (NewYieldsState D (c_Yield C) d) (\<lambda>yieldsState.
      bindE (NewUserstate (e_R E) D (c_User C) newCache d) (\<lambda>usersState.
      bindE (result (NewDetailstate D (c_Detail C) d)) (\<lambda>detailsState.
      bindE (result (NewActionsState D (c_Action C) now d)) (\<lambda>actionsState.
      bindE (result (NewUserTypesState D (c_UserType C) d)) (\<lambda>userTypesState.
        Inr \<lparr> sama_SysParams = sysParams, sama_StakerState = stakeState,
              sama_RewardState = rewardState, sama_PowState = powState,
              sama_YieldsState = yieldsState, sama_UsersState = usersState,
              sama_DetailsState = detailsState, sama_ActionsState = actionsState,
              sama_UserTypesState = userTypesState \<rparr>))))))))))"

section \<open>Commit and abort\<close>

text \<open>None of the nine methods returns an error, so each runs.\<close>

definition Commit :: "('db, 'c) env \<Rightarrow> 'c samaState \<Rightarrow> 'c samaState" where
  "Commit E s = s\<lparr>
     sama_RewardState := CacheRewardsCommit (sama_RewardState s),
     sama_StakerState := CacheStakersCommit (sama_StakerState s),
     sama_DetailsState := CacheDetailsCommit (sama_DetailsState s),
     sama_ActionsState := CacheActionsCommit (sama_ActionsState s),
     sama_UsersState := CacheUsersCommit (e_R E) (sama_UsersState s),
     sama_PowState := CachePowsCommit (sama_PowState s),
     sama_YieldsState := CacheYieldsCommit (sama_YieldsState s),
     sama_SysParams := CacheParamsCommit (sama_SysParams s),
     sama_UserTypesState := CacheUserTypesCommit (sama_UserTypesState s)\<rparr>"

definition Abort :: "'c samaState \<Rightarrow> 'c samaState" where
  "Abort s = s\<lparr>
     sama_RewardState := CacheRewardsAbort (sama_RewardState s),
     sama_ActionsState := CacheActionsAbort (sama_ActionsState s),
     sama_UsersState := CacheUsersAbort (sama_UsersState s),
     sama_DetailsState := CacheDetailsAbort (sama_DetailsState s),
     sama_PowState := CachePowsAbort (sama_PowState s),
     sama_SysParams := CacheParamsAbort (sama_SysParams s),
     sama_YieldsState := CacheYieldsAbort (sama_YieldsState s),
     sama_UserTypesState := CacheUserTypesAbort (sama_UserTypesState s),
     sama_StakerState := CacheStakersAbort (sama_StakerState s)\<rparr>"

section \<open>The reward of a staker\<close>

definition SecondsYear :: u64 where "SecondsYear = 364 * 24 * 60 * 60"
definition SecondsMonth :: u64 where "SecondsMonth = 30 * 24 * 60 * 60"
definition SecondsMinute :: u64 where "SecondsMinute = 60"

text \<open>
  \<open>RewardCurYear\<close>: each term of the sum is truncated to an integer before it is added. Go
  panics when \<open>RateSustainYears\<close> is zero and \<open>TotalYears\<close> is read, since the loop condition
  divides by it.
\<close>

definition yearsTotal :: "lib \<Rightarrow> u32 \<Rightarrow> u64" where
  "yearsTotal L n = sum_list (map (\<lambda>i. x_f2u L (x_pow08 L (word_of_nat i))) [0..<unat n])"

definition RewardCurYear :: "lib \<Rightarrow> 'c samaState \<Rightarrow> u32 \<Rightarrow> err + u64" where
  "RewardCurYear L s index =
     bindE (divU (GetTotalYears (sama_SysParams s)) (GetRateSustainYears (sama_SysParams s))) (\<lambda>n.
       let total = yearsTotal L n;
           totalTokens = GetChainTokenAmount (sama_SysParams s);
           quota = (if index \<noteq> 0 then x_pow08 L index else 1) in
       Inr (if x_rnd L (of_nat (unat total)) = 0 then x_undef L
            else x_f2u L (x_rnd L (x_rnd L (x_rnd L (of_nat (unat totalTokens)) * quota) /
                                   x_rnd L (of_nat (unat total))))))"

definition StakePercentage :: "'c samaState \<Rightarrow> byte \<Rightarrow> u32" where
  "StakePercentage s t =
     (if t = stakerTypeRoute then GetPercRoute (sama_SysParams s)
      else if t = stakerTypeSer then GetPercSer (sama_SysParams s)
      else if t = stakerTypeValidator then GetPercValidator (sama_SysParams s)
      else 0)"

definition StakersNum :: "'c samaState \<Rightarrow> byte \<Rightarrow> nat" where
  "StakersNum s t =
     (case GetStakersNum (sama_StakerState s) of (routes, sers, validators) \<Rightarrow>
        if t = stakerTypeRoute then routes
        else if t = stakerTypeSer then sers
        else if t = stakerTypeValidator then validators
        else 0)"

definition StakePowMinutes :: "'c samaState \<Rightarrow> byte \<Rightarrow> address \<Rightarrow> u64" where
  "StakePowMinutes s t a =
     (case GetPowMeta (sama_PowState s) t a of None \<Rightarrow> 0 | Some p \<Rightarrow> pow_TotalTime p)"

definition ChainTotalPowMinutes :: "'c samaState \<Rightarrow> byte \<Rightarrow> u64" where
  "ChainTotalPowMinutes s t = TotalPowTime (sama_PowState s) t"

text \<open>
  The years of \<open>for i := sYear; i < eYear+1; i++\<close>. An end year is a quotient by
  \<open>SecondsYear\<close>, so \<open>eYear + 1\<close> does not wrap.
\<close>

definition yearRange :: "u64 \<Rightarrow> u64 \<Rightarrow> u64 list" where
  "yearRange sYear eYear = map word_of_nat [unat sYear ..< unat (eYear + 1)]"

text \<open>The seconds worked in year \<open>i\<close>, shared by the two reward loops.\<close>

definition workSecs :: "u64 \<Rightarrow> u64 \<Rightarrow> u64 \<Rightarrow> u64 \<Rightarrow> u64" where
  "workSecs createTime startTime endTime i =
     (let tmpStart = createTime + i * SecondsYear;
          tmpEnd = createTime + (i + 1) * SecondsYear in
      if tmpEnd < endTime then
        (if tmpStart > startTime then tmpEnd - tmpStart else tmpEnd - startTime)
      else
        (if tmpStart > startTime then endTime - tmpStart else endTime - startTime))"

text \<open>
  One year of \<open>StakerReword\<close>. The merit of the year is added to \<open>meritInc\<close>, which is not
  reset, and the whole of \<open>meritInc\<close> is then shared out again.
\<close>

definition rewordYear ::
  "lib \<Rightarrow> 'c samaState \<Rightarrow> byte \<Rightarrow> nat \<Rightarrow> address \<Rightarrow> u64 \<Rightarrow> u64 \<Rightarrow> u32 \<Rightarrow> u32 \<Rightarrow> u64 \<Rightarrow>
   u64 \<times> u64 \<times> u64 \<Rightarrow> err + u64 \<times> u64 \<times> u64" where
  "rewordYear L s t roleNum a startTime endTime percBase percMerit i = (\<lambda>(base, merit, inc).
     let createTime = GetChainCreateTime (sama_SysParams s) in
     bindE (RewardCurYear L s (ucast i)) (\<lambda>totalRewardYear.
       let roleTotalYear = totalRewardYear * ucast (StakePercentage s t) div 100;
           secs = workSecs createTime startTime endTime i in
       if t = stakerTypeValidator then
         bindE (divU roleTotalYear (word_of_nat roleNum * SecondsYear)) (\<lambda>q.
           Inr (base + q * secs, 0, inc))
       else
         let baseTotal = roleTotalYear * ucast percBase div 100;
             meritTotal = roleTotalYear * ucast percMerit div 100;
             inc' = inc + (meritTotal div SecondsYear) * secs in
         bindE (divU baseTotal (word_of_nat roleNum * SecondsYear)) (\<lambda>q.
           let totalTime = ChainTotalPowMinutes s t; userTime = StakePowMinutes s t a in
           Inr (base + q * secs,
                if totalTime \<noteq> 0 then merit + inc' * userTime div totalTime else merit,
                inc'))))"

definition StakerReword ::
  "lib \<Rightarrow> 'c samaState \<Rightarrow> byte \<Rightarrow> nat \<Rightarrow> address \<Rightarrow> u64 \<Rightarrow> u64 \<Rightarrow> err + u64 \<times> u64 \<times> u64" where
  "StakerReword L s t roleNum a stakeTime endTime =
     (let (percBase, percMerit) =
            (if t = stakerTypeRoute then (GetRoutePercBase (sama_SysParams s), GetRoutePercMerit (sama_SysParams s))
             else if t = stakerTypeSer then (GetSerPercBase (sama_SysParams s), GetSerPercMerit (sama_SysParams s))
             else if t = stakerTypeValidator then (100, 0) else (0, 0));
          (startTime, base0, merit0, yield0) =
            (case GetRewardMeta (sama_RewardState s) a of
               Some r \<Rightarrow> (rw_LastOprTime r, rw_BaseReward r, rw_MeritReward r, rw_YieldReward r)
             | None \<Rightarrow> (stakeTime, 0, 0, 0));
          roleYields = GetChainYields (sama_YieldsState s) * ucast (StakePercentage s t) div 100;
          createTime = GetChainCreateTime (sama_SysParams s);
          sYear = (startTime - createTime) div SecondsYear;
          eYear = (endTime - createTime) div SecondsYear in
      bindE (divU roleYields (word_of_nat roleNum)) (\<lambda>share.
      bindE (foldE (rewordYear L s t roleNum a startTime endTime percBase percMerit)
               (yearRange sYear eYear) (base0, merit0, 0)) (\<lambda>(base, merit, _).
        Inr (base, merit, yield0 + share))))"

text \<open>
  \<open>FoundationReword\<close> computes the reward of the foundation year by year and returns 0.
\<close>

definition FoundationReword :: "lib \<Rightarrow> 'c samaState \<Rightarrow> address \<Rightarrow> u64 \<Rightarrow> err + u64" where
  "FoundationReword L s a endTime =
     (let createTime = GetChainCreateTime (sama_SysParams s);
          startTime = (case GetRewardMeta (sama_RewardState s) a of
                         Some r \<Rightarrow> rw_LastClaimTime r | None \<Rightarrow> createTime);
          sYear = (startTime - createTime) div SecondsYear;
          eYear = (endTime - createTime) div SecondsYear in
      if endTime < startTime then Inl (Errorf ''end time err'')
      else
        bindE (foldE (\<lambda>i fReward.
          bindE (RewardCurYear L s (ucast i)) (\<lambda>totalRewardYear.
            let roleTotalYear = totalRewardYear * ucast (GetPercFoundation (sama_SysParams s)) div 100 in
            Inr (fReward + (roleTotalYear div SecondsYear) * workSecs createTime startTime endTime i)))
          (yearRange sYear eYear) 0) (\<lambda>fReward. Inr 0))"

section \<open>Updating rewards\<close>

definition claimedMeta :: "address \<Rightarrow> id \<Rightarrow> u64 \<Rightarrow> u64 \<times> u64 \<times> u64 \<Rightarrow> RewardMeta" where
  "claimedMeta a txID endTime = (\<lambda>(base, merit, yield).
     \<lparr> rw_YieldReward = yield, rw_BaseReward = base, rw_MeritReward = merit,
       rw_LastOprTime = endTime, rw_LastOprTXID = txID, rw_LastClaimTime = endTime,
       rw_LastClaimTXID = txID, rw_RewardAddr = a \<rparr>)"

definition UpdateFoundationReward ::
  "('db, 'c) env \<Rightarrow> address \<Rightarrow> id \<Rightarrow> u64 \<Rightarrow> ('db \<times> 'c samaState, unit) sm" where
  "UpdateFoundationReward E a txID endTime =
     bindS (getC (\<lambda>s. GetLastUpdateTime (sama_RewardState s))) (\<lambda>lastTime.
     if lastTime > endTime then throwS ErrEndTimeTooEarly
     else if lastTime = endTime then retS ()
     else
       bindS (getC (\<lambda>s. FoundationReword (e_L E) s a endTime)) (\<lambda>r.
       bindS (liftS r) (\<lambda>base.
       onRewards (UpdateOwner (e_D E) (c_Reward (e_C E)) (claimedMeta a txID endTime (base, 0, 0))))))"

text \<open>One staker of \<open>UpdateStakerReward\<close>; the staker who claims is paid and starts again at zero.\<close>

definition updateOneReward ::
  "('db, 'c) env \<Rightarrow> nat \<Rightarrow> address \<Rightarrow> id \<Rightarrow> u64 \<Rightarrow> StakerMeta \<Rightarrow> ('db \<times> 'c samaState, unit) sm" where
  "updateOneReward E roleNum a txID endTime staker =
     (if stk_StakeTime staker \<ge> endTime then retS ()
      else
        bindS (getC (\<lambda>s.
          if a \<noteq> stk_StakerAddr staker then
            StakerReword (e_L E) s (ucast (stk_StakerType staker)) roleNum (stk_StakerAddr staker)
              (stk_StakeTime staker) endTime
          else Inr (0, 0, 0))) (\<lambda>r.
        bindS (liftS r) (\<lambda>bmy.
        onRewards (UpdateOwner (e_D E) (c_Reward (e_C E))
          (claimedMeta (stk_StakerAddr staker) txID endTime bmy)))))"

definition UpdateStakerReward ::
  "('db, 'c) env \<Rightarrow> byte \<Rightarrow> address \<Rightarrow> id \<Rightarrow> u64 \<Rightarrow> ('db \<times> 'c samaState, unit) sm" where
  "UpdateStakerReward E t a txID endTime =
     bindS (getC (\<lambda>s. GetLastUpdateTime (sama_RewardState s))) (\<lambda>lastTime.
     if lastTime > endTime then throwS ErrEndTimeTooEarly
     else if lastTime = endTime then retS ()
     else
       bindS (getC (\<lambda>s. StakersNum s t)) (\<lambda>roleNum.
       if roleNum = 0 then retS ()
       else
         bindS (getC (\<lambda>s. GetStakers (sama_StakerState s) t)) (\<lambda>stakers.
         bindS (forS stakers (updateOneReward E roleNum a txID endTime)) (\<lambda>_.
         bindS (onRewards (UpdateGlobal (e_D E) (c_Global (e_C E))
                  \<lparr> rg_LastOprTime = endTime, rg_LastOprTXID = txID \<rparr>)) (\<lambda>_.
         onYields (ModifyYields (e_D E) (c_Yield (e_C E)) 0 txID endTime))))))"

definition CalcReward ::
  "lib \<Rightarrow> 'c samaState \<Rightarrow> byte \<Rightarrow> address \<Rightarrow> u64 \<Rightarrow> err + u64 \<times> u64 \<times> u64" where
  "CalcReward L s t a endTime =
     (if t = 0 then
        if a \<noteq> x_HexToAddress L (GetFoundationAddress (sama_SysParams s))
        then Inl (Errorf ''address or claimer type  err'')
        else bindE (FoundationReword L s a endTime) (\<lambda>base. Inr (base, 0, 0))
      else
        (case GetStakerMeta (sama_StakerState s) t a of
           None \<Rightarrow> Inl (Errorf ''GetStakerMeta err'')
         | Some staker \<Rightarrow>
             if endTime < stk_StakeTime staker then Inl (Errorf ''endTime err'')
             else StakerReword L s (ucast (stk_StakerType staker)) (StakersNum s t)
                    (stk_StakerAddr staker) (stk_StakeTime staker) endTime))"

section \<open>What the transactions do\<close>

definition DealStakeTx :: "('db, 'c) env \<Rightarrow> StakerMeta \<Rightarrow> ('db \<times> 'c samaState, unit) sm" where
  "DealStakeTx E staker =
     bindS (UpdateStakerReward E (ucast (stk_StakerType staker)) (stk_StakerAddr staker)
              (stk_TxID staker) (stk_StakeTime staker)) (\<lambda>_.
     onStakers (PutStaker (e_D E) (c_Staker (e_C E)) staker))"

definition DealUnStakeTx ::
  "('db, 'c) env \<Rightarrow> byte \<Rightarrow> address \<Rightarrow> id \<Rightarrow> u64 \<Rightarrow> ('db \<times> 'c samaState, unit) sm" where
  "DealUnStakeTx E t a txID endTime =
     bindS (UpdateStakerReward E t a txID endTime) (\<lambda>_. onStakers (DelStaker (e_D E) t a))"

definition CheckPayAmount :: "'c samaState \<Rightarrow> u64 \<Rightarrow> u64 \<Rightarrow> u64 \<Rightarrow> u64 \<Rightarrow> bool" where
  "CheckPayAmount s userType amount startTime endTime =
     (if (endTime - startTime) mod SecondsMonth \<noteq> 0 then False
      else (case GetUserType (sama_UserTypesState s) userType of
              None \<Rightarrow> False | Some m \<Rightarrow> amount = ut_FeeUnits m))"

definition DealAddUserTx ::
  "('db, 'c) env \<Rightarrow> id \<Rightarrow> u64 \<Rightarrow> UserMeta \<Rightarrow> ('db \<times> 'c samaState, unit) sm" where
  "DealAddUserTx E txID blkTime user =
     bindS (onUsers (\<lambda>(d, us).
              case GetUserMeta (e_R E) (e_D E) (c_User (e_C E)) d (um_Address user) us of
                (r, us') \<Rightarrow> (r, (d, us')))) (\<lambda>found.
     bindS (case found of
              None \<Rightarrow> retS user
            | Some p \<Rightarrow>
                if um_StartTime user > um_EndTime p + SecondsMinute \<or>
                   um_StartTime user < um_EndTime p - SecondsMinute
                then throwS (Errorf ''start time err'')
                else retS (user\<lparr>um_StartTime := um_StartTime p, um_TxsID := um_TxsID p\<rparr>)) (\<lambda>user1.
     let user2 = user1\<lparr>um_TxsID := um_TxsID user1 @ [txID]\<rparr> in
     bindS (onUsers (PutUser (e_D E) (c_User (e_C E)) user2)) (\<lambda>_.
     bindS (getC (\<lambda>s. GetPercBurn (sama_SysParams s))) (\<lambda>perc.
     let yield = um_PayAmount user2 * ucast (100 - perc) div 100 in
     onYields (ModifyYields (e_D E) (c_Yield (e_C E)) yield txID blkTime)))))"

text \<open>The error of \<open>PutDetail\<close> is not looked at.\<close>

definition UpdateNodeParams :: "('db, 'c) env \<Rightarrow> DetailMeta \<Rightarrow> ('db \<times> 'c samaState, unit) sm" where
  "UpdateNodeParams E detail =
     bindS (ignS (onDetails (PutDetail (e_D E) (c_Detail (e_C E)) (dt_WorkAddress detail) detail))) (\<lambda>_. retS ())"

section \<open>Queries that span tables\<close>

definition rootVoted :: "lib \<Rightarrow> 'c samaState \<Rightarrow> ActionMeta \<Rightarrow> bool" where
  "rootVoted L s action \<longleftrightarrow> x_HexToAddress L (GetRootAddress (sama_SysParams s)) \<in> set (act_Voters action)"

definition IsBeConfirmed ::
  "lib \<Rightarrow> int \<Rightarrow> 'c samaState \<Rightarrow> u64 \<Rightarrow> string \<Rightarrow> err + bool \<times> short_id" where
  "IsBeConfirmed L now s actionType key =
     bindE (GetVotersNum (sama_ActionsState s) actionType key) (\<lambda>(votersNum, actionID).
       let routeNum = StakersNum s stakerTypeRoute in
       if routeNum < 3 then
         bindE (GetActionMeta now (sama_ActionsState s) actionID) (\<lambda>r.
           case r of
             None \<Rightarrow> Inl (Panic ''nil pointer dereference'')
           | Some action \<Rightarrow> Inr (if rootVoted L s action then (True, actionID) else (False, 0)))
       else Inr (if votersNum \<ge> routeNum * 2 div 3 then (True, actionID) else (False, 0)))"

definition ProposalStatus :: "lib \<Rightarrow> int \<Rightarrow> 'c samaState \<Rightarrow> short_id \<Rightarrow> err + bool" where
  "ProposalStatus L now s actionID =
     bindE (GetActionMeta now (sama_ActionsState s) actionID) (\<lambda>r.
       case r of
         None \<Rightarrow> Inl (Errorf ''not found'')
       | Some action \<Rightarrow>
           let routeNum = StakersNum s stakerTypeRoute in
           Inr (if routeNum < 3 then rootVoted L s action
                else length (act_Voters action) \<ge> routeNum * 2 div 3))"

fun validWorkLoop :: "lib \<Rightarrow> 'c samaState \<Rightarrow> address \<Rightarrow> DetailMeta list \<Rightarrow> err + bool \<times> byte" where
  "validWorkLoop L s a [] = Inr (False, 0)"
| "validWorkLoop L s a (node # nodes) =
     bindE (hex_DecodeString (dt_WorkKey node)) (\<lambda>pbkb.
     bindE (x_UnmarshalPubkey L pbkb) (\<lambda>pbk.
       if x_PubkeyToAddress L pbk = a then
         if dt_StakerType node = ucast stakerTypeRoute then
           Inr (IsRoute (sama_StakerState s) (dt_StakeAddress node), ucast (dt_StakerType node))
         else if dt_StakerType node = ucast stakerTypeSer then
           Inr (IsSer (sama_StakerState s) (dt_StakeAddress node), ucast (dt_StakerType node))
         else Inl (Errorf ''type err'')
       else validWorkLoop L s a nodes))"

definition IsValidWorkAddress :: "lib \<Rightarrow> 'c samaState \<Rightarrow> address \<Rightarrow> err + bool \<times> byte" where
  "IsValidWorkAddress L s a = validWorkLoop L s a (GetDetails (sama_DetailsState s))"

definition CheckClaimAddress :: "lib \<Rightarrow> 'c samaState \<Rightarrow> address \<Rightarrow> bool \<times> byte" where
  "CheckClaimAddress L s a =
     (case IsStaker (sama_StakerState s) a of
        (True, t) \<Rightarrow> (True, t)
      | (False, _) \<Rightarrow>
          if a = x_HexToAddress L (GetFoundationAddress (sama_SysParams s)) then (True, 0) else (False, 0))"

end
