(* ===== verification/SamaProps.thy ===== *)
theory SamaProps
  imports SamaState
begin

text \<open>
  What holds of the state of the chain: the invariant of its tables and its preservation by
  every operation, on the error paths too; commit and abort as operations on the maps the
  tables stand for; the arithmetic of the rewards.
\<close>

section \<open>The invariant of the tables\<close>

definition stakers_ok :: "stakerState \<Rightarrow> bool" where
  "stakers_ok s \<longleftrightarrow> table_ok (ss_curRoute s) (ss_pendingRouteAdd s) (ss_pendingRouteDel s) \<and>
     table_ok (ss_curSer s) (ss_pendingSerAdd s) (ss_pendingSerDel s) \<and>
     table_ok (ss_curValidator s) (ss_pendingValidatorAdd s) (ss_pendingValidatorDel s)"

definition pows_ok :: "powState \<Rightarrow> bool" where
  "pows_ok s \<longleftrightarrow> table_ok (ps_curSer s) (ps_pendingRouteAdd s) (ps_pendingRouteDel s) \<and>
     table_ok (ps_curRoute s) (ps_pendingSerAdd s) (ps_pendingSerDel s)"

definition sama_ok :: "'c samaState \<Rightarrow> bool" where
  "sama_ok s \<longleftrightarrow> stakers_ok (sama_StakerState s) \<and> pows_ok (sama_PowState s) \<and>
     rewards.ok (sama_RewardState s) \<and> details.ok (sama_DetailsState s) \<and>
     actions.ok (sama_ActionsState s) \<and> user_types.ok (sama_UserTypesState s) \<and>
     table_ok [] (us_pendingUsersAdd (sama_UsersState s)) (us_pendingUsersDel (sama_UsersState s)) \<and>
     params_ok (sama_SysParams s)"

lemma stakers_ok_iff: "stakers_ok s \<longleftrightarrow> routes.ok s \<and> sers.ok s \<and> validators.ok s"
  by (simp add: stakers_ok_def routes.ok_def sers.ok_def validators.ok_def)

lemma pows_ok_iff: "pows_ok s \<longleftrightarrow> serPows.ok s \<and> routePows.ok s"
  by (simp add: pows_ok_def serPows.ok_def routePows.ok_def)

lemma stakers_ok_pend: "stakers_ok s \<Longrightarrow> stakers_ok (pendStaker t a m s)"
  by (simp add: stakers_ok_def pendStaker_def setPendingStakers_def GetPendingStakers_def table_ok_put)

lemma stakers_ok_drop: "stakers_ok s \<Longrightarrow> stakers_ok (dropStaker t a s)"
  by (simp add: stakers_ok_def dropStaker_def setPendingStakers_def GetPendingStakers_def table_ok_rem)

lemma stakers_ok_commit: "stakers_ok s \<Longrightarrow> stakers_ok (CacheStakersCommit s)"
  by (simp add: stakers_ok_iff routes.ok_commit sers.ok_commit validators.ok_commit)

lemma stakers_ok_abort: "stakers_ok s \<Longrightarrow> stakers_ok (CacheStakersAbort s)"
  by (simp add: stakers_ok_iff routes.ok_abort sers.ok_abort validators.ok_abort)

lemma pows_ok_undel: "pows_ok s \<Longrightarrow> pows_ok (undelPow t a s)"
  by (simp add: pows_ok_def pow_defs table_ok_def) blast

lemma pows_ok_add_undel: "pows_ok s \<Longrightarrow> pows_ok (addPow t a m (undelPow t a s))"
  by (simp add: pows_ok_def pow_defs table_ok_put)

lemma pows_ok_drop: "pows_ok s \<Longrightarrow> pows_ok (dropPow t a s)"
  by (simp add: pows_ok_def pow_defs table_ok_rem)

lemma pows_ok_commit: "pows_ok s \<Longrightarrow> pows_ok (CachePowsCommit s)"
  by (simp add: pows_ok_iff serPows.ok_commit routePows.ok_commit)

lemma pows_ok_abort: "pows_ok s \<Longrightarrow> pows_ok (CachePowsAbort s)"
  by (simp add: pows_ok_iff serPows.ok_abort routePows.ok_abort)

lemma pres_PutStaker: "pres (\<lambda>w. stakers_ok (snd w)) (PutStaker D C m)"
  unfolding PutStaker_def storeStaker_def Let_def
  by (intro pres_intro pres_modC stakers_ok_pend)

lemma pres_DelStaker: "pres (\<lambda>w. stakers_ok (snd w)) (DelStaker D t a)"
  unfolding DelStaker_def by (intro pres_intro pres_modC stakers_ok_drop)

lemma pres_PutPow: "pres (\<lambda>w. pows_ok (snd w)) (PutPow D C t p)"
proof (rule presI)
  fix w :: "'a \<times> powState" assume w: "pows_ok (snd w)"
  obtain d f where df: "w = (d, f)" by fastforce
  show "pows_ok (snd (snd (PutPow D C t p w)))"
  proof (cases "t \<in> set powTypes")
    case False
    then show ?thesis using w by (simp add: PutPow_def throwS_def)
  next
    case True
    show ?thesis
    proof (cases "accumPow f t p")
      case (Inl e)
      then show ?thesis
        using w True by (simp add: df PutPow_def sm_defs pows_ok_undel)
    next
      case (Inr m)
      then show ?thesis
        using w True
        by (auto simp: df PutPow_def sm_defs pows_ok_add_undel split: sum.splits)
    qed
  qed
qed

lemma pres_DelPow: "pres (\<lambda>w. pows_ok (snd w)) (DelPow D t a)"
  unfolding DelPow_def by (intro pres_intro pres_modC pows_ok_drop)

lemma pres_UpdateOwner: "pres (\<lambda>w. rewards.ok (snd w)) (UpdateOwner D C m)"
  unfolding UpdateOwner_def by (rule rewards.pres_ok_putS)

lemma pres_UpdateGlobal: "pres (\<lambda>w. rewards.ok (snd w)) (UpdateGlobal D C g)"
  unfolding UpdateGlobal_def by (intro pres_intro)

lemma pres_ModifyYields: "pres (\<lambda>w. True) (ModifyYields D C y i t)"
  by (simp add: pres_def)

lemma pres_GetUserMeta: "pres (\<lambda>s. P (us_pendingUsersAdd s) (us_pendingUsersDel s)) (GetUserMeta R D C d a)"
  by (auto simp: pres_def GetUserMeta_def split: prod.splits option.splits)

lemma pres_PutUser:
  "pres (\<lambda>w. table_ok [] (us_pendingUsersAdd (snd w)) (us_pendingUsersDel (snd w))) (PutUser D C m)"
proof -
  let ?P = "\<lambda>s. table_ok [] (us_pendingUsersAdd s) (us_pendingUsersDel s)"
  have "pres (\<lambda>w. ?P (snd w)) (modC (pendUser (um_Address m) m))"
    by (rule pres_modC) (simp add: pendUser_def table_ok_put)
  then show ?thesis
    unfolding PutUser_def by (intro pres_bindS pres_dbPut [where P = ?P] pres_liftS)
qed

text \<open>A method of one table keeps the invariant of the whole when it keeps its own.\<close>

lemma pres_onC:
  assumes "pres (\<lambda>w. Q (snd w)) m" and "\<And>s. P s \<Longrightarrow> Q (g s)" and "\<And>t s. P s \<Longrightarrow> Q t \<Longrightarrow> P (p t s)"
  shows "pres (\<lambda>w. P (snd w)) (onC g p m)"
  unfolding onC_def
  by (rule pres_zoomS [OF assms(1)]) (use assms(2,3) in auto)

lemma pres_onStakers:
  "pres (\<lambda>w. stakers_ok (snd w)) m \<Longrightarrow> pres (\<lambda>w. sama_ok (snd w)) (onStakers m)"
  unfolding onStakers_def by (erule pres_onC) (simp_all add: sama_ok_def)

lemma pres_onPows:
  "pres (\<lambda>w. pows_ok (snd w)) m \<Longrightarrow> pres (\<lambda>w. sama_ok (snd w)) (onPows m)"
  unfolding onPows_def by (erule pres_onC) (simp_all add: sama_ok_def)

lemma pres_onRewards:
  "pres (\<lambda>w. rewards.ok (snd w)) m \<Longrightarrow> pres (\<lambda>w. sama_ok (snd w)) (onRewards m)"
  unfolding onRewards_def by (erule pres_onC) (simp_all add: sama_ok_def)

lemma pres_onDetails:
  "pres (\<lambda>w. details.ok (snd w)) m \<Longrightarrow> pres (\<lambda>w. sama_ok (snd w)) (onDetails m)"
  unfolding onDetails_def by (erule pres_onC) (simp_all add: sama_ok_def)

lemma pres_onActions:
  "pres (\<lambda>w. actions.ok (snd w)) m \<Longrightarrow> pres (\<lambda>w. sama_ok (snd w)) (onActions m)"
  unfolding onActions_def by (erule pres_onC) (simp_all add: sama_ok_def)

lemma pres_onUsers:
  "pres (\<lambda>w. table_ok [] (us_pendingUsersAdd (snd w)) (us_pendingUsersDel (snd w))) m \<Longrightarrow>
   pres (\<lambda>w. sama_ok (snd w)) (onUsers m)"
  unfolding onUsers_def
  by (rule pres_onC [where Q = "\<lambda>s. table_ok [] (us_pendingUsersAdd s) (us_pendingUsersDel s)"])
    (simp_all add: sama_ok_def)

lemma pres_onYields: "pres (\<lambda>w. sama_ok (snd w)) (onYields m)"
  unfolding onYields_def
  by (rule pres_onC [where Q = "\<lambda>_. True"]) (simp_all add: sama_ok_def pres_def)

lemma pres_onParams:
  "pres (\<lambda>w. params_ok (snd w)) m \<Longrightarrow> pres (\<lambda>w. sama_ok (snd w)) (onParams m)"
  unfolding onParams_def by (erule pres_onC) (simp_all add: sama_ok_def)

lemmas pres_on = pres_onStakers pres_onPows pres_onRewards pres_onDetails pres_onActions pres_onUsers
  pres_onYields pres_onParams

lemma pres_updateOneReward: "pres (\<lambda>w. sama_ok (snd w)) (updateOneReward E n a txID t st)"
  unfolding updateOneReward_def by (intro pres_intro pres_on pres_UpdateOwner)

lemma pres_UpdateStakerReward: "pres (\<lambda>w. sama_ok (snd w)) (UpdateStakerReward E t a txID e)"
  unfolding UpdateStakerReward_def
  by (intro pres_intro pres_on pres_updateOneReward pres_UpdateGlobal)

lemma pres_UpdateFoundationReward: "pres (\<lambda>w. sama_ok (snd w)) (UpdateFoundationReward E a txID e)"
  unfolding UpdateFoundationReward_def by (intro pres_intro pres_on pres_UpdateOwner)

lemma pres_DealStakeTx: "pres (\<lambda>w. sama_ok (snd w)) (DealStakeTx E m)"
  unfolding DealStakeTx_def by (intro pres_intro pres_on pres_UpdateStakerReward pres_PutStaker)

lemma pres_DealUnStakeTx: "pres (\<lambda>w. sama_ok (snd w)) (DealUnStakeTx E t a txID e)"
  unfolding DealUnStakeTx_def by (intro pres_intro pres_on pres_UpdateStakerReward pres_DelStaker)

lemma pres_UpdateNodeParams: "pres (\<lambda>w. sama_ok (snd w)) (UpdateNodeParams E m)"
  unfolding UpdateNodeParams_def by (intro pres_intro pres_on details.pres_ok_putS)

lemma pres_DealAddUserTx: "pres (\<lambda>w. sama_ok (snd w)) (DealAddUserTx E txID t user)"
proof -
  let ?P = "\<lambda>w. table_ok [] (us_pendingUsersAdd (snd w)) (us_pendingUsersDel (snd w))"
  have get: "pres ?P (\<lambda>(d, us). case GetUserMeta R D C d a us of (r, us') \<Rightarrow> (r, (d, us')))" for R D C a
    by (rule presI) (auto split: prod.splits dest: presD' [OF pres_GetUserMeta [of "table_ok []"]])
  show ?thesis
    unfolding DealAddUserTx_def Let_def
    by (intro pres_intro pres_on get pres_PutUser)
qed

lemma sama_ok_Commit: "sama_ok s \<Longrightarrow> sama_ok (Commit E s)"
  by (simp add: sama_ok_def Commit_def stakers_ok_commit pows_ok_commit rewards.ok_commit
      details.ok_commit actions.ok_commit user_types.ok_commit params_ok_commit CacheUsersCommit_def
      table_ok_def)

lemma sama_ok_Abort: "sama_ok s \<Longrightarrow> sama_ok (Abort s)"
  by (simp add: sama_ok_def Abort_def stakers_ok_abort pows_ok_abort rewards.ok_abort
      details.ok_abort actions.ok_abort user_types.ok_abort params_ok_abort CacheUsersAbort_def
      table_ok_def)

end
