(* ===== verification/SamaRewards.thy ===== *)
theory SamaRewards
  imports SamaProps
begin

text \<open>
  The arithmetic of the rewards of \<open>chain/state.go\<close>: the division of a period of work into
  years, the reward of a year, and what the update of the rewards does to the tables.
\<close>

section \<open>The years of a period\<close>

definition secsYear :: nat where
  "secsYear = 31449600"

lemma unat_SecondsYear: "unat SecondsYear = secsYear"
  by (simp add: SecondsYear_def secsYear_def)

lemma word_year: "c + word_of_nat i * SecondsYear = word_of_nat (unat c + i * secsYear)" for c :: u64
  by (simp add: unat_SecondsYear [symmetric])

lemma unat_year: "unat c + i * secsYear < 2 ^ 64 \<Longrightarrow>
    unat (c + word_of_nat i * SecondsYear) = unat c + i * secsYear" for c :: u64
  unfolding word_year by (simp add: unat_of_nat del: of_nat_add of_nat_mult)

text \<open>The instant of a period \<open>s..e\<close> closest to the start of year \<open>i\<close>.\<close>

definition clip :: "nat \<Rightarrow> nat \<Rightarrow> nat \<Rightarrow> nat \<Rightarrow> nat" where
  "clip c s e i = min e (max s (c + i * secsYear))"

lemma clip_mono: "clip c s e i \<le> clip c s e (Suc i)"
  by (auto simp: clip_def)

lemma clip_step: "clip c s e (Suc i) - clip c s e i \<le> secsYear"
  by (auto simp: clip_def min_def max_def)

lemma unat_period:
  fixes s e tS tE :: u64
  assumes "unat tS \<le> unat tE" and "unat s < unat tE" and "unat tS \<le> unat e" and "unat s \<le> unat e"
  shows "unat (if tE < e then (if tS > s then tE - tS else tE - s) else (if tS > s then e - tS else e - s))
    = min (unat e) (unat tE) - max (unat s) (unat tS)"
  using assms by (auto simp: word_less_nat_alt unat_sub_if')

lemma unat_workSecs:
  assumes "unat c \<le> unat s" and "unat s \<le> unat e"
    and lo: "(unat s - unat c) div secsYear \<le> i" and hi: "i \<le> (unat e - unat c) div secsYear"
    and top: "unat c + Suc i * secsYear < 2 ^ 64"
  shows "unat (workSecs c s e (word_of_nat i)) =
    clip (unat c) (unat s) (unat e) (Suc i) - clip (unat c) (unat s) (unat e) i"
proof -
  define tS tE where "tS = c + word_of_nat i * SecondsYear" and "tE = c + (word_of_nat i + 1) * SecondsYear"
  have pos: "0 < secsYear" by (simp add: secsYear_def)
  have S: "unat tS = unat c + i * secsYear"
    unfolding tS_def by (rule unat_year) (use top in simp)
  have T: "unat tE = unat c + Suc i * secsYear"
    unfolding tE_def using unat_year [OF top] by (simp only: of_nat_Suc add.commute)
  have "unat s - unat c < Suc i * secsYear"
    using lo pos by (metis dividend_less_div_times le_imp_less_Suc less_mult_imp_div_less div_less_iff_less_mult)
  moreover have "i * secsYear \<le> unat e - unat c"
    using hi pos by (metis div_times_less_eq_dividend dual_order.trans mult_le_mono1)
  ultimately have "unat (workSecs c s e (word_of_nat i)) = min (unat e) (unat tE) - max (unat s) (unat tS)"
    unfolding workSecs_def Let_def tS_def [symmetric] tE_def [symmetric] using assms(1,2)
    by (intro unat_period) (simp_all add: S T)
  then show ?thesis
    using assms(1,2) \<open>i * secsYear \<le> _\<close> \<open>_ < Suc i * secsYear\<close> by (simp add: clip_def S T)
qed

lemma sum_clip:
  "m \<le> n \<Longrightarrow> (\<Sum>i = m..<n. clip c s e (Suc i) - clip c s e i) = clip c s e n - clip c s e m"
proof (induction n)
  case 0
  then show ?case by simp
next
  case (Suc n)
  show ?case
  proof (cases "m = Suc n")
    case False
    then have "m \<le> n" using Suc.prems by simp
    moreover have "clip c s e m \<le> clip c s e n"
      using \<open>m \<le> n\<close> by (rule lift_Suc_mono_le [of "clip c s e", OF clip_mono])
    ultimately show ?thesis using Suc.IH clip_mono [of c s e n] by simp
  qed simp
qed

lemma yearRange_period:
  assumes c: "unat c \<le> unat s" and s: "unat s \<le> unat e"
    and top: "unat c + Suc ((unat e - unat c) div secsYear) * secsYear < 2 ^ 64"
  shows "yearRange ((s - c) div SecondsYear) ((e - c) div SecondsYear) =
    map word_of_nat [(unat s - unat c) div secsYear ..< Suc ((unat e - unat c) div secsYear)]"
proof -
  let ?n = "(unat e - unat c) div secsYear"
  have m: "unat ((s - c) div SecondsYear) = (unat s - unat c) div secsYear"
    and n: "unat ((e - c) div SecondsYear) = ?n"
    using c s by (simp_all add: unat_div unat_sub_if' unat_SecondsYear)
  have pos: "0 < secsYear" by (simp add: secsYear_def)
  have "Suc ?n * 1 \<le> Suc ?n * secsYear" using pos by (intro mult_le_mono2) simp
  moreover have "Suc ?n * secsYear < 2 ^ 64" using top by (metis add_lessD1 add.commute)
  ultimately have "?n + 1 < 2 ^ 64" by simp
  then have "unat ((e - c) div SecondsYear + 1) = Suc ?n"
    using n by (simp add: unat_add_lem [THEN iffD1])
  then show ?thesis by (simp only: yearRange_def m)
qed

text \<open>The seconds worked in the years of a period are together the length of the period.\<close>

lemma workSecs_partition:
  assumes c: "unat c \<le> unat s" and s: "unat s \<le> unat e"
    and top: "unat c + Suc ((unat e - unat c) div secsYear) * secsYear < 2 ^ 64"
  shows "(\<Sum>i\<leftarrow>yearRange ((s - c) div SecondsYear) ((e - c) div SecondsYear). unat (workSecs c s e i))
    = unat e - unat s"
proof -
  let ?m = "(unat s - unat c) div secsYear" and ?n = "(unat e - unat c) div secsYear"
  have pos: "0 < secsYear" by (simp add: secsYear_def)
  have mn: "?m \<le> Suc ?n" using s by (simp add: div_le_mono le_SucI)
  have "(\<Sum>i\<leftarrow>[?m..<Suc ?n]. unat (workSecs c s e (word_of_nat i))) =
      (\<Sum>i\<leftarrow>[?m..<Suc ?n]. clip (unat c) (unat s) (unat e) (Suc i) - clip (unat c) (unat s) (unat e) i)"
  proof (rule arg_cong [of _ _ sum_list], rule map_cong [OF refl])
    fix i assume "i \<in> set [?m..<Suc ?n]"
    then have i: "?m \<le> i" "i \<le> ?n" by auto
    have "unat c + Suc i * secsYear < 2 ^ 64"
      using top mult_le_mono1 [of "Suc i" "Suc ?n" secsYear] i(2) by linarith
    then show "unat (workSecs c s e (word_of_nat i)) =
        clip (unat c) (unat s) (unat e) (Suc i) - clip (unat c) (unat s) (unat e) i"
      by (rule unat_workSecs [OF c s i])
  qed
  also have "\<dots> = clip (unat c) (unat s) (unat e) (Suc ?n) - clip (unat c) (unat s) (unat e) ?m"
    using sum_clip [OF mn] by (simp only: interv_sum_list_conv_sum_set_nat set_upt)
  also have "clip (unat c) (unat s) (unat e) (Suc ?n) = unat e"
  proof -
    have "unat e - unat c < Suc ?n * secsYear" using pos by (metis dividend_less_div_times add.commute mult_Suc)
    then show ?thesis using s by (simp add: clip_def)
  qed
  also have "clip (unat c) (unat s) (unat e) ?m = unat s"
  proof -
    have "?m * secsYear \<le> unat s - unat c" by (rule div_times_less_eq_dividend)
    then have "unat c + ?m * secsYear \<le> unat s" using c by linarith
    then show ?thesis using s by (simp add: clip_def)
  qed
  finally show ?thesis
    by (simp only: yearRange_period [OF assms] map_map comp_def)
qed

text \<open>No year counts more than its own seconds.\<close>

lemma workSecs_le:
  assumes c: "unat c \<le> unat s" and s: "unat s \<le> unat e"
    and top: "unat c + Suc ((unat e - unat c) div secsYear) * secsYear < 2 ^ 64"
    and i: "i \<in> set (yearRange ((s - c) div SecondsYear) ((e - c) div SecondsYear))"
  shows "unat (workSecs c s e i) \<le> secsYear"
proof -
  obtain j where j: "i = word_of_nat j" "(unat s - unat c) div secsYear \<le> j"
      "j \<le> (unat e - unat c) div secsYear"
    using i unfolding yearRange_period [OF c s top] by auto
  have "unat c + Suc j * secsYear < 2 ^ 64"
    using top mult_le_mono1 [of "Suc j" "Suc ((unat e - unat c) div secsYear)" secsYear] j(3) by linarith
  from unat_workSecs [OF c s j(2,3) this] show ?thesis by (simp add: j(1) clip_step)
qed

section \<open>The reward of a year\<close>

text \<open>Only the first term of the truncated sum is not zero.\<close>

lemma yearsTotal_1:
  assumes L: "float_ok L" and n: "n \<noteq> 0"
  shows "yearsTotal L n = 1"
proof -
  have zero: "x_f2u L (x_pow08 L (word_of_nat i)) = 0" if "0 < i" "i < unat n" for i
  proof -
    have "unat n < 2 ^ 32" using unsigned_less [of n, where ?'a = nat] by simp
    then have "unat (word_of_nat i :: u32) = i" using that(2) by (simp add: unat_of_nat)
    then have "(word_of_nat i :: u32) \<noteq> 0" using that(1) by auto
    then have "0 \<le> x_pow08 L (word_of_nat i)" "x_pow08 L (word_of_nat i) < 1"
      using L by (auto simp: float_ok_def)
    then have "\<lfloor>x_pow08 L (word_of_nat i)\<rfloor> = 0" by (simp add: floor_eq_iff)
    then show ?thesis
      using L \<open>0 \<le> x_pow08 L _\<close> \<open>x_pow08 L _ < 1\<close> by (simp add: float_ok_def)
  qed
  have "unat n = Suc (unat n - 1)" using n by (simp add: unat_gt_0 word_neq_0_conv)
  then have up: "[0..<unat n] = 0 # [Suc 0..<unat n]" by (metis upt_conv_Cons zero_less_Suc)
  have "map (\<lambda>i. x_f2u L (x_pow08 L (word_of_nat i))) [Suc 0..<unat n] = map (\<lambda>_. 0) [Suc 0..<unat n]"
    using zero by (intro map_cong) auto
  then have "sum_list (map (\<lambda>i. x_f2u L (x_pow08 L (word_of_nat i))) [Suc 0..<unat n]) = 0"
    by (simp only: sum_list_0)
  moreover have "x_f2u L (x_pow08 L 0) = 1" using L by (simp add: float_ok_def)
  ultimately show ?thesis by (simp add: yearsTotal_def up)
qed

lemma float_ok_nat: "float_ok L \<Longrightarrow> n < 2 ^ 53 \<Longrightarrow> x_rnd L (rat_of_nat n) = rat_of_nat n"
  by (simp add: float_ok_def)

lemma float_ok_mono: "float_ok L \<Longrightarrow> x \<le> y \<Longrightarrow> x_rnd L x \<le> x_rnd L y"
  by (simp add: float_ok_def)

lemma float_ok_0: "float_ok L \<Longrightarrow> x_rnd L 0 = 0"
  and float_ok_1: "float_ok L \<Longrightarrow> x_rnd L 1 = 1"
  using float_ok_nat [of L 0] float_ok_nat [of L 1] by simp_all

definition quotaYear :: "lib \<Rightarrow> u32 \<Rightarrow> rat" where
  "quotaYear L index = (if index \<noteq> 0 then x_pow08 L index else 1)"

lemma quotaYear: "float_ok L \<Longrightarrow> 0 \<le> quotaYear L i \<and> quotaYear L i \<le> 1"
  by (auto simp: quotaYear_def float_ok_def intro: less_imp_le)

lemma RewardCurYear_le:
  assumes L: "float_ok L" and tok: "unat (GetChainTokenAmount (sama_SysParams s)) < 2 ^ 53"
    and "GetRateSustainYears (sama_SysParams s) \<noteq> 0"
    and "GetTotalYears (sama_SysParams s) div GetRateSustainYears (sama_SysParams s) \<noteq> 0"
  shows "\<exists>r. RewardCurYear L s i = Inr r \<and> unat r \<le> unat (GetChainTokenAmount (sama_SysParams s)) \<and>
    (i = 0 \<longrightarrow> r = GetChainTokenAmount (sama_SysParams s))"
proof -
  define t where "t = rat_of_nat (unat (GetChainTokenAmount (sama_SysParams s)))"
  let ?x = "x_rnd L (x_rnd L (t * quotaYear L i))"
  have t: "x_rnd L t = t" unfolding t_def using float_ok_nat [OF L tok] .
  have "0 \<le> t" unfolding t_def by (rule of_nat_0_le_iff)
  have 1: "RewardCurYear L s i = Inr (x_f2u L ?x)"
    using assms(3) yearsTotal_1 [OF L assms(4)] t
    by (simp add: RewardCurYear_def divU_def Let_def quotaYear_def float_ok_1 [OF L] t_def)
  have q: "0 \<le> t * quotaYear L i" "t * quotaYear L i \<le> t"
    using quotaYear [OF L, of i] \<open>0 \<le> t\<close> by (simp_all add: mult_left_le)
  have "0 \<le> x_rnd L (t * quotaYear L i)" "x_rnd L (t * quotaYear L i) \<le> t"
    using float_ok_mono [OF L q(1)] float_ok_mono [OF L q(2)] float_ok_0 [OF L] t by simp_all
  then have x: "0 \<le> ?x" "?x \<le> t"
    using float_ok_mono [OF L, of 0] float_ok_mono [OF L, of _ t] float_ok_0 [OF L] t by (metis, metis)
  have lt: "t < 2 ^ 64"
  proof -
    have "t < rat_of_nat (2 ^ 53)" using tok by (simp only: t_def of_nat_less_iff)
    then show ?thesis by simp
  qed
  then have f: "x_f2u L ?x = word_of_int \<lfloor>?x\<rfloor>" using L x by (simp add: float_ok_def)
  have ft: "\<lfloor>t\<rfloor> = int (unat (GetChainTokenAmount (sama_SysParams s)))"
    unfolding t_def by (rule floor_of_nat)
  then have fl: "0 \<le> \<lfloor>?x\<rfloor>" "\<lfloor>?x\<rfloor> \<le> int (unat (GetChainTokenAmount (sama_SysParams s)))"
    using x floor_mono [OF x(2)] by simp_all
  have "unat (x_f2u L ?x) \<le> unat (GetChainTokenAmount (sama_SysParams s))"
  proof -
    have "x_f2u L ?x = word_of_nat (nat \<lfloor>?x\<rfloor>)" using f fl(1) by (simp add: word_of_nat_eq_iff)
    moreover have le: "nat \<lfloor>?x\<rfloor> \<le> unat (GetChainTokenAmount (sama_SysParams s))" using fl by linarith
    ultimately show ?thesis using le_unat_uoi [OF le] by simp
  qed
  moreover have "x_f2u L ?x = GetChainTokenAmount (sama_SysParams s)" if "i = 0"
    using that f t ft by (simp add: quotaYear_def)
  ultimately show ?thesis using 1 by blast
qed

section \<open>The foundation\<close>

lemma FoundationReword_zero: "FoundationReword L s a e = Inr r \<Longrightarrow> r = 0"
  by (auto simp: FoundationReword_def Let_def sm_iff split: if_splits)

section \<open>Updating the rewards\<close>

text \<open>
  An update never moves the time of the last distribution that later updates are compared
  with, and leaves the stakers, the proofs, the details and the users as they are.
\<close>

definition other_tables :: "'c samaState \<Rightarrow> 'c samaState \<Rightarrow> bool" where
  "other_tables s s' \<longleftrightarrow> sama_StakerState s' = sama_StakerState s \<and> sama_PowState s' = sama_PowState s \<and>
     sama_DetailsState s' = sama_DetailsState s \<and> sama_UsersState s' = sama_UsersState s \<and>
     sama_ActionsState s' = sama_ActionsState s \<and> sama_UserTypesState s' = sama_UserTypesState s \<and>
     sama_SysParams s' = sama_SysParams s"

lemma other_tables_refl [simp]: "other_tables s s"
  by (simp add: other_tables_def)

lemma pres_other_rewards: "pres (\<lambda>w. other_tables s (snd w)) (onRewards m)"
  and pres_other_yields: "pres (\<lambda>w. other_tables s (snd w)) (onYields m')"
  unfolding onRewards_def onYields_def
  by (rule pres_onC [where Q = "\<lambda>_. True"]; simp add: pres_def other_tables_def)+

lemma UpdateStakerReward_other: "pres (\<lambda>w. other_tables s (snd w)) (UpdateStakerReward E t a txID e)"
  unfolding UpdateStakerReward_def updateOneReward_def
  by (intro pres_intro pres_other_rewards pres_other_yields)

lemma UpdateFoundationReward_other:
  "pres (\<lambda>w. other_tables s (snd w)) (UpdateFoundationReward E a txID e)"
  unfolding UpdateFoundationReward_def
  by (intro pres_intro pres_other_rewards)

lemma UpdateStakerReward_stakers:
  "UpdateStakerReward E t a txID e (d, s) = (r, (d', s')) \<Longrightarrow> other_tables s s'"
  using presD' [OF UpdateStakerReward_other [of s], of E t a txID e "(d, s)" r "(d', s')"] by simp

lemma UpdateStakerReward_late:
  "rg_LastOprTime (rs_curGlobal (sama_RewardState s)) > e \<Longrightarrow>
   rs_pendigGlobal (sama_RewardState s) = emptyRewardGlobal \<Longrightarrow>
   UpdateStakerReward E t a txID e (d, s) = (Inl ErrEndTimeTooEarly, (d, s))"
  by (auto simp: UpdateStakerReward_def sm_defs GetLastUpdateTime_def emptyRewardGlobal_def)

text \<open>The reward filed for each staker.\<close>

definition reward_view :: "'c samaState \<Rightarrow> address \<Rightarrow> RewardMeta option" where
  "reward_view s = rewards.view (sama_RewardState s)"

lemma updateOneReward_claimer:
  assumes "updateOneReward E n a txID e staker (d, s) = (Inr u, (d', s'))"
    and "stk_StakerAddr staker = a" and "stk_StakeTime staker < e"
  shows "reward_view s' = (reward_view s)(a \<mapsto> claimedMeta a txID e (0, 0, 0))"
proof -
  have "\<not> e \<le> stk_StakeTime staker" using assms(3) by simp
  with assms(1,2) show ?thesis
    by (auto simp: updateOneReward_def sm_iff onRewards_def UpdateOwner_def reward_view_def claimedMeta_def
      rewards.putS_iff rewards.view_put)
qed

lemma UpdateStakerReward_frozen:
  "pres (\<lambda>w. global_frozen (sama_RewardState (snd w)) g) (UpdateStakerReward E t a txID e)"
proof -
  have on: "pres (\<lambda>w. global_frozen (sama_RewardState (snd w)) g) (onRewards m)"
    if "pres (\<lambda>w. global_frozen (snd w) g) m" for m :: "('d \<times> rewardState, 'x) sm"
    unfolding onRewards_def by (rule pres_onC [OF that]) simp_all
  have yields: "pres (\<lambda>w. global_frozen (sama_RewardState (snd w)) g) (onYields m)"
    for m :: "('d \<times> yieldsState, 'x) sm"
    unfolding onYields_def by (rule pres_onC [where Q = "\<lambda>_. True"]) (simp_all add: pres_def)
  show ?thesis
    unfolding UpdateStakerReward_def updateOneReward_def
    by (intro pres_intro on yields global_frozen_UpdateOwner global_frozen_UpdateGlobal)
qed

end
