(* ===== verification/TxExec.thy ===== *)
theory TxExec
  imports TxData Storage SamaRewards
begin

text \<open>
  Execution of a transaction on the chain: \<open>Execute\<close> of each kind (\<open>chain/*_tx.go\<close>) and
  \<open>Transaction.Execute\<close> (\<open>chain/tx.go\<close>), which charges the fee, runs the kind's own code and
  records the transaction. The state is the block's database with the tables of the chain;
  what a handler changed before it fails stays changed.
\<close>

section \<open>Context\<close>

record TransactionContext =
  tc_Genesis :: Genesis
  tc_BlockTime :: u64
  tc_TxID :: id
  tc_Sender :: address

record Context =
  cx_RecentBlockIDs :: "id set"
  cx_RecentTxIDs :: "id set"
  cx_RecentLoadUnits :: u64
  cx_Prices :: "u64 list"
  cx_Costs :: "u64 list"
  cx_NextCost :: u64
  cx_NextPrice :: u64

type_synonym ('db, 'c) txm = "('db \<times> 'c samaState, unit) sm"

text \<open>A computation on the database alone.\<close>

definition onDB :: "('db, 'a) sm \<Rightarrow> ('db \<times> 's, 'a) sm" where
  "onDB m = zoomS fst (\<lambda>d (_, s). (d, s)) m"

lemma onDB_iff [sm_iff]: "onDB m (d, s) = (Inr x, w) \<longleftrightarrow> (\<exists>d'. m d = (Inr x, d') \<and> w = (d', s))"
  by (auto simp: onDB_def sm_iff)

text \<open>\<open>if _, err := ModifyBalance(...); err != nil { return err }\<close>.\<close>

definition pay :: "('db, 'c) env \<Rightarrow> address \<Rightarrow> bool \<Rightarrow> u64 \<Rightarrow> ('db, 'c) txm" where
  "pay E a add x = bindS (onDB (ModifyBalance (e_L E) (e_D E) a add x)) (\<lambda>_. retS ())"

definition payStake :: "('db, 'c) env \<Rightarrow> address \<Rightarrow> bool \<Rightarrow> u64 \<Rightarrow> ('db, 'c) txm" where
  "payStake E a add x = bindS (onDB (ModifyStakeBalance (e_L E) (e_D E) a add x)) (\<lambda>_. retS ())"

definition EffectiveSecs :: u64 where "EffectiveSecs = 100"
definition SecondsDay :: u64 where "SecondsDay = 24 * 60 * 60"
definition Seconds7Day :: u64 where "Seconds7Day = 7 * 24 * 60 * 60"

section \<open>Set and transfer\<close>

definition SetTx_Execute ::
  "('db, 'c) env \<Rightarrow> ValueMeta codec \<Rightarrow> SetTx \<Rightarrow> TransactionContext \<Rightarrow> ('db, 'c) txm" where
  "SetTx_Execute E CV s t =
     (if length (set_Value s) = 0 then throwS ErrValueEmpty
      else if word_of_nat (length (set_Value s)) > g_MaxValueSize (tc_Genesis t) then throwS ErrValueTooBig
      else
        let k = ValueHash (e_L E) (set_Value s) in
        bindS (onDB (\<lambda>d. (GetValueMeta (e_D E) CV d k, d))) (\<lambda>r.
        case r of
          Some _ \<Rightarrow> throwS ErrKeyExists
        | None \<Rightarrow> onDB (PutKey (e_D E) CV k
            \<lparr> vm_Size = word_of_nat (length (set_Value s)), vm_TxID = tc_TxID t,
              vm_Created = tc_BlockTime t \<rparr>)))"

definition TransferTx_Execute ::
  "('db, 'c) env \<Rightarrow> TransferTx \<Rightarrow> TransactionContext \<Rightarrow> ('db, 'c) txm" where
  "TransferTx_Execute E t c =
     (if tr_To t = 0 then throwS ErrNonActionable
      else if tr_To t = tc_Sender c then throwS ErrNonActionable
      else if tr_Units t = 0 then throwS ErrNonActionable
      else bindS (pay E (tc_Sender c) False (tr_Units t)) (\<lambda>_. pay E (tr_To t) True (tr_Units t)))"

section \<open>Staking\<close>

definition StakeTx_Execute ::
  "('db, 'c) env \<Rightarrow> int \<Rightarrow> StakeTx \<Rightarrow> TransactionContext \<Rightarrow> ('db, 'c) txm" where
  "StakeTx_Execute E now s t =
     (let g = tc_Genesis t; L = e_L E in
      if stx_StakerType s \<notin> {ucast stakerTypeRoute, ucast stakerTypeSer, ucast stakerTypeValidator}
      then throwS ErrStakerType
      else if stx_StakeAmount s \<noteq> g_RouteStake g \<and> stx_StakeAmount s \<noteq> g_SerStake g
      then throwS ErrStakeAmount
      else if stx_StakerAddr s = 0 then throwS ErrNonActionable
      else
        bindS (getC (\<lambda>w. fst (IsStaker (sama_StakerState w) (stx_StakerAddr s)))) (\<lambda>exists.
        bindS (failIf exists (Errorf ''have already been staker'')) (\<lambda>_.
        bindS (getC (\<lambda>w. IsBeConfirmed L now w actionTypeAddStaker (x_AddressHex L (tc_Sender t)))) (\<lambda>r.
        bindS (ignS (liftS r)) (\<lambda>c.
        case c of
          None \<Rightarrow> throwS (Errorf ''no be confirmed'')
        | Some (ok, actionID) \<Rightarrow>
            if \<not> ok then throwS (Errorf ''no be confirmed'')
            else
              bindS (pay E (tc_Sender t) False (stx_StakeAmount s)) (\<lambda>_.
              bindS (payStake E (tc_Sender t) True (stx_StakeAmount s)) (\<lambda>_.
              bindS (DealStakeTx E \<lparr> stk_TxID = tc_TxID t, stk_StakerType = stx_StakerType s,
                       stk_StakeAmount = stx_StakeAmount s, stk_StakeTime = tc_BlockTime t,
                       stk_StakerAddr = stx_StakerAddr s \<rparr>) (\<lambda>_.
              onActions (DelAction (e_D E) actionID)))))))))"

definition UnStakeTx_Execute ::
  "('db, 'c) env \<Rightarrow> int \<Rightarrow> UnStakeTx \<Rightarrow> TransactionContext \<Rightarrow> ('db, 'c) txm" where
  "UnStakeTx_Execute E now u t =
     (let typ = ucast (ux_StakerType u) :: byte in
      if ux_StakerType u \<notin> {ucast stakerTypeRoute, ucast stakerTypeSer} then throwS ErrStakerType
      else if now_After now (ux_EndTime u + EffectiveSecs) then throwS ErrEndTimeTooEarly
      else if now_Before now (ux_EndTime u) then throwS ErrEndTimeTooLate
      else
        bindS (getC (\<lambda>w. GetStakerMeta (sama_StakerState w) typ (tc_Sender t))) (\<lambda>r.
        case r of
          None \<Rightarrow> throwS (Errorf ''not found'')
        | Some staker \<Rightarrow>
            bindS (getC (\<lambda>w. GetMinStakeTime (sama_SysParams w))) (\<lambda>minTime.
            bindS (failIf (now_Before now (stk_StakeTime staker + minTime))
                     (Errorf ''stake time must > 90 days'')) (\<lambda>_.
            bindS (payStake E (tc_Sender t) False (stk_StakeAmount staker)) (\<lambda>_.
            bindS (getC (\<lambda>w. CalcReward (e_L E) w typ (tc_Sender t) (ux_EndTime u))) (\<lambda>c.
            bindS (liftS c) (\<lambda>(base, merit, yield).
            let totalReward = base + merit + yield in
            bindS (failIf (ux_RewardAmount u \<noteq> totalReward) (Errorf ''reward amount is err'')) (\<lambda>_.
            bindS (pay E (tc_Sender t) True (stk_StakeAmount staker + totalReward)) (\<lambda>_.
            DealUnStakeTx E typ (tc_Sender t) (tc_TxID t) (ux_EndTime u))))))))))"

definition ClaimTx_Execute ::
  "('db, 'c) env \<Rightarrow> int \<Rightarrow> ClaimTx \<Rightarrow> TransactionContext \<Rightarrow> ('db, 'c) txm" where
  "ClaimTx_Execute E now c t =
     (let L = e_L E in
      bindS (getC (\<lambda>w. CheckClaimAddress L w (tc_Sender t))) (\<lambda>(ok, claimerType).
      bindS (failIf (\<not> ok) (Errorf ''sender must staker or foundation'')) (\<lambda>_.
      bindS (getC (\<lambda>w. GetLastClaimTime (sama_RewardState w) (tc_Sender t))) (\<lambda>lastClaimTime.
      bindS (failIf (unix_now now - lastClaimTime < Seconds7Day)
               (Errorf ''time interval need > 7 days'')) (\<lambda>_.
      bindS (getC (\<lambda>w. GetChainCreateTime (sama_SysParams w))) (\<lambda>createTime.
      let endTime = ((unix_now now - createTime) div SecondsDay) * SecondsDay + createTime in
      bindS (failIf (endTime \<noteq> cx_EndTime c \<and> endTime \<noteq> cx_EndTime c + 1) (Errorf ''end time err'')) (\<lambda>_.
      bindS (getC (\<lambda>w. CalcReward L w claimerType (tc_Sender t) (cx_EndTime c))) (\<lambda>r.
      bindS (liftS r) (\<lambda>(base, merit, yield).
      let totalReward = base + merit + yield in
      bindS (failIf (cx_RewardAmount c \<noteq> totalReward) (Errorf ''reward amount is err'')) (\<lambda>_.
      bindS (pay E (tc_Sender t) True totalReward) (\<lambda>_.
      if claimerType = 0 then UpdateFoundationReward E (tc_Sender t) (tc_TxID t) (cx_EndTime c)
      else UpdateStakerReward E claimerType (tc_Sender t) (tc_TxID t) (cx_EndTime c))))))))))))"

section \<open>Governance\<close>

definition GovernTx_Execute ::
  "('db, 'c) env \<Rightarrow> int \<Rightarrow> GovernTx \<Rightarrow> TransactionContext \<Rightarrow> ('db, 'c) txm" where
  "GovernTx_Execute E now g t =
     bindS (getC (\<lambda>w. GetActionMeta now (sama_ActionsState w) (gx_ActionID g))) (\<lambda>r.
     bindS (liftS r) (\<lambda>found.
     case found of
       None \<Rightarrow> throwS (Errorf ''action not found'')
     | Some action \<Rightarrow>
         bindS (failIf (unix_now now > act_EndTime action + Seconds7Day) (Errorf ''need < 14 days'')) (\<lambda>_.
         bindS (getC (\<lambda>w.
           let routeNum = fst (GetStakersNum (sama_StakerState w)) in
           if routeNum < 3 then rootVoted (e_L E) w action
           else length (act_Voters action) \<ge> routeNum * 2 div 3)) (\<lambda>isBeConfirmed.
         bindS (failIf (\<not> isBeConfirmed) (Errorf ''action not be confirmed'')) (\<lambda>_.
         if act_ActionType action = actionTypeModifySysParam \<or>
            act_ActionType action = actionTypeModifyFoundation
         then onParams (ModifyParams (e_D E) (c_Params (e_C E)) (act_Key action) (act_NewValue action)
                (tc_TxID t) (tc_BlockTime t))
         else if act_ActionType action = actionTypeAddUserType \<or>
                 act_ActionType action = actionTypeModifyUserType
         then
           bindS (liftS (ParseUint (act_Key action))) (\<lambda>userType.
           bindS (liftS (ParseUint (act_NewValue action))) (\<lambda>userFee.
           onC sama_UserTypesState (\<lambda>x s. s\<lparr>sama_UserTypesState := x\<rparr>)
             (AddUserType (e_D E) (c_UserType (e_C E))
               \<lparr> ut_TypeName = [], ut_TypeID = userType, ut_FeeUnits = userFee \<rparr>)))
         else throwS (Errorf ''action type err''))))))"

definition VoteTx_Execute ::
  "('db, 'c) env \<Rightarrow> int \<Rightarrow> VoteTx \<Rightarrow> TransactionContext \<Rightarrow> ('db, 'c) txm" where
  "VoteTx_Execute E now v t =
     bindS (getC (\<lambda>w.
       if IsRoute (sama_StakerState w) (tc_Sender t) then Inr ()
       else if tc_Sender t \<noteq> x_HexToAddress (e_L E) (GetRootAddress (sama_SysParams w))
       then Inl (Errorf ''sender is not route node'')
       else if fst (GetStakersNum (sama_StakerState w)) > 3
       then Inl (Errorf ''sender do not have permission'')
       else Inr ())) (\<lambda>perm.
     bindS (liftS perm) (\<lambda>_.
     bindS (getC (\<lambda>w. GetActionMeta now (sama_ActionsState w) (vx_ActionID v))) (\<lambda>r.
     bindS (liftS r) (\<lambda>found.
     case found of
       None \<Rightarrow> throwS (Errorf ''not found action'')
     | Some action \<Rightarrow>
         bindS (failIf (tc_Sender t \<in> set (act_Voters action)) (Errorf ''voter is exist'')) (\<lambda>_.
         bindS (failIf (unix_now now > act_EndTime action) (Errorf ''action timeout'')) (\<lambda>_.
         bindS (ignS (onActions (PutAction (e_D E) (c_Action (e_C E)) (vx_ActionID v)
           (action\<lparr>act_TxIDs := act_TxIDs action @ [tc_TxID t],
                   act_Voters := act_Voters action @ [tc_Sender t]\<rparr>)))) (\<lambda>_. retS ())))))))"

text \<open>
  A withdrawal changes the committed action itself, through the pointer that
  \<open>GetActionMeta\<close> returned, and then files the same object as pending.
\<close>

definition WithdrawnTx_Execute ::
  "('db, 'c) env \<Rightarrow> int \<Rightarrow> WithdrawnTx \<Rightarrow> TransactionContext \<Rightarrow> ('db, 'c) txm" where
  "WithdrawnTx_Execute E now w t =
     bindS (getC (\<lambda>s. IsRoute (sama_StakerState s) (tc_Sender t))) (\<lambda>ok.
     bindS (failIf (\<not> ok) (Errorf ''sender is not route node'')) (\<lambda>_.
     bindS (getC (\<lambda>s. GetActionMeta now (sama_ActionsState s) (wx_ActionID w))) (\<lambda>r.
     bindS (liftS r) (\<lambda>found.
     case found of
       None \<Rightarrow> throwS (Errorf ''not found action'')
     | Some pmate \<Rightarrow>
         let m = pmate\<lparr>act_Voters := remove1 (tc_Sender t) (act_Voters pmate),
                       act_TxIDs := act_TxIDs pmate @ [tc_TxID t]\<rparr> in
         bindS (onActions (modC (\<lambda>a. a\<lparr>as_curActions := mput (wx_ActionID w) m (as_curActions a)\<rparr>))) (\<lambda>_.
         bindS (ignS (onActions (PutAction (e_D E) (c_Action (e_C E)) (wx_ActionID w) m))) (\<lambda>_. retS ()))))))"

text \<open>The first voters of a new action: the sender, when it is the root of a young chain or a route.\<close>

definition firstVoters :: "lib \<Rightarrow> 'c samaState \<Rightarrow> address \<Rightarrow> address list" where
  "firstVoters L w sender =
     (if sender = x_HexToAddress L (GetRootAddress (sama_SysParams w)) \<and>
         fst (GetStakersNum (sama_StakerState w)) < 3 then [sender]
      else if IsRoute (sama_StakerState w) sender then [sender] else [])"

definition checkProposal :: "'c samaState \<Rightarrow> ProposalTx \<Rightarrow> err + unit" where
  "checkProposal w p =
     (if qx_ActionType p = actionTypeModifySysParam \<or> qx_ActionType p = actionTypeModifyFoundation
      then CompCurParam (sama_SysParams w) (qx_Key p) (qx_NewValue p)
      else if qx_ActionType p = actionTypeAddUserType then
        bindE (ParseUint (qx_Key p)) (\<lambda>newType.
          if CheckUserType (sama_UserTypesState w) newType then Inl (Errorf ''user type exist'') else Inr ())
      else if qx_ActionType p = actionTypeModifyUserType then
        bindE (ParseUint (qx_Key p)) (\<lambda>userType.
        bindE (ParseUint (qx_NewValue p)) (\<lambda>userFee.
          if \<not> CheckUserType (sama_UserTypesState w) userType then Inl (Errorf ''user type not exist'')
          else if CheckFee (sama_UserTypesState w) userType userFee then Inl (Errorf ''equal'')
          else Inr ()))
      else Inl (Errorf ''action type not exist''))"

definition ProposalTx_Execute ::
  "('db, 'c) env \<Rightarrow> int \<Rightarrow> ProposalTx \<Rightarrow> TransactionContext \<Rightarrow> ('db, 'c) txm" where
  "ProposalTx_Execute E now p t =
     bindS (getC (\<lambda>w. GetActionMeta now (sama_ActionsState w) (qx_ActionID p))) (\<lambda>r.
     bindS (failIf (case r of Inr (Some _) \<Rightarrow> True | _ \<Rightarrow> False) (Errorf ''action ID exist'')) (\<lambda>_.
     bindS (getC (\<lambda>w. checkProposal w p)) (\<lambda>c.
     bindS (liftS c) (\<lambda>_.
     bindS (getC (\<lambda>w. ProposalRepeat (sama_ActionsState w) (qx_ActionID p) (qx_Key p) (qx_NewValue p))) (\<lambda>q.
     bindS (liftS q) (\<lambda>_.
     bindS (getC (\<lambda>w. firstVoters (e_L E) w (tc_Sender t))) (\<lambda>voters.
     onActions (PutAction (e_D E) (c_Action (e_C E)) (qx_ActionID p)
       \<lparr> act_ActionID = qx_ActionID p, act_ActionType = qx_ActionType p, act_StartTime = tc_BlockTime t,
         act_EndTime = tc_BlockTime t + Seconds7Day, act_TxIDs = [tc_TxID t], act_Voters = voters,
         act_Key = qx_Key p, act_NewValue = qx_NewValue p \<rparr>))))))))"

section \<open>Miners\<close>

definition minFlow :: u64 where "minFlow = 1"
definition maxFlow :: u64 where "maxFlow = 1000"
definition minTime :: u64 where "minTime = 1"
definition maxTime :: u64 where "maxTime = 60"

text \<open>The guards of a proof, in the order of the switch.\<close>

definition checkProof :: "int \<Rightarrow> ProofTx \<Rightarrow> err + unit" where
  "checkProof now p =
     (let interval = px_EndTime p - px_StartTime p in
      if px_Netflow p < minFlow then Inl (Errorf ''netflow too small'')
      else if px_Netflow p > maxFlow then Inl (Errorf ''netflow too big'')
      else if px_StartTime p > px_EndTime p then Inl (Errorf ''start time > endtime'')
      else if px_StartTime p > unix_now now - 50 then Inl (Errorf ''start time err'')
      else if px_EndTime p > unix_now now then Inl (Errorf ''endtime err'')
      else if interval < minTime then Inl (Errorf ''interval too small'')
      else if interval > maxTime then Inl (Errorf ''interval to big'')
      else Inr ())"

definition ProofTx_Execute ::
  "('db, 'c) env \<Rightarrow> int \<Rightarrow> ProofTx \<Rightarrow> TransactionContext \<Rightarrow> ('db, 'c) txm" where
  "ProofTx_Execute E now p t =
     bindS (getC (\<lambda>w. IsValidWorkAddress (e_L E) w (tc_Sender t))) (\<lambda>r.
     bindS (liftS r) (\<lambda>(ok, powType).
     bindS (failIf (\<not> ok) (Errorf ''sender must route or ser node'')) (\<lambda>_.
     bindS (liftS (checkProof now p)) (\<lambda>_.
     onPows (PutPow (e_D E) (c_Pow (e_C E)) powType
       \<lparr> pr_Netflow = px_Netflow p, pr_WorkTime = px_EndTime p - px_StartTime p,
         pr_Miner = tc_Sender t, pr_TxID = tc_TxID t, pr_UpdateTime = tc_BlockTime t \<rparr>)))))"

definition IsRepeated :: "DetailMeta \<Rightarrow> RefreshTx \<Rightarrow> bool" where
  "IsRepeated d r \<longleftrightarrow> dt_LocalIP d = fx_LocalIP r \<and> dt_MinPort d = fx_MinPort r \<and>
     dt_MaxPort d = fx_MaxPort r \<and> dt_PublicIP d = fx_PublicIP r \<and> dt_CheckPort d = fx_CheckPort r \<and>
     dt_Country d = fx_Country r \<and> dt_WorkKey d = fx_WorkKey r"

definition RefreshTx_Execute ::
  "('db, 'c) env \<Rightarrow> RefreshTx \<Rightarrow> TransactionContext \<Rightarrow> ('db, 'c) txm" where
  "RefreshTx_Execute E r t =
     bindS (getC (\<lambda>w. IsValidWorkAddress (e_L E) w (tc_Sender t))) (\<lambda>v.
     bindS (liftS v) (\<lambda>(ok, _).
     bindS (failIf (\<not> ok) (Errorf ''sender must route or ser'')) (\<lambda>_.
     bindS (getC (\<lambda>w. GetDetailMeta (sama_DetailsState w) (tc_Sender t))) (\<lambda>found.
     case found of
       None \<Rightarrow> throwS (Errorf ''not found'')
     | Some pmate \<Rightarrow>
         bindS (failIf (IsRepeated pmate r) (Errorf ''is repeated'')) (\<lambda>_.
         onDetails (PutDetail (e_D E) (c_Detail (e_C E)) (tc_Sender t)
           \<lparr> dt_StakerType = dt_StakerType pmate, dt_Country = fx_Country r, dt_LocalIP = fx_LocalIP r,
             dt_PublicIP = fx_PublicIP r, dt_MinPort = fx_MinPort r, dt_MaxPort = fx_MaxPort r,
             dt_CheckPort = fx_CheckPort r, dt_WorkKey = fx_WorkKey r, dt_TxID = tc_TxID t,
             dt_LastUpdateTime = tc_BlockTime t, dt_WorkAddress = tc_Sender t,
             dt_StakeAddress = dt_StakeAddress pmate \<rparr>))))))"

definition IsRegistered :: "DetailMeta \<Rightarrow> RegisterTx \<Rightarrow> bool" where
  "IsRegistered d r \<longleftrightarrow> dt_PublicIP d = rx_PublicIP r \<and> dt_WorkKey d = rx_WorkKey r \<and>
     dt_StakerType d = rx_StakerType r"

definition RegisterTx_Execute ::
  "('db, 'c) env \<Rightarrow> RegisterTx \<Rightarrow> TransactionContext \<Rightarrow> ('db, 'c) txm" where
  "RegisterTx_Execute E r t =
     (let L = e_L E in
      if rx_StakerAddr r = 0 then throwS ErrNonActionable
      else
        case hex_DecodeString (rx_WorkKey r) of
          Inl e \<Rightarrow> throwS (Errorf ''work key err'')
        | Inr pbkb \<Rightarrow>
            (case x_UnmarshalPubkey L pbkb of
               Inl e \<Rightarrow> throwS (Errorf ''unmarshalPubkey err'')
             | Inr pbk \<Rightarrow>
                 let addr = x_PubkeyToAddress L pbk in
                 bindS (getC (\<lambda>w. fst (IsStaker (sama_StakerState w) (rx_StakerAddr r)))) (\<lambda>isStaker.
                 bindS (failIf isStaker (Errorf ''have already been staker'')) (\<lambda>_.
                 bindS (getC (\<lambda>w. GetDetailMeta (sama_DetailsState w) addr)) (\<lambda>found.
                 bindS (case found of
                          None \<Rightarrow> retS ()
                        | Some pmate \<Rightarrow>
                            if dt_StakerType pmate \<noteq> rx_StakerType r then throwS (Errorf ''staker type err'')
                            else failIf (IsRegistered pmate r) (Errorf ''is repeated'')) (\<lambda>_.
                 bindS (getC (\<lambda>w. firstVoters L w (tc_Sender t))) (\<lambda>voters.
                 bindS (onActions (PutAction (e_D E) (c_Action (e_C E)) (rx_ActionID r)
                   \<lparr> act_ActionID = rx_ActionID r, act_ActionType = actionTypeAddStaker,
                     act_StartTime = tc_BlockTime t, act_EndTime = tc_BlockTime t + Seconds7Day,
                     act_TxIDs = [tc_TxID t], act_Voters = voters,
                     act_Key = x_AddressHex L (rx_StakerAddr r), act_NewValue = [] \<rparr>)) (\<lambda>_.
                 UpdateNodeParams E
                   \<lparr> dt_StakerType = rx_StakerType r, dt_Country = rx_Country r, dt_LocalIP = rx_LocalIP r,
                     dt_PublicIP = rx_PublicIP r, dt_MinPort = rx_MinPort r, dt_MaxPort = rx_MaxPort r,
                     dt_CheckPort = rx_CheckPort r, dt_WorkKey = rx_WorkKey r, dt_TxID = tc_TxID t,
                     dt_LastUpdateTime = tc_BlockTime t, dt_WorkAddress = addr,
                     dt_StakeAddress = rx_StakerAddr r \<rparr>)))))))) "

section \<open>Users\<close>

definition AddUserTx_Execute ::
  "('db, 'c) env \<Rightarrow> int \<Rightarrow> AddUserTx \<Rightarrow> TransactionContext \<Rightarrow> ('db, 'c) txm" where
  "AddUserTx_Execute E now a t =
     (if ax_StartTime a > ax_EndTime a then throwS (Errorf ''start time > endtime'')
      else if ax_EndTime a - ax_StartTime a > 31 * 24 * 60 * 60 then throwS (Errorf ''time > 31 days'')
      else if ax_EndTime a - ax_StartTime a < 28 * 24 * 60 * 60 then throwS (Errorf ''time < 28 days'')
      else if ax_StartTime a < unix_now now - 60 then throwS (Errorf ''start time err'')
      else if ax_Address a = 0 then throwS ErrNonActionable
      else
        bindS (getC (\<lambda>w. CheckUserType (sama_UserTypesState w) (ax_UserType a))) (\<lambda>ok.
        bindS (failIf (\<not> ok) (Errorf ''user type err'')) (\<lambda>_.
        bindS (getC (\<lambda>w. CheckPayAmount w (ax_UserType a) (ax_PayAmount a) (ax_StartTime a) (ax_EndTime a))) (\<lambda>paid.
        bindS (failIf (\<not> paid) (Errorf ''pay amount check fail'')) (\<lambda>_.
        bindS (ignS (onUsers (\<lambda>(d, us).
                 case GetUserMeta (e_R E) (e_D E) (c_User (e_C E)) d (ax_Address a) us of
                   (r, us') \<Rightarrow> (r, (d, us'))))) (\<lambda>found.
        bindS (failIf (case found of Some (Some _) \<Rightarrow> True | _ \<Rightarrow> False)
                 (Errorf ''ueser have already exist '')) (\<lambda>_.
        bindS (pay E (tc_Sender t) False (ax_PayAmount a)) (\<lambda>_.
        DealAddUserTx E (tc_TxID t) (tc_BlockTime t)
          \<lparr> um_StartTime = ax_StartTime a, um_EndTime = ax_EndTime a, um_Connections = ax_Connections a,
            um_PayAmount = ax_PayAmount a, um_TxsID = [], um_UserType = ax_UserType a,
            um_Address = ax_Address a \<rparr>))))))))"

section \<open>The transaction\<close>

definition body_Execute ::
  "('db, 'c) env \<Rightarrow> ValueMeta codec \<Rightarrow> int \<Rightarrow> txbody \<Rightarrow> TransactionContext \<Rightarrow> ('db, 'c) txm" where
  "body_Execute E CV now b t = (case b of
     TSet s \<Rightarrow> SetTx_Execute E CV s t
   | TTransfer s \<Rightarrow> TransferTx_Execute E s t
   | TStake s \<Rightarrow> StakeTx_Execute E now s t
   | TUnStake s \<Rightarrow> UnStakeTx_Execute E now s t
   | TClaim s \<Rightarrow> ClaimTx_Execute E now s t
   | TRegister s \<Rightarrow> RegisterTx_Execute E s t
   | TRefresh s \<Rightarrow> RefreshTx_Execute E s t
   | TAddUser s \<Rightarrow> AddUserTx_Execute E now s t
   | TGovern s \<Rightarrow> GovernTx_Execute E now s t
   | TVote s \<Rightarrow> VoteTx_Execute E now s t
   | TWithdrawn s \<Rightarrow> WithdrawnTx_Execute E now s t
   | TProof s \<Rightarrow> ProofTx_Execute E now s t
   | TProposal s \<Rightarrow> ProposalTx_Execute E now s t)"

text \<open>
  \<open>Transaction.Execute\<close>. The check of the price against the context's next price has an
  empty body in the source, so it is not a branch here.
\<close>

definition Transaction_Execute ::
  "('db, 'c) env \<Rightarrow> ValueMeta codec \<Rightarrow> int \<Rightarrow> Genesis \<Rightarrow> u64 \<Rightarrow> Context \<Rightarrow> Transaction \<Rightarrow> ('db, 'c) txm" where
  "Transaction_Execute E CV now g blkTime context t =
     bindS (liftS (baseOf (tx_Unsigned t))) (\<lambda>b.
     bindS (liftS (ExecuteBase g b)) (\<lambda>_.
     bindS (failIf (b_BlockID b \<notin> cx_RecentBlockIDs context) ErrInvalidBlockID) (\<lambda>_.
     bindS (failIf (tx_id t \<in> cx_RecentTxIDs context) ErrDuplicateTx) (\<lambda>_.
     bindS (liftS (FeeUnits g (u_body (tx_Unsigned t)))) (\<lambda>units.
     bindS (pay E (tx_sender t) False (units * b_Price b)) (\<lambda>_.
     bindS (body_Execute E CV now (u_body (tx_Unsigned t))
       \<lparr> tc_Genesis = g, tc_BlockTime = blkTime, tc_TxID = tx_id t, tc_Sender = tx_sender t \<rparr>) (\<lambda>_.
     onDB (SetTransaction (e_D E) (tx_id t)))))))))"

section \<open>Every transaction keeps the invariant of the tables\<close>

lemma pres_onDB: "pres (\<lambda>w. P (snd w)) (onDB m)"
  unfolding onDB_def by (rule pres_zoomS [where Q = "\<lambda>_. True"]) (auto simp: pres_def)

lemma pres_pay: "pres (\<lambda>w. P (snd w)) (pay E a add x)"
  and pres_payStake: "pres (\<lambda>w. P (snd w)) (payStake E a add x)"
  unfolding pay_def payStake_def by (intro pres_intro pres_onDB)+

lemma pres_onUserTypes:
  "pres (\<lambda>w. user_types.ok (snd w)) m \<Longrightarrow>
   pres (\<lambda>w. sama_ok (snd w)) (onC sama_UserTypesState (\<lambda>x s. s\<lparr>sama_UserTypesState := x\<rparr>) m)"
  by (erule pres_onC) (simp_all add: sama_ok_def)

lemma pres_AddUserType: "pres (\<lambda>w. user_types.ok (snd w)) (AddUserType D C m)"
  unfolding AddUserType_def by (rule user_types.pres_ok_putS)

lemma pres_ModifyParams: "pres (\<lambda>w. params_ok (snd w)) (ModifyParams D C key v txID t)"
proof (rule presI)
  fix w :: "'a \<times> sysParams" assume w: "params_ok (snd w)"
  obtain d s where ds: "w = (d, s)" by fastforce
  let ?cur = "(sps_curParams s)\<lparr>sp_UpdateTxID := txID, sp_UpdateTime := t\<rparr>"
  show "params_ok (snd (snd (ModifyParams D C key v txID t w)))"
  proof (cases "ParseUint v")
    case (Inl e)
    then show ?thesis using w by (simp add: ds ModifyParams_def sm_defs)
  next
    case (Inr perc)
    show ?thesis
    proof (cases "(ucast perc :: u32) > MaxPercentage \<or> (ucast perc :: u32) < MinPercentage")
      case True
      then show ?thesis using w Inr by (auto simp: ds ModifyParams_def sm_defs Let_def)
    next
      case False
      then have le: "(ucast perc :: u32) \<le> 95" by (simp add: MaxPercentage_def not_less)
      show ?thesis
      proof (cases "setPerc key (ucast perc) ?cur")
        case (Inl e)
        then show ?thesis using w Inr False by (simp add: ds ModifyParams_def sm_defs Let_def)
      next
        case (Inr m)
        have "percs_ok m"
          by (rule setPerc_percs_ok [OF Inr _ le]) (use w in \<open>simp add: ds params_ok_def percs_ok_def\<close>)
        then show ?thesis
          using w Inr \<open>ParseUint v = Inr perc\<close> False
          by (auto simp: ds ModifyParams_def sm_defs Let_def params_ok_def split: sum.splits)
      qed
    qed
  qed
qed

lemma pres_WithdrawCur:
  "pres (\<lambda>w. actions.ok (snd w)) (modC (\<lambda>a. a\<lparr>as_curActions := mput i m (as_curActions a)\<rparr>))"
  by (rule pres_modC) (simp add: actions.ok_def table_ok_def)

lemma pres_findUser: "pres (\<lambda>w. sama_ok (snd w))
    (onUsers (\<lambda>(d, us). case GetUserMeta R D C d a us of (r, us') \<Rightarrow> (r, (d, us'))))"
  by (rule pres_onUsers, rule presI)
    (auto split: prod.splits dest: presD' [OF pres_GetUserMeta [of "table_ok []"]])

lemmas pres_tx = pres_intro pres_on pres_onUserTypes pres_onDB pres_pay pres_payStake pres_DealStakeTx
  pres_DealUnStakeTx pres_UpdateStakerReward pres_UpdateFoundationReward pres_UpdateNodeParams
  pres_DealAddUserTx pres_PutPow actions.pres_ok_putS actions.pres_ok_remS details.pres_ok_putS
  pres_AddUserType pres_ModifyParams pres_WithdrawCur pres_findUser

lemma pres_body_Execute: "pres (\<lambda>w. sama_ok (snd w)) (body_Execute E CV now b t)"
proof (cases b)
  case (TSet s)
  show ?thesis unfolding TSet body_Execute_def txbody.case SetTx_Execute_def Let_def
    by (intro pres_tx)
next
  case (TTransfer s)
  show ?thesis unfolding TTransfer body_Execute_def txbody.case TransferTx_Execute_def
    by (intro pres_tx)
next
  case (TStake s)
  show ?thesis unfolding TStake body_Execute_def txbody.case StakeTx_Execute_def Let_def
    by (intro pres_tx)
next
  case (TUnStake s)
  show ?thesis unfolding TUnStake body_Execute_def txbody.case UnStakeTx_Execute_def Let_def
    by (intro pres_tx)
next
  case (TClaim s)
  show ?thesis unfolding TClaim body_Execute_def txbody.case ClaimTx_Execute_def Let_def
    by (intro pres_tx)
next
  case (TRegister s)
  show ?thesis unfolding TRegister body_Execute_def txbody.case RegisterTx_Execute_def Let_def
    by (cases "hex_DecodeString (rx_WorkKey s)";
        cases "x_UnmarshalPubkey (e_L E) (projr (hex_DecodeString (rx_WorkKey s)))")
      (auto intro!: pres_tx)
next
  case (TRefresh s)
  show ?thesis unfolding TRefresh body_Execute_def txbody.case RefreshTx_Execute_def
    by (intro pres_tx)
next
  case (TAddUser s)
  show ?thesis unfolding TAddUser body_Execute_def txbody.case AddUserTx_Execute_def
    by (intro pres_tx)
next
  case (TGovern s)
  show ?thesis unfolding TGovern body_Execute_def txbody.case GovernTx_Execute_def
    by (intro pres_tx)
next
  case (TVote s)
  show ?thesis unfolding TVote body_Execute_def txbody.case VoteTx_Execute_def
    by (intro pres_tx)
next
  case (TWithdrawn s)
  show ?thesis unfolding TWithdrawn body_Execute_def txbody.case WithdrawnTx_Execute_def Let_def
    by (intro pres_tx)
next
  case (TProof s)
  show ?thesis unfolding TProof body_Execute_def txbody.case ProofTx_Execute_def
    by (intro pres_tx)
next
  case (TProposal s)
  show ?thesis unfolding TProposal body_Execute_def txbody.case ProposalTx_Execute_def
    by (intro pres_tx)
qed

lemma pres_Transaction_Execute:
  "pres (\<lambda>w. sama_ok (snd w)) (Transaction_Execute E CV now g blkTime context t)"
  unfolding Transaction_Execute_def by (intro pres_tx pres_body_Execute)

end
