(* ===== verification/Builder.thy ===== *)
theory Builder
  imports Prelude
begin

text \<open>
  \<open>vm/block_builder.go\<close> and \<open>utils/timer\<close>: when the node asks the consensus engine for a
  block. The methods of the builder run under its lock and are single steps; the goroutines
  that call them are the rules of a step relation.
\<close>

section \<open>The timer\<close>

text \<open>\<open>tm_timeout\<close>: the channel of capacity one holds an item.\<close>

record Timer =
  tm_timeout :: bool
  tm_finished :: bool
  tm_shouldExecute :: bool
  tm_duration :: int

definition NewTimer :: Timer where
  "NewTimer = \<lparr> tm_timeout = False, tm_finished = False, tm_shouldExecute = False, tm_duration = 0 \<rparr>"

definition Timer_reset :: "Timer \<Rightarrow> Timer" where
  "Timer_reset t = t\<lparr>tm_timeout := True\<rparr>"

definition SetTimeoutIn :: "int \<Rightarrow> Timer \<Rightarrow> Timer" where
  "SetTimeoutIn d t = Timer_reset (t\<lparr>tm_duration := d, tm_shouldExecute := True\<rparr>)"

definition Timer_Cancel :: "Timer \<Rightarrow> Timer" where
  "Timer_Cancel t = Timer_reset (t\<lparr>tm_shouldExecute := False\<rparr>)"

section \<open>The builder\<close>

datatype buildingBlkStatus = dontBuild | mayBuild | building

record TimeBuilder =
  tb_status :: buildingBlkStatus
  tb_buildBlockTimer :: Timer

definition NewTimeBuilder :: TimeBuilder where
  "NewTimeBuilder = \<lparr> tb_status = dontBuild, tb_buildBlockTimer = NewTimer \<rparr>"

text \<open>
  \<open>room\<close>: the channel to the engine can take a message. The second result says whether a
  message was sent.
\<close>

definition markBuilding :: "bool \<Rightarrow> TimeBuilder \<Rightarrow> TimeBuilder \<times> bool" where
  "markBuilding room b = (if room then (b\<lparr>tb_status := building\<rparr>, True) else (b, False))"

definition signalTxsReady :: "bool \<Rightarrow> TimeBuilder \<Rightarrow> TimeBuilder \<times> bool" where
  "signalTxsReady room b = (if tb_status b \<noteq> dontBuild then (b, False) else markBuilding room b)"

text \<open>\<open>n\<close> is the number of transactions in the pool.\<close>

definition needToBuild :: "nat \<Rightarrow> bool" where
  "needToBuild n \<longleftrightarrow> n > 0"

definition HandleGenerateBlock :: "int \<Rightarrow> nat \<Rightarrow> TimeBuilder \<Rightarrow> TimeBuilder" where
  "HandleGenerateBlock interval n b =
     (if needToBuild n
      then b\<lparr>tb_status := mayBuild, tb_buildBlockTimer := SetTimeoutIn interval (tb_buildBlockTimer b)\<rparr>
      else b\<lparr>tb_status := dontBuild\<rparr>)"

definition buildBlockTwoStageTimer :: "bool \<Rightarrow> TimeBuilder \<Rightarrow> TimeBuilder \<times> bool" where
  "buildBlockTwoStageTimer room b =
     (case tb_status b of
        dontBuild \<Rightarrow> (b, False)
      | mayBuild \<Rightarrow> markBuilding room b
      | building \<Rightarrow> (b, False))"

section \<open>The goroutines\<close>

text \<open>
  \<open>nd_len\<close> counts the transactions in the pool, \<open>nd_Pending\<close> is the pool's signal channel and
  \<open>nd_toEngine\<close> the number of messages waiting for the engine.
\<close>

record node =
  nd_builder :: TimeBuilder
  nd_len :: nat
  nd_Pending :: bool
  nd_toEngine :: nat

definition node0 :: node where
  "node0 = \<lparr> nd_builder = NewTimeBuilder, nd_len = 0, nd_Pending = False, nd_toEngine = 0 \<rparr>"

text \<open>
  A node with the engine's channel of capacity \<open>cap\<close> and the build interval \<open>iv\<close>: a
  transaction enters the pool (perhaps at the cost of another) and raises the signal;
  transactions leave it, when a block is verified; the loop of \<open>Build\<close> takes the signal; the
  engine takes a message and calls \<open>BuildBlock\<close>, which may take transactions, put some back
  and so raise the signal, and ends in \<open>HandleGenerateBlock\<close>. The program starts the loops of
  \<open>Build\<close> and of \<open>Gossip\<close> and no other: nothing runs \<open>Timer.Dispatch\<close>, so no rule calls the
  timer's handler.
\<close>

inductive node_step :: "nat \<Rightarrow> int \<Rightarrow> node \<Rightarrow> node \<Rightarrow> bool" for cap iv where
  add: "0 < n' \<Longrightarrow> n' \<le> Suc (nd_len s) \<Longrightarrow>
    node_step cap iv s (s\<lparr>nd_len := n', nd_Pending := True\<rparr>)"
| leave: "n' \<le> nd_len s \<Longrightarrow> node_step cap iv s (s\<lparr>nd_len := n'\<rparr>)"
| signal: "nd_Pending s \<Longrightarrow> signalTxsReady (nd_toEngine s < cap) (nd_builder s) = (b, sent) \<Longrightarrow>
    node_step cap iv s (s\<lparr>nd_Pending := False, nd_builder := b,
      nd_toEngine := nd_toEngine s + (if sent then 1 else 0)\<rparr>)"
| engine: "0 < nd_toEngine s \<Longrightarrow> n' \<le> nd_len s \<Longrightarrow> (nd_Pending s \<longrightarrow> p) \<Longrightarrow>
    node_step cap iv s (s\<lparr>nd_toEngine := nd_toEngine s - 1, nd_len := n', nd_Pending := p,
      nd_builder := HandleGenerateBlock iv n' (nd_builder s)\<rparr>)"

inductive_cases node_stepE: "node_step cap iv s t"

abbreviation node_run :: "nat \<Rightarrow> int \<Rightarrow> node \<Rightarrow> node \<Rightarrow> bool" where
  "node_run cap iv \<equiv> (node_step cap iv)\<^sup>*\<^sup>*"

text \<open>A message waits for the engine exactly when the builder is building.\<close>

definition node_ok :: "node \<Rightarrow> bool" where
  "node_ok s \<longleftrightarrow> nd_toEngine s = (if tb_status (nd_builder s) = building then 1 else 0)"

lemma node0_ok: "node_ok node0"
  by (simp add: node_ok_def node0_def NewTimeBuilder_def)

lemma node_step_ok: "node_step cap iv s t \<Longrightarrow> node_ok s \<Longrightarrow> node_ok t"
  by (erule node_stepE)
    (auto simp: node_ok_def signalTxsReady_def markBuilding_def HandleGenerateBlock_def split: if_splits)

lemma node_run_ok: "node_run cap iv s t \<Longrightarrow> node_ok s \<Longrightarrow> node_ok t"
  by (induction rule: rtranclp_induct) (auto intro: node_step_ok)

lemma node_step_stuck:
  "node_step cap iv s t \<Longrightarrow> node_ok s \<Longrightarrow> tb_status (nd_builder s) = mayBuild \<Longrightarrow>
   tb_status (nd_builder t) = mayBuild \<and> nd_toEngine t = 0"
  by (erule node_stepE) (auto simp: node_ok_def signalTxsReady_def)

lemma node_run_stuck:
  "node_run cap iv s t \<Longrightarrow> node_ok s \<Longrightarrow> tb_status (nd_builder s) = mayBuild \<Longrightarrow>
   tb_status (nd_builder t) = mayBuild \<and> nd_toEngine t = 0"
proof (induction rule: rtranclp_induct)
  case base
  then show ?case by (simp add: node_ok_def)
next
  case (step t u)
  then show ?case using node_step_stuck node_run_ok by blast
qed

text \<open>The handler would have woken the engine.\<close>

lemma timer_wakes:
  "tb_status b = mayBuild \<Longrightarrow> buildBlockTwoStageTimer True b = (b\<lparr>tb_status := building\<rparr>, True)"
  by (simp add: buildBlockTwoStageTimer_def markBuilding_def)

text \<open>A quiet node is one that has nothing to do: no signal pending and nothing to wait for.\<close>

lemma quiet_when_idle:
  "tb_status b = dontBuild \<Longrightarrow> signalTxsReady True b = (b\<lparr>tb_status := building\<rparr>, True)"
  by (simp add: signalTxsReady_def markBuilding_def)

end
