(* ===== verification/ChainVM.thy ===== *)
theory ChainVM
  imports Blocks Mempool TxExec Builder "HOL-Library.Signed_Division"
begin

text \<open>
  The virtual machine (\<open>vm/vm.go\<close>, \<open>vm/chain_vm.go\<close>, \<open>vm/helpers.go\<close>): its state, how it
  finds a block, the walk back through the recent blocks, the price and the cost of the
  next block, and what it does when a block is verified, accepted or rejected.
\<close>

section \<open>State\<close>

text \<open>
  Blocks are objects: \<open>v_objs\<close> is the heap of the blocks allocated so far and a pointer is an
  index into it. \<open>v_room\<close> says whether the channel to the engine can take a message.
\<close>

record ('db, 'c, 'lc) VM =
  v_db :: 'db
  v_genesis :: Genesis
  v_bootstrapped :: bool
  v_mempool :: Mempool
  v_objs :: "'db StatelessBlock list"
  v_blocks :: 'lc
  v_verifiedBlocks :: "(id, ptr) gomap"
  v_builder :: TimeBuilder
  v_BuildInterval :: int
  v_preferred :: id
  v_lastAccepted :: ptr
  v_activityCacheCursor :: u64
  v_activityCache :: "Activity option list"
  v_ActivityCacheSize :: int
  v_targetRangeUnits :: u64
  v_samaState :: "'c samaState"

text \<open>What the machine is given: the tables' environment, the codecs, the block cache, the clock.\<close>

record ('db, 'c, 'lc) venv =
  ve_E :: "('db, 'c) env"
  ve_B :: blkcodecs
  ve_R :: "(id, ptr, 'lc) lruops"
  ve_now :: int

abbreviation ve_L :: "('db, 'c, 'lc) venv \<Rightarrow> lib" where "ve_L V \<equiv> e_L (ve_E V)"
abbreviation ve_D :: "('db, 'c, 'lc) venv \<Rightarrow> 'db dbops" where "ve_D V \<equiv> e_D (ve_E V)"

type_synonym ('db, 'c, 'lc, 'a) vmm = "(('db, 'c, 'lc) VM, 'a) sm"

definition deref :: "ptr \<Rightarrow> ('db, 'c, 'lc, 'db StatelessBlock) vmm" where
  "deref p = getS (\<lambda>v. v_objs v ! p)"

definition setObj :: "ptr \<Rightarrow> 'db StatelessBlock \<Rightarrow> ('db, 'c, 'lc, unit) vmm" where
  "setObj p b = modS (\<lambda>v. v\<lparr>v_objs := (v_objs v)[p := b]\<rparr>)"

definition newObj :: "'db StatelessBlock \<Rightarrow> ('db, 'c, 'lc, ptr) vmm" where
  "newObj b = (\<lambda>v. (Inr (length (v_objs v)), v\<lparr>v_objs := v_objs v @ [b]\<rparr>))"

section \<open>Finding a block\<close>

text \<open>The cache of accepted blocks, then the verified ones, then the disk.\<close>

definition GetStatelessBlock :: "('db, 'c, 'lc) venv \<Rightarrow> id \<Rightarrow> ('db, 'c, 'lc, ptr) vmm" where
  "GetStatelessBlock V blkID = (\<lambda>v.
     case lru_Get (ve_R V) (v_blocks v) blkID of
       (Some p, c) \<Rightarrow> (Inr p, v\<lparr>v_blocks := c\<rparr>)
     | (None, c) \<Rightarrow>
         (case map_of (v_verifiedBlocks v) blkID of
            Some p \<Rightarrow> (Inr p, v\<lparr>v_blocks := c\<rparr>)
          | None \<Rightarrow>
              (case bindE (GetBlock (ve_L V) (ve_D V) (ve_B V) (v_db v) blkID) (\<lambda>stBlk.
                      ParseStatefulBlock (ve_L V) (ve_B V) stBlk [] Accepted) of
                 Inl e \<Rightarrow> (Inl e, v\<lparr>v_blocks := c\<rparr>)
               | Inr b \<Rightarrow> newObj b (v\<lparr>v_blocks := c\<rparr>))))"

text \<open>A block from the network: one already known is returned as it is known.\<close>

definition VM_ParseBlock :: "('db, 'c, 'lc) venv \<Rightarrow> bytes \<Rightarrow> ('db, 'c, 'lc, ptr) vmm" where
  "VM_ParseBlock V source =
     bindS (liftS (ParseBlock (ve_L V) (ve_B V) source Processing)) (\<lambda>newBlk.
     bindS (ignS (GetStatelessBlock V (sb_id newBlk))) (\<lambda>r.
     case r of Some oldBlk \<Rightarrow> retS oldBlk | None \<Rightarrow> newObj newBlk))"

section \<open>The recent blocks\<close>

text \<open>
  \<open>lookback\<close> visits the blocks from \<open>lastID\<close> towards the genesis while they are in the window;
  the visitor \<open>f\<close> says whether to go on. Nothing bounds the number of blocks visited, so the
  loop takes fuel; theory ChainProps shows when it is enough.
\<close>

fun lookbackLoop ::
  "('db, 'c, 'lc) venv \<Rightarrow> i64 \<Rightarrow> id \<Rightarrow> ('db StatelessBlock \<Rightarrow> 'a \<Rightarrow> err + bool \<times> 'a) \<Rightarrow> nat \<Rightarrow> ptr \<Rightarrow> 'a \<Rightarrow>
   ('db, 'c, 'lc, 'a) vmm" where
  "lookbackLoop V currTime lastID f 0 cur acc = throwS (Panic ''out of fuel'')"
| "lookbackLoop V currTime lastID f (Suc n) cur acc =
     bindS (deref cur) (\<lambda>b.
     bindS (getS v_genesis) (\<lambda>g.
     if \<not> (sint (currTime - sf_Tmstmp (sb_block b)) \<le> sint (g_LookbackWindow g) \<or> sb_id b = lastID)
     then retS acc
     else
       bindS (liftS (f b acc)) (\<lambda>(cont, acc').
       if \<not> cont \<or> sf_Hght (sb_block b) = 0 then retS acc'
       else bindS (GetStatelessBlock V (sf_Prnt (sb_block b))) (\<lambda>p.
            lookbackLoop V currTime lastID f n p acc'))))"

definition lookback ::
  "('db, 'c, 'lc) venv \<Rightarrow> nat \<Rightarrow> i64 \<Rightarrow> id \<Rightarrow> ('db StatelessBlock \<Rightarrow> 'a \<Rightarrow> err + bool \<times> 'a) \<Rightarrow> 'a \<Rightarrow>
   ('db, 'c, 'lc, 'a) vmm" where
  "lookback V fuel currTime lastID f acc =
     bindS (GetStatelessBlock V lastID) (\<lambda>cur. lookbackLoop V currTime lastID f fuel cur acc)"

definition ValidBlockID :: "('db, 'c, 'lc) venv \<Rightarrow> nat \<Rightarrow> id \<Rightarrow> ('db, 'c, 'lc, bool) vmm" where
  "ValidBlockID V fuel blockID =
     bindS (getS v_preferred) (\<lambda>preferred.
     lookback V fuel (unix_now (ve_now V)) preferred
       (\<lambda>b found. Inr (if sb_id b = blockID then (False, True) else (True, found))) False)"

section \<open>The context of a block\<close>

text \<open>The visitor of \<open>ExecutionContext\<close>: ids of blocks and transactions, units, prices and costs.\<close>

definition visitContext :: "Genesis \<Rightarrow> 'db StatelessBlock \<Rightarrow> Context \<Rightarrow> err + bool \<times> Context" where
  "visitContext g b c =
     bindE (foldE (\<lambda>tx c.
         bindE (LoadUnits g (u_body (tx_Unsigned tx))) (\<lambda>units.
         Inr (c\<lparr>cx_RecentTxIDs := insert (tx_id tx) (cx_RecentTxIDs c),
                cx_RecentLoadUnits := cx_RecentLoadUnits c + units\<rparr>)))
       (sf_Txs (sb_block b)) (c\<lparr>cx_RecentBlockIDs := insert (sb_id b) (cx_RecentBlockIDs c)\<rparr>)) (\<lambda>c'.
     Inr (True, c'\<lparr>cx_Prices := cx_Prices c' @ [sf_Price (sb_block b)],
                  cx_Costs := cx_Costs c' @ [sf_Cost (sb_block b)]\<rparr>))"

definition emptyContext :: Context where
  "emptyContext = \<lparr> cx_RecentBlockIDs = {}, cx_RecentTxIDs = {}, cx_RecentLoadUnits = 0, cx_Prices = [],
     cx_Costs = [], cx_NextCost = 0, cx_NextPrice = 0 \<rparr>"

text \<open>The cost of the next block, \<open>s\<close> seconds after the last one; \<open>s\<close> is a signed number.\<close>

definition nextCost :: "Genesis \<Rightarrow> i64 \<Rightarrow> u64 \<Rightarrow> u64" where
  "nextCost g s cost =
     (if \<not> g_BlockCostEnabled g then cost
      else if sint s < sint (g_TargetBlockRate g) then cost + (g_TargetBlockRate g - s)
      else
        let possibleDiff = s - g_TargetBlockRate g in
        if cost \<ge> MinBlockCost \<and> possibleDiff < cost - MinBlockCost then cost - possibleDiff
        else MinBlockCost)"

text \<open>
  The price of the next block: one more after more than the target units, less by the windows
  elapsed after fewer. The division is Go's, towards zero, and panics on an empty window.
\<close>

definition nextPrice :: "Genesis \<Rightarrow> u64 \<Rightarrow> i64 \<Rightarrow> u64 \<Rightarrow> u64 \<Rightarrow> err + u64" where
  "nextPrice g targetUnits s recentUnits price =
     (if recentUnits > targetUnits then Inr (price + 1)
      else if recentUnits < targetUnits then
        if g_LookbackWindow g = 0 then Inl (Panic ''integer divide by zero'')
        else
          let elapsedWindows = word_of_int (sint s sdiv sint (g_LookbackWindow g)) + 1 in
          Inr (if price \<ge> g_MinPrice g \<and> elapsedWindows < price - g_MinPrice g
               then price - elapsedWindows else g_MinPrice g)
      else Inr price)"

definition ExecutionContext ::
  "('db, 'c, 'lc) venv \<Rightarrow> nat \<Rightarrow> i64 \<Rightarrow> ptr \<Rightarrow> ('db, 'c, 'lc, Context) vmm" where
  "ExecutionContext V fuel currTime lastBlock =
     bindS (deref lastBlock) (\<lambda>lb.
     bindS (getS v_genesis) (\<lambda>g.
     bindS (lookback V fuel currTime (sb_id lb) (visitContext g) emptyContext) (\<lambda>c.
     bindS (getS v_targetRangeUnits) (\<lambda>targetUnits.
     bindS (deref lastBlock) (\<lambda>lb.
     let s = currTime - sf_Tmstmp (sb_block lb) in
     bindS (liftS (nextPrice g targetUnits s (cx_RecentLoadUnits c) (sf_Price (sb_block lb)))) (\<lambda>price.
     retS (c\<lparr>cx_NextCost := nextCost g s (sf_Cost (sb_block lb)), cx_NextPrice := price\<rparr>)))))))"

section \<open>The suggested fee\<close>

definition feePercentile :: nat where "feePercentile = 60"

text \<open>The element at the percentile of the sorted list; Go panics on an empty list.\<close>

definition percentile :: "u64 list \<Rightarrow> err + u64" where
  "percentile xs =
     (if xs = [] then Inl (Panic ''index out of range'')
      else Inr (sort xs ! ((length xs - 1) * feePercentile div 100)))"

definition SuggestedFee :: "('db, 'c, 'lc) venv \<Rightarrow> nat \<Rightarrow> ('db, 'c, 'lc, u64 \<times> u64) vmm" where
  "SuggestedFee V fuel =
     bindS (getS v_preferred) (\<lambda>preferred.
     bindS (GetStatelessBlock V preferred) (\<lambda>parent.
     bindS (ExecutionContext V fuel (unix_now (ve_now V)) parent) (\<lambda>ctx.
     bindS (getS v_genesis) (\<lambda>g.
     bindS (liftS (percentile (cx_Prices ctx))) (\<lambda>price.
     bindS (liftS (percentile (cx_Costs ctx))) (\<lambda>cost.
     let pPrice = (if price < g_MinPrice g then g_MinPrice g else price);
         pCost = (if cost < MinBlockCost then MinBlockCost else cost);
         recentTxs = card (cx_RecentTxIDs ctx) in
     if recentTxs = 0 then retS (pPrice, pCost)
     else
       bindS (liftS (bindE (divU pCost (word_of_nat recentTxs)) (\<lambda>c.
                     divU c (word_of_nat (card (cx_RecentBlockIDs ctx)))))) (\<lambda>cPerTx.
       retS (pPrice, if cPerTx < MinBlockCost then MinBlockCost else cPerTx))))))))"

section \<open>Verified, rejected, accepted\<close>

definition onMempool :: "(Mempool \<Rightarrow> err + Mempool) \<Rightarrow> ('db, 'c, 'lc, unit) vmm" where
  "onMempool f = (\<lambda>v. case f (v_mempool v) of
     Inl e \<Rightarrow> (Inl e, v) | Inr m \<Rightarrow> (Inr (), v\<lparr>v_mempool := m\<rparr>))"

definition addTx :: "Transaction \<Rightarrow> ('db, 'c, 'lc, unit) vmm" where
  "addTx tx = onMempool (\<lambda>m. bindE (Mempool_Add tx m) (\<lambda>(_, m'). Inr m'))"

definition Verified :: "ptr \<Rightarrow> ('db, 'c, 'lc, unit) vmm" where
  "Verified p =
     bindS (deref p) (\<lambda>b.
     bindS (modS (\<lambda>v. v\<lparr>v_verifiedBlocks := mput (sb_id b) p (v_verifiedBlocks v)\<rparr>)) (\<lambda>_.
     forS (sf_Txs (sb_block b)) (\<lambda>tx. onMempool (\<lambda>m. Inr (snd (Mempool_remove (tx_id tx) m))))))"

definition VM_Rejected :: "ptr \<Rightarrow> ('db, 'c, 'lc, unit) vmm" where
  "VM_Rejected p =
     bindS (deref p) (\<lambda>b.
     bindS (modS (\<lambda>v. v\<lparr>v_verifiedBlocks := mdel (sb_id b) (v_verifiedBlocks v)\<rparr>)) (\<lambda>_.
     forS (sf_Txs (sb_block b)) addTx))"

text \<open>The ring buffer of recent activities; Go panics when the index is out of range.\<close>

definition pushActivity :: "Activity \<Rightarrow> ('db, 'c, 'lc, unit) vmm" where
  "pushActivity a = (\<lambda>v.
     let i = unat (v_activityCacheCursor v mod word_of_int (v_ActivityCacheSize v)) in
     if i < length (v_activityCache v)
     then (Inr (), v\<lparr>v_activityCache := (v_activityCache v)[i := Some a],
                    v_activityCacheCursor := v_activityCacheCursor v + 1\<rparr>)
     else (Inl (Panic ''index out of range''), v))"

definition VM_Accepted :: "('db, 'c, 'lc) venv \<Rightarrow> ptr \<Rightarrow> ('db, 'c, 'lc, unit) vmm" where
  "VM_Accepted V p =
     bindS (deref p) (\<lambda>b.
     bindS (modS (\<lambda>v. v\<lparr>v_blocks := lru_Put (ve_R V) (sb_id b) p (v_blocks v),
                       v_verifiedBlocks := mdel (sb_id b) (v_verifiedBlocks v), v_lastAccepted := p\<rparr>)) (\<lambda>_.
     bindS (getS v_ActivityCacheSize) (\<lambda>size.
     if size = 0 then retS ()
     else forS (sf_Txs (sb_block b)) (\<lambda>tx.
       pushActivity ((Transaction_Activity (ve_L V) tx)\<lparr>av_Tmstmp := sf_Tmstmp (sb_block b)\<rparr>)))))"

definition SetPreference :: "id \<Rightarrow> ('db, 'c, 'lc, unit) vmm" where
  "SetPreference i = modS (\<lambda>v. v\<lparr>v_preferred := i\<rparr>)"

definition LastAccepted :: "('db, 'c, 'lc, id) vmm" where
  "LastAccepted = bindS (getS v_lastAccepted) (\<lambda>p. bindS (deref p) (\<lambda>b. retS (sb_id b)))"

definition onBootstrapStarted :: "('db, 'c, 'lc, unit) vmm" where
  "onBootstrapStarted = modS (\<lambda>v. v\<lparr>v_bootstrapped := False\<rparr>)"

definition onNormalOperationsStarted :: "('db, 'c, 'lc, unit) vmm" where
  "onNormalOperationsStarted = modS (\<lambda>v. v\<lparr>v_bootstrapped := True\<rparr>)"

definition abortSama :: "('db, 'c, 'lc, unit) vmm" where
  "abortSama = modS (\<lambda>v. v\<lparr>v_samaState := Abort (v_samaState v)\<rparr>)"

end
