(* ===== verification/Consensus.thy ===== *)
theory Consensus
  imports ChainVM
begin

text \<open>
  The life of a block (\<open>chain/block.go\<close>, \<open>chain/builder.go\<close>) and the entry points of the
  virtual machine that drive it (\<open>vm/vm.go\<close>): verification, acceptance, rejection, building,
  submission of transactions, and the start of the machine. A block is a pointer to an
  object of the machine's heap. The overlay of a verified block is the state its reader
  sees; the consensus engine accepts a block only after its parent, so the state under an
  overlay does not change between its creation and its commit.
\<close>

section \<open>Verification\<close>

text \<open>\<open>futureBound\<close>, in nanoseconds.\<close>

definition futureBound :: int where "futureBound = 10 * 1000000000"

text \<open>The database on which a child of the block executes.\<close>

definition onAccept :: "'db StatelessBlock \<Rightarrow> ('db, 'c, 'lc, 'db) vmm" where
  "onAccept b =
     (if sb_st b = Accepted \<or> sf_Hght (sb_block b) = 0 then getS v_db
      else case sb_onAcceptDB b of Some d \<Rightarrow> retS d | None \<Rightarrow> throwS ErrParentBlockNotVerified)"

text \<open>The size of a block; the sum wraps like Go's.\<close>

definition checkSize :: "Genesis \<Rightarrow> Transaction list \<Rightarrow> err + u64" where
  "checkSize g txs = foldE (\<lambda>tx blockSize.
     bindE (LoadUnits g (u_body (tx_Unsigned tx))) (\<lambda>units.
     if blockSize + units > g_MaxBlockSize g then Inl ErrBlockTooBig else Inr (blockSize + units))) txs 0"

text \<open>The execution of the transactions and the surplus over the block's price.\<close>

fun execTxs ::
  "('db, 'c, 'lc) venv \<Rightarrow> Genesis \<Rightarrow> StatefulBlock \<Rightarrow> Context \<Rightarrow> u64 \<Rightarrow> Transaction list \<Rightarrow>
   ('db \<times> 'c samaState, u64) sm" where
  "execTxs V g blk context surplusFee [] = retS surplusFee"
| "execTxs V g blk context surplusFee (tx # txs) =
     bindS (Transaction_Execute (ve_E V) (bc_ValueMeta (ve_B V)) (ve_now V) g (sf_Tmstmp blk) context tx) (\<lambda>_.
     bindS (liftS (GetPrice (tx_Unsigned tx))) (\<lambda>price.
     bindS (liftS (FeeUnits g (u_body (tx_Unsigned tx)))) (\<lambda>units.
     execTxs V g blk context (surplusFee + (price - sf_Price blk) * units) txs)))"

text \<open>A computation on an overlay and the tables of the chain; it gives back the overlay.\<close>

definition onOverlay :: "'db \<Rightarrow> ('db \<times> 'c samaState, 'a) sm \<Rightarrow> ('db, 'c, 'lc, 'a \<times> 'db) vmm" where
  "onOverlay d m = (\<lambda>v. case m (d, v_samaState v) of
     (Inl e, (d', s)) \<Rightarrow> (Inl e, v\<lparr>v_samaState := s\<rparr>)
   | (Inr x, (d', s)) \<Rightarrow> (Inr (x, d'), v\<lparr>v_samaState := s\<rparr>))"

definition blk_verify :: "('db, 'c, 'lc) venv \<Rightarrow> nat \<Rightarrow> ptr \<Rightarrow> ('db, 'c, 'lc, ptr \<times> 'db) vmm" where
  "blk_verify V fuel p =
     bindS (deref p) (\<lambda>b.
     let blk = sb_block b in
     bindS (getS v_genesis) (\<lambda>g.
     bindS (failIf (sf_Txs blk = []) ErrNoTxs) (\<lambda>_.
     bindS (failIf (sint (sb_t b) \<ge> (ve_now V + futureBound) div 1000000000) ErrTimestampTooLate) (\<lambda>_.
     bindS (liftS (checkSize g (sf_Txs blk))) (\<lambda>_.
     bindS (GetStatelessBlock V (sf_Prnt blk)) (\<lambda>parentPtr.
     bindS (deref parentPtr) (\<lambda>parent.
     bindS (failIf (sint (sb_t b) < sint (sb_t parent)) ErrTimestampTooEarly) (\<lambda>_.
     bindS (ExecutionContext V fuel (sf_Tmstmp blk) parentPtr) (\<lambda>context.
     bindS (failIf (sf_Cost blk \<noteq> cx_NextCost context) ErrInvalidCost) (\<lambda>_.
     bindS (failIf (sf_Price blk \<noteq> cx_NextPrice context) ErrInvalidPrice) (\<lambda>_.
     bindS (onAccept parent) (\<lambda>parentState.
     let onAcceptDB = vdb_New (ve_D V) parentState in
     bindS (failIf (sf_AccessProof blk \<noteq>
              generateAccessProof (ve_L V) (ve_D V) onAcceptDB (sb_id parent) (sf_Hght blk))
              ErrInvalidAccessProof) (\<lambda>_.
     bindS (onOverlay onAcceptDB (execTxs V g blk context 0 (sf_Txs blk))) (\<lambda>(surplusFee, onAcceptDB).
     bindS (failIf (surplusFee < sf_Price blk * sf_Cost blk) ErrInsufficientSurplus) (\<lambda>_.
     retS (parentPtr, onAcceptDB))))))))))))))))"

text \<open>\<open>SetLastAccepted\<close> on the overlay of the block itself.\<close>

definition storeBlock :: "('db, 'c, 'lc) venv \<Rightarrow> ptr \<Rightarrow> ('db, 'c, 'lc, unit) vmm" where
  "storeBlock V p =
     bindS (deref p) (\<lambda>b.
     case sb_onAcceptDB b of
       None \<Rightarrow> throwS (Panic ''nil pointer dereference'')
     | Some d \<Rightarrow>
         (case SetLastAccepted (ve_L V) (ve_D V) (ve_B V) (d, b) of
            (r, (d', b')) \<Rightarrow> bindS (setObj p (b'\<lparr>sb_onAcceptDB := Some d'\<rparr>)) (\<lambda>_. liftS r)))"

definition addChild :: "ptr \<Rightarrow> ptr \<Rightarrow> ('db, 'c, 'lc, unit) vmm" where
  "addChild p c = bindS (deref p) (\<lambda>b. setObj p (b\<lparr>sb_children := sb_children b @ [c]\<rparr>))"

definition blk_Verify :: "('db, 'c, 'lc) venv \<Rightarrow> nat \<Rightarrow> ptr \<Rightarrow> ('db, 'c, 'lc, unit) vmm" where
  "blk_Verify V fuel p =
     bindS (blk_verify V fuel p) (\<lambda>(parent, onAcceptDB).
     bindS (deref p) (\<lambda>b.
     bindS (setObj p (b\<lparr>sb_onAcceptDB := Some onAcceptDB\<rparr>)) (\<lambda>_.
     bindS (storeBlock V p) (\<lambda>_.
     bindS (addChild parent p) (\<lambda>_.
     Verified p)))))"

section \<open>Acceptance and rejection\<close>

text \<open>The overlay of each child is put on the new state of the chain.\<close>

definition rebaseChild :: "('db, 'c, 'lc) venv \<Rightarrow> ptr \<Rightarrow> ('db, 'c, 'lc, unit) vmm" where
  "rebaseChild V c =
     bindS (deref c) (\<lambda>child.
     case sb_onAcceptDB child of
       None \<Rightarrow> throwS (Panic ''nil pointer dereference'')
     | Some d \<Rightarrow>
         bindS (getS v_db) (\<lambda>state.
         bindS (liftS (vdb_SetDatabase (ve_D V) d state)) (\<lambda>d'.
         setObj c (child\<lparr>sb_onAcceptDB := Some d'\<rparr>))))"

definition setStatus :: "Status \<Rightarrow> ptr \<Rightarrow> ('db, 'c, 'lc, unit) vmm" where
  "setStatus st p = bindS (deref p) (\<lambda>b. setObj p (b\<lparr>sb_st := st\<rparr>))"

text \<open>Committing an overlay writes it through and leaves it empty on the new state.\<close>

definition commitOverlay :: "('db, 'c, 'lc) venv \<Rightarrow> ptr \<Rightarrow> ('db, 'c, 'lc, unit) vmm" where
  "commitOverlay V p =
     bindS (deref p) (\<lambda>b.
     case sb_onAcceptDB b of
       None \<Rightarrow> throwS (Panic ''nil pointer dereference'')
     | Some d \<Rightarrow>
         bindS (liftS (vdb_Commit (ve_D V) d)) (\<lambda>d'.
         bindS (modS (\<lambda>v. v\<lparr>v_db := d'\<rparr>)) (\<lambda>_.
         setObj p (b\<lparr>sb_onAcceptDB := Some (vdb_New (ve_D V) d')\<rparr>))))"

definition blk_Accept :: "('db, 'c, 'lc) venv \<Rightarrow> ptr \<Rightarrow> ('db, 'c, 'lc, unit) vmm" where
  "blk_Accept V p =
     bindS (commitOverlay V p) (\<lambda>_.
     bindS (deref p) (\<lambda>b.
     bindS (forS (sb_children b) (rebaseChild V)) (\<lambda>_.
     bindS (setStatus Accepted p) (\<lambda>_.
     bindS (VM_Accepted V p) (\<lambda>_.
     modS (\<lambda>v. v\<lparr>v_samaState := Commit (ve_E V) (v_samaState v)\<rparr>))))))"

definition blk_Reject :: "ptr \<Rightarrow> ('db, 'c, 'lc, unit) vmm" where
  "blk_Reject p = bindS (setStatus Rejected p) (\<lambda>_. VM_Rejected p)"

definition SetChildrenDB :: "('db, 'c, 'lc) venv \<Rightarrow> 'db \<Rightarrow> ptr \<Rightarrow> ('db, 'c, 'lc, unit) vmm" where
  "SetChildrenDB V db p =
     bindS (deref p) (\<lambda>b. forS (sb_children b) (\<lambda>c.
       bindS (deref c) (\<lambda>child.
       case sb_onAcceptDB child of
         None \<Rightarrow> throwS (Panic ''nil pointer dereference'')
       | Some d \<Rightarrow>
           bindS (liftS (vdb_SetDatabase (ve_D V) d db)) (\<lambda>d'.
           setObj c (child\<lparr>sb_onAcceptDB := Some d'\<rparr>)))))"

section \<open>Building\<close>

text \<open>
  The loop of \<open>BuildBlock\<close>. Its state: the overlay \<open>d\<close>, the transactions taken and their
  units, the transactions to put back, the pool, the tables. Each round takes a transaction
  out of the pool and the one round that puts one back is the last, so the number of
  transactions in the pool bounds the rounds; lemma \<open>buildLoop_rounds\<close>.
\<close>

record ('db, 'c) bstate =
  bs_db :: 'db
  bs_txs :: "Transaction list"
  bs_units :: u64
  bs_unusable :: "Transaction list"
  bs_pool :: Mempool
  bs_sama :: "'c samaState"

definition takeTx ::
  "('db, 'c, 'lc) venv \<Rightarrow> Genesis \<Rightarrow> StatefulBlock \<Rightarrow> Context \<Rightarrow> Transaction \<Rightarrow> ('db, 'c) bstate \<Rightarrow>
   (err + unit) \<times> ('db, 'c) bstate" where
  "takeTx V g blk context tx s =
     (case LoadUnits g (u_body (tx_Unsigned tx)) of
        Inl e \<Rightarrow> (Inl e, s)
      | Inr nextLoad \<Rightarrow>
          if bs_units s + nextLoad > g_MaxBlockSize g
          then (Inr (), s\<lparr>bs_unusable := bs_unusable s @ [tx]\<rparr>)
          else
            (case Transaction_Execute (ve_E V) (bc_ValueMeta (ve_B V)) (ve_now V) g (sf_Tmstmp blk) context tx
                    (vdb_New (ve_D V) (bs_db s), bs_sama s) of
               (Inl e, (_, w)) \<Rightarrow>
                 (if is_panic e then (Inl e, s\<lparr>bs_sama := w\<rparr>) else (Inr (), s\<lparr>bs_sama := w\<rparr>))
             | (Inr _, (tvdb, w)) \<Rightarrow>
                 (case vdb_Commit (ve_D V) tvdb of
                    Inl e \<Rightarrow> (Inl e, s\<lparr>bs_sama := w\<rparr>)
                  | Inr d' \<Rightarrow>
                      (Inr (), s\<lparr>bs_sama := w, bs_db := d', bs_txs := bs_txs s @ [tx],
                                 bs_units := bs_units s + nextLoad\<rparr>))))"

fun buildLoop ::
  "('db, 'c, 'lc) venv \<Rightarrow> Genesis \<Rightarrow> StatefulBlock \<Rightarrow> Context \<Rightarrow> nat \<Rightarrow> (('db, 'c) bstate, unit) sm" where
  "buildLoop V g blk context 0 s = (Inr (), s)"
| "buildLoop V g blk context (Suc n) s =
     (if Mempool_Len (bs_pool s) = 0 then (Inr (), s)
      else
        (case Mempool_PopMax (bs_pool s) of
           Inl e \<Rightarrow> (Inl e, s)
         | Inr ((None, price), m) \<Rightarrow> (Inl (Panic ''nil pointer dereference''), s\<lparr>bs_pool := m\<rparr>)
         | Inr ((Some tx, price), m) \<Rightarrow>
             if price < sf_Price blk then
               (case Mempool_Add tx m of
                  Inl e \<Rightarrow> (Inl e, s\<lparr>bs_pool := m\<rparr>)
                | Inr (_, m') \<Rightarrow> (Inr (), s\<lparr>bs_pool := m'\<rparr>))
             else bindS (takeTx V g blk context tx) (\<lambda>_. buildLoop V g blk context n) (s\<lparr>bs_pool := m\<rparr>)))"

text \<open>The deferred function: the transactions that did not fit go back to the pool.\<close>

definition putBack :: "Transaction list \<Rightarrow> ('db, 'c, 'lc, unit) vmm" where
  "putBack txs = forS txs addTx"

definition runBuild ::
  "('db, 'c, 'lc) venv \<Rightarrow> Genesis \<Rightarrow> StatefulBlock \<Rightarrow> Context \<Rightarrow> 'db \<Rightarrow>
   ('db, 'c, 'lc, (err + unit) \<times> Transaction list \<times> Transaction list) vmm" where
  "runBuild V g blk context d = (\<lambda>v.
     case buildLoop V g blk context (Mempool_Len (v_mempool v))
            \<lparr> bs_db = d, bs_txs = [], bs_units = 0, bs_unusable = [], bs_pool = v_mempool v,
              bs_sama = v_samaState v \<rparr> of
       (r, s) \<Rightarrow> (Inr (r, bs_txs s, bs_unusable s), v\<lparr>v_mempool := bs_pool s, v_samaState := bs_sama s\<rparr>))"

text \<open>\<open>defer\<close>: \<open>f\<close> runs after \<open>m\<close>, whatever \<open>m\<close> returns.\<close>

definition finallyS :: "('s, 'a) sm \<Rightarrow> ('s, unit) sm \<Rightarrow> ('s, 'a) sm" where
  "finallyS m f = (\<lambda>s. case m s of (r, s') \<Rightarrow> (case f s' of (Inl e, s'') \<Rightarrow> (Inl e, s'') | (Inr _, s'') \<Rightarrow> (r, s'')))"

definition chain_BuildBlock :: "('db, 'c, 'lc) venv \<Rightarrow> nat \<Rightarrow> id \<Rightarrow> ('db, 'c, 'lc, ptr) vmm" where
  "chain_BuildBlock V fuel preferred =
     bindS (getS v_genesis) (\<lambda>g.
     let nextTime = unix_now (ve_now V) in
     bindS (GetStatelessBlock V preferred) (\<lambda>parentPtr.
     bindS (ExecutionContext V fuel nextTime parentPtr) (\<lambda>context.
     bindS (deref parentPtr) (\<lambda>parent.
     let b0 = NewBlock (sb_id parent) (sf_Hght (sb_block parent)) nextTime (cx_NextPrice context)
                (cx_NextCost context) in
     bindS (onMempool (Mempool_Prune (cx_RecentBlockIDs context))) (\<lambda>_.
     bindS (onAccept parent) (\<lambda>parentDB.
     let vdb = vdb_New (ve_D V) parentDB;
         blk = (sb_block b0)\<lparr>sf_AccessProof :=
                  generateAccessProof (ve_L V) (ve_D V) vdb (sb_id parent) (sf_Hght (sb_block b0))\<rparr> in
     bindS (runBuild V g blk context vdb) (\<lambda>(r, txs, unusableTxs).
     finallyS
       (bindS (liftS r) (\<lambda>_.
        bindS abortSama (\<lambda>_.
        bindS (liftS (StatelessBlock_init (ve_L V) (ve_B V) (b0\<lparr>sb_block := blk\<lparr>sf_Txs := txs\<rparr>\<rparr>))) (\<lambda>b.
        bindS (newObj b) (\<lambda>p.
        bindS (blk_verify V fuel p) (\<lambda>_.
        bindS abortSama (\<lambda>_.
        retS p)))))))
       (putBack unusableTxs))))))))"

text \<open>The machine's \<open>BuildBlock\<close>: the builder is told, whether or not a block came out.\<close>

definition VM_BuildBlock :: "('db, 'c, 'lc) venv \<Rightarrow> nat \<Rightarrow> ('db, 'c, 'lc, ptr) vmm" where
  "VM_BuildBlock V fuel = (\<lambda>v.
     case chain_BuildBlock V fuel (v_preferred v) v of
       (r, v') \<Rightarrow>
         if (case r of Inl e \<Rightarrow> is_panic e | Inr _ \<Rightarrow> False) then (r, v')
         else (r, v'\<lparr>v_builder := HandleGenerateBlock (v_BuildInterval v') (Mempool_Len (v_mempool v'))
                                  (v_builder v')\<rparr>))"

section \<open>Submission\<close>

text \<open>The result is the overlay, on which the next transaction of the call runs if this one fails.\<close>

definition submit ::
  "('db, 'c, 'lc) venv \<Rightarrow> Transaction \<Rightarrow> i64 \<Rightarrow> Context \<Rightarrow> 'db \<Rightarrow> ('db, 'c, 'lc) VM \<Rightarrow>
   (err + unit) \<times> ('db \<times> ('db, 'c, 'lc) VM)" where
  "submit V tx blkTime ctx d v =
     (case bindE (Transaction_Init (ve_L V) (bc_Tx (ve_B V)) tx) (\<lambda>tx.
           bindE (baseOf (tx_Unsigned tx)) (\<lambda>b.
           bindE (ExecuteBase (v_genesis v) b) (\<lambda>_. Inr tx))) of
        Inl e \<Rightarrow> (Inl e, (d, v))
      | Inr tx \<Rightarrow>
          (case Transaction_Execute (ve_E V) (bc_ValueMeta (ve_B V)) (ve_now V) (v_genesis v)
                  (sf_Tmstmp (sb_block (DummyBlock blkTime tx :: 'db StatelessBlock))) ctx tx
                  (d, v_samaState v) of
             (Inl e, (d', s)) \<Rightarrow> (Inl e, (d', v\<lparr>v_samaState := s\<rparr>))
           | (Inr _, (d', s)) \<Rightarrow>
               (case addTx tx (v\<lparr>v_samaState := s\<rparr>) of (r, v') \<Rightarrow> (r, (d', v')))))"

text \<open>The errors of the transactions that failed; the overlay is emptied after a success only.\<close>

fun submitLoop ::
  "('db, 'c, 'lc) venv \<Rightarrow> i64 \<Rightarrow> Context \<Rightarrow> 'db \<Rightarrow> err list \<Rightarrow> Transaction list \<Rightarrow> ('db, 'c, 'lc, err list) vmm" where
  "submitLoop V now ctx d errs [] v = (Inr errs, v)"
| "submitLoop V now ctx d errs (tx # txs) v =
     (case submit V tx now ctx d v of
        (Inl e, (d', v')) \<Rightarrow>
          if is_panic e then (Inl e, v') else submitLoop V now ctx d' (errs @ [e]) txs v'
      | (Inr _, (d', v')) \<Rightarrow> submitLoop V now ctx (vdb_New (ve_D V) (v_db v')) errs txs v')"

definition VM_Submit :: "('db, 'c, 'lc) venv \<Rightarrow> nat \<Rightarrow> Transaction list \<Rightarrow> ('db, 'c, 'lc, err list) vmm" where
  "VM_Submit V fuel txs = (\<lambda>v.
     let now = unix_now (ve_now V) in
     case bindS (GetStatelessBlock V (v_preferred v)) (ExecutionContext V fuel now) v of
       (Inl e, v') \<Rightarrow> (if is_panic e then Inl e else Inr [e], v')
     | (Inr ctx, v') \<Rightarrow>
         bindS (submitLoop V now ctx (vdb_New (ve_D V) (v_db v')) [] txs) (\<lambda>errs.
         bindS abortSama (\<lambda>_. retS errs)) v')"

section \<open>The start of the machine\<close>

text \<open>
  \<open>Initialize\<close> after the configuration and the genesis have been read: \<open>g\<close> is the genesis,
  \<open>parseAirdrop\<close> the JSON reader of the airdrop, \<open>s0\<close> the value of the field for the tables
  before they are loaded, which nothing reads. The goroutines it starts are the rules of
  theory Builder.
\<close>

definition targetRange :: "Genesis \<Rightarrow> err + u64" where
  "targetRange g = bindE (divU (g_TargetBlockSize g) (g_TargetBlockRate g)) (\<lambda>perSecond.
     Inr (perSecond * g_LookbackWindow g))"

definition newVM ::
  "'db \<Rightarrow> Genesis \<Rightarrow> 'lc \<Rightarrow> int \<Rightarrow> int \<Rightarrow> int \<Rightarrow> u64 \<Rightarrow> 'c samaState \<Rightarrow> ('db, 'c, 'lc) VM" where
  "newVM d g blocks mempoolSize activitySize interval targetUnits s =
     \<lparr> v_db = d, v_genesis = g, v_bootstrapped = False, v_mempool = Mempool_New g mempoolSize, v_objs = [],
       v_blocks = blocks, v_verifiedBlocks = [], v_builder = NewTimeBuilder, v_BuildInterval = interval,
       v_preferred = 0, v_lastAccepted = 0, v_activityCacheCursor = 0,
       v_activityCache = replicate (nat activitySize) None, v_ActivityCacheSize = activitySize,
       v_targetRangeUnits = targetUnits, v_samaState = s \<rparr>"

definition setLast :: "id \<Rightarrow> ptr \<Rightarrow> ('db, 'c, 'lc, unit) vmm" where
  "setLast i p = modS (\<lambda>v. v\<lparr>v_preferred := i, v_lastAccepted := p\<rparr>)"

definition initGenesis ::
  "('db, 'c, 'lc) venv \<Rightarrow> (bytes \<Rightarrow> err + address list) \<Rightarrow> bytes \<Rightarrow> ('db, 'c, 'lc, unit) vmm" where
  "initGenesis V parseAirdrop airdropData =
     bindS (getS v_genesis) (\<lambda>g.
     bindS (liftS (ParseStatefulBlock (ve_L V) (ve_B V) (genesisBlock g) [] Accepted)) (\<lambda>genesisBlk.
     bindS (zoomS v_db (\<lambda>d v. v\<lparr>v_db := d\<rparr>) (Genesis_Load (ve_L V) (ve_D V) parseAirdrop g airdropData)) (\<lambda>_.
     bindS (zoomS (\<lambda>v. (v_db v, genesisBlk)) (\<lambda>(d, _) v. v\<lparr>v_db := d\<rparr>)
              (SetLastAccepted (ve_L V) (ve_D V) (ve_B V))) (\<lambda>_.
     bindS (newObj genesisBlk) (setLast (sb_id genesisBlk))))))"

definition initFromDisk :: "('db, 'c, 'lc) venv \<Rightarrow> ('db, 'c, 'lc, unit) vmm" where
  "initFromDisk V =
     bindS (getS (\<lambda>v. GetLastAccepted (ve_L V) (ve_D V) (v_db v))) (\<lambda>r.
     bindS (liftS r) (\<lambda>blkID.
     bindS (GetStatelessBlock V blkID) (setLast blkID)))"

definition VM_Initialize ::
  "('db, 'c, 'lc) venv \<Rightarrow> (bytes \<Rightarrow> err + address list) \<Rightarrow> err + 'c \<Rightarrow> 'c samaState \<Rightarrow> 'lc \<Rightarrow> int \<Rightarrow> int \<Rightarrow>
   int \<Rightarrow> Genesis \<Rightarrow> bytes \<Rightarrow> 'db \<Rightarrow> err + ('db, 'c, 'lc) VM" where
  "VM_Initialize V parseAirdrop newCache s0 blocks mempoolSize activitySize interval g airdropData d =
     bindE (HasLastAccepted (ve_D V) d) (\<lambda>has.
     bindE (Genesis_Verify g) (\<lambda>_.
     bindE (targetRange g) (\<lambda>targetUnits.
     case bindS (if has then initFromDisk V else initGenesis V parseAirdrop airdropData) (\<lambda>_. getS v_db)
            (newVM d g blocks mempoolSize activitySize interval targetUnits s0) of
       (Inl e, v) \<Rightarrow> Inl e
     | (Inr d', v) \<Rightarrow>
         bindE (SamaNew (ve_E V) (ve_now V) newCache d' g) (\<lambda>s. Inr (v\<lparr>v_samaState := s\<rparr>)))))"

end
