(* ===== verification/Samples.thy ===== *)
theory Samples
  imports SamaProps
begin

text \<open>
  One concrete instance of each interface of theory Ext, satisfying its laws: an
  association-list database, a codec for a given list of values, a cache that keeps
  everything, and libraries that print numbers in decimal. The theorems whose hypotheses
  speak of those interfaces are applied to these instances.
\<close>

section \<open>A database in memory\<close>

type_synonym memdb = "(bytes, bytes) gomap"

fun insert_sorted :: "bytes \<times> bytes \<Rightarrow> (bytes \<times> bytes) list \<Rightarrow> (bytes \<times> bytes) list" where
  "insert_sorted e [] = [e]"
| "insert_sorted e (f # fs) =
     (if bytes_Compare (fst e) (fst f) \<le> 0 then e # f # fs else f # insert_sorted e fs)"

definition mem_entries :: "memdb \<Rightarrow> (bytes \<Rightarrow> bool) \<Rightarrow> (bytes \<times> bytes) list" where
  "mem_entries d P = foldr insert_sorted
     (map (\<lambda>k. (k, the (map_of d k))) (filter P (remdups (map fst d)))) []"

definition mem_db :: "memdb dbops" where
  "mem_db = \<lparr>
     db_Get = (\<lambda>d k. case map_of d k of None \<Rightarrow> Inl ErrNotFound | Some v \<Rightarrow> Inr v),
     db_Has = (\<lambda>d k. Inr (map_of d k \<noteq> None)),
     db_Put = (\<lambda>d k v. Inr (mput k v d)),
     db_Delete = (\<lambda>d k. Inr (mdel k d)),
     db_IterPrefix = (\<lambda>d p. mem_entries d (prefix p)),
     db_IterStart = (\<lambda>d k. mem_entries d (\<lambda>k'. 0 \<le> bytes_Compare k' k)),
     vdb_New = (\<lambda>d. d),
     vdb_Commit = (\<lambda>d. Inr d),
     vdb_SetDatabase = (\<lambda>d base. Inr d) \<rparr>"

lemma set_insert_sorted: "set (insert_sorted e fs) = insert e (set fs)"
  by (induction e fs rule: insert_sorted.induct) auto

lemma distinct_insert_sorted:
  "distinct (map fst (insert_sorted e fs)) \<longleftrightarrow> distinct (map fst (e # fs))"
  by (induction e fs rule: insert_sorted.induct) (auto simp: set_insert_sorted)

lemma mem_entries_set: "set (mem_entries d P) = {(k, v). P k \<and> map_of d k = Some v}"
proof -
  have "set (foldr insert_sorted es []) = set es" for es
    by (induction es) (auto simp: set_insert_sorted)
  then have "set (mem_entries d P) = (\<lambda>k. (k, the (map_of d k))) ` {k \<in> fst ` set d. P k}"
    by (auto simp: mem_entries_def)
  also have "\<dots> = {(k, v). P k \<and> map_of d k = Some v}"
    by (auto simp: dom_map_of_conv_image_fst [symmetric] image_iff)
  finally show ?thesis .
qed

lemma mem_entries_distinct: "distinct (map fst (mem_entries d P))"
proof -
  have dist: "distinct (map fst es) \<Longrightarrow> distinct (map fst (foldr insert_sorted es []))" and
    "set (foldr insert_sorted es []) = set es" for es
    by (induction es) (auto simp: distinct_insert_sorted set_insert_sorted)
  show ?thesis unfolding mem_entries_def by (rule dist) (simp add: comp_def)
qed

lemma mem_db_ok: "db_ok mem_db"
  by (auto simp: db_ok_def get_put_ok_def get_delete_ok_def has_ok_def iter_ok_def vdb_ok_def
      mem_db_def mem_entries_set mem_entries_distinct split: option.splits)

section \<open>A codec for a list of values\<close>

fun index_of :: "'a \<Rightarrow> 'a list \<Rightarrow> nat option" where
  "index_of x [] = None"
| "index_of x (y # ys) = (if x = y then Some 0 else map_option Suc (index_of x ys))"

definition list_codec :: "'a list \<Rightarrow> 'a codec" where
  "list_codec xs = \<lparr>
     enc = (\<lambda>x. case index_of x xs of
              None \<Rightarrow> Inl (ErrExt ''codec'') | Some i \<Rightarrow> Inr (replicate i 0)),
     dec = (\<lambda>b. if length b < length xs then Inr (xs ! length b) else Inl (ErrExt ''codec'')) \<rparr>"

lemma index_of_Some: "index_of x xs = Some i \<Longrightarrow> i < length xs \<and> xs ! i = x"
  by (induction xs arbitrary: i) (auto split: if_splits)

lemma list_codec_ok: "codec_ok (list_codec xs)"
  by (auto simp: codec_ok_def list_codec_def dest: index_of_Some split: option.splits)

section \<open>A cache that keeps everything\<close>

definition map_lru :: "('k, 'v, ('k, 'v) gomap) lruops" where
  "map_lru = \<lparr> lru_Get = (\<lambda>c k. (map_of c k, c)), lru_Put = (\<lambda>k v c. mput k v (mdel k c)),
     lru_Evict = (\<lambda>k c. mdel k c), lru_items = set \<rparr>"

lemma set_mput_mdel: "set (mput k v (mdel k c)) \<subseteq> insert (k, v) {p \<in> set c. fst p \<noteq> k}"
  by (induction c) auto

lemma set_mdel: "set (mdel k c) \<subseteq> {p \<in> set c. fst p \<noteq> k}"
  by (induction c) auto

lemma map_lru_ok: "lru_ok map_lru"
  using set_mput_mdel set_mdel
  by (fastforce simp: lru_ok_def map_lru_def dest: map_of_SomeD)

section \<open>Libraries\<close>

text \<open>Decimal text for the fixed-size arrays; bytes as characters.\<close>

definition dec_word :: "string \<Rightarrow> err + 'a::len word" where
  "dec_word s = (case dec_value 0 s of None \<Rightarrow> Inl (ErrExt ''syntax'') | Some n \<Rightarrow> Inr (word_of_nat n))"

definition sample_lib :: lib where
  "sample_lib = \<lparr>
     x_SafeAdd = (\<lambda>a b. (a + b, 2 ^ 64 \<le> unat a + unat b)),
     x_SafeSub = (\<lambda>a b. (a - b, unat a < unat b)),
     x_Keccak256 = be_val,
     x_UnmarshalPubkey = (\<lambda>b. Inr b),
     x_PubkeyToAddress = be_val,
     x_SigToPub = (\<lambda>h sig. if length sig = 0 then Inl (ErrExt ''invalid signature length'') else Inr sig),
     x_Sign = (\<lambda>h priv. Inr priv),
     x_HexToAddress = (\<lambda>s. case dec_word s of Inl _ \<Rightarrow> 0 | Inr a \<Rightarrow> a),
     x_AddressHex = (\<lambda>a. dec_digits (unat a)),
     x_IDString = (\<lambda>i. dec_digits (unat i)),
     x_IDFromString = dec_word,
     x_ShortString = (\<lambda>i. dec_digits (unat i)),
     x_ShortFromString = dec_word,
     x_ToID = (\<lambda>b. if length b = 32 then Inr (be_val b) else Inl (ErrExt ''invalid hash length'')),
     x_HashHex = (\<lambda>h. dec_digits (unat h)),
     x_hexEncode = map (\<lambda>b. char_of (unat b)),
     x_hexDecode = (\<lambda>s. Inr (map (\<lambda>c. word_of_nat (of_char c)) s)),
     x_IsHexAddress = (\<lambda>s. s \<noteq> []),
     x_HexOrDecimal256 = (\<lambda>s. case dec_value 0 s of None \<Rightarrow> Inl (ErrExt ''syntax'') | Some n \<Rightarrow> Inr (int n)),
     x_U256Bytes = (\<lambda>i. be_bytes 32 (word_of_int i :: 256 word)),
     x_PaddedBigBytes = (\<lambda>i n. be_nat n (nat i)),
     x_pow08 = (\<lambda>i. (4 / 5) ^ unat i),
     x_rnd = (\<lambda>x. x),
     x_f2u = (\<lambda>x. word_of_int \<lfloor>x\<rfloor>),
     x_undef = 0 \<rparr>"

lemma dec_word_digits: "dec_word (dec_digits (unat (w :: 'a::len word))) = Inr w"
  by (simp add: dec_word_def dec_value_dec_digits)

lemma byte_mod: "word_of_nat (unat (b :: byte) mod 256) = b"
proof -
  have "unat b < 256" using unsigned_less [of b] by simp
  then show ?thesis by simp
qed

lemma sample_math_ok: "math_ok sample_lib"
  by (simp add: math_ok_def sample_lib_def)

lemma sample_text_ok: "text_ok sample_lib"
  by (simp add: text_ok_def sample_lib_def dec_word_digits byte_mod comp_def)

lemma sample_num_ok: "num_ok sample_lib"
proof -
  have "i = j" if "0 \<le> i" "i < 2 ^ 256" "0 \<le> j" "j < 2 ^ 256" "word_of_int i = (word_of_int j :: 256 word)" for i j
  proof -
    have "uint (word_of_int i :: 256 word) = uint (word_of_int j :: 256 word)" using that(5) by simp
    then show ?thesis using that(1-4) by (simp add: uint_word_of_int)
  qed
  then show ?thesis
    by (simp add: num_ok_def sample_lib_def FormatUint_def dec_value_dec_digits)
qed

lemma sample_float_ok: "float_ok sample_lib"
  by (auto simp: float_ok_def sample_lib_def power_le_one power_less_one_iff word_neq_0_conv [symmetric] unat_gt_0)

end
