(* ===== verification/TxProps.thy ===== *)
theory TxProps
  imports TxExec StateProps
begin

text \<open>
  Properties of the execution of transactions: which transactions are accepted, what is
  charged, what each kind moves, how votes and proposals behave.
\<close>

section \<open>Payments\<close>

lemma pay_iff: "pay E a add x (d, s) = (Inr u, w) \<longleftrightarrow>
    (\<exists>n d'. ModifyBalance (e_L E) (e_D E) a add x d = (Inr n, d') \<and> w = (d', s))"
  by (auto simp: pay_def sm_iff)

lemma payStake_iff: "payStake E a add x (d, s) = (Inr u, w) \<longleftrightarrow>
    (\<exists>n d'. ModifyStakeBalance (e_L E) (e_D E) a add x d = (Inr n, d') \<and> w = (d', s))"
  by (auto simp: payStake_def sm_iff)

text \<open>The laws of the libraries that the ledger rests on.\<close>

definition ledger_env :: "('db, 'c) env \<Rightarrow> bool" where
  "ledger_env E \<longleftrightarrow> db_ok (e_D E) \<and> math_ok (e_L E)"

lemma pay_sub:
  assumes "ledger_env E" and "pay E a False x (d, s) = (Inr u, (d', s'))"
  shows "\<exists>b n. GetBalance (e_D E) d a = Inr b \<and> unat b = unat n + unat x \<and>
    GetBalance (e_D E) d' = (GetBalance (e_D E) d)(a := Inr n) \<and>
    GetStakeBalance (e_D E) d' = GetStakeBalance (e_D E) d \<and> s' = s"
proof -
  obtain n where m: "ModifyBalance (e_L E) (e_D E) a False x d = (Inr n, d')" and s: "s' = s"
    using assms(2) by (auto simp: pay_iff)
  show ?thesis
    using bal.modify_ok [OF assms(1)[unfolded ledger_env_def] m] s
      ModifyBalance_GetStakeBalance [OF _ m] assms(1)
    by (auto simp: applied_def ledger_env_def)
qed

lemma pay_add:
  assumes "ledger_env E" and "pay E a True x (d, s) = (Inr u, (d', s'))"
  shows "\<exists>b n. GetBalance (e_D E) d a = Inr b \<and> unat n = unat b + unat x \<and>
    GetBalance (e_D E) d' = (GetBalance (e_D E) d)(a := Inr n) \<and>
    GetStakeBalance (e_D E) d' = GetStakeBalance (e_D E) d \<and> s' = s"
proof -
  obtain n where m: "ModifyBalance (e_L E) (e_D E) a True x d = (Inr n, d')" and s: "s' = s"
    using assms(2) by (auto simp: pay_iff)
  show ?thesis
    using bal.modify_ok [OF assms(1)[unfolded ledger_env_def] m] s
      ModifyBalance_GetStakeBalance [OF _ m] assms(1)
    by (auto simp: applied_def ledger_env_def)
qed

lemma payStake_add:
  assumes "ledger_env E" and "payStake E a True x (d, s) = (Inr u, (d', s'))"
  shows "\<exists>b n. GetStakeBalance (e_D E) d a = Inr b \<and> unat n = unat b + unat x \<and>
    GetStakeBalance (e_D E) d' = (GetStakeBalance (e_D E) d)(a := Inr n) \<and>
    GetBalance (e_D E) d' = GetBalance (e_D E) d \<and> s' = s"
proof -
  obtain n where m: "ModifyStakeBalance (e_L E) (e_D E) a True x d = (Inr n, d')" and s: "s' = s"
    using assms(2) by (auto simp: payStake_iff)
  show ?thesis
    using stake.modify_ok [OF assms(1)[unfolded ledger_env_def] m] s
      ModifyStakeBalance_GetBalance [OF _ m] assms(1)
    by (auto simp: applied_def ledger_env_def)
qed

lemma SetTransaction_balances:
  assumes "db_ok D" and "SetTransaction D i d = (Inr u, d')"
  shows "GetBalance D d' = GetBalance D d \<and> GetStakeBalance D d' = GetStakeBalance D d \<and>
    HasTransaction D d' i = Inr True"
proof -
  have p: "db_Put D d (PrefixTxKey i) [] = Inr d'" using assms(2) by (simp add: SetTransaction_def sm_iff)
  have get: "db_Get D d' k = (if k = PrefixTxKey i then Inr [] else db_Get D d k)" for k
    using db_ok_put [OF assms(1) p] by simp
  have ne: "PrefixBalanceKey a \<noteq> PrefixTxKey i" "PrefixStakeKey a \<noteq> PrefixTxKey i" for a
    using key_bytes_neq [of "KBalance a" "KTx i"] key_bytes_neq [of "KStakeBalance a" "KTx i"] by simp_all
  show ?thesis
    using ne by (simp add: GetBalance_def GetStakeBalance_def fun_eq_iff get HasTransaction_def db_ok_has [OF assms(1)])
qed

section \<open>Accepted transactions\<close>

text \<open>What a successful execution went through: its guards, the fee, the kind's own code.\<close>

lemma Execute_inv:
  assumes "Transaction_Execute E CV now g blkTime context t (d, s) = (Inr u, (d', s'))"
  shows "\<exists>b units d1 d2. baseOf (tx_Unsigned t) = Inr b \<and> ExecuteBase g b = Inr () \<and>
    b_BlockID b \<in> cx_RecentBlockIDs context \<and> tx_id t \<notin> cx_RecentTxIDs context \<and>
    FeeUnits g (u_body (tx_Unsigned t)) = Inr units \<and>
    pay E (tx_sender t) False (units * b_Price b) (d, s) = (Inr (), (d1, s)) \<and>
    body_Execute E CV now (u_body (tx_Unsigned t)) \<lparr> tc_Genesis = g, tc_BlockTime = blkTime,
      tc_TxID = tx_id t, tc_Sender = tx_sender t \<rparr> (d1, s) = (Inr (), (d2, s')) \<and>
    SetTransaction (e_D E) (tx_id t) d2 = (Inr (), d')"
  using assms by (auto simp: Transaction_Execute_def sm_iff pay_iff)

lemma ExecuteBase_iff: "ExecuteBase g b = Inr u \<longleftrightarrow>
    b_BlockID b \<noteq> 0 \<and> b_Magic b = g_Magic g \<and> g_MinPrice g \<le> b_Price b"
  by (auto simp: ExecuteBase_def not_less)

section \<open>Sample inputs\<close>

definition bal_db :: "(address \<times> u64) list \<Rightarrow> memdb" where
  "bal_db bs = map (\<lambda>(a, b). (PrefixBalanceKey a, BigEndian_PutUint64 b)) bs"

lemma BalanceKey_inject [simp]: "PrefixBalanceKey a = PrefixBalanceKey b \<longleftrightarrow> a = b"
  using key_bytes_eq_iff [of "KBalance a" "KBalance b"] by simp

lemma TxKey_Balance [simp]: "PrefixTxKey i \<noteq> PrefixBalanceKey a" "PrefixBalanceKey a \<noteq> PrefixTxKey i"
  using key_bytes_neq [of "KTx i" "KBalance a"] key_bytes_neq [of "KBalance a" "KTx i"] by simp_all

lemma e_sample_simps [simp]:
  "e_L (e_sample a b c p) = sample_lib" "e_D (e_sample a b c p) = mem_db" "e_R (e_sample a b c p) = map_lru"
  by (simp_all add: e_sample_def)

lemma ledger_sample: "ledger_env (e_sample a b c p)"
  by (simp add: ledger_env_def mem_db_ok sample_math_ok)

lemma mem_db_simps [simp]:
  "db_Get mem_db d k = (case map_of d k of None \<Rightarrow> Inl ErrNotFound | Some v \<Rightarrow> Inr v)"
  "db_Put mem_db d k v = Inr (mput k v d)"
  "db_Has mem_db d k = Inr (map_of d k \<noteq> None)"
  "vdb_New mem_db d = d" "vdb_Commit mem_db d = Inr d"
  by (simp_all add: mem_db_def)

definition g_sample :: Genesis where
  "g_sample = DefaultGenesis\<lparr>g_Magic := 1, g_BaseTxUnits := 2, g_MinPrice := 1\<rparr>"

definition ctx_sample :: Context where
  "ctx_sample = \<lparr> cx_RecentBlockIDs = {9}, cx_RecentTxIDs = {5}, cx_RecentLoadUnits = 0, cx_Prices = [1],
     cx_Costs = [0], cx_NextCost = 0, cx_NextPrice = 1 \<rparr>"

definition tx_sample :: "u64 \<Rightarrow> id \<Rightarrow> address \<Rightarrow> txbody \<Rightarrow> Transaction" where
  "tx_sample price i sender body = (NewTx \<lparr> u_BaseTx = Some \<lparr> b_BlockID = 9, b_Magic = 1, b_Price = price \<rparr>,
     u_body = body \<rparr> [])\<lparr>tx_id := i, tx_sender := sender\<rparr>"

definition transfer_run :: "u64 \<Rightarrow> u64 \<Rightarrow> (err + unit) \<times> (memdb \<times> (address, UserMeta) gomap samaState)" where
  "transfer_run price units = Transaction_Execute (e_sample [] [] [] []) (list_codec []) 0 g_sample 1000 ctx_sample
     (tx_sample price 6 1 (TTransfer \<lparr> tr_To = 2, tr_Units = units \<rparr>)) (bal_db [(1, 100), (2, 7)], sama0)"

lemmas run_defs = Transaction_Execute_def body_Execute_def TransferTx_Execute_def pay_def onDB_def
  ModifyBalance_def SetBalance_def GetBalance_def putD_def SetTransaction_def tx_sample_def ctx_sample_def
  g_sample_def NewTx_def baseOf_def ExecuteBase_def FeeUnits_def BaseTx_FeeUnits_def bal_db_def
  sample_lib_def DefaultGenesis_def

lemma transfer_run_1: "\<exists>d'. transfer_run 3 10 = (Inr (), (d', sama0))"
  by (simp add: transfer_run_def run_defs sm_defs)

section \<open>The invariant\<close>

text \<open>
  C2. Every transaction, of any of the thirteen kinds, whether it succeeds or fails at any
  point, keeps the invariant of the tables: distinct keys in every map, no entry both added
  and deleted, shares of at most 100 that sum to 100 where they come in pairs.
\<close>

theorem tx_keeps_tables:
  assumes "sama_ok s" and "Transaction_Execute E CV now g blkTime context t (d, s) = (r, (d', s'))"
  shows "sama_ok s'"
  using presD' [OF pres_Transaction_Execute assms(2)] assms(1) by simp

lemma tx_keeps_tables_witness: "\<exists>d' s'. transfer_run 3 10 = (Inr (), (d', s')) \<and> sama_ok s'"
proof -
  obtain d' where r: "transfer_run 3 10 = (Inr (), (d', sama0))" using transfer_run_1 by blast
  have "sama_ok sama0" by (rule tx_keeps_tables [OF sama0_ok r [unfolded transfer_run_def]])
  then show ?thesis using r by blast
qed

section \<open>Guards and fees\<close>

text \<open>
  C18. A transaction that is executed had the magic number of the chain, a price of at least
  the minimum, a recent block id and an id not executed recently; its sender could pay the
  fee, which is the number of units times the price modulo \<open>2 ^ 64\<close>; and it is on record
  afterwards.
\<close>

theorem accepted_tx:
  assumes "ledger_env E" and "Transaction_Execute E CV now g blkTime context t (d, s) = (Inr u, (d', s'))"
  shows "\<exists>b units n. u_BaseTx (tx_Unsigned t) = Some b \<and> b_Magic b = g_Magic g \<and> g_MinPrice g \<le> b_Price b \<and>
    b_BlockID b \<noteq> 0 \<and> b_BlockID b \<in> cx_RecentBlockIDs context \<and> tx_id t \<notin> cx_RecentTxIDs context \<and>
    FeeUnits g (u_body (tx_Unsigned t)) = Inr units \<and> GetBalance (e_D E) d (tx_sender t) = Inr n \<and>
    unat units * unat (b_Price b) mod 2 ^ 64 \<le> unat n \<and>
    HasTransaction (e_D E) d' (tx_id t) = Inr True"
proof -
  obtain b units d1 d2 where base: "baseOf (tx_Unsigned t) = Inr b" "ExecuteBase g b = Inr ()"
    and recent: "b_BlockID b \<in> cx_RecentBlockIDs context" "tx_id t \<notin> cx_RecentTxIDs context"
    and units: "FeeUnits g (u_body (tx_Unsigned t)) = Inr units"
    and paid: "pay E (tx_sender t) False (units * b_Price b) (d, s) = (Inr (), (d1, s))"
    and rec: "SetTransaction (e_D E) (tx_id t) d2 = (Inr (), d')"
    using Execute_inv [OF assms(2)] by blast
  have "unat (units * b_Price b) = unat units * unat (b_Price b) mod 2 ^ 64"
    by (rule unat_mult_mod)
  then obtain n where "GetBalance (e_D E) d (tx_sender t) = Inr n"
    "unat units * unat (b_Price b) mod 2 ^ 64 \<le> unat n"
    using pay_sub [OF assms(1) paid] by auto
  moreover have "HasTransaction (e_D E) d' (tx_id t) = Inr True"
    using SetTransaction_balances [OF _ rec] assms(1) by (simp add: ledger_env_def)
  moreover have "u_BaseTx (tx_Unsigned t) = Some b" using base(1) by (auto simp: baseOf_def split: option.splits)
  ultimately show ?thesis using base(2) recent units by (auto simp: ExecuteBase_iff)
qed

text \<open>At the price \<open>2 ^ 63\<close> two units cost nothing: the whole balance of the sender is still there.\<close>

definition wrap_price :: u64 where "wrap_price = 9223372036854775808"

lemma transfer_run_wrap:
  "\<exists>d'. transfer_run wrap_price 100 = (Inr (), (d', sama0)) \<and> GetBalance mem_db d' 2 = Inr 107"
  by (simp add: transfer_run_def wrap_price_def run_defs sm_defs)

lemma accepted_tx_witness:
  "\<exists>d' b. u_BaseTx (tx_Unsigned (tx_sample wrap_price 6 1 (TTransfer \<lparr> tr_To = 2, tr_Units = 100 \<rparr>))) = Some b \<and>
    b_Price b = wrap_price \<and> HasTransaction mem_db d' 6 = Inr True \<and> GetBalance mem_db d' 2 = Inr 107"
proof -
  obtain d' where r: "transfer_run wrap_price 100 = (Inr (), (d', sama0))" and to: "GetBalance mem_db d' 2 = Inr 107"
    using transfer_run_wrap by blast
  show ?thesis
    using accepted_tx [OF ledger_sample r [unfolded transfer_run_def]] to
    by (auto simp: tx_sample_def NewTx_def)
qed

text \<open>
  A transaction whose id was executed in a recent block is rejected as a duplicate, and
  nothing has changed: no fee, no table, no entry of the database.
\<close>

theorem replay_rejected:
  assumes "baseOf (tx_Unsigned t) = Inr b" and "ExecuteBase g b = Inr ()"
    and "b_BlockID b \<in> cx_RecentBlockIDs context" and "tx_id t \<in> cx_RecentTxIDs context"
  shows "Transaction_Execute E CV now g blkTime context t (d, s) = (Inl ErrDuplicateTx, (d, s))"
  using assms by (simp add: Transaction_Execute_def sm_defs)

lemma replay_rejected_witness:
  "Transaction_Execute (e_sample [] [] [] []) (list_codec []) 0 g_sample 1000 ctx_sample
     (tx_sample 3 5 1 (TTransfer \<lparr> tr_To = 2, tr_Units = 10 \<rparr>)) (bal_db [(1, 100), (2, 7)], sama0) =
   (Inl ErrDuplicateTx, (bal_db [(1, 100), (2, 7)], sama0))"
  by (rule replay_rejected [where b = "\<lparr> b_BlockID = 9, b_Magic = 1, b_Price = 3 \<rparr>"])
    (simp_all add: run_defs)

section \<open>Transfers and stakes\<close>

text \<open>
  C12. A transfer that is executed takes exactly the units and the fee from the sender, gives
  exactly the units to the receiver, who is someone else, without wrap-around, and changes
  no other balance, no stake balance and no table; so the sum over any accounts that hold
  both goes down by the fee.
\<close>

theorem transfer_exact:
  assumes E: "ledger_env E" and tr: "u_body (tx_Unsigned t) = TTransfer x"
    and run: "Transaction_Execute E CV now g blkTime context t (d, s) = (Inr u, (d', s'))"
    and A: "finite A" "tx_sender t \<in> A" "tr_To x \<in> A"
  shows "\<exists>b n m n' m'. u_BaseTx (tx_Unsigned t) = Some b \<and> tr_To x \<noteq> tx_sender t \<and> tr_To x \<noteq> 0 \<and>
    GetBalance (e_D E) d (tx_sender t) = Inr n \<and> GetBalance (e_D E) d (tr_To x) = Inr m \<and>
    unat n = unat n' + unat (tr_Units x) + unat (g_BaseTxUnits g * b_Price b) \<and>
    unat m' = unat m + unat (tr_Units x) \<and>
    GetBalance (e_D E) d' = (GetBalance (e_D E) d)(tx_sender t := Inr n', tr_To x := Inr m') \<and>
    GetStakeBalance (e_D E) d' = GetStakeBalance (e_D E) d \<and> s' = s \<and>
    total (GetBalance (e_D E) d) A = total (GetBalance (e_D E) d') A + unat (g_BaseTxUnits g * b_Price b)"
proof -
  obtain b d1 d2 where base: "baseOf (tx_Unsigned t) = Inr b"
    and paid: "pay E (tx_sender t) False (g_BaseTxUnits g * b_Price b) (d, s) = (Inr (), (d1, s))"
    and body: "TransferTx_Execute E x \<lparr> tc_Genesis = g, tc_BlockTime = blkTime, tc_TxID = tx_id t,
      tc_Sender = tx_sender t \<rparr> (d1, s) = (Inr (), (d2, s'))"
    and rec: "SetTransaction (e_D E) (tx_id t) d2 = (Inr (), d')"
    using Execute_inv [OF run] tr by (auto simp: FeeUnits_def BaseTx_FeeUnits_def body_Execute_def)
  obtain d3 s3 where ne: "tr_To x \<noteq> 0" "tr_To x \<noteq> tx_sender t"
    and out: "pay E (tx_sender t) False (tr_Units x) (d1, s) = (Inr (), (d3, s3))"
    and inn: "pay E (tr_To x) True (tr_Units x) (d3, s3) = (Inr (), (d2, s'))"
    using body by (auto simp: TransferTx_Execute_def sm_iff split: if_splits)
  let ?G = "GetBalance (e_D E)"
  obtain n0 n1 where 1: "?G d (tx_sender t) = Inr n0" "unat n0 = unat n1 + unat (g_BaseTxUnits g * b_Price b)"
    "?G d1 = (?G d)(tx_sender t := Inr n1)" "GetStakeBalance (e_D E) d1 = GetStakeBalance (e_D E) d"
    using pay_sub [OF E paid] by blast
  obtain n2 where 2: "unat n1 = unat n2 + unat (tr_Units x)" "?G d3 = (?G d1)(tx_sender t := Inr n2)"
    "GetStakeBalance (e_D E) d3 = GetStakeBalance (e_D E) d1" "s3 = s"
    using pay_sub [OF E out] 1(3) by auto
  obtain m m' where 3: "?G d3 (tr_To x) = Inr m" "unat m' = unat m + unat (tr_Units x)"
    "?G d2 = (?G d3)(tr_To x := Inr m')" "GetStakeBalance (e_D E) d2 = GetStakeBalance (e_D E) d3" "s' = s3"
    using pay_add [OF E inn] by blast
  have 4: "?G d' = ?G d2" "GetStakeBalance (e_D E) d' = GetStakeBalance (e_D E) d2"
    using SetTransaction_balances [OF _ rec] E by (simp_all add: ledger_env_def)
  have d': "?G d' = (?G d)(tx_sender t := Inr n2, tr_To x := Inr m')" using 1 2 3 4 by simp
  have m: "?G d (tr_To x) = Inr m" using 3(1) 2(2) 1(3) ne by simp
  have rest: "total (?G d') (A - {tx_sender t} - {tr_To x}) = total (?G d) (A - {tx_sender t} - {tr_To x})"
    unfolding total_def by (rule sum.cong) (auto simp: d')
  have split: "total f A = (case f (tx_sender t) of Inl _ \<Rightarrow> 0 | Inr v \<Rightarrow> unat v) +
      ((case f (tr_To x) of Inl _ \<Rightarrow> 0 | Inr v \<Rightarrow> unat v) + total f (A - {tx_sender t} - {tr_To x}))"
    for f :: "address \<Rightarrow> err + u64"
    using A ne by (simp add: total_def sum.remove [of A "tx_sender t"] sum.remove [of "A - {tx_sender t}" "tr_To x"])
  have "total (?G d) A = total (?G d') A + unat (g_BaseTxUnits g * b_Price b)"
    unfolding split [of "?G d"] split [of "?G d'"] rest using ne 1(1,2) 2(1) 3(2) m by (simp add: d')
  moreover have "u_BaseTx (tx_Unsigned t) = Some b" using base by (auto simp: baseOf_def split: option.splits)
  ultimately show ?thesis using 1 2 3 4 d' m ne by auto
qed

lemma transfer_exact_witness:
  "\<exists>d' n m. transfer_run 3 10 = (Inr (), (d', sama0)) \<and> GetBalance mem_db d' 1 = Inr n \<and>
    GetBalance mem_db d' 2 = Inr m \<and> unat n = 84 \<and> unat m = 17"
proof -
  obtain d' where r: "transfer_run 3 10 = (Inr (), (d', sama0))" using transfer_run_1 by blast
  have "finite {1, 2 :: address}" "1 \<in> {1, 2 :: address}" "2 \<in> {1, 2 :: address}" by simp_all
  then obtain b n m n' m' where "u_BaseTx (tx_Unsigned (tx_sample 3 6 1 (TTransfer \<lparr> tr_To = 2, tr_Units = 10 \<rparr>))) = Some b"
    "GetBalance mem_db (bal_db [(1, 100), (2, 7)]) 1 = Inr n" "GetBalance mem_db (bal_db [(1, 100), (2, 7)]) 2 = Inr m"
    "unat n = unat n' + 10 + unat (g_BaseTxUnits g_sample * b_Price b)" "unat m' = unat m + 10"
    "GetBalance mem_db d' = (GetBalance mem_db (bal_db [(1, 100), (2, 7)]))(1 := Inr n', 2 := Inr m')"
    using transfer_exact [OF ledger_sample _ r [unfolded transfer_run_def], of "\<lparr> tr_To = 2, tr_Units = 10 \<rparr>" "{1, 2}"]
    by (auto simp: tx_sample_def NewTx_def)
  moreover have "GetBalance mem_db (bal_db [(1, 100), (2, 7)]) 1 = Inr 100"
    "GetBalance mem_db (bal_db [(1, 100), (2, 7)]) 2 = Inr 7"
    by (simp_all add: GetBalance_def bal_db_def)
  ultimately show ?thesis using r by (auto simp: tx_sample_def NewTx_def g_sample_def)
qed

end
