(* ===== verification/PoolProps.thy ===== *)
theory PoolProps
  imports Mempool TxProps
begin

text \<open>
  Properties of the pool of pending transactions, over the map \<open>pool\<close> from ids to
  transactions and prices that the two heaps stand for.
\<close>

section \<open>Sample pools\<close>

definition ptx :: "id \<Rightarrow> u64 \<Rightarrow> Transaction" where
  "ptx i price = tx_sample price i 1 (TTransfer \<lparr> tr_To = 2, tr_Units = 1 \<rparr>)"

lemma ptx_simps [simp]:
  "tx_id (ptx i p) = i" "GetPrice (tx_Unsigned (ptx i p)) = Inr p" "GetBlockID (tx_Unsigned (ptx i p)) = Inr 9"
  by (simp_all add: ptx_def tx_sample_def GetPrice_def GetBlockID_def baseOf_def NewTx_def)

lemma ptx_LoadUnits [simp]: "LoadUnits g_sample (u_body (tx_Unsigned (ptx i p))) = Inr 2"
  by (simp add: ptx_def tx_sample_def NewTx_def LoadUnits_def FeeUnits_def BaseTx_FeeUnits_def g_sample_def)

text \<open>A pool with room for two, after a call of \<open>Add\<close> for each transaction of the list.\<close>

fun adds :: "Transaction list \<Rightarrow> Mempool \<Rightarrow> Mempool" where
  "adds [] m = m"
| "adds (t # ts) m = (case Mempool_Add t m of Inr (_, m') \<Rightarrow> adds ts m' | Inl _ \<Rightarrow> m)"

definition pool_of :: "Transaction list \<Rightarrow> Mempool" where
  "pool_of ts = adds ts (Mempool_New g_sample 2)"

lemma adds_ok: "mem_ok m \<Longrightarrow> (\<And>t. t \<in> set ts \<Longrightarrow> \<exists>p. GetPrice (tx_Unsigned t) = Inr p) \<Longrightarrow> mem_ok (adds ts m)"
proof (induction ts arbitrary: m)
  case Nil
  then show ?case by simp
next
  case (Cons t ts)
  obtain p where "GetPrice (tx_Unsigned t) = Inr p" using Cons.prems(2) by auto
  then obtain b m' where "Mempool_Add t m = Inr (b, m')" "mem_ok m'" using Add_ok [OF Cons.prems(1)] by blast
  then show ?case using Cons by simp
qed

lemma adds_append: "\<forall>t \<in> set us. \<exists>r. GetPrice (tx_Unsigned t) = Inr r \<Longrightarrow> mem_ok m \<Longrightarrow>
    adds (us @ [t]) m = adds [t] (adds us m)"
proof (induction us arbitrary: m)
  case Nil
  then show ?case by simp
next
  case (Cons u us)
  obtain p where "GetPrice (tx_Unsigned u) = Inr p" using Cons.prems(1) by auto
  then obtain b m' where "Mempool_Add u m = Inr (b, m')" "mem_ok m'" using Add_ok [OF Cons.prems(2)] by blast
  then show ?case using Cons by simp
qed

lemma pool_ptx_ok: "mem_ok (pool_of (map (\<lambda>(i, p). ptx i p) ips))"
  unfolding pool_of_def by (rule adds_ok) (auto simp: New_ok)

lemmas mem_eval = pool_of_def Mempool_Add_def Mempool_New_def newTxHeap_def txHeap_Has_def txHeap_Get_def
  heap_Push_def txHeap_Push_def txHeap_Len_def Mempool_Len_def pool_def addPending_def
  entry_def txHeap_Less_def txHeap_Swap_def setIndex_def price_lt_def parent_def swapL_def heapUp.simps Let_def

text \<open>A pool with two transactions, and what it stands for.\<close>

definition pool2 :: Mempool where
  "pool2 = pool_of [ptx 4 5, ptx 3 8]"

abbreviation map2 :: "id \<Rightarrow> (Transaction \<times> u64) option" where
  "map2 \<equiv> [4 \<mapsto> (ptx 4 5, 5), 3 \<mapsto> (ptx 3 8, 8)]"

lemma pool_2 [simp]: "pool pool2 = map2" "Mempool_Len pool2 = 2" "mp_maxSize pool2 = 2"
  by (simp_all add: pool2_def mem_eval) (auto simp: contents_def fun_eq_iff)

lemma pool_2_ok: "mem_ok pool2"
  using pool_ptx_ok [of "[(4, 5), (3, 8)]"] by (simp add: pool2_def)

section \<open>Reachable pools\<close>

text \<open>The steps of a pool: its methods, and the loop of the builder taking the signal.\<close>

inductive pool_step :: "Mempool \<Rightarrow> Mempool \<Rightarrow> bool" where
  Add: "Mempool_Add tx m = Inr (b, m') \<Longrightarrow> pool_step m m'"
| PopMax: "Mempool_PopMax m = Inr (r, m') \<Longrightarrow> pool_step m m'"
| remove: "pool_step m (snd (Mempool_remove i m))"
| Prune: "Mempool_Prune valid m = Inr m' \<Longrightarrow> pool_step m m'"
| NewTxs: "Mempool_NewTxs maxUnits m = Inr (txs, m') \<Longrightarrow> pool_step m m'"
| signal: "mp_Pending m \<Longrightarrow> pool_step m (m\<lparr>mp_Pending := False\<rparr>)"

inductive_simps pool_step_iff: "pool_step m m'"

abbreviation pool_steps :: "Mempool \<Rightarrow> Mempool \<Rightarrow> bool" where
  "pool_steps \<equiv> pool_step\<^sup>*\<^sup>*"

lemma remove_maxSize [simp]: "mp_maxSize (snd (Mempool_remove i m)) = mp_maxSize m"
  by (auto simp: Mempool_remove_def Let_def split: option.splits prod.splits)

lemma popMin_maxSize: "Mempool_popMin m = Inr (r, m') \<Longrightarrow> mp_maxSize m' = mp_maxSize m"
  by (auto simp: Mempool_popMin_def sm_iff case_prod_beta)

lemma Add_maxSize: "Mempool_Add tx m = Inr (b, m') \<Longrightarrow> mp_maxSize m' = mp_maxSize m"
  by (auto simp: Mempool_Add_def Let_def sm_iff addPending_def dest!: popMin_maxSize split: if_splits option.splits)

lemma Len_le: "mem_sync m' \<Longrightarrow> mem_sync m \<Longrightarrow> dom (pool m') \<subseteq> dom (pool m) \<Longrightarrow> Mempool_Len m' \<le> Mempool_Len m"
  by (metis Len_card card_mono dom_contents finite_set heap_ok_def mem_sync_def pool_def)

lemma step_ok:
  assumes "pool_step m m'" and "mem_ok m"
  shows "mem_ok m' \<and> mp_maxSize m' = mp_maxSize m"
  using assms
proof (cases rule: pool_step.cases)
  case (Add tx b)
  then obtain p where "GetPrice (tx_Unsigned tx) = Inr p" by (auto simp: Mempool_Add_def sm_iff)
  then show ?thesis using Add_ok [OF assms(2)] Add_maxSize Add by fastforce
next
  case (PopMax r)
  have sync: "mem_sync m" using assms(2) by (simp add: mem_ok_def)
  have ne: "Mempool_Len m \<noteq> 0" using PopMax by (auto simp: Mempool_PopMax_def heapTop_def Mempool_Len_def txHeap_Len_def)
  have m': "mem_sync m'" "dom (pool m') \<subseteq> dom (pool m)" "mp_maxSize m' = mp_maxSize m"
    using pop_ok(1) [OF sync ne] PopMax by (auto split: if_splits)
  then have "Mempool_Len m' \<le> Mempool_Len m" by (intro Len_le [OF _ sync])
  then show ?thesis using m' assms(2) by (simp add: mem_ok_def)
next
  case (remove i)
  have sync: "mem_sync m" using assms(2) by (simp add: mem_ok_def)
  have "mem_sync m'" "dom (pool m') \<subseteq> dom (pool m)" using remove_ok [OF sync, of i] remove by auto
  then show ?thesis using Len_le [OF _ sync] assms(2) remove by (fastforce simp: mem_ok_def)
next
  case (Prune valid)
  have "fold (\<lambda>i m. snd (Mempool_remove i m)) is m = m' \<Longrightarrow> mp_maxSize m' = mp_maxSize m" for "is" m
    by (induction "is" arbitrary: m) auto
  then show ?thesis using Prune Prune_ok [OF assms(2), of valid] by (auto simp: Mempool_Prune_def sm_iff)
next
  case (NewTxs maxUnits txs)
  then show ?thesis
    using assms(2) by (auto simp: Mempool_NewTxs_def sm_iff mem_ok_def mem_sync_def Mempool_Len_def)
next
  case signal
  then show ?thesis using assms(2) by (auto simp: mem_ok_def mem_sync_def Mempool_Len_def)
qed

lemma steps_ok: "pool_steps m m' \<Longrightarrow> mem_ok m \<Longrightarrow> mem_ok m' \<and> mp_maxSize m' = mp_maxSize m"
  by (induction rule: rtranclp_induct) (auto dest: step_ok)

text \<open>
  C13. Every pool reachable from a new one by any sequence of its methods keeps the two heaps
  in step, each heap-ordered over the same transactions under their own ids and prices, holds
  at most as many transactions as its bound, and, unless it is empty, its highest and lowest
  transactions can be taken without a panic.
\<close>

theorem pool_invariant:
  assumes "0 \<le> n" and "pool_steps (Mempool_New g n) m"
  shows "mem_ok m \<and> int (card (dom (pool m))) \<le> n \<and>
    (Mempool_Len m \<noteq> 0 \<longrightarrow> (\<exists>t p m1 u q m2. Mempool_PopMax m = Inr ((Some t, p), m1) \<and>
       Mempool_popMin m = Inr ((Some u, q), m2) \<and> q \<le> p))"
proof -
  have ok: "mem_ok m" "mp_maxSize m = n"
    using steps_ok [OF assms(2)] New_ok [OF assms(1), of g] by (simp_all add: Mempool_New_def)
  then have sync: "mem_sync m" by (simp add: mem_ok_def)
  have "int (card (dom (pool m))) \<le> n" using ok Len_card [OF sync] by (simp add: mem_ok_def)
  then show ?thesis using ok pop_ok [OF sync] by fastforce
qed

lemma adds_steps: "pool_steps m (adds ts m)"
  by (induction ts m rule: adds.induct)
    (auto split: sum.splits dest: pool_step.Add intro: converse_rtranclp_into_rtranclp)

lemma pool_invariant_witness:
  "\<exists>t p m1. Mempool_PopMax pool2 = Inr ((Some t, p), m1)"
proof -
  have "pool_steps (Mempool_New g_sample 2) pool2" unfolding pool2_def pool_of_def by (rule adds_steps)
  from pool_invariant [OF _ this] show ?thesis by auto
qed

section \<open>The operations\<close>

text \<open>
  C14. \<open>Add\<close> refuses a transaction that is already there and changes nothing; otherwise it
  enters under its id with its price, and when the pool is full a transaction of the lowest
  price of all, the new one included, leaves; the result says whether the new one stayed.
\<close>

theorem pool_Add:
  assumes "mem_ok m" and "GetPrice (tx_Unsigned tx) = Inr p"
  shows "\<exists>b m'. Mempool_Add tx m = Inr (b, m') \<and> mem_ok m' \<and>
    (if pool m (tx_id tx) \<noteq> None then \<not> b \<and> m' = m
     else
       let P = (pool m)(tx_id tx \<mapsto> (tx, p)) in
       if int (Mempool_Len m) < mp_maxSize m then b \<and> pool m' = P
       else \<exists>t q. P (tx_id t) = Some (t, q) \<and> (\<forall>i t' q'. P i = Some (t', q') \<longrightarrow> q \<le> q') \<and>
              pool m' = P(tx_id t := None) \<and> b = (tx_id t \<noteq> tx_id tx))"
  using Add_ok [OF assms] .

text \<open>A full pool of prices 5 and 8 takes a third transaction of price 6 and gives up that of price 5.\<close>

lemma pool_Add_witness:
  "\<exists>b m'. Mempool_Add (ptx 7 6) pool2 = Inr (b, m') \<and> b \<and>
    pool m' = [3 \<mapsto> (ptx 3 8, 8), 7 \<mapsto> (ptx 7 6, 6)]"
proof -
  have new: "map2 7 = None" and full: "\<not> int 2 < 2"
    by simp_all
  obtain b m' t q where r: "Mempool_Add (ptx 7 6) pool2 = Inr (b, m')"
    and t: "(map2(7 \<mapsto> (ptx 7 6, 6))) (tx_id t) = Some (t, q)"
    and min: "\<forall>i t' q'. (map2(7 \<mapsto> (ptx 7 6, 6))) i = Some (t', q') \<longrightarrow> q \<le> q'"
    and p: "pool m' = (map2(7 \<mapsto> (ptx 7 6, 6), tx_id t := None))"
      "b = (tx_id t \<noteq> 7)"
    using pool_Add [OF pool_2_ok ptx_simps(2), of 7 6] unfolding Let_def
    by (simp only: new full if_False simp_thms pool_2 ptx_simps) blast
  have "q \<le> 5" by (rule min [rule_format, of 4 "ptx 4 5"]) simp
  then have "tx_id t = 4" using t by (auto split: if_splits)
  then show ?thesis using r p by (auto simp: fun_eq_iff)
qed

lemma take_max:
  assumes "mem_ok m" and "Mempool_Len m \<noteq> 0"
  shows "\<exists>t p m'. Mempool_PopMax m = Inr ((Some t, p), m') \<and> pool m (tx_id t) = Some (t, p) \<and>
    pool m' = (pool m)(tx_id t := None) \<and> (\<forall>i t' p'. pool m i = Some (t', p') \<longrightarrow> p' \<le> p) \<and>
    Suc (Mempool_Len m') = Mempool_Len m"
proof -
  have sync: "mem_sync m" using assms(1) by (simp add: mem_ok_def)
  then have fin: "finite (dom (pool m))" by (simp add: mem_sync_def pool_def heap_ok_def dom_contents)
  obtain t p m' where r: "Mempool_PopMax m = Inr ((Some t, p), m')" "mem_sync m'"
    "pool m (tx_id t) = Some (t, p)" "pool m' = (pool m)(tx_id t := None)"
    "\<forall>i t' p'. pool m i = Some (t', p') \<longrightarrow> p' \<le> p"
    using pop_ok(1) [OF sync assms(2)] by blast
  have "0 < card (dom (pool m))" using r(3) fin by (auto simp: card_gt_0_iff)
  then have "Suc (card (dom (pool m'))) = card (dom (pool m))" using r(3) by (simp add: r(4) domI)
  then have "Suc (Mempool_Len m') = Mempool_Len m" using r(2) sync by (simp add: Len_card)
  then show ?thesis using r by blast
qed

lemma pool2_PopMax:
  "\<exists>m'. Mempool_PopMax pool2 = Inr ((Some (ptx 3 8), 8), m') \<and>
    pool m' = [4 \<mapsto> (ptx 4 5, 5)]"
proof -
  obtain t p m' where r: "Mempool_PopMax pool2 = Inr ((Some t, p), m')"
    "map2 (tx_id t) = Some (t, p)"
    "pool m' = (map2(tx_id t := None))"
    "\<forall>i t' p'. map2 i = Some (t', p') \<longrightarrow> p' \<le> p"
    using take_max [OF pool_2_ok] by auto
  have "8 \<le> p" by (rule r(4) [rule_format, of 3 "ptx 3 8"]) simp
  then have "t = ptx 3 8 \<and> p = 8" using r(2) by (auto split: if_splits)
  then show ?thesis using r by (auto simp: fun_eq_iff)
qed

text \<open>
  \<open>PopMax\<close> takes out a transaction whose price no other transaction of the pool exceeds,
  and that one only.
\<close>

theorem pool_PopMax:
  assumes "mem_ok m" and "Mempool_Len m \<noteq> 0"
  shows "\<exists>t p m'. Mempool_PopMax m = Inr ((Some t, p), m') \<and> pool m (tx_id t) = Some (t, p) \<and>
    pool m' = (pool m)(tx_id t := None) \<and> (\<forall>i t' p'. pool m i = Some (t', p') \<longrightarrow> p' \<le> p) \<and>
    Suc (Mempool_Len m') = Mempool_Len m"
  using take_max [OF assms] .

lemma pool_PopMax_witness:
  "\<exists>m'. Mempool_PopMax pool2 = Inr ((Some (ptx 3 8), 8), m') \<and> Suc (Mempool_Len m') = Mempool_Len pool2"
proof -
  obtain m' where "Mempool_PopMax pool2 = Inr ((Some (ptx 3 8), 8), m')" using pool2_PopMax by blast
  then show ?thesis using pool_PopMax [OF pool_2_ok] by auto
qed

text \<open>
  \<open>Prune\<close> never fails and keeps exactly the transactions whose block id is one of the
  given ones.
\<close>

theorem pool_Prune:
  assumes "mem_ok m"
  shows "\<exists>m'. Mempool_Prune valid m = Inr m' \<and> mem_ok m' \<and>
    (\<forall>i. pool m' i = (case pool m i of None \<Rightarrow> None
       | Some (t, p) \<Rightarrow> if (\<exists>b \<in> valid. GetBlockID (tx_Unsigned t) = Inr b) then Some (t, p) else None))"
  using Prune_ok [OF assms] .

lemma pool_Prune_witness:
  "\<exists>m'. Mempool_Prune {8} pool2 = Inr m' \<and> pool m' = Map.empty"
proof -
  obtain m' where r: "Mempool_Prune {8} pool2 = Inr m'" and p: "\<forall>i. pool m' i = (case map2 i of None \<Rightarrow> None
      | Some (t, p) \<Rightarrow> if (\<exists>b \<in> {8}. GetBlockID (tx_Unsigned t) = Inr b) then Some (t, p) else None)"
    using pool_Prune [OF pool_2_ok, of "{8}"] by (auto simp only: pool_2)
  have "pool m' i = None" for i by (simp add: p)
  then show ?thesis using r by (auto simp: fun_eq_iff)
qed

text \<open>
  The transactions \<open>NewTxs\<close> hands out are new ones, in the order they came, each still in
  the pool, with at most \<open>maxUnits\<close> load units in all; those it leaves are the last ones.
\<close>

theorem pool_NewTxs:
  assumes "Mempool_NewTxs maxUnits m = Inr (txs, m')"
  shows "subseq txs (mp_newTxs m) \<and> suffix (mp_newTxs m') (mp_newTxs m) \<and>
    (\<forall>t \<in> set txs. pool m (tx_id t) \<noteq> None) \<and> pool m' = pool m \<and>
    (\<Sum>t\<leftarrow>txs. case LoadUnits (mp_g m) (u_body (tx_Unsigned t)) of Inr u \<Rightarrow> unat u | Inl _ \<Rightarrow> 0) \<le> unat maxUnits"
proof -
  obtain rest where l: "newTxsLoop (mp_g m) (Mempool_Has m) maxUnits 0 [] (mp_newTxs m) = Inr (txs, rest)"
    and m': "m' = m\<lparr>mp_newTxs := rest\<rparr>"
    using assms by (auto simp: Mempool_NewTxs_def sm_iff)
  have has: "Mempool_Has m i \<longleftrightarrow> pool m i \<noteq> None" for i
    by (simp add: Mempool_Has_def txHeap_Has_def pool_def Get_None_contents)
  show ?thesis using newTxsLoop_ok [OF l] m' by (simp add: has) (simp add: pool_def)
qed

lemma pool_NewTxs_witness:
  "\<exists>m'. Mempool_NewTxs 3 pool2 = Inr ([ptx 4 5], m') \<and> mp_newTxs m' = [ptx 3 8] \<and>
    subseq [ptx 4 5] (mp_newTxs pool2)"
proof -
  have "\<exists>m'. Mempool_NewTxs 3 pool2 = Inr ([ptx 4 5], m') \<and> mp_newTxs m' = [ptx 3 8]"
    by (simp add: Mempool_NewTxs_def Mempool_Has_def mem_eval pool2_def)
  then show ?thesis using pool_NewTxs by blast
qed

end
