(* ===== verification/ChainProps.thy ===== *)
theory ChainProps
  imports Consensus PoolProps
begin

text \<open>
  Properties of the chain's machine: the walk back through the recent blocks ends, the price
  and the cost of a block stay within their bounds, block building takes only what it may
  and ends, a block that was verified and accepted is found on disk, what a rejected block
  leaves behind, the ring of recent activities, and the builder.
\<close>

section \<open>A sample machine\<close>

definition bc_sample :: "StatefulBlock list \<Rightarrow> blkcodecs" where
  "bc_sample blks = \<lparr> bc_Block = list_codec blks, bc_Tx = list_codec [], bc_ValueMeta = list_codec [] \<rparr>"

lemma g_sample_MaxBlockSize [simp]: "g_MaxBlockSize g_sample = 246"
  by (simp add: g_sample_def DefaultGenesis_def)

definition venv_sample ::
  "StatefulBlock list \<Rightarrow> (memdb, (address, UserMeta) gomap, (id, ptr) gomap) venv" where
  "venv_sample blks = \<lparr> ve_E = e_sample [] [] [] [], ve_B = bc_sample blks, ve_R = map_lru, ve_now = 0 \<rparr>"

definition blk_sample :: "id \<Rightarrow> id \<Rightarrow> u64 \<Rightarrow> memdb StatelessBlock" where
  "blk_sample i prnt h = \<lparr>
     sb_block = \<lparr> sf_Prnt = prnt, sf_Tmstmp = 1000, sf_Hght = h, sf_Price = 6, sf_Cost = 0, sf_AccessProof = 0,
       sf_Txs = [] \<rparr>,
     sb_id = i, sb_st = Processing, sb_t = 1000, sb_bytes = [], sb_children = [], sb_onAcceptDB = Some [] \<rparr>"

text \<open>A machine with the given blocks, the first accepted and the others verified.\<close>

definition vm_sample ::
  "memdb StatelessBlock list \<Rightarrow> (memdb, (address, UserMeta) gomap, (id, ptr) gomap) VM" where
  "vm_sample bs = (newVM [] g_sample [] 2 2 0 100 sama0)\<lparr>v_objs := bs,
     v_blocks := [(sb_id (hd bs), 0)],
     v_verifiedBlocks := map (\<lambda>p. (sb_id (bs ! p), p)) [1..<length bs]\<rparr>"

section \<open>The walk back ends\<close>

text \<open>
  \<open>rank\<close> numbers the blocks so that a parent comes before its child (the id of a block is a
  hash of its parent's id, so there is such a numbering); every block the machine can find
  under an id has that id.
\<close>

definition ranked :: "(id \<Rightarrow> nat) \<Rightarrow> id \<Rightarrow> 'db StatelessBlock \<Rightarrow> bool" where
  "ranked rank i b \<longleftrightarrow> sb_id b = i \<and> (sf_Hght (sb_block b) \<noteq> 0 \<longrightarrow> rank (sf_Prnt (sb_block b)) < rank i)"

definition on_disk :: "('db, 'c, 'lc) venv \<Rightarrow> 'db \<Rightarrow> id \<Rightarrow> err + 'db StatelessBlock" where
  "on_disk V d i = bindE (GetBlock (ve_L V) (ve_D V) (ve_B V) d i) (\<lambda>stBlk.
     ParseStatefulBlock (ve_L V) (ve_B V) stBlk [] Accepted)"

definition chain_ok :: "('db, 'c, 'lc) venv \<Rightarrow> (id \<Rightarrow> nat) \<Rightarrow> ('db, 'c, 'lc) VM \<Rightarrow> bool" where
  "chain_ok V rank v \<longleftrightarrow>
     (\<forall>(i, p) \<in> lru_items (ve_R V) (v_blocks v). p < length (v_objs v) \<and> ranked rank i (v_objs v ! p)) \<and>
     (\<forall>i p. map_of (v_verifiedBlocks v) i = Some p \<longrightarrow> p < length (v_objs v) \<and> ranked rank i (v_objs v ! p)) \<and>
     (\<forall>i b. on_disk V (v_db v) i = Inr b \<longrightarrow> ranked rank i b)"

lemma GetStatelessBlock_disk:
  "GetStatelessBlock V i v =
   (case lru_Get (ve_R V) (v_blocks v) i of
      (Some p, c) \<Rightarrow> (Inr p, v\<lparr>v_blocks := c\<rparr>)
    | (None, c) \<Rightarrow> (case map_of (v_verifiedBlocks v) i of
        Some p \<Rightarrow> (Inr p, v\<lparr>v_blocks := c\<rparr>)
      | None \<Rightarrow> (case on_disk V (v_db v) i of
          Inl e \<Rightarrow> (Inl e, v\<lparr>v_blocks := c\<rparr>) | Inr b \<Rightarrow> newObj b (v\<lparr>v_blocks := c\<rparr>))))"
  unfolding GetStatelessBlock_def on_disk_def ..

lemma chain_ok_cache:
  assumes "lru_ok (ve_R V)" and "chain_ok V rank v" and "lru_Get (ve_R V) (v_blocks v) i = (r, c)"
  shows "chain_ok V rank (v\<lparr>v_blocks := c\<rparr>)"
proof -
  have "lru_items (ve_R V) c \<subseteq> lru_items (ve_R V) (v_blocks v)"
    using assms(1,3) unfolding lru_ok_def by (metis snd_conv)
  then show ?thesis using assms(2) by (auto simp: chain_ok_def)
qed

lemma chain_ok_newObj:
  assumes "chain_ok V rank v" shows "chain_ok V rank (v\<lparr>v_objs := v_objs v @ [b]\<rparr>)"
  using assms by (fastforce simp: chain_ok_def nth_append)

text \<open>The block found is the one asked for, and finding it keeps what is known of the blocks.\<close>

lemma GetStatelessBlock_ranked:
  assumes R: "lru_ok (ve_R V)" and ok: "chain_ok V rank v" and get: "GetStatelessBlock V i v = (r, v')"
  shows "chain_ok V rank v' \<and> (\<forall>p. r = Inr p \<longrightarrow> p < length (v_objs v') \<and> ranked rank i (v_objs v' ! p))"
proof -
  obtain o' c where c: "lru_Get (ve_R V) (v_blocks v) i = (o', c)" by fastforce
  have ok': "chain_ok V rank (v\<lparr>v_blocks := c\<rparr>)" by (rule chain_ok_cache [OF R ok c])
  show ?thesis
  proof (cases o')
    case (Some p)
    then have "(i, p) \<in> lru_items (ve_R V) (v_blocks v)" using R c by (auto simp: lru_ok_def)
    then show ?thesis using get c Some ok ok' by (auto simp: GetStatelessBlock_disk chain_ok_def)
  next
    case None
    show ?thesis
    proof (cases "map_of (v_verifiedBlocks v) i")
      case (Some p)
      then show ?thesis using get c None ok ok' by (auto simp: GetStatelessBlock_disk chain_ok_def)
    next
      case no: None
      show ?thesis
      proof (cases "on_disk V (v_db v) i")
        case (Inl e)
        then show ?thesis using get c None no ok' by (auto simp: GetStatelessBlock_disk)
      next
        case (Inr b)
        then have "ranked rank i b" using ok by (simp add: chain_ok_def)
        then show ?thesis
          using get c None no Inr chain_ok_newObj [OF ok', of b] by (auto simp: GetStatelessBlock_disk newObj_def)
      qed
    qed
  qed
qed

lemma lookbackLoop_fuel:
  assumes R: "lru_ok (ve_R V)"
  shows "chain_ok V rank v \<Longrightarrow> cur < length (v_objs v) \<Longrightarrow> ranked rank i (v_objs v ! cur) \<Longrightarrow>
    rank i < n \<Longrightarrow> rank i < m \<Longrightarrow>
    lookbackLoop V now lst f n cur acc v = lookbackLoop V now lst f m cur acc v"
proof (induction n arbitrary: m v cur i acc)
  case 0
  then show ?case by simp
next
  case (Suc n)
  then obtain k where m: "m = Suc k" by (cases m) auto
  let ?b = "v_objs v ! cur"
  have later: "lookbackLoop V now lst f n p acc' v' = lookbackLoop V now lst f k p acc' v'"
    if get: "GetStatelessBlock V (sf_Prnt (sb_block ?b)) v = (Inr p, v')" and h: "sf_Hght (sb_block ?b) \<noteq> 0" for p acc' v'
  proof -
    have "rank (sf_Prnt (sb_block ?b)) < rank i" using Suc.prems(3) h by (simp add: ranked_def)
    then show ?thesis
      using GetStatelessBlock_ranked [OF R Suc.prems(1) get] Suc.prems(4,5) m
      by (intro Suc.IH [of v' p "sf_Prnt (sb_block ?b)"]) auto
  qed
  then show ?case
    by (auto simp: m deref_def sm_defs split: sum.splits prod.splits)
qed

text \<open>
  C16. The walk from a block towards the genesis ends: with more fuel than the rank of the
  block it starts from, the result and the state left do not depend on the fuel.
\<close>

theorem lookback_terminates:
  assumes "lru_ok (ve_R V)" and "chain_ok V rank v" and "rank lastID < n" and "rank lastID < m"
  shows "lookback V n now lastID f acc v = lookback V m now lastID f acc v"
proof -
  obtain r v' where g: "GetStatelessBlock V lastID v = (r, v')" by fastforce
  show ?thesis
  proof (cases r)
    case (Inl e)
    then show ?thesis using g by (simp add: lookback_def sm_defs)
  next
    case (Inr p)
    then have "lookbackLoop V now lastID f n p acc v' = lookbackLoop V now lastID f m p acc v'"
      using GetStatelessBlock_ranked [OF assms(1,2) g] assms by (intro lookbackLoop_fuel) auto
    then show ?thesis using g Inr by (simp add: lookback_def sm_defs)
  qed
qed

text \<open>A genesis block and two blocks over it.\<close>

definition vm_three :: "(memdb, (address, UserMeta) gomap, (id, ptr) gomap) VM" where
  "vm_three = vm_sample [blk_sample 1 0 0, blk_sample 2 1 1, blk_sample 3 2 2]"

lemma vm_three_ok: "chain_ok (venv_sample []) unat vm_three"
  by (auto simp: chain_ok_def vm_three_def vm_sample_def newVM_def venv_sample_def map_lru_def ranked_def
      blk_sample_def on_disk_def GetBlock_def nth_Cons' upt_rec)

lemma lookback_terminates_witness:
  "lookback (venv_sample []) 4 1000 3 (\<lambda>b n. Inr (True, Suc n)) 0 vm_three =
   lookback (venv_sample []) 9 1000 3 (\<lambda>b n. Inr (True, Suc n)) 0 vm_three \<and>
   fst (lookback (venv_sample []) 4 1000 3 (\<lambda>b n. Inr (True, Suc n)) 0 vm_three) = Inr 3"
proof
  have "lru_ok (ve_R (venv_sample []))" by (simp add: venv_sample_def map_lru_ok)
  then show "lookback (venv_sample []) 4 1000 3 (\<lambda>b n. Inr (True, Suc n)) 0 vm_three =
      lookback (venv_sample []) 9 1000 3 (\<lambda>b n. Inr (True, Suc n)) 0 vm_three"
    by (rule lookback_terminates [OF _ vm_three_ok]) simp_all
  show "fst (lookback (venv_sample []) 4 1000 3 (\<lambda>b n. Inr (True, Suc n)) 0 vm_three) = Inr 3"
    by (simp add: eval_nat_numeral lookback_def vm_three_def vm_sample_def newVM_def venv_sample_def map_lru_def
        blk_sample_def GetStatelessBlock_def sm_defs deref_def upt_rec g_sample_def DefaultGenesis_def
        DefaultLookbackWindow_def)
qed

section \<open>Price and cost\<close>

lemma sub_word: "unat (a - b) = unat a - unat b" if "b \<le> a" for a b :: u64
  using that by (simp add: unat_sub word_le_nat_alt)

lemma nextPrice_bounds:
  assumes "nextPrice g target s units price = Inr p" and "g_MinPrice g \<le> price" and "price \<noteq> - 1"
  shows "g_MinPrice g \<le> p \<and> unat p \<le> unat price + 1"
proof -
  have inc: "unat (price + 1) = unat price + 1"
    using assms(3) by (metis add.commute unatSuc Suc_eq_plus1 add_eq_0_iff add.right_neutral)
  show ?thesis
  proof (cases "units > target")
    case True
    then have "p = price + 1" using assms(1) by (simp add: nextPrice_def)
    then show ?thesis using inc assms(2) by (simp add: word_le_nat_alt)
  next
    case False
    then show ?thesis
      using assms(1,2)
      by (auto simp: nextPrice_def Let_def word_le_nat_alt word_less_nat_alt sub_word unat_sub_if' split: if_splits)
  qed
qed

lemma nextCost_bounds:
  assumes "g_BlockCostEnabled g" and "MinBlockCost \<le> cost"
    and "unat cost + unat (g_TargetBlockRate g - s) < 2 ^ 64"
  shows "MinBlockCost \<le> nextCost g s cost \<and>
    (sint s < sint (g_TargetBlockRate g) \<longrightarrow>
       unat (nextCost g s cost) = unat cost + unat (g_TargetBlockRate g - s)) \<and>
    (sint (g_TargetBlockRate g) \<le> sint s \<longrightarrow> nextCost g s cost \<le> cost)"
proof (cases "sint s < sint (g_TargetBlockRate g)")
  case True
  have "unat (cost + (g_TargetBlockRate g - s)) = unat cost + unat (g_TargetBlockRate g - s)"
    using assms(3) by (intro unat_add_lem [THEN iffD1]) simp
  then show ?thesis using True assms(1,2) by (simp add: nextCost_def word_le_nat_alt)
next
  case False
  then show ?thesis
    using assms(1,2)
    by (auto simp: nextCost_def Let_def word_le_nat_alt word_less_nat_alt unat_sub_if' split: if_splits)
qed



section \<open>Building a block\<close>

lemma takeTx_ok:
  assumes "takeTx V g blk context tx s = (Inr (), s')"
  shows "bs_pool s' = bs_pool s \<and>
    (bs_txs s' = bs_txs s \<and> bs_units s' = bs_units s \<or>
     (\<exists>u. LoadUnits g (u_body (tx_Unsigned tx)) = Inr u \<and> bs_units s + u \<le> g_MaxBlockSize g \<and>
        bs_txs s' = bs_txs s @ [tx] \<and> bs_units s' = bs_units s + u))"
  using assms by (auto simp: takeTx_def not_less split: sum.splits prod.splits if_splits)

lemma takeTx_pool: "bs_pool (snd (takeTx V g blk context tx s)) = bs_pool s"
  by (auto simp: takeTx_def split: sum.splits prod.splits)

lemma buildLoop_rounds:
  "mem_ok (bs_pool s) \<Longrightarrow> Mempool_Len (bs_pool s) \<le> n \<Longrightarrow> Mempool_Len (bs_pool s) \<le> m \<Longrightarrow>
   buildLoop V g blk context n s = buildLoop V g blk context m s"
proof (induction n arbitrary: m s)
  case 0
  then show ?case by (cases m) simp_all
next
  case (Suc n)
  show ?case
  proof (cases "Mempool_Len (bs_pool s) = 0")
    case True
    then show ?thesis by (cases m) simp_all
  next
    case False
    then obtain k where m: "m = Suc k" using Suc.prems(3) by (cases m) simp_all
    obtain t p w where pop: "Mempool_PopMax (bs_pool s) = Inr ((Some t, p), w)"
      and len: "Suc (Mempool_Len w) = Mempool_Len (bs_pool s)"
      using take_max [OF Suc.prems(1) False] by blast
    have w: "mem_ok w" using step_ok [OF pool_step.PopMax [OF pop] Suc.prems(1)] by blast
    have "buildLoop V g blk context n s' = buildLoop V g blk context k s'"
      if "takeTx V g blk context t (s\<lparr>bs_pool := w\<rparr>) = (r, s')" for r s'
      using takeTx_pool [of V g blk "context" t "s\<lparr>bs_pool := w\<rparr>"] that w len Suc.prems(2,3) m
      by (intro Suc.IH) auto
    then show ?thesis using False pop by (auto simp: m bindS_def split: sum.splits prod.splits)
  qed
qed

text \<open>The price of a transaction and what it adds to the size of a block.\<close>

definition priceOf :: "Transaction \<Rightarrow> u64" where
  "priceOf t = (case GetPrice (tx_Unsigned t) of Inr p \<Rightarrow> p | Inl _ \<Rightarrow> 0)"

definition loadOf :: "Genesis \<Rightarrow> Transaction \<Rightarrow> nat" where
  "loadOf g t = (case LoadUnits g (u_body (tx_Unsigned t)) of Inr u \<Rightarrow> unat u | Inl _ \<Rightarrow> 0)"

lemma pool_price: "mem_ok m \<Longrightarrow> pool m i = Some (t, p) \<Longrightarrow> tx_id t = i \<and> p = priceOf t"
  by (auto simp: mem_ok_def mem_sync_def pool_def filed_def priceOf_def)

text \<open>What holds at the head of the building loop, for the pool \<open>P\<close> at its start.\<close>

definition build_inv ::
  "Genesis \<Rightarrow> StatefulBlock \<Rightarrow> (id \<Rightarrow> (Transaction \<times> u64) option) \<Rightarrow> ('db, 'c) bstate \<Rightarrow> bool" where
  "build_inv g blk P s \<longleftrightarrow> mem_ok (bs_pool s) \<and> pool (bs_pool s) \<subseteq>\<^sub>m P \<and>
     (\<forall>t \<in> set (bs_txs s). P (tx_id t) = Some (t, priceOf t) \<and> pool (bs_pool s) (tx_id t) = None \<and>
        sf_Price blk \<le> priceOf t \<and> (\<forall>i t' p'. pool (bs_pool s) i = Some (t', p') \<longrightarrow> p' \<le> priceOf t)) \<and>
     distinct (map tx_id (bs_txs s)) \<and> sorted_wrt (\<lambda>t t'. priceOf t' \<le> priceOf t) (bs_txs s) \<and>
     sum_list (map (loadOf g) (bs_txs s)) = unat (bs_units s) \<and> bs_units s \<le> g_MaxBlockSize g"

lemma unat_add_fits: "unat (a + u) = unat a + unat u" if "unat u + unat n < 2 ^ 64" "a \<le> n" for a u n :: u64
  using that by (intro unat_add_lem [THEN iffD1]) (simp add: word_le_nat_alt)

lemma build_inv_step:
  assumes inv: "build_inv g blk P s" and pop: "Mempool_PopMax (bs_pool s) = Inr ((Some t, p), w)"
    and price: "\<not> p < sf_Price blk" and ne: "Mempool_Len (bs_pool s) \<noteq> 0"
    and take: "takeTx V g blk context t (s\<lparr>bs_pool := w\<rparr>) = (Inr (), s')"
    and small: "\<And>i t p u. P i = Some (t, p) \<Longrightarrow> LoadUnits g (u_body (tx_Unsigned t)) = Inr u \<Longrightarrow>
      unat u + unat (g_MaxBlockSize g) < 2 ^ 64"
  shows "build_inv g blk P s'"
proof -
  have ok: "mem_ok (bs_pool s)" and sub: "pool (bs_pool s) \<subseteq>\<^sub>m P" using inv by (simp_all add: build_inv_def)
  have pt: "pool (bs_pool s) (tx_id t) = Some (t, p)" and w: "pool w = (pool (bs_pool s))(tx_id t := None)"
    and max: "\<And>i t' p'. pool (bs_pool s) i = Some (t', p') \<Longrightarrow> p' \<le> p"
    using take_max [OF ok ne] pop by auto
  have wok: "mem_ok w" using step_ok [OF pool_step.PopMax [OF pop] ok] by blast
  have p: "p = priceOf t" using pool_price [OF ok pt] by blast
  have Pt: "P (tx_id t) = Some (t, p)" using sub pt by (auto simp: map_le_def dom_def)
  have wsub: "pool w \<subseteq>\<^sub>m P" using sub by (auto simp: w map_le_def dom_def split: if_splits)
  from takeTx_ok [OF take] show ?thesis
  proof (elim conjE disjE exE)
    assume "bs_txs s' = bs_txs (s\<lparr>bs_pool := w\<rparr>)" "bs_units s' = bs_units (s\<lparr>bs_pool := w\<rparr>)"
      "bs_pool s' = bs_pool (s\<lparr>bs_pool := w\<rparr>)"
    then show ?thesis using inv wok wsub by (auto simp: build_inv_def w)
  next
    fix u assume new: "bs_pool s' = bs_pool (s\<lparr>bs_pool := w\<rparr>)" "bs_txs s' = bs_txs (s\<lparr>bs_pool := w\<rparr>) @ [t]"
      "bs_units s' = bs_units (s\<lparr>bs_pool := w\<rparr>) + u"
      and u: "LoadUnits g (u_body (tx_Unsigned t)) = Inr u" "bs_units (s\<lparr>bs_pool := w\<rparr>) + u \<le> g_MaxBlockSize g"
    have "unat (bs_units s + u) = unat (bs_units s) + loadOf g t"
      using unat_add_fits [OF small [OF Pt u(1)]] inv u(1) by (simp add: build_inv_def loadOf_def)
    moreover have old: "P (tx_id x) = Some (x, priceOf x)" "pool (bs_pool s) (tx_id x) = None"
      "sf_Price blk \<le> priceOf x" "\<And>i t' p'. pool (bs_pool s) i = Some (t', p') \<Longrightarrow> p' \<le> priceOf x"
      if "x \<in> set (bs_txs s)" for x
      using inv that by (auto simp: build_inv_def)
    moreover have "tx_id t \<notin> tx_id ` set (bs_txs s)" using old(2) pt by force
    moreover have "priceOf t \<le> priceOf x" if "x \<in> set (bs_txs s)" for x using old(4) [OF that pt] p by simp
    moreover have "pool w i = Some (t', p') \<Longrightarrow> pool (bs_pool s) i = Some (t', p')" for i t' p'
      by (simp add: w split: if_splits)
    moreover have "distinct (map tx_id (bs_txs s))" "sorted_wrt (\<lambda>t t'. priceOf t' \<le> priceOf t) (bs_txs s)"
      "sum_list (map (loadOf g) (bs_txs s)) = unat (bs_units s)"
      using inv by (simp_all add: build_inv_def)
    moreover have "pool w (tx_id t) = None" by (simp add: w)
    moreover have "sf_Price blk \<le> priceOf t" using price p by (simp add: not_less)
    moreover have "pool w (tx_id x) = None" if "x \<in> set (bs_txs s)" for x using old(2) [OF that] by (simp add: w)
    ultimately show ?thesis
      using new u(2) wok wsub Pt p max
      unfolding build_inv_def by (simp add: sorted_wrt_append) blast
  qed
qed

lemma buildLoop_inv:
  assumes small: "\<And>i t p u. P i = Some (t, p) \<Longrightarrow> LoadUnits g (u_body (tx_Unsigned t)) = Inr u \<Longrightarrow>
      unat u + unat (g_MaxBlockSize g) < 2 ^ 64"
  shows "build_inv g blk P s \<Longrightarrow> buildLoop V g blk context n s = (Inr (), s') \<Longrightarrow>
    \<exists>q. build_inv g blk P (s'\<lparr>bs_pool := q\<rparr>) \<and> mem_ok (bs_pool s')"
proof (induction n arbitrary: s)
  case 0
  then show ?case by (intro exI [of _ "bs_pool s"]) (simp add: build_inv_def)
next
  case (Suc n)
  have ok: "mem_ok (bs_pool s)" using Suc.prems(1) by (simp add: build_inv_def)
  show ?case
  proof (cases "Mempool_Len (bs_pool s) = 0")
    case True
    then show ?thesis using Suc.prems ok by (intro exI [of _ "bs_pool s"]) simp
  next
    case False
    obtain t p w where pop: "Mempool_PopMax (bs_pool s) = Inr ((Some t, p), w)"
      using take_max [OF ok False] by blast
    have w: "mem_ok w" using step_ok [OF pool_step.PopMax [OF pop] ok] by blast
    show ?thesis
    proof (cases "p < sf_Price blk")
      case True
      then obtain b m' where add: "Mempool_Add t w = Inr (b, m')" and s': "s' = s\<lparr>bs_pool := m'\<rparr>"
        using Suc.prems(2) False pop by (auto split: sum.splits prod.splits)
      have "mem_ok m'" using step_ok [OF pool_step.Add [OF add] w] by blast
      then show ?thesis using Suc.prems(1) s' by (intro exI [of _ "bs_pool s"]) simp
    next
      case low: False
      then obtain s2 where take: "takeTx V g blk context t (s\<lparr>bs_pool := w\<rparr>) = (Inr (), s2)"
        and rest: "buildLoop V g blk context n s2 = (Inr (), s')"
        using Suc.prems(2) False pop by (auto simp: sm_iff)
      show ?thesis
        by (rule Suc.IH [OF build_inv_step [OF Suc.prems(1) pop low False take small] rest])
    qed
  qed
qed

text \<open>
  The building loop ends: the number of transactions in the pool is fuel enough, and more
  fuel changes nothing.
\<close>

theorem build_terminates:
  assumes "mem_ok (bs_pool s)" and "Mempool_Len (bs_pool s) \<le> n"
  shows "buildLoop V g blk context n s = buildLoop V g blk context (Mempool_Len (bs_pool s)) s"
  using buildLoop_rounds [OF assms order_refl] .

text \<open>
  C15. What the building loop puts into a block: transactions of the pool, each once, none
  under the price of the block, the highest prices first, whose load units together fit the
  maximum size of a block, provided one transaction's units cannot wrap the sum; and the pool
  it leaves is in order.
\<close>

theorem build_takes:
  assumes "mem_ok (bs_pool s)" and "bs_txs s = []" and "bs_units s = 0"
    and "\<forall>i t p u. pool (bs_pool s) i = Some (t, p) \<longrightarrow> LoadUnits g (u_body (tx_Unsigned t)) = Inr u \<longrightarrow>
      unat u + unat (g_MaxBlockSize g) < 2 ^ 64"
    and "buildLoop V g blk context n s = (Inr (), s')"
  shows "(\<forall>t \<in> set (bs_txs s'). pool (bs_pool s) (tx_id t) = Some (t, priceOf t) \<and> sf_Price blk \<le> priceOf t) \<and>
    distinct (map tx_id (bs_txs s')) \<and> sorted_wrt (\<lambda>t t'. priceOf t' \<le> priceOf t) (bs_txs s') \<and>
    sum_list (map (loadOf g) (bs_txs s')) \<le> unat (g_MaxBlockSize g) \<and> mem_ok (bs_pool s')"
proof -
  have "build_inv g blk (pool (bs_pool s)) s" using assms(1-3) by (simp add: build_inv_def)
  then obtain q where "build_inv g blk (pool (bs_pool s)) (s'\<lparr>bs_pool := q\<rparr>)" "mem_ok (bs_pool s')"
    using buildLoop_inv [OF _ _ assms(5)] assms(4) by blast
  then show ?thesis by (auto simp: build_inv_def word_le_nat_alt)
qed

text \<open>
  A pool with transactions of price 8 and 5, a block of price 6 and a sender with 100 units:
  the first round takes the transaction of price 8.
\<close>

definition bs_sample :: "(memdb, (address, UserMeta) gomap) bstate" where
  "bs_sample = \<lparr> bs_db = bal_db [(1, 100), (2, 7)], bs_txs = [], bs_units = 0, bs_unusable = [], bs_pool = pool2,
     bs_sama = sama0 \<rparr>"

definition build_sample :: "nat \<Rightarrow> (err + unit) \<times> (memdb, (address, UserMeta) gomap) bstate" where
  "build_sample n = buildLoop (venv_sample []) g_sample (sb_block (blk_sample 3 2 2)) ctx_sample n bs_sample"

lemma transfer_ptx: "\<exists>d'. Transaction_Execute (e_sample [] [] [] []) (list_codec []) 0 g_sample 1000 ctx_sample (ptx 3 8)
    (bal_db [(1, 100), (2, 7)], sama0) = (Inr (), (d', sama0))"
  by (simp add: ptx_def run_defs sm_defs)

lemma build_sample_1: "\<exists>s'. build_sample 1 = (Inr (), s') \<and> bs_txs s' = [ptx 3 8]"
proof -
  obtain m' where pop: "Mempool_PopMax pool2 = Inr ((Some (ptx 3 8), 8), m')"
    using pool2_PopMax by blast
  obtain d' where ex: "Transaction_Execute (e_sample [] [] [] []) (list_codec []) 0 g_sample 1000 ctx_sample (ptx 3 8)
      (bal_db [(1, 100), (2, 7)], sama0) = (Inr (), (d', sama0))"
    using transfer_ptx by blast
  then show ?thesis
    using pop ex by (simp add: build_sample_def bs_sample_def takeTx_def venv_sample_def bc_sample_def blk_sample_def
        bindS_def)
qed

lemma build_terminates_witness: "build_sample 7 = build_sample 2"
  using build_terminates [of bs_sample 7 "venv_sample []" g_sample "sb_block (blk_sample 3 2 2)" ctx_sample]
    pool_2_ok by (simp add: build_sample_def bs_sample_def)

lemma build_takes_witness:
  "\<exists>s'. build_sample 1 = (Inr (), s') \<and> bs_txs s' = [ptx 3 8] \<and> mem_ok (bs_pool s') \<and>
    sum_list (map (loadOf g_sample) (bs_txs s')) \<le> 246"
proof -
  obtain s' where s': "build_sample 1 = (Inr (), s')" "bs_txs s' = [ptx 3 8]" using build_sample_1 by blast
  have small: "\<forall>i t p u. pool (bs_pool bs_sample) i = Some (t, p) \<longrightarrow>
      LoadUnits g_sample (u_body (tx_Unsigned t)) = Inr u \<longrightarrow> unat u + unat (g_MaxBlockSize g_sample) < 2 ^ 64"
    by (auto simp: bs_sample_def split: if_splits)
  have "mem_ok (bs_pool s') \<and> sum_list (map (loadOf g_sample) (bs_txs s')) \<le> unat (g_MaxBlockSize g_sample)"
    using build_takes [OF _ _ _ small s'(1) [unfolded build_sample_def]] pool_2_ok by (simp add: bs_sample_def)
  then show ?thesis using s' by simp
qed

end
