(* ===== verification/BlockProps.thy ===== *)
theory BlockProps
  imports ChainProps
begin

text \<open>
  Properties of the life of a block: its round trip through the store, what verification
  checks, what acceptance publishes and what a rejected block leaves behind, and the ring of
  recent activities.
\<close>

section \<open>The block store\<close>

text \<open>
  C5. A block that \<open>SetLastAccepted\<close> has stored is the last accepted one, and \<open>GetBlock\<close>
  reads it back as it would be marshalled, the values of its transactions, which are stored
  apart, put back in place; the block in memory keeps its contents, its id and its bytes.
\<close>

theorem block_roundtrip:
  assumes "db_ok D" and "codec_ok (bc_Block B)" and "text_ok L" and "same_values (sf_Txs (sb_block b))"
    and "SetLastAccepted L D B (d, b) = (Inr (), (d', b'))"
  shows "GetLastAccepted L D d' = Inr (sb_id b) \<and>
    GetBlock L D B d' (sb_id b) = Inr (wireBlock (sb_block b)) \<and>
    wireBlock (sb_block b') = wireBlock (sb_block b) \<and> sb_id b' = sb_id b \<and> sb_bytes b' = sb_bytes b"
  using SetLastAccepted_ok [OF assms] by blast

text \<open>A block with a transaction that sets a value and one that does not.\<close>

definition set_sample :: Transaction where
  "set_sample = (tx_sample 8 6 1 (TSet \<lparr> set_Value = [7, 8] \<rparr>))\<lparr>tx_Signature := replicate 65 0\<rparr>"

definition store_blk :: "memdb StatelessBlock" where
  "store_blk = (blk_sample 3 2 2)\<lparr>sb_block := (sb_block (blk_sample 3 2 2))\<lparr>sf_Txs := [set_sample, ptx 5 8]\<rparr>\<rparr>"

definition store_codecs :: blkcodecs where
  "store_codecs = \<lparr>
     bc_Block = list_codec [wireBlock ((sb_block store_blk)\<lparr>sf_Txs := map linkTx [set_sample, ptx 5 8]\<rparr>)],
     bc_Tx = list_codec [wireTx set_sample], bc_ValueMeta = list_codec [] \<rparr>"

lemma DeriveSender_sample: "\<exists>pk. DeriveSender sample_lib h (replicate 65 0) = Inr pk"
  by (simp add: DeriveSender_def sample_lib_def SignatureLength_def vOffset_def legacySigAdj_def)

text \<open>Any transaction of the sample library that can be marshalled and typed can be initialised.\<close>

lemma Init_sample:
  assumes "enc C (wireTx t) = Inr stx" and "TypedData_of sample_lib (tx_Unsigned t) = Inr td"
    and "\<exists>h. tdata_DigestHash sample_lib td = Inr h" and "tx_Signature t = replicate 65 0"
  shows "\<exists>t'. Transaction_Init sample_lib C t = Inr t'"
proof -
  obtain h where h: "DigestHash sample_lib (tx_Unsigned t) = Inr h" using assms(2,3) by (auto simp: DigestHash_def)
  moreover obtain pk where "DeriveSender sample_lib h (replicate 65 0) = Inr pk" using DeriveSender_sample by blast
  ultimately show ?thesis
    using assms(1,4) by (simp add: Transaction_Init_def text_ok_simps [OF sample_text_ok])
qed

lemma set_sample_Init:
  "\<exists>t. bindE (Transaction_Copy set_sample) (Transaction_Init sample_lib (list_codec [wireTx set_sample])) = Inr t"
proof -
  have "\<exists>c. Transaction_Copy set_sample = Inr c \<and> wireTx c = wireTx set_sample \<and>
      tx_Unsigned c = tx_Unsigned set_sample \<and> tx_Signature c = replicate 65 0"
    by (simp add: Transaction_Copy_def set_sample_def tx_sample_def NewTx_def wireTx_def
        Unsigned_Copy_def baseOf_def body_Copy_def BaseTx_Copy_def SetTx_Copy_def)
  then obtain c where c: "Transaction_Copy set_sample = Inr c" "wireTx c = wireTx set_sample"
      "tx_Unsigned c = tx_Unsigned set_sample" "tx_Signature c = replicate 65 0" by blast
  moreover obtain td where "TypedData_of sample_lib (tx_Unsigned set_sample) = Inr td"
    and "\<exists>h. tdata_DigestHash sample_lib td = Inr h"
    using digest_total [OF sample_num_ok sample_text_ok]
    by (simp add: TypedData_of_def set_sample_def tx_sample_def NewTx_def baseOf_def)
  ultimately show ?thesis
    using Init_sample [of "list_codec [wireTx set_sample]" c] by (simp add: list_codec_def)
qed

lemma linkLoop_set:
  "u_body (tx_Unsigned tx) = TSet t \<Longrightarrow> set_Value t \<noteq> [] \<Longrightarrow>
   bindE (Transaction_Copy tx) (Transaction_Init L C) = Inr c \<Longrightarrow>
   db_Put D d (PrefixTxValueKey (tx_id tx)) (set_Value t) = Inr d' \<Longrightarrow>
   linkLoop L D C l og (tx # txs) d =
   linkLoop L D C (l @ [setValue (be_bytes 32 (tx_id tx)) tx]) (og @ [c]) txs d'"
  by simp

lemma SetLastAccepted_run:
  assumes "db_Put D d lastAccepted (be_bytes 32 (sb_id b)) = Inr d1"
    and "linkLoop L D (bc_Tx B) [] [] (sf_Txs (sb_block b)) d1 = (Inr og, (d2, txs))"
    and "marshalBlock B ((sb_block b)\<lparr>sf_Txs := txs\<rparr>) = Inr sb"
    and "db_Put D d2 (PrefixBlockKey (sb_id b)) sb = Inr d'"
  shows "SetLastAccepted L D B (d, b) = (Inr (), (d', b\<lparr>sb_block := (sb_block b)\<lparr>sf_Txs := og\<rparr>\<rparr>))"
  using assms by (simp add: SetLastAccepted_def sm_iff linkValues_iff)

lemma mem_put: "db_Put mem_db d k v = Inr (mput k v d)"
  by simp

lemma store_run: "\<exists>d' b'. SetLastAccepted sample_lib mem_db store_codecs ([], store_blk) = (Inr (), (d', b'))"
proof -
  obtain t where t: "bindE (Transaction_Copy set_sample) (Transaction_Init sample_lib (list_codec [wireTx set_sample])) = Inr t"
    using set_sample_Init by blast
  have set: "linkedVal set_sample = Some [7, 8]" and other: "linkedVal (ptx 5 8) = None"
    by (simp_all add: linkedVal_def set_sample_def ptx_def tx_sample_def NewTx_def)
  have body: "u_body (tx_Unsigned set_sample) = TSet \<lparr> set_Value = [7, 8] \<rparr>"
    "setValue (be_bytes 32 (tx_id set_sample)) set_sample = linkTx set_sample"
    using set by (simp_all add: linkTx_def set_sample_def tx_sample_def NewTx_def)
  have link: "\<exists>d'. linkLoop sample_lib mem_db (list_codec [wireTx set_sample]) [] [] [set_sample, ptx 5 8] d =
      (Inr [t, ptx 5 8], (d', map linkTx [set_sample, ptx 5 8]))" for d
    by (simp add: linkLoop_set [OF body(1) _ t mem_put] body(2) linkLoop_cons_other [OF other] linkTx_def other
        del: linkLoop.simps(2))
  have blk: "sf_Txs (sb_block store_blk) = [set_sample, ptx 5 8]" "bc_Tx store_codecs = list_codec [wireTx set_sample]"
    by (simp_all add: store_blk_def store_codecs_def)
  have m: "marshalBlock store_codecs ((sb_block store_blk)\<lparr>sf_Txs := map linkTx [set_sample, ptx 5 8]\<rparr>) = Inr []"
    by (simp add: marshalBlock_def store_codecs_def list_codec_def)
  obtain d2 where "linkLoop sample_lib mem_db (bc_Tx store_codecs) [] [] (sf_Txs (sb_block store_blk))
      (mput lastAccepted (be_bytes 32 (sb_id store_blk)) []) =
      (Inr [t, ptx 5 8], (d2, map linkTx [set_sample, ptx 5 8]))"
    unfolding blk using link by blast
  from SetLastAccepted_run [OF mem_put this m mem_put] show ?thesis by blast
qed

lemma block_roundtrip_witness:
  "\<exists>d' b'. SetLastAccepted sample_lib mem_db store_codecs ([], store_blk) = (Inr (), (d', b')) \<and>
    GetBlock sample_lib mem_db store_codecs d' 3 = Inr (wireBlock (sb_block store_blk))"
proof -
  obtain d' b' where r: "SetLastAccepted sample_lib mem_db store_codecs ([], store_blk) = (Inr (), (d', b'))"
    using store_run by blast
  have "same_values (sf_Txs (sb_block store_blk))"
    by (auto simp: same_values_def store_blk_def linkedVal_def ptx_def tx_sample_def NewTx_def)
  then show ?thesis
    using block_roundtrip [OF mem_db_ok _ sample_text_ok _ r] r
    by (simp add: store_codecs_def list_codec_ok store_blk_def blk_sample_def)
qed

section \<open>The ring of activities\<close>

lemma forS_append: "forS (xs @ ys) f = bindS (forS xs f) (\<lambda>_. forS ys f)"
  by (induction xs) (auto simp: sm_defs fun_eq_iff split: prod.split sum.split)

definition ring_ok :: "nat \<Rightarrow> ('db, 'c, 'lc) VM \<Rightarrow> bool" where
  "ring_ok n v \<longleftrightarrow> 0 < n \<and> n < 2 ^ 63 \<and> length (v_activityCache v) = n \<and> v_ActivityCacheSize v = int n"

lemma pushActivity_ok:
  assumes "ring_ok n v"
  shows "pushActivity a v = (Inr (), v\<lparr>
    v_activityCache := (v_activityCache v)[unat (v_activityCacheCursor v) mod n := Some a],
    v_activityCacheCursor := v_activityCacheCursor v + 1\<rparr>)"
proof -
  have n: "0 < n" "n < 2 ^ 63" "v_ActivityCacheSize v = int n" "length (v_activityCache v) = n"
    using assms by (simp_all add: ring_ok_def)
  have "unat (v_activityCacheCursor v mod word_of_int (int n)) = unat (v_activityCacheCursor v) mod n"
    using n(2) by (simp add: unat_mod unat_of_nat)
  then show ?thesis using n by (simp add: pushActivity_def)
qed

lemma pushActivity_ring:
  "ring_ok n v \<Longrightarrow> unat (v_activityCacheCursor v) + length as < 2 ^ 64 \<Longrightarrow>
   \<exists>v'. forS as pushActivity v = (Inr (), v') \<and> ring_ok n v' \<and>
     unat (v_activityCacheCursor v') = unat (v_activityCacheCursor v) + length as \<and>
     (\<forall>j < length as. length as \<le> j + n \<longrightarrow>
        v_activityCache v' ! ((unat (v_activityCacheCursor v) + j) mod n) = Some (as ! j))"
proof (induction as rule: rev_induct)
  case Nil
  then show ?case by (simp add: sm_defs)
next
  case (snoc a as)
  let ?c = "unat (v_activityCacheCursor v)"
  obtain w where w: "forS as pushActivity v = (Inr (), w)" "ring_ok n w"
    and cur: "unat (v_activityCacheCursor w) = ?c + length as"
    and old: "\<And>j. j < length as \<Longrightarrow> length as \<le> j + n \<Longrightarrow> v_activityCache w ! ((?c + j) mod n) = Some (as ! j)"
    using snoc by auto
  let ?v = "w\<lparr>v_activityCache := (v_activityCache w)[(?c + length as) mod n := Some a],
    v_activityCacheCursor := v_activityCacheCursor w + 1\<rparr>"
  have run: "forS (as @ [a]) pushActivity v = (Inr (), ?v)"
    using w(1) pushActivity_ok [OF w(2)] cur by (simp add: forS_append sm_defs)
  have n: "0 < n" "length (v_activityCache w) = n" using w(2) by (simp_all add: ring_ok_def)
  have "unat (v_activityCacheCursor w + 1) = ?c + length (as @ [a])"
    using cur snoc.prems(2) by (subst unat_add_lem [THEN iffD1]) simp_all
  moreover have "v_activityCache ?v ! ((?c + j) mod n) = Some ((as @ [a]) ! j)"
    if j: "j < length (as @ [a])" "length (as @ [a]) \<le> j + n" for j
  proof (cases "j = length as")
    case True
    then show ?thesis using n by simp
  next
    case False
    then have "j < length as" using j(1) by simp
    moreover have "(?c + j) mod n \<noteq> (?c + length as) mod n"
    proof
      assume "(?c + j) mod n = (?c + length as) mod n"
      then have "n dvd (?c + length as) - (?c + j)" using \<open>j < length as\<close>
        by (metis add_le_cancel_left less_imp_le_nat mod_eq_dvd_iff_nat)
      then show False using \<open>j < length as\<close> j(2) by (auto dest: dvd_imp_le)
    qed
    ultimately show ?thesis using old [of j] j(2) by (simp add: nth_append)
  qed
  ultimately show ?case using run w(2) by (auto simp: ring_ok_def)
qed

lemma vm_sample_ring: "ring_ok 2 (vm_sample bs)" "v_activityCacheCursor (vm_sample bs) = 0"
  by (simp_all add: ring_ok_def vm_sample_def newVM_def)

definition act_sample :: "u64 \<Rightarrow> Activity" where
  "act_sample n = emptyActivity\<lparr>av_Typ := ''transfer'', av_Units := n\<rparr>"

section \<open>Acceptance\<close>

lemma restoreLoop_cong:
  "db_Get D d = db_Get D d' \<Longrightarrow> restoreLoop L D d txs = restoreLoop L D d' txs"
  by (induction txs) (simp_all split: txbody.split)

lemma GetBlock_cong: "db_Get D d = db_Get D d' \<Longrightarrow> GetBlock L D B d i = GetBlock L D B d' i"
  using restoreLoop_cong [of D d d' L] by (simp add: GetBlock_def restoreValues_def [abs_def])

text \<open>The part of the machine that the loops of acceptance leave alone.\<close>

definition core :: "('db, 'c, 'lc) VM \<Rightarrow> 'db \<times> 'c samaState \<times> id list \<times> (id, ptr) gomap \<times> ptr" where
  "core v = (v_db v, v_samaState v, map sb_id (v_objs v), v_verifiedBlocks v, v_lastAccepted v)"

lemma coreD: "core w = (d, s, ids, m, p) \<Longrightarrow> v_db w = d \<and> v_samaState w = s \<and> map sb_id (v_objs w) = ids \<and>
    v_verifiedBlocks w = m \<and> v_lastAccepted w = p"
  by (simp add: core_def)

lemma same_ids:
  assumes "map sb_id (v_objs w) = map sb_id (v_objs v)" and "p < length (v_objs v)"
  shows "sb_id (v_objs w ! p) = sb_id (v_objs v ! p) \<and> length (v_objs w) = length (v_objs v)"
proof -
  have len: "length (v_objs w) = length (v_objs v)" using arg_cong [OF assms(1), of length] by simp
  have "map sb_id (v_objs w) ! p = map sb_id (v_objs v) ! p" using assms(1) by simp
  then show ?thesis using len assms(2) by simp
qed

lemma core_rebaseChild: "pres (\<lambda>v. core v = x) (rebaseChild V c)"
proof (rule presI)
  fix v :: "('a, 'b, 'c) VM" assume "core v = x"
  moreover have "(map sb_id (v_objs v))[c := sb_id (v_objs v ! c)] = map sb_id (v_objs v)"
    by (metis list_update_id map_update)
  ultimately show "core (snd (rebaseChild V c v)) = x"
    by (auto simp: rebaseChild_def core_def sm_defs deref_def setObj_def map_update split: option.split sum.split)
qed

lemma core_pushActivity: "pres (\<lambda>v. core v = x) (pushActivity a)"
  by (auto simp: pres_def core_def pushActivity_def Let_def)

lemma storeBlock_inv:
  assumes "storeBlock V p v = (Inr (), v')"
  shows "\<exists>d d' b'. sb_onAcceptDB (v_objs v ! p) = Some d \<and>
    SetLastAccepted (ve_L V) (ve_D V) (ve_B V) (d, v_objs v ! p) = (Inr (), (d', b')) \<and>
    v' = v\<lparr>v_objs := (v_objs v)[p := b'\<lparr>sb_onAcceptDB := Some d'\<rparr>]\<rparr>"
  using assms
  by (auto simp: storeBlock_def sm_iff deref_def setObj_def split: option.splits prod.splits)

lemma commitOverlay_inv:
  assumes "commitOverlay V p v = (Inr (), v')"
  shows "\<exists>d d'. sb_onAcceptDB (v_objs v ! p) = Some d \<and> vdb_Commit (ve_D V) d = Inr d' \<and>
    v' = v\<lparr>v_db := d', v_objs := (v_objs v)[p := (v_objs v ! p)\<lparr>sb_onAcceptDB := Some (vdb_New (ve_D V) d')\<rparr>]\<rparr>"
  using assms
  by (auto simp: commitOverlay_def sm_iff deref_def setObj_def split: option.splits)

lemma VM_Accepted_ok:
  assumes "VM_Accepted V p v = (Inr (), v')"
  shows "core v' = (v_db v, v_samaState v, map sb_id (v_objs v),
    mdel (sb_id (v_objs v ! p)) (v_verifiedBlocks v), p) \<and> v_objs v' = v_objs v"
proof -
  let ?v = "v\<lparr>v_blocks := lru_Put (ve_R V) (sb_id (v_objs v ! p)) p (v_blocks v),
    v_verifiedBlocks := mdel (sb_id (v_objs v ! p)) (v_verifiedBlocks v), v_lastAccepted := p\<rparr>"
  have objs: "pres (\<lambda>w. core w = core ?v \<and> v_objs w = v_objs v)
      (forS txs (\<lambda>tx. pushActivity ((Transaction_Activity (ve_L V) tx)\<lparr>av_Tmstmp := t\<rparr>)))" for txs t
    by (rule pres_forS) (auto simp: pres_def core_def pushActivity_def Let_def)
  show ?thesis
    using assms presD' [OF objs, of _ _ ?v "Inr ()" v']
    by (auto simp: VM_Accepted_def sm_iff deref_def core_def split: if_splits)
qed

lemma blk_Accept_inv:
  assumes "blk_Accept V p v = (Inr (), v')" and "p < length (v_objs v)"
  shows "\<exists>d d'. sb_onAcceptDB (v_objs v ! p) = Some d \<and> vdb_Commit (ve_D V) d = Inr d' \<and>
    core v' = (d', Commit (ve_E V) (v_samaState v), map sb_id (v_objs v),
      mdel (sb_id (v_objs v ! p)) (v_verifiedBlocks v), p) \<and> sb_st (v_objs v' ! p) = Accepted"
proof -
  obtain v1 v2 v3 v4 where 1: "commitOverlay V p v = (Inr (), v1)"
    and 2: "forS (sb_children (v_objs v1 ! p)) (rebaseChild V) v1 = (Inr (), v2)"
    and 3: "setStatus Accepted p v2 = (Inr (), v3)" and 4: "VM_Accepted V p v3 = (Inr (), v4)"
    and v': "v' = v4\<lparr>v_samaState := Commit (ve_E V) (v_samaState v4)\<rparr>"
    using assms(1) by (auto simp: blk_Accept_def sm_iff deref_def)
  obtain d d' where d: "sb_onAcceptDB (v_objs v ! p) = Some d" "vdb_Commit (ve_D V) d = Inr d'"
    and v1: "v1 = v\<lparr>v_db := d', v_objs := (v_objs v)[p := (v_objs v ! p)\<lparr>sb_onAcceptDB := Some (vdb_New (ve_D V) d')\<rparr>]\<rparr>"
    using commitOverlay_inv [OF 1] by blast
  have ids: "(map sb_id (v_objs w))[p := sb_id (v_objs w ! p)] = map sb_id (v_objs w)" for w :: "('a, 'b, 'c) VM"
    by (metis list_update_id map_update)
  have c1: "core v1 = (d', v_samaState v, map sb_id (v_objs v), v_verifiedBlocks v, v_lastAccepted v)"
    by (simp add: v1 core_def map_update ids)
  have c2: "core v2 = core v1"
    using presD' [OF pres_forS [OF core_rebaseChild] 2, of "core v1"] by simp
  have v3: "v3 = v2\<lparr>v_objs := (v_objs v2)[p := (v_objs v2 ! p)\<lparr>sb_st := Accepted\<rparr>]\<rparr>"
    using 3 by (auto simp: setStatus_def sm_iff deref_def setObj_def)
  have c3: "core v3 = core v2" by (simp add: v3 core_def map_update ids)
  have len: "length (v_objs v2) = length (v_objs v)"
    using same_ids [of v2 v p] coreD [OF c2 [unfolded c1]] assms(2) by simp
  have "sb_id (v_objs v3 ! p) = sb_id (v_objs v ! p)"
    using same_ids [of v3 v p] coreD [OF c3 [unfolded c2 c1]] assms(2) by simp
  moreover have "sb_st (v_objs v3 ! p) = Accepted" using assms(2) len by (simp add: v3)
  ultimately show ?thesis
    using VM_Accepted_ok [OF 4] c1 c2 c3 d v' by (auto simp: core_def)
qed

text \<open>
  C4. A block that was stored in its overlay, as verification does, and then accepted is the
  last accepted block of the machine and of the disk, can be read back from the disk, is no
  longer among the verified ones, is marked accepted, and the pending changes of the tables
  are committed.
\<close>

theorem accepted_block_on_disk:
  assumes "db_ok (ve_D V)" and "codec_ok (bc_Block (ve_B V))" and "text_ok (ve_L V)" and "p < length (v_objs v)"
    and "same_values (sf_Txs (sb_block (v_objs v ! p)))"
    and "storeBlock V p v = (Inr (), v1)" and "blk_Accept V p v1 = (Inr (), v2)"
  shows "let b = v_objs v ! p in
    GetLastAccepted (ve_L V) (ve_D V) (v_db v2) = Inr (sb_id b) \<and>
    GetBlock (ve_L V) (ve_D V) (ve_B V) (v_db v2) (sb_id b) = Inr (wireBlock (sb_block b)) \<and>
    v_lastAccepted v2 = p \<and> sb_st (v_objs v2 ! p) = Accepted \<and> sb_id (v_objs v2 ! p) = sb_id b \<and>
    map_of (v_verifiedBlocks v2) (sb_id b) = None \<and>
    v_samaState v2 = Commit (ve_E V) (v_samaState v)"
proof -
  let ?b = "v_objs v ! p"
  obtain d d' b' where s: "SetLastAccepted (ve_L V) (ve_D V) (ve_B V) (d, ?b) = (Inr (), (d', b'))"
    and v1: "v1 = v\<lparr>v_objs := (v_objs v)[p := b'\<lparr>sb_onAcceptDB := Some d'\<rparr>]\<rparr>"
    using storeBlock_inv [OF assms(6)] by blast
  note ok = SetLastAccepted_ok [OF assms(1-3,5) s]
  have b: "v_objs v1 ! p = b'\<lparr>sb_onAcceptDB := Some d'\<rparr>" "p < length (v_objs v1)" using assms(4) by (simp_all add: v1)
  obtain d2 where d2: "vdb_Commit (ve_D V) d' = Inr d2"
    and core: "core v2 = (d2, Commit (ve_E V) (v_samaState v1), map sb_id (v_objs v1),
      mdel (sb_id (v_objs v1 ! p)) (v_verifiedBlocks v1), p)" and st: "sb_st (v_objs v2 ! p) = Accepted"
    using blk_Accept_inv [OF assms(7) b(2)] b(1) by auto
  have same: "db_Get (ve_D V) d2 = db_Get (ve_D V) d'" using db_ok_commit [OF assms(1) d2] by blast
  have "GetLastAccepted (ve_L V) (ve_D V) d2 = GetLastAccepted (ve_L V) (ve_D V) d'"
    by (simp add: GetLastAccepted_def same)
  moreover have "sb_id (v_objs v2 ! p) = sb_id (v_objs v1 ! p)"
    using same_ids [of v2 v1 p] coreD [OF core] b(2) by simp
  ultimately show ?thesis
    using ok coreD [OF core] st b v1 by (simp add: Let_def GetBlock_cong [OF same])
qed

lemma forS_map: "forS (map f xs) g = forS xs (\<lambda>x. g (f x))"
  by (induction xs) simp_all

text \<open>Acceptance of a block without children does not fail when its overlay can be written.\<close>

lemma blk_Accept_returns:
  assumes "sb_onAcceptDB (v_objs v ! p) = Some d" and "vdb_Commit (ve_D V) d = Inr d'" and "p < length (v_objs v)"
    and "sb_children (v_objs v ! p) = []" and "ring_ok n v"
    and "unat (v_activityCacheCursor v) + length (sf_Txs (sb_block (v_objs v ! p))) < 2 ^ 64"
  shows "\<exists>v'. blk_Accept V p v = (Inr (), v')"
proof -
  let ?b = "(v_objs v ! p)\<lparr>sb_onAcceptDB := Some (vdb_New (ve_D V) d'), sb_st := Accepted\<rparr>"
  let ?w = "v\<lparr>v_db := d', v_objs := (v_objs v)[p := ?b],
    v_blocks := lru_Put (ve_R V) (sb_id (v_objs v ! p)) p (v_blocks v),
    v_verifiedBlocks := mdel (sb_id (v_objs v ! p)) (v_verifiedBlocks v), v_lastAccepted := p\<rparr>"
  let ?acts = "map (\<lambda>tx. (Transaction_Activity (ve_L V) tx)\<lparr>av_Tmstmp := sf_Tmstmp (sb_block (v_objs v ! p))\<rparr>)
    (sf_Txs (sb_block (v_objs v ! p)))"
  have "ring_ok n ?w" "unat (v_activityCacheCursor ?w) + length ?acts < 2 ^ 64"
    using assms(5,6) by (simp_all add: ring_ok_def)
  then obtain v' where "forS ?acts pushActivity ?w = (Inr (), v')" using pushActivity_ring by blast
  then have "forS (sf_Txs (sb_block (v_objs v ! p))) (\<lambda>tx. pushActivity
      ((Transaction_Activity (ve_L V) tx)\<lparr>av_Tmstmp := sf_Tmstmp (sb_block (v_objs v ! p))\<rparr>)) ?w = (Inr (), v')"
    by (simp add: forS_map)
  then show ?thesis
    using assms(1-5)
    by (simp add: blk_Accept_def sm_iff commitOverlay_def deref_def setObj_def setStatus_def VM_Accepted_def ring_ok_def)
qed

definition venv_store :: "(memdb, (address, UserMeta) gomap, (id, ptr) gomap) venv" where
  "venv_store = (venv_sample [])\<lparr>ve_B := store_codecs\<rparr>"

lemma accepted_block_on_disk_witness:
  "\<exists>v1 v2. storeBlock venv_store 0 (vm_sample [store_blk]) = (Inr (), v1) \<and>
    blk_Accept venv_store 0 v1 = (Inr (), v2) \<and>
    GetBlock sample_lib mem_db store_codecs (v_db v2) 3 = Inr (wireBlock (sb_block store_blk)) \<and>
    v_lastAccepted v2 = 0 \<and> v_samaState v2 = Commit (e_sample [] [] [] []) sama0"
proof -
  let ?v = "vm_sample [store_blk]"
  have V: "ve_L venv_store = sample_lib" "ve_D venv_store = mem_db" "ve_B venv_store = store_codecs"
    "ve_E venv_store = e_sample [] [] [] []"
    by (simp_all add: venv_store_def venv_sample_def)
  have objs: "v_objs ?v = [store_blk]" "sb_onAcceptDB store_blk = Some []" "sb_id store_blk = 3"
    "v_samaState ?v = sama0"
    by (simp_all add: vm_sample_def newVM_def store_blk_def blk_sample_def)
  obtain d' b' where run: "SetLastAccepted sample_lib mem_db store_codecs ([], store_blk) = (Inr (), (d', b'))"
    using store_run by blast
  let ?v1 = "?v\<lparr>v_objs := [b'\<lparr>sb_onAcceptDB := Some d'\<rparr>]\<rparr>"
  have store: "storeBlock venv_store 0 ?v = (Inr (), ?v1)"
    using run by (simp add: storeBlock_def sm_iff deref_def objs V setObj_def)
  obtain og txs d1 d2 where b': "b' = store_blk\<lparr>sb_block := (sb_block store_blk)\<lparr>sf_Txs := og\<rparr>\<rparr>"
    and "linkLoop sample_lib mem_db (bc_Tx store_codecs) [] [] (sf_Txs (sb_block store_blk)) d1 = (Inr og, (d2, txs))"
    using SetLastAccepted_inv [OF run] by blast
  have sv: "same_values (sf_Txs (sb_block store_blk))"
    by (auto simp: same_values_def store_blk_def linkedVal_def ptx_def tx_sample_def NewTx_def)
  have "wireBlock (sb_block b') = wireBlock (sb_block store_blk)"
    using SetLastAccepted_ok(3) [OF mem_db_ok _ sample_text_ok sv run] by (simp add: store_codecs_def list_codec_ok)
  then have "map wireTx og = map wireTx [set_sample, ptx 5 8]" by (simp add: b' wireBlock_def store_blk_def blk_sample_def)
  from arg_cong [OF this, of length] have "length og = 2" by simp
  then obtain v2 where accept: "blk_Accept venv_store 0 ?v1 = (Inr (), v2)"
    using blk_Accept_returns [of ?v1 0 d' venv_store d' 2] vm_sample_ring [of "[store_blk]"]
    by (auto simp: V b' store_blk_def blk_sample_def ring_ok_def)
  have "GetBlock sample_lib mem_db store_codecs (v_db v2) 3 = Inr (wireBlock (sb_block store_blk)) \<and>
      v_lastAccepted v2 = 0 \<and> v_samaState v2 = Commit (e_sample [] [] [] []) sama0"
    using accepted_block_on_disk [OF _ _ _ _ _ store accept] sv
    by (simp add: V objs mem_db_ok sample_text_ok store_codecs_def list_codec_ok Let_def)
  then show ?thesis using store accept by blast
qed

section \<open>Rejection\<close>

lemma Commit_routes: "sama_ok s \<Longrightarrow>
    map_of (ss_curRoute (sama_StakerState (Commit E s))) = routes.view (sama_StakerState s)"
  by (simp add: Commit_def sama_ok_def stakers_ok_iff routes.cur_commit_view)

lemma samaState_addTx: "pres (\<lambda>v. v_samaState v = x) (addTx tx)"
  by (auto simp: pres_def addTx_def onMempool_def split: sum.split)

lemma blk_Reject_samaState: "blk_Reject p v = (r, v') \<Longrightarrow> v_samaState v' = v_samaState v"
proof -
  have "pres (\<lambda>v. v_samaState v = x) (blk_Reject p)" for x
    unfolding blk_Reject_def setStatus_def VM_Rejected_def deref_def setObj_def
    by (intro pres_intro pres_modS samaState_addTx) simp_all
  then show "blk_Reject p v = (r, v') \<Longrightarrow> v_samaState v' = v_samaState v" using presD' by fastforce
qed



section \<open>Verification\<close>

lemma checkSize_sum:
  assumes "\<And>t u. t \<in> set txs \<Longrightarrow> LoadUnits g (u_body (tx_Unsigned t)) = Inr u \<Longrightarrow>
      unat u + unat (g_MaxBlockSize g) < 2 ^ 64"
    and "a \<le> g_MaxBlockSize g"
    and "foldE (\<lambda>tx blockSize. bindE (LoadUnits g (u_body (tx_Unsigned tx))) (\<lambda>units.
      if blockSize + units > g_MaxBlockSize g then Inl ErrBlockTooBig else Inr (blockSize + units))) txs a = Inr n"
  shows "unat a + sum_list (map (loadOf g) txs) = unat n \<and> n \<le> g_MaxBlockSize g"
  using assms
proof (induction txs arbitrary: a)
  case Nil
  then show ?case by simp
next
  case (Cons t txs)
  obtain u where u: "LoadUnits g (u_body (tx_Unsigned t)) = Inr u" "a + u \<le> g_MaxBlockSize g"
    and rest: "foldE (\<lambda>tx blockSize. bindE (LoadUnits g (u_body (tx_Unsigned tx))) (\<lambda>units.
      if blockSize + units > g_MaxBlockSize g then Inl ErrBlockTooBig else Inr (blockSize + units))) txs (a + u) = Inr n"
    using Cons.prems(3) by (auto simp: sm_iff not_less split: if_splits)
  have "unat (a + u) + sum_list (map (loadOf g) txs) = unat n \<and> n \<le> g_MaxBlockSize g"
    by (rule Cons.IH [OF _ u(2) rest]) (use Cons.prems(1) in auto)
  moreover have "unat (a + u) = unat a + loadOf g t"
    using unat_add_fits [OF Cons.prems(1) Cons.prems(2), of t u] u(1) by (simp add: loadOf_def)
  ultimately show ?case by simp
qed

lemma onOverlay_iff: "onOverlay d m v = (Inr (x, d'), v') \<longleftrightarrow>
    (\<exists>s. m (d, v_samaState v) = (Inr x, (d', s)) \<and> v' = v\<lparr>v_samaState := s\<rparr>)"
  by (auto simp: onOverlay_def split: prod.splits sum.splits)

lemma onAccept_iff: "onAccept b v = (Inr d, v') \<longleftrightarrow> v' = v \<and> fst (onAccept b v) = Inr d"
  by (auto simp: onAccept_def sm_defs split: option.splits)

lemma blk_verify_inv:
  assumes "blk_verify V fuel p v = (Inr (q, d), v')"
  shows "\<exists>n v1 context v2 d0 surplus r. checkSize (v_genesis v) (sf_Txs (sb_block (v_objs v ! p))) = Inr n \<and>
      sf_Txs (sb_block (v_objs v ! p)) \<noteq> [] \<and>
      sint (sb_t (v_objs v ! p)) < (ve_now V + futureBound) div 1000000000 \<and>
      GetStatelessBlock V (sf_Prnt (sb_block (v_objs v ! p))) v = (Inr q, v1) \<and>
      sint (sb_t (v_objs v1 ! q)) \<le> sint (sb_t (v_objs v ! p)) \<and>
      ExecutionContext V fuel (sf_Tmstmp (sb_block (v_objs v ! p))) q v1 = (Inr context, v2) \<and>
      sf_Cost (sb_block (v_objs v ! p)) = cx_NextCost context \<and>
      sf_Price (sb_block (v_objs v ! p)) = cx_NextPrice context \<and>
      fst (onAccept (v_objs v1 ! q) v2) = Inr d0 \<and>
      sf_AccessProof (sb_block (v_objs v ! p)) =
        generateAccessProof (ve_L V) (ve_D V) (vdb_New (ve_D V) d0) (sb_id (v_objs v1 ! q)) (sf_Hght (sb_block (v_objs v ! p))) \<and>
      execTxs V (v_genesis v) (sb_block (v_objs v ! p)) context 0 (sf_Txs (sb_block (v_objs v ! p)))
        (vdb_New (ve_D V) d0, v_samaState v2) = (Inr surplus, (d, r)) \<and>
      sf_Price (sb_block (v_objs v ! p)) * sf_Cost (sb_block (v_objs v ! p)) \<le> surplus"
  using assms
  by (auto simp: blk_verify_def Let_def sm_iff deref_def onAccept_iff onOverlay_iff not_less not_le)

text \<open>What the execution of a transaction has checked.\<close>

definition guarded :: "Genesis \<Rightarrow> Context \<Rightarrow> Transaction \<Rightarrow> bool" where
  "guarded g context t \<longleftrightarrow> (\<exists>b. u_BaseTx (tx_Unsigned t) = Some b \<and> b_Magic b = g_Magic g \<and>
     g_MinPrice g \<le> b_Price b \<and> b_BlockID b \<in> cx_RecentBlockIDs context \<and> tx_id t \<notin> cx_RecentTxIDs context)"

lemma execTxs_guarded:
  "execTxs V g blk context s txs (d, w) = (Inr n, r) \<Longrightarrow> \<forall>t \<in> set txs. guarded g context t"
proof (induction txs arbitrary: s d w)
  case Nil
  then show ?case by simp
next
  case (Cons t txs)
  obtain u d' w' s' where ex: "Transaction_Execute (ve_E V) (bc_ValueMeta (ve_B V)) (ve_now V) g (sf_Tmstmp blk) context t
      (d, w) = (Inr u, (d', w'))"
    and rest: "execTxs V g blk context s' txs (d', w') = (Inr n, r)"
    using Cons.prems by (auto simp: sm_iff)
  have "guarded g context t"
    using Execute_inv [OF ex] by (auto simp: guarded_def baseOf_def ExecuteBase_iff split: option.splits)
  then show ?case using Cons.IH [OF rest] by simp
qed

text \<open>
  C3. A block that passes verification has transactions, is not too far in the future, is no
  larger than the maximum size, has the cost, the price and the access proof its parent and
  the recent blocks give it, and its transactions, executed in order on the state after its
  parent, all succeed and leave enough surplus; each was made for this chain at no less than
  the minimum price over a recent block and is not among those executed recently.
\<close>

theorem verified_block:
  assumes "blk_verify V fuel p v = (Inr (q, d), v')" and "b = v_objs v ! p" and "blk = sb_block b" and "g = v_genesis v"
    and small: "\<forall>t u. t \<in> set (sf_Txs blk) \<longrightarrow> LoadUnits g (u_body (tx_Unsigned t)) = Inr u \<longrightarrow>
      unat u + unat (g_MaxBlockSize g) < 2 ^ 64"
  shows "sf_Txs blk \<noteq> [] \<and> sint (sb_t b) < (ve_now V + futureBound) div 1000000000 \<and>
    sum_list (map (loadOf g) (sf_Txs blk)) \<le> unat (g_MaxBlockSize g) \<and>
    (\<exists>context v1 v2 d0 surplus r. GetStatelessBlock V (sf_Prnt blk) v = (Inr q, v1) \<and>
       sint (sb_t (v_objs v1 ! q)) \<le> sint (sb_t b) \<and>
       ExecutionContext V fuel (sf_Tmstmp blk) q v1 = (Inr context, v2) \<and>
       sf_Cost blk = cx_NextCost context \<and> sf_Price blk = cx_NextPrice context \<and>
       fst (onAccept (v_objs v1 ! q) v2) = Inr d0 \<and>
       sf_AccessProof blk =
         generateAccessProof (ve_L V) (ve_D V) (vdb_New (ve_D V) d0) (sb_id (v_objs v1 ! q)) (sf_Hght blk) \<and>
       execTxs V g blk context 0 (sf_Txs blk) (vdb_New (ve_D V) d0, v_samaState v2) = (Inr surplus, (d, r)) \<and>
       sf_Price blk * sf_Cost blk \<le> surplus \<and> (\<forall>t \<in> set (sf_Txs blk). guarded g context t))"
proof -
  obtain n v1 ctxt v2 d0 surplus r where size: "checkSize g (sf_Txs blk) = Inr n"
    and ex: "execTxs V g blk ctxt 0 (sf_Txs blk) (vdb_New (ve_D V) d0, v_samaState v2) = (Inr surplus, (d, r))"
    and rest: "sf_Txs blk \<noteq> []" "sint (sb_t b) < (ve_now V + futureBound) div 1000000000"
      "GetStatelessBlock V (sf_Prnt blk) v = (Inr q, v1)" "sint (sb_t (v_objs v1 ! q)) \<le> sint (sb_t b)"
      "ExecutionContext V fuel (sf_Tmstmp blk) q v1 = (Inr ctxt, v2)" "sf_Cost blk = cx_NextCost ctxt"
      "sf_Price blk = cx_NextPrice ctxt" "fst (onAccept (v_objs v1 ! q) v2) = Inr d0"
      "sf_AccessProof blk =
         generateAccessProof (ve_L V) (ve_D V) (vdb_New (ve_D V) d0) (sb_id (v_objs v1 ! q)) (sf_Hght blk)"
      "sf_Price blk * sf_Cost blk \<le> surplus"
    using blk_verify_inv [OF assms(1)] unfolding assms(2-4) by blast
  have "unat (0 :: u64) + sum_list (map (loadOf g) (sf_Txs blk)) = unat n \<and> n \<le> g_MaxBlockSize g"
    by (rule checkSize_sum [OF _ _ size [unfolded checkSize_def]]) (use small in auto)
  then have "sum_list (map (loadOf g) (sf_Txs blk)) \<le> unat (g_MaxBlockSize g)" by (simp add: word_le_nat_alt)
  then show ?thesis using rest ex execTxs_guarded [OF ex] by blast
qed

text \<open>A block with the given transactions, over a genesis block of price 6 whose state holds two accounts.\<close>

definition sample_db :: memdb where
  "sample_db = bal_db [(1, 100), (2, 7)]"

definition child_sample :: "Transaction list \<Rightarrow> memdb StatelessBlock" where
  "child_sample txs = (blk_sample 10 9 1)\<lparr>sb_block := (sb_block (blk_sample 10 9 1))\<lparr>sf_Price := 5, sf_Cost := 1,
     sf_AccessProof := generateAccessProof sample_lib mem_db sample_db 9 1, sf_Txs := txs\<rparr>\<rparr>"

definition vm_verify :: "Transaction list \<Rightarrow> (memdb, (address, UserMeta) gomap, (id, ptr) gomap) VM" where
  "vm_verify txs = (vm_sample [(blk_sample 9 0 0)\<lparr>sb_st := Accepted\<rparr>, child_sample txs])\<lparr>v_db := sample_db\<rparr>"

definition venv_now :: "(memdb, (address, UserMeta) gomap, (id, ptr) gomap) venv" where
  "venv_now = (venv_sample [])\<lparr>ve_now := 1000 * 1000000000\<rparr>"

definition ctx_verify :: Context where
  "ctx_verify = \<lparr> cx_RecentBlockIDs = {9}, cx_RecentTxIDs = {}, cx_RecentLoadUnits = 0, cx_Prices = [6],
     cx_Costs = [0], cx_NextCost = 1, cx_NextPrice = 5 \<rparr>"

text \<open>The codecs \<open>B\<close> do not matter for the context.\<close>

lemma verify_context:
  "ExecutionContext (venv_now\<lparr>ve_B := B\<rparr>) 1 1000 0 (vm_verify txs) = (Inr ctx_verify, vm_verify txs)"
  by (simp add: ExecutionContext_def lookback_def GetStatelessBlock_def venv_now_def venv_sample_def map_lru_def
      vm_verify_def vm_sample_def newVM_def blk_sample_def deref_def sm_defs visitContext_def emptyContext_def
      ctx_verify_def nextPrice_def nextCost_def g_sample_def DefaultGenesis_def DefaultLookbackWindow_def Let_def)

lemma verify_run_with:
  assumes "txs \<noteq> []" and "checkSize g_sample txs = Inr n"
    and "execTxs (venv_now\<lparr>ve_B := B\<rparr>) g_sample (sb_block (child_sample txs)) ctx_verify 0 txs (sample_db, sama0) =
      (Inr surplus, (d, s))" and "5 \<le> surplus"
  shows "blk_verify (venv_now\<lparr>ve_B := B\<rparr>) 1 1 (vm_verify txs) = (Inr (0, d), (vm_verify txs)\<lparr>v_samaState := s\<rparr>)"
proof -
  have v: "v_objs (vm_verify txs) = [(blk_sample 9 0 0)\<lparr>sb_st := Accepted\<rparr>, child_sample txs]"
    "v_genesis (vm_verify txs) = g_sample" "v_db (vm_verify txs) = sample_db" "v_samaState (vm_verify txs) = sama0"
    "GetStatelessBlock (venv_now\<lparr>ve_B := B\<rparr>) 9 (vm_verify txs) = (Inr 0, vm_verify txs)"
    by (simp_all add: vm_verify_def vm_sample_def newVM_def GetStatelessBlock_def venv_now_def venv_sample_def
        map_lru_def blk_sample_def)
  have V: "ve_L venv_now = sample_lib" "ve_D venv_now = mem_db" "ve_now venv_now = 1000000000000"
    by (simp_all add: venv_now_def venv_sample_def)
  have c: "sf_Txs (sb_block (child_sample txs)) = txs" "sb_t (child_sample txs) = 1000"
    "sf_Tmstmp (sb_block (child_sample txs)) = 1000" "sf_Prnt (sb_block (child_sample txs)) = 9"
    "sf_Cost (sb_block (child_sample txs)) = 1" "sf_Price (sb_block (child_sample txs)) = 5"
    "sf_Hght (sb_block (child_sample txs)) = 1"
    "sf_AccessProof (sb_block (child_sample txs)) = generateAccessProof sample_lib mem_db sample_db 9 1"
    "sb_t (blk_sample 9 0 0) = 1000" "sb_id (blk_sample 9 0 0) = 9" "cx_NextCost ctx_verify = 1"
    "cx_NextPrice ctx_verify = 5"
    by (simp_all add: child_sample_def blk_sample_def ctx_verify_def)
  show ?thesis
    using assms
    by (simp add: blk_verify_def Let_def sm_iff deref_def v V c verify_context [simplified] futureBound_def onAccept_def
        onOverlay_iff not_less)
qed

lemma verify_run:
  assumes "txs \<noteq> []" and "checkSize g_sample txs = Inr n"
    and "execTxs venv_now g_sample (sb_block (child_sample txs)) ctx_verify 0 txs (sample_db, sama0) =
      (Inr surplus, (d, s))" and "5 \<le> surplus"
  shows "blk_verify venv_now 1 1 (vm_verify txs) = (Inr (0, d), (vm_verify txs)\<lparr>v_samaState := s\<rparr>)"
  using verify_run_with [where B = "ve_B venv_now", simplified] assms by simp

lemmas exec_eval = execTxs.simps ptx_def run_defs sm_defs ctx_verify_def sample_db_def venv_now_def venv_sample_def
  bc_sample_def child_sample_def blk_sample_def GetPrice_def

lemma size_sample: "checkSize g_sample [ptx i p] = Inr 2" "checkSize g_sample [ptx i p, ptx i p] = Inr 4"
  by (simp_all add: checkSize_def sm_defs)

lemma exec_one: "\<exists>d. execTxs venv_now g_sample (sb_block (child_sample [ptx 6 8])) ctx_verify 0 [ptx 6 8] (sample_db, sama0) =
    (Inr 6, (d, sama0))"
  by (simp add: exec_eval)

lemma verified_block_witness:
  "\<exists>d. blk_verify venv_now 1 1 (vm_verify [ptx 6 8]) = (Inr (0, d), vm_verify [ptx 6 8]) \<and>
    (\<exists>context surplus. cx_NextPrice context = 5 \<and> guarded g_sample context (ptx 6 8) \<and> 5 \<le> (surplus :: u64))"
proof -
  let ?v = "vm_verify [ptx 6 8]"
  have v: "v_objs ?v ! 1 = child_sample [ptx 6 8]" "v_genesis ?v = g_sample" "?v\<lparr>v_samaState := sama0\<rparr> = ?v"
    by (simp_all add: vm_verify_def vm_sample_def newVM_def)
  obtain d where ex: "execTxs venv_now g_sample (sb_block (child_sample [ptx 6 8])) ctx_verify 0 [ptx 6 8] (sample_db, sama0) =
      (Inr 6, (d, sama0))"
    using exec_one by blast
  have run: "blk_verify venv_now 1 1 ?v = (Inr (0, d), ?v)"
    using verify_run [OF _ size_sample(1) ex] by (simp add: v)
  have blk: "sf_Txs (sb_block (child_sample [ptx 6 8])) = [ptx 6 8]" "sf_Price (sb_block (child_sample [ptx 6 8])) = 5"
    "sf_Cost (sb_block (child_sample [ptx 6 8])) = 1"
    by (simp_all add: child_sample_def blk_sample_def)
  show ?thesis
    using verified_block [OF run v(1) [symmetric] refl v(2) [symmetric]] run
    by (auto simp: blk)
qed



section \<open>The block builder\<close>

text \<open>
  In every reachable state of a node at most one message waits for the engine, and one
  waits exactly when the builder's status is \<open>building\<close>.
\<close>

theorem builder_invariant:
  assumes "node_run cap iv node0 s"
  shows "nd_toEngine s \<le> 1 \<and> (nd_toEngine s = 1 \<longleftrightarrow> tb_status (nd_builder s) = building)"
  using node_run_ok [OF assms node0_ok] by (auto simp: node_ok_def split: if_splits)

text \<open>A transaction arrives, the engine is called, and one transaction is left in the pool.\<close>

definition node1 :: node where
  "node1 = node0\<lparr>nd_len := 1, nd_Pending := True\<rparr>"

definition node2 :: node where
  "node2 = node1\<lparr>nd_Pending := False, nd_builder := (nd_builder node1)\<lparr>tb_status := building\<rparr>, nd_toEngine := 1\<rparr>"

definition node3 :: node where
  "node3 = node2\<lparr>nd_toEngine := 0, nd_builder := HandleGenerateBlock 5 1 (nd_builder node2)\<rparr>"

lemma run_node2: "node_run 1 5 node0 node2"
proof -
  have "node_step 1 5 node0 node1" unfolding node1_def by (rule node_step.add) (simp_all add: node0_def)
  moreover have "node_step 1 5 node1 node2"
    using node_step.signal [of node1 1 "(nd_builder node1)\<lparr>tb_status := building\<rparr>" True 5]
    by (simp add: node1_def node2_def node0_def NewTimeBuilder_def signalTxsReady_def markBuilding_def)
  ultimately show ?thesis by (meson converse_rtranclp_into_rtranclp r_into_rtranclp)
qed

lemma run_node3: "node_run 1 5 node0 node3" "tb_status (nd_builder node3) = mayBuild"
proof -
  have "node_step 1 5 node2 node3"
    using node_step.engine [of node2 1 False 1 5] by (simp add: node3_def node2_def node1_def node0_def)
  then show "node_run 1 5 node0 node3" using run_node2 by (rule rtranclp.rtrancl_into_rtrancl [rotated])
  show "tb_status (nd_builder node3) = mayBuild" by (simp add: node3_def HandleGenerateBlock_def needToBuild_def)
qed

lemma builder_invariant_witness: "nd_toEngine node2 = 1 \<and> tb_status (nd_builder node2) = building"
  using builder_invariant [OF run_node2] by (simp add: node2_def)

text \<open>
  C22. Once \<open>BuildBlock\<close> returns with transactions left in the pool, the node never asks its
  engine for a block again, whatever transactions come: nothing runs the dispatcher of the
  timer that should wake it, and the signal of a new transaction is ignored in that status.
\<close>

theorem builder_stuck:
  assumes "node_run cap iv node0 s" and "tb_status (nd_builder s) = mayBuild" and "node_run cap iv s t"
  shows "tb_status (nd_builder t) = mayBuild \<and> nd_toEngine t = 0"
  using node_run_stuck [OF assms(3) node_run_ok [OF assms(1) node0_ok] assms(2)] .

lemma builder_stuck_witness:
  "node_run 1 5 node3 (node3\<lparr>nd_len := 2, nd_Pending := True\<rparr>) \<and> nd_toEngine (node3\<lparr>nd_len := 2, nd_Pending := True\<rparr>) = 0"
proof -
  have "node_step 1 5 node3 (node3\<lparr>nd_len := 2, nd_Pending := True\<rparr>)"
    by (rule node_step.add) (simp_all add: node3_def node2_def node1_def)
  then have "node_run 1 5 node3 (node3\<lparr>nd_len := 2, nd_Pending := True\<rparr>)" by blast
  then show ?thesis using builder_stuck [OF run_node3] by blast
qed

end
