(* ===== verification/TypedProps.thy ===== *)
theory TypedProps
  imports TxTyped BlockProps
begin

text \<open>
  Properties of the typed data that a sender signs: which transactions come back from it,
  that its digest is always defined, and what the digest does not bind.
\<close>

section \<open>Parsing\<close>


definition base_sample :: BaseTx where
  "base_sample = \<lparr> b_BlockID = 9, b_Magic = 1, b_Price = 8 \<rparr>"


section \<open>The digest\<close>

text \<open>
  The digest of a transaction that has a base is defined, whatever its kind and contents;
  so \<open>Init\<close> can fail in the codec and in the signature only.
\<close>

theorem digest_defined:
  assumes "num_ok L" and "text_ok L" and "u_BaseTx u = Some b"
  shows "\<exists>h. DigestHash L u = Inr h"
  using digest_total [OF assms(1,2)] assms(3) by (simp add: DigestHash_def TypedData_of_def baseOf_def)

lemma digest_defined_witness: "\<exists>h. DigestHash sample_lib (tx_Unsigned set_sample) = Inr h"
  using digest_defined [OF sample_num_ok sample_text_ok, of "tx_Unsigned set_sample"]
  by (auto simp: set_sample_def tx_sample_def NewTx_def)

text \<open>
  C29. The digest of a vote is that of a govern over the same action and base, so one
  signature is good for both; and the digest of an unstake does not depend on its end time.
\<close>

theorem digest_confusions:
  "DigestHash L \<lparr> u_BaseTx = bs, u_body = TVote \<lparr> vx_ActionID = i \<rparr> \<rparr> =
     DigestHash L \<lparr> u_BaseTx = bs, u_body = TGovern \<lparr> gx_ActionID = i \<rparr> \<rparr> \<and>
   DigestHash L \<lparr> u_BaseTx = bs, u_body = TUnStake x \<rparr> =
     DigestHash L \<lparr> u_BaseTx = bs, u_body = TUnStake (x\<lparr>ux_EndTime := e\<rparr>) \<rparr>"
  by (cases bs) (simp_all add: DigestHash_def TypedData_of_def baseOf_def body_TypedData_def
      VoteTx_TypedData_def GovernTx_TypedData_def UnStakeTx_TypedData_def)



end
