(* ===== verification/TableProps.thy ===== *)
theory TableProps
  imports StateProps TxProps
begin

text \<open>
  Properties of single tables and of the arithmetic of the rewards: the layout of the
  database, what a restart reads back, the share parameters, the votes, the cache of users,
  the reward of a period and of a year.
\<close>

section \<open>The layout of the database\<close>

text \<open>
  C30. The keys of the database never collide: two entries, of any tables, have the same key
  only when they are the same entry; the iterators of the details, the actions, the rewards
  and the work records visit their own table only; but the iterator of the users also visits
  the user types, the one of the stakers also some stake balances, and the one of the user
  types visits nothing.
\<close>

theorem database_layout:
  "(key_bytes x = key_bytes y \<longleftrightarrow> x = y) \<and>
   (prefix baseDetailsPrefix (key_bytes x) \<longleftrightarrow> (\<exists>a. key_bytes x = PrefixDetailsKey a)) \<and>
   (prefix baseActionsPrefix (key_bytes x) \<longleftrightarrow> (\<exists>i. key_bytes x = PrefixActionsKey i)) \<and>
   (prefix baseRewardPrefix (key_bytes x) \<longleftrightarrow> (\<exists>a. key_bytes x = PrefixRewardKey a)) \<and>
   (prefix (basePowPrefix t) (key_bytes x) \<longleftrightarrow> (\<exists>a. key_bytes x = PrefixPowKey t a)) \<and>
   (prefix (baseStakerPrefix t) (key_bytes x) \<longleftrightarrow> (\<exists>a. key_bytes x = PrefixStaker4Key t a) \<or>
      (\<exists>a. key_bytes x = PrefixStakeKey a \<and> prefix [t, ByteDelimiter] (be_bytes 20 a))) \<and>
   (prefix baseUsersPrefix (key_bytes x) \<longleftrightarrow> (\<exists>a. key_bytes x = PrefixUsersKey a) \<or>
      (\<exists>i. key_bytes x = PrefixUserTypesKey i)) \<and>
   \<not> prefix baseUserTypesPrefix (key_bytes x)"
proof -
  have k: "key_bytes x = PrefixDetailsKey a \<longleftrightarrow> x = KDetails a" "key_bytes x = PrefixActionsKey i \<longleftrightarrow> x = KAction i"
    "key_bytes x = PrefixRewardKey a \<longleftrightarrow> x = KReward a" "key_bytes x = PrefixPowKey t a \<longleftrightarrow> x = KPow t a"
    "key_bytes x = PrefixStaker4Key t a \<longleftrightarrow> x = KStaker t a" "key_bytes x = PrefixStakeKey a \<longleftrightarrow> x = KStakeBalance a"
    "key_bytes x = PrefixUsersKey a \<longleftrightarrow> x = KUser a" "key_bytes x = PrefixUserTypesKey j \<longleftrightarrow> x = KUserType j" for a i j
    by (simp_all add: key_bytes_eq_iff [symmetric])
  show ?thesis
    unfolding k scan_details scan_actions scan_reward scan_pow scan_stakers scan_users key_bytes_eq_iff
    by (simp add: scan_user_types)
qed

section \<open>Restart\<close>

lemma reloadLoop_cong:
  "(\<And>k b v. (k, b) \<in> set es \<Longrightarrow> de b = Inr v \<Longrightarrow> ins v = ins' v) \<Longrightarrow>
   reloadLoop de ins es m = reloadLoop de ins' es m"
proof (induction es arbitrary: m)
  case (Cons e es)
  obtain k b where e: "e = (k, b)" by fastforce
  have "reloadLoop de ins es m = reloadLoop de ins' es m" for m
    by (rule Cons.IH) (use Cons.prems e in auto)
  then show ?case using Cons.prems [of k b] by (simp add: e split: sum.split)
qed simp

lemma scan_key_of:
  assumes "\<forall>k v. db_Get D d k = Inr v \<longrightarrow> (\<exists>x. k = key_bytes x)" and "db_Get D d k = Inr v"
  obtains x where "k = key_bytes x"
  using assms by blast


definition action_sample :: ActionMeta where
  "action_sample = emptyActionMeta\<lparr>act_ActionID := 7, act_EndTime := 2000, act_Key := ''burn''\<rparr>"


text \<open>
  C32. A restart loses every user type: whatever the database holds, as long as its keys are
  those of the chain's layout, the table that is read back is empty.
\<close>

theorem restart_loses_user_types:
  assumes "db_ok D" and "\<forall>k v. db_Get D d k = Inr v \<longrightarrow> (\<exists>x. k = key_bytes x)"
  shows "NewUserTypesState D C d = (Inr (), emptyUserTypesState)"
  by (rule ReloadUserTypes_empty [OF assms(1)]) (use assms(2) in blast)

definition user_type_db :: memdb where
  "user_type_db = [(PrefixUserTypesKey 3, [])]"

lemma restart_loses_user_types_witness:
  "db_Get mem_db user_type_db (PrefixUserTypesKey 3) = Inr [] \<and>
   NewUserTypesState mem_db (list_codec [emptyUserType]) user_type_db = (Inr (), emptyUserTypesState)"
proof -
  have "\<forall>k v. db_Get mem_db user_type_db k = Inr v \<longrightarrow> (\<exists>x. k = key_bytes x)"
    by (auto simp: user_type_db_def intro: exI [of _ "KUserType 3"] split: if_splits)
  then show ?thesis
    using restart_loses_user_types [OF mem_db_ok] by (simp add: user_type_db_def)
qed

section \<open>Parameters\<close>


definition params_sample :: sysParams where
  "params_sample = \<lparr>sps_curParams = emptySysParamsMeta\<lparr>sp_MeritRoutePerc := 100, sp_MeritSerPerc := 100\<rparr>,
     sps_pendingParams = emptySysParamsMeta\<rparr>"

definition params_codec :: "SysParamsMeta codec" where
  "params_codec = list_codec [(sps_curParams params_sample)\<lparr>sp_BurnPerc := 5\<rparr>]"

lemma ParseUint_wrap: "ParseUint ''4294967301'' = Inr 4294967301"
  by (simp add: ParseUint_def digit_val_def)

lemma wrap32: "(4294967301 :: u32) = 5"
  by simp


section \<open>Votes\<close>

lemma VoteTx_pends:
  assumes "VoteTx_Execute E now v t (d, s) = (Inr u, (d', s'))"
  shows "\<exists>a. map_of (as_curActions (sama_ActionsState s)) (vx_ActionID v) = Some a \<and>
    tc_Sender t \<notin> set (act_Voters a) \<and>
    sama_ActionsState s' = pendAction (vx_ActionID v)
      (a\<lparr>act_TxIDs := act_TxIDs a @ [tc_TxID t], act_Voters := act_Voters a @ [tc_Sender t]\<rparr>) (sama_ActionsState s)"
  using assms
  by (auto simp: VoteTx_Execute_def GetActionMeta_def sm_defs onActions_def onC_def PutAction_def
      split: if_splits option.splits sum.splits prod.splits)

text \<open>
  C34. Of two votes for one proposal in the same block only the second counts: each reads the
  committed voters and files its own copy, so what is committed is the committed list of
  voters and the second voter.
\<close>

theorem second_vote_overwrites:
  assumes "VoteTx_Execute E now v t (d, s) = (Inr (), (d1, s1))"
    and "VoteTx_Execute E now v' t' (d1, s1) = (Inr (), (d2, s2))"
    and "vx_ActionID v' = vx_ActionID v"
    and "map_of (as_curActions (sama_ActionsState s)) (vx_ActionID v) = Some a"
    and "actions.ok (sama_ActionsState s)"
  shows "\<exists>m. map_of (as_curActions (sama_ActionsState (Commit E s2))) (vx_ActionID v) = Some m \<and>
    act_Voters m = act_Voters a @ [tc_Sender t'] \<and> act_TxIDs m = act_TxIDs a @ [tc_TxID t']"
proof -
  let ?A = "sama_ActionsState s" and ?i = "vx_ActionID v"
  obtain m where 1: "sama_ActionsState s1 = pendAction ?i m ?A"
    using VoteTx_pends [OF assms(1)] by blast
  obtain m' where 2: "sama_ActionsState s2 = pendAction ?i m' (sama_ActionsState s1)"
    and m': "act_Voters m' = act_Voters a @ [tc_Sender t']" "act_TxIDs m' = act_TxIDs a @ [tc_TxID t']"
    using VoteTx_pends [OF assms(2)] assms(3,4) by (auto simp: 1 actions.cur_put)
  have "actions.ok (pendAction ?i m ?A)" using assms(5) by (rule actions.ok_put)
  from actions.commit_put_lookup [OF this, of ?i m'] show ?thesis
    using m' by (simp add: Commit_def 2 1)
qed

definition routes_sample :: "(address, UserMeta) gomap samaState" where
  "routes_sample = sama0\<lparr>
     sama_StakerState := emptyStakerState\<lparr>ss_curRoute := [(1, staker1), (2, staker1)]\<rparr>,
     sama_ActionsState := emptyActionsState\<lparr>as_curActions := [(7, action_sample)]\<rparr>\<rparr>"

definition vote_sample :: VoteTx where
  "vote_sample = \<lparr> vx_ActionID = 7 \<rparr>"

definition voter :: "address \<Rightarrow> TransactionContext" where
  "voter a = \<lparr> tc_Genesis = g_sample, tc_BlockTime = 1000, tc_TxID = 3, tc_Sender = a \<rparr>"

lemma vote_runs:
  assumes "IsRoute (sama_StakerState s) (tc_Sender t)"
    and "as_curActions (sama_ActionsState s) = [(7, action_sample)]"
  shows "\<exists>d' m. VoteTx_Execute (e_sample [] [] [] []) 1000 vote_sample t (d, s) =
    (Inr (), (d', s\<lparr>sama_ActionsState := pendAction 7 m (sama_ActionsState s)\<rparr>))"
  using assms
  by (auto simp: VoteTx_Execute_def GetActionMeta_def sm_defs onActions_def onC_def PutAction_def vote_sample_def
      action_sample_def emptyActionMeta_def action_overdue_def unix_now_def
      e_sample_def list_codec_def split: sum.splits prod.splits)

lemma second_vote_overwrites_witness:
  "\<exists>d1 s1 d2 s2 m. VoteTx_Execute (e_sample [] [] [] []) 1000 vote_sample (voter 1) ([], routes_sample) = (Inr (), (d1, s1)) \<and>
    VoteTx_Execute (e_sample [] [] [] []) 1000 vote_sample (voter 2) (d1, s1) = (Inr (), (d2, s2)) \<and>
    map_of (as_curActions (sama_ActionsState (Commit (e_sample [] [] [] []) s2))) 7 = Some m \<and> act_Voters m = [2]"
proof -
  let ?E = "e_sample [] [] [] []"
  have r1: "IsRoute (sama_StakerState routes_sample) (tc_Sender (voter 1))"
    and c1: "as_curActions (sama_ActionsState routes_sample) = [(7, action_sample)]"
    by (simp_all add: routes_sample_def voter_def IsRoute_def curStakes_def)
  obtain d1 m1 where 1: "VoteTx_Execute ?E 1000 vote_sample (voter 1) ([], routes_sample) =
      (Inr (), (d1, routes_sample\<lparr>sama_ActionsState := pendAction 7 m1 (sama_ActionsState routes_sample)\<rparr>))"
    using vote_runs [OF r1 c1, of "[]"] by blast
  let ?s1 = "routes_sample\<lparr>sama_ActionsState := pendAction 7 m1 (sama_ActionsState routes_sample)\<rparr>"
  have r2: "IsRoute (sama_StakerState ?s1) (tc_Sender (voter 2))"
    and c2: "as_curActions (sama_ActionsState ?s1) = [(7, action_sample)]"
    using c1 by (simp_all add: routes_sample_def voter_def IsRoute_def curStakes_def pendAction_def)
  obtain d2 m2 where 2: "VoteTx_Execute ?E 1000 vote_sample (voter 2) (d1, ?s1) =
      (Inr (), (d2, ?s1\<lparr>sama_ActionsState := pendAction 7 m2 (sama_ActionsState ?s1)\<rparr>))"
    using vote_runs [OF r2 c2, of d1] by blast
  have ok: "actions.ok (sama_ActionsState routes_sample)"
    by (simp add: routes_sample_def actions.ok_def emptyActionsState_def table_ok_def mwf_def)
  have "map_of (as_curActions (sama_ActionsState routes_sample)) (vx_ActionID vote_sample) = Some action_sample"
    by (simp add: c1 vote_sample_def)
  from second_vote_overwrites [OF 1 2 refl this ok] 1 2 show ?thesis
    by (auto simp: vote_sample_def voter_def action_sample_def emptyActionMeta_def)
qed

end
