(* ===== verification/RewardProps.thy ===== *)
theory RewardProps
  imports StateProps TxProps
begin

text \<open>
  Properties of the rewards of \<open>chain/state.go\<close> and \<open>chain/reward_status.go\<close>, and of the
  cache of users: the division of a period of work into years, the reward of a year, the
  reward of the foundation, the time of the last distribution, the answers of the cache.
\<close>

section \<open>The years of a period\<close>

text \<open>
  A period of work that starts after the chain was created is divided into its years
  without loss: no year counts more than its own seconds, and the seconds worked in all the
  years of the period are together the length of the period.
\<close>

theorem period_split:
  assumes "unat c \<le> unat s" and "unat s \<le> unat e"
    and "unat c + Suc ((unat e - unat c) div secsYear) * secsYear < 2 ^ 64"
  shows "(\<Sum>i\<leftarrow>yearRange ((s - c) div SecondsYear) ((e - c) div SecondsYear). unat (workSecs c s e i)) =
      unat e - unat s \<and>
    (\<forall>i \<in> set (yearRange ((s - c) div SecondsYear) ((e - c) div SecondsYear)). unat (workSecs c s e i) \<le> secsYear)"
  using workSecs_partition [OF assms] workSecs_le [OF assms] by blast

lemma period_split_witness:
  "(\<Sum>i\<leftarrow>yearRange 0 2. unat (workSecs 1000 5000 (70000000 :: u64) i)) = 69995000"
  using period_split [of 1000 5000 70000000] by (simp add: SecondsYear_def secsYear_def)

section \<open>The reward of a year\<close>

text \<open>
  C35. No year pays more than the tokens set aside for the miners, but the first year alone
  pays all of them: the sum of the yearly quotas that the reward is divided by is truncated
  term by term and is always 1.
\<close>

theorem year_reward:
  assumes "float_ok L" and "unat (GetChainTokenAmount (sama_SysParams s)) < 2 ^ 53"
    and "GetRateSustainYears (sama_SysParams s) \<noteq> 0"
    and "GetTotalYears (sama_SysParams s) div GetRateSustainYears (sama_SysParams s) \<noteq> 0"
  shows "RewardCurYear L s 0 = Inr (GetChainTokenAmount (sama_SysParams s)) \<and>
    (\<exists>r. RewardCurYear L s i = Inr r \<and> r \<le> GetChainTokenAmount (sama_SysParams s))"
  using RewardCurYear_le [OF assms, of 0] RewardCurYear_le [OF assms, of i]
  by (auto simp: word_le_nat_alt)

lemma year_reward_witness:
  "RewardCurYear sample_lib sama0 0 = Inr (GetChainTokenAmount (sama_SysParams sama0)) \<and>
   (\<exists>r. RewardCurYear sample_lib sama0 1 = Inr r \<and> r \<le> GetChainTokenAmount (sama_SysParams sama0))"
  by (rule year_reward [OF sample_float_ok])
    (simp_all add: sama0_def genesisParams_def DefaultGenesis_def emptySysParamsMeta_def
      GetChainTokenAmount_def GetRateSustainYears_def GetTotalYears_def)

section \<open>The foundation\<close>

definition sama_created :: "u64 \<Rightarrow> (address, UserMeta) gomap samaState" where
  "sama_created t = sama0\<lparr>sama_SysParams := (sama_SysParams sama0)\<lparr>sps_curParams :=
     (sps_curParams (sama_SysParams sama0))\<lparr>sp_ChainCreateTime := t\<rparr>\<rparr>\<rparr>"

text \<open>
  The foundation is never paid: the reward computed for it is zero whenever it is
  computed, and an update that goes through files a reward of zero for it.
\<close>

theorem foundation_unpaid:
  assumes "UpdateFoundationReward E a txID e (d, s) = (Inr (), (d', s'))"
    and "GetLastUpdateTime (sama_RewardState s) < e"
  shows "reward_view s' = (reward_view s)(a \<mapsto> claimedMeta a txID e (0, 0, 0)) \<and>
    CalcReward (e_L E) s 0 (x_HexToAddress (e_L E) (GetFoundationAddress (sama_SysParams s))) e \<in>
      {Inr (0, 0, 0)} \<union> range Inl"
proof -
  have e: "\<not> GetLastUpdateTime (sama_RewardState s) > e" "GetLastUpdateTime (sama_RewardState s) \<noteq> e"
    using assms(2) by auto
  then obtain r where r: "FoundationReword (e_L E) s a e = Inr r"
    using assms(1) by (auto simp: UpdateFoundationReward_def sm_iff)
  then have r0: "FoundationReword (e_L E) s a e = Inr 0" using FoundationReword_zero by metis
  have "reward_view s' = (reward_view s)(a \<mapsto> claimedMeta a txID e (0, 0, 0))"
    using assms(1) e r0
    by (auto simp: UpdateFoundationReward_def sm_iff onRewards_def UpdateOwner_def reward_view_def claimedMeta_def
      rewards.putS_iff rewards.view_put)
  moreover have "CalcReward (e_L E) s 0 b e \<in> {Inr (0, 0, 0)} \<union> range Inl" for b
    using FoundationReword_zero [of "e_L E" s b e]
    by (cases "FoundationReword (e_L E) s b e") (auto simp: CalcReward_def)
  ultimately show ?thesis by blast
qed

lemma foundation_unpaid_witness:
  "\<exists>d' s'. UpdateFoundationReward (e_sample [] [claimedMeta 9 4 2000 (0, 0, 0)] [] []) 9 4 2000
      ([], sama_created 1000) = (Inr (), (d', s')) \<and> reward_view s' 9 = Some (claimedMeta 9 4 2000 (0, 0, 0))"
proof -
  let ?E = "e_sample [] [claimedMeta 9 4 2000 (0, 0, 0)] [] []"
  have lt: "GetLastUpdateTime (sama_RewardState (sama_created 1000)) < 2000"
    by (simp add: sama_created_def sama0_def emptyRewardState_def GetLastUpdateTime_def emptyRewardGlobal_def)
  obtain d' s' where r: "UpdateFoundationReward ?E 9 4 2000 ([], sama_created 1000) = (Inr (), (d', s'))"
  proof -
    have "GetRewardMeta (sama_RewardState (sama_created 1000)) 9 = None"
      and "GetChainCreateTime (sama_SysParams (sama_created 1000)) = 1000"
      by (simp_all add: sama_created_def sama0_def emptyRewardState_def GetRewardMeta_def GetChainCreateTime_def)
    moreover have "\<exists>r. RewardCurYear sample_lib (sama_created 1000) 0 = Inr r"
      using RewardCurYear_le [OF sample_float_ok, of "sama_created 1000" 0]
      by (auto simp: sama_created_def sama0_def genesisParams_def DefaultGenesis_def emptySysParamsMeta_def
          GetChainTokenAmount_def GetRateSustainYears_def GetTotalYears_def)
    ultimately have "FoundationReword sample_lib (sama_created 1000) 9 2000 = Inr 0"
      by (auto simp: FoundationReword_def yearRange_def SecondsYear_def Let_def)
    then have "\<exists>w. UpdateFoundationReward ?E 9 4 2000 ([], sama_created 1000) = (Inr (), w)"
      using lt by (auto simp: UpdateFoundationReward_def sm_iff onRewards_def UpdateOwner_def rewards.putS_iff
        claimedMeta_def e_sample_def list_codec_def)
    then show thesis using that by (metis surj_pair)
  qed
  from foundation_unpaid [OF r lt] r show ?thesis by auto
qed

section \<open>The time of the last distribution\<close>

text \<open>
  C36. A distribution of rewards never moves the time of the last distribution: whatever an
  update does, after the commit the time that the next update is compared with is the one
  from before.
\<close>

theorem distribution_time_frozen:
  assumes "rs_pendigGlobal (sama_RewardState s) = emptyRewardGlobal"
    and "UpdateStakerReward E t a txID e (d, s) = (r, (d', s'))"
  shows "GetLastUpdateTime (sama_RewardState (Commit E s')) = rg_LastOprTime (rs_curGlobal (sama_RewardState s)) \<and>
    rs_pendigGlobal (sama_RewardState (Commit E s')) = emptyRewardGlobal"
proof -
  let ?g = "rs_curGlobal (sama_RewardState s)"
  have "global_frozen (sama_RewardState s) ?g" using assms(1) by (simp add: global_frozen_def)
  then have "global_frozen (sama_RewardState s') ?g"
    using presD' [OF UpdateStakerReward_frozen assms(2), of ?g] by simp
  then have "global_frozen (CacheRewardsCommit (sama_RewardState s')) ?g" by (rule global_frozen_commit)
  then show ?thesis
    using GetLastUpdateTime_frozen by (auto simp: Commit_def global_frozen_def)
qed

definition global5 :: RewardGlobal where
  "global5 = \<lparr> rg_LastOprTime = 5, rg_LastOprTXID = 4 \<rparr>"

definition e_update :: "(memdb, (address, UserMeta) gomap) env" where
  "e_update = (let E = e_sample [staker1] [] [] [] in E\<lparr>e_C := (e_C E)\<lparr>c_Global := list_codec [global5],
     c_Yield := list_codec [\<lparr> ym_Total = 0, ym_Undistributed = 0, ym_LastOprTime = 5, ym_LastOprTXID = 4 \<rparr>]\<rparr>\<rparr>)"

definition one_route :: "(address, UserMeta) gomap samaState" where
  "one_route = sama0\<lparr>sama_StakerState := emptyStakerState\<lparr>ss_curRoute := [(7, staker1)]\<rparr>\<rparr>"

lemma distribution_time_frozen_witness:
  "\<exists>d' s'. UpdateStakerReward e_update stakerTypeRoute 7 4 5
      ([], one_route) = (Inr (), (d', s')) \<and>
    db_Get mem_db d' RewardGlobalPrefix = Inr [] \<and>
    GetLastUpdateTime (sama_RewardState (Commit e_update s')) = 0"
proof -
  have 0: "rs_pendigGlobal (sama_RewardState one_route) = emptyRewardGlobal"
    by (simp add: one_route_def sama0_def emptyRewardState_def)
  obtain d' s' where r: "UpdateStakerReward e_update stakerTypeRoute 7 4 5 ([], one_route) = (Inr (), (d', s'))"
    and d: "db_Get mem_db d' RewardGlobalPrefix = Inr []"
  proof -
    have st: "GetStakers (sama_StakerState one_route) stakerTypeRoute = [staker1]"
      by (simp add: one_route_def GetStakers_def curStakes_def GetCurStakes_def key_defs)
    have n: "StakersNum one_route stakerTypeRoute = 1" by (simp add: one_route_def StakersNum_def GetStakersNum_def)
    have one: "updateOneReward e_update n 7 4 5 staker1 w = (Inr (), w)" for n w
      by (simp add: updateOneReward_def staker1_def retS_def)
    have t: "GetLastUpdateTime (sama_RewardState one_route) = 0"
      by (simp add: one_route_def sama0_def emptyRewardState_def GetLastUpdateTime_def emptyRewardGlobal_def)
    have g: "onRewards (UpdateGlobal (e_D e_update) (c_Global (e_C e_update)) \<lparr> rg_LastOprTime = 5, rg_LastOprTXID = 4 \<rparr>)
        (d, w) = (Inr (), (mput RewardGlobalPrefix [] d, w))" for d w
      by (simp add: on_defs UpdateGlobal_def sm_defs e_update_def Let_def e_sample_def list_codec_def global5_def)
    have y: "\<exists>w. onYields (ModifyYields (e_D e_update) (c_Yield (e_C e_update)) 0 4 5) (d, one_route) =
        (Inr (), (mput PrefixYieldsKey [] d, w))" for d
      by (simp add: on_defs ModifyYields_def sm_defs e_update_def Let_def e_sample_def list_codec_def nextYields_def
          one_route_def sama0_def emptyYieldMeta_def)
    obtain w where w: "onYields (ModifyYields (e_D e_update) (c_Yield (e_C e_update)) 0 4 5)
        (mput RewardGlobalPrefix [] [], one_route) = (Inr (), (mput PrefixYieldsKey [] (mput RewardGlobalPrefix [] []), w))"
      using y by blast
    have "UpdateStakerReward e_update stakerTypeRoute 7 4 5 ([], one_route) =
        (Inr (), (mput PrefixYieldsKey [] (mput RewardGlobalPrefix [] []), w))"
      using w by (simp add: UpdateStakerReward_def sm_defs t n st one g split del: if_split)
    moreover have "db_Get mem_db (mput PrefixYieldsKey [] (mput RewardGlobalPrefix [] [])) RewardGlobalPrefix = Inr []"
      by (simp add: key_defs)
    ultimately have "\<exists>d' s'. UpdateStakerReward e_update stakerTypeRoute 7 4 5 ([], one_route) = (Inr (), (d', s')) \<and>
        db_Get mem_db d' RewardGlobalPrefix = Inr []" by blast
    then show thesis using that by blast
  qed
  from distribution_time_frozen [OF 0 r] r d show ?thesis
    by (auto simp: one_route_def sama0_def emptyRewardState_def emptyRewardGlobal_def)
qed

section \<open>The cache of users\<close>

text \<open>
  C39. The cache of users is transparent: when it is coherent with the block's database, then
  after a user is put and the block commits, a lookup of any user answers what the database
  holds, the new record for the user put, whatever the cache has evicted.
\<close>

theorem users_cache:
  assumes "lru_ok R" and "db_ok D" and "codec_ok C"
    and "pending_agree D C d s" and "coherent R D C d s"
    and "PutUser D C m (d, s) = (Inr u, (d', s'))"
    and "GetUserMeta R D C d' a (CacheUsersCommit R s') = (Inr r, s'')"
  shows "db_entry C (db_Get D d' (PrefixUsersKey a)) r \<and> (a = um_Address m \<longrightarrow> r = Some m)"
proof -
  note agree = PutUser_coherent [OF assms(2-6)]
  have "coherent R D C d' (CacheUsersCommit R s')"
    by (rule coherent_commit [OF assms(1) agree [THEN conjunct1] agree [THEN conjunct2]])
  then have get: "db_entry C (db_Get D d' (PrefixUsersKey a)) r"
    using GetUserMeta_coherent [OF assms(1) _ _ _ assms(7)] by (simp add: CacheUsersCommit_def)
  obtain b where b: "enc C m = Inr b" "db_Put D d (PrefixUsersKey (um_Address m)) b = Inr d'"
    using assms(6) by (auto simp: PutUser_def sm_iff)
  have "dec C b = Inr m" using assms(3) b(1) by (rule codec_okD)
  moreover have "db_Get D d' (PrefixUsersKey (um_Address m)) = Inr b"
    using db_ok_put [OF assms(2) b(2)] by simp
  ultimately show ?thesis using get by (cases r) auto
qed

definition user_sample :: UserMeta where
  "user_sample = emptyUserMeta\<lparr>um_Address := 8, um_EndTime := 9\<rparr>"

lemma users_cache_witness:
  "\<exists>d' s' s''. PutUser mem_db (list_codec [user_sample]) user_sample
      ([], \<lparr> us_curUsers = [(8, emptyUserMeta)], us_pendingUsersAdd = [], us_pendingUsersDel = [(8, emptyUserMeta)] \<rparr>)
      = (Inr (), (d', s')) \<and>
    GetUserMeta map_lru mem_db (list_codec [user_sample]) d' 8 (CacheUsersCommit map_lru s') = (Inr (Some user_sample), s'')"
proof -
  let ?C = "list_codec [user_sample]"
  let ?s = "\<lparr> us_curUsers = [(8 :: address, emptyUserMeta)], us_pendingUsersAdd = [],
      us_pendingUsersDel = [(8, emptyUserMeta)] \<rparr>"
  have pa: "pending_agree mem_db ?C [] ?s" by (simp add: pending_agree_def mwf_def)
  have co: "coherent map_lru mem_db ?C [] ?s" by (simp add: coherent_def map_lru_def)
  obtain d' s' where put: "PutUser mem_db ?C user_sample ([], ?s) = (Inr (), (d', s'))"
    by (auto simp: PutUser_def sm_iff list_codec_def)
  obtain r s'' where get: "GetUserMeta map_lru mem_db ?C d' 8 (CacheUsersCommit map_lru s') = (Inr r, s'')"
    using put by (auto simp: PutUser_def sm_iff list_codec_def pendUser_def user_sample_def CacheUsersCommit_def
      cacheAdd_def cacheDel_def map_lru_def GetUserMeta_def)
  have "r = Some user_sample"
    using users_cache [OF map_lru_ok mem_db_ok list_codec_ok pa co put get] by (simp add: user_sample_def)
  then show ?thesis using put get by blast
qed

end
