(* ===== verification/Network.thy ===== *)
theory Network
  imports Consensus
begin

text \<open>
  \<open>vm/network.go\<close> and the loop of \<open>Gossip\<close> in \<open>vm/block_builder.go\<close>: the transactions a
  node sends to its peers and what it does with theirs. The sender of the node library is a
  parameter, nil or a function; \<open>pn_sent\<close> records the messages handed to it. The codec of a
  list of transactions and the cache of the ids already sent are parameters too.
\<close>

section \<open>State\<close>

definition gossipedTxsLRUSize :: nat where "gossipedTxsLRUSize = 512"

record 'g PushNetwork =
  pn_gossipedTxs :: 'g
  pn_sent :: "bytes list"

type_synonym 'g gossip_lru = "(id, unit, 'g) lruops"
type_synonym sender = "(bytes \<Rightarrow> err + unit) option"

text \<open>\<open>c\<close> is the new cache of \<open>gossipedTxsLRUSize\<close> entries.\<close>

definition NewPushNetwork :: "'g \<Rightarrow> 'g PushNetwork" where
  "NewPushNetwork c = \<lparr> pn_gossipedTxs = c, pn_sent = [] \<rparr>"

section \<open>Sending\<close>

definition sendTxs ::
  "Transaction list codec \<Rightarrow> (bytes \<Rightarrow> err + unit) \<Rightarrow> Transaction list \<Rightarrow> ('g PushNetwork, unit) sm" where
  "sendTxs C send txs =
     (if txs = [] then retS ()
      else bindS (liftS (enc C txs)) (\<lambda>b.
           bindS (modS (\<lambda>n. n\<lparr>pn_sent := pn_sent n @ [b]\<rparr>)) (\<lambda>_. liftS (send b))))"

text \<open>The new transactions that were not sent recently, each entered in the cache.\<close>

fun newGossip :: "'g gossip_lru \<Rightarrow> Transaction list \<Rightarrow> Transaction list \<Rightarrow> 'g \<Rightarrow> Transaction list \<times> 'g" where
  "newGossip R txs [] c = (txs, c)"
| "newGossip R txs (tx # newTxs) c =
     (case lru_Get R c (tx_id tx) of
        (Some _, c') \<Rightarrow> newGossip R txs newTxs c'
      | (None, c') \<Rightarrow> newGossip R (txs @ [tx]) newTxs (lru_Put R (tx_id tx) () c'))"

definition GossipNewTxs ::
  "'g gossip_lru \<Rightarrow> Transaction list codec \<Rightarrow> sender \<Rightarrow> Transaction list \<Rightarrow> ('g PushNetwork, unit) sm" where
  "GossipNewTxs R C appSender newTxs =
     (case appSender of
        None \<Rightarrow> retS ()
      | Some send \<Rightarrow> (\<lambda>n. case newGossip R [] newTxs (pn_gossipedTxs n) of
          (txs, c) \<Rightarrow> sendTxs C send txs (n\<lparr>pn_gossipedTxs := c\<rparr>)))"

text \<open>
  The loop of \<open>RegossipTxs\<close>: transactions of the highest prices are taken out of the pool until
  their units reach the target of a block. Each round takes one, so the length of the pool is
  fuel enough.
\<close>

fun regossipLoop ::
  "'g gossip_lru \<Rightarrow> Genesis \<Rightarrow> nat \<Rightarrow> Transaction list \<Rightarrow> u64 \<Rightarrow> 'g \<Rightarrow> Mempool \<Rightarrow>
   err + Transaction list \<times> 'g \<times> Mempool" where
  "regossipLoop R g 0 txs units c m = Inr (txs, c, m)"
| "regossipLoop R g (Suc n) txs units c m =
     (if Mempool_Len m > 0 \<and> units < g_TargetBlockSize g then
        bindE (Mempool_PopMax m) (\<lambda>((t, price), m').
          case t of
            None \<Rightarrow> Inl (Panic ''nil pointer dereference'')
          | Some tx \<Rightarrow>
              bindE (LoadUnits g (u_body (tx_Unsigned tx))) (\<lambda>load.
                regossipLoop R g n (txs @ [tx]) (units + load) (lru_Put R (tx_id tx) () c) m'))
      else Inr (txs, c, m))"

definition RegossipTxs ::
  "'g gossip_lru \<Rightarrow> Transaction list codec \<Rightarrow> sender \<Rightarrow> ('g PushNetwork \<times> ('db, 'c, 'lc) VM, unit) sm" where
  "RegossipTxs R C appSender =
     (case appSender of
        None \<Rightarrow> retS ()
      | Some send \<Rightarrow> (\<lambda>(n, v).
          case regossipLoop R (v_genesis v) (Mempool_Len (v_mempool v)) [] 0 (pn_gossipedTxs n) (v_mempool v) of
            Inl e \<Rightarrow> (Inl e, (n, v))
          | Inr (txs, c, m) \<Rightarrow>
              (case sendTxs C send txs (n\<lparr>pn_gossipedTxs := c\<rparr>) of
                 (r, n') \<Rightarrow> (r, (n', v\<lparr>v_mempool := m\<rparr>)))))"

text \<open>The two ticks of the gossip loop; their errors are not looked at, only a panic ends it.\<close>

definition gossipTick ::
  "'g gossip_lru \<Rightarrow> Transaction list codec \<Rightarrow> sender \<Rightarrow> ('g PushNetwork \<times> ('db, 'c, 'lc) VM, unit) sm" where
  "gossipTick R C appSender = (\<lambda>(n, v).
     case Mempool_NewTxs (g_TargetBlockSize (v_genesis v)) (v_mempool v) of
       Inl e \<Rightarrow> (Inl e, (n, v))
     | Inr (newTxs, m) \<Rightarrow>
         (case GossipNewTxs R C appSender newTxs n of
            (r, n') \<Rightarrow> (case r of Inl e \<Rightarrow> if is_panic e then Inl e else Inr () | Inr _ \<Rightarrow> Inr (),
                        (n', v\<lparr>v_mempool := m\<rparr>))))"

definition regossipTick ::
  "'g gossip_lru \<Rightarrow> Transaction list codec \<Rightarrow> sender \<Rightarrow> ('g PushNetwork \<times> ('db, 'c, 'lc) VM, unit) sm" where
  "regossipTick R C appSender = bindS (ignS (RegossipTxs R C appSender)) (\<lambda>_. retS ())"

section \<open>Receiving\<close>

text \<open>A message that is not a list of transactions is dropped; the errors of the others are logged.\<close>

definition AppGossip ::
  "('db, 'c, 'lc) venv \<Rightarrow> nat \<Rightarrow> Transaction list codec \<Rightarrow> bytes \<Rightarrow> ('db, 'c, 'lc, unit) vmm" where
  "AppGossip V fuel C msg =
     (case dec C msg of
        Inl e \<Rightarrow> retS ()
      | Inr txs \<Rightarrow> bindS (VM_Submit V fuel txs) (\<lambda>errs. retS ()))"

section \<open>What is sent\<close>

text \<open>New transactions are sent in order, none of those the cache still holds.\<close>

lemma newGossip_append: "newGossip R (xs @ txs) new c = (case newGossip R txs new c of (ys, c') \<Rightarrow> (xs @ ys, c'))"
  by (induction R txs new c rule: newGossip.induct) (auto split: prod.splits option.splits)

lemma newGossip_subseq: "newGossip R [] new c = (txs, c') \<Longrightarrow> subseq txs new"
proof (induction new arbitrary: c txs)
  case (Cons tx new)
  obtain o' d where g: "lru_Get R c (tx_id tx) = (o', d)" by fastforce
  show ?case
  proof (cases o')
    case None
    then show ?thesis
      using Cons newGossip_append [of R "[tx]" "[]" new] g by (auto split: prod.splits)
  next
    case (Some u)
    then show ?thesis using Cons g by auto
  qed
qed simp

end
