(* ===== verification/UserKey.thy ===== *)
theory UserKey
  imports Ext
begin

text \<open>
  \<open>vm/userkey.go\<close>: the private keys a user of the node's key store controls, each filed under
  its address in the user's own database, with the list of the addresses. The database and
  the private keys of the node library are parameters.
\<close>

section \<open>What the node library gives\<close>

record ('k, 'sk) keylib =
  kl_D :: "'k dbops"
  kl_Addresses :: "address list codec"
  kl_PublicKey :: "'sk \<Rightarrow> pubkey"
  kl_Bytes :: "'sk \<Rightarrow> bytes"
  kl_ToPrivateKey :: "bytes \<Rightarrow> err + 'sk"
  kl_ToECDSA :: "'sk \<Rightarrow> privkey"

text \<open>The bytes of a key are read back as that key.\<close>

definition keylib_ok :: "('k, 'sk) keylib \<Rightarrow> bool" where
  "keylib_ok K \<longleftrightarrow> db_ok (kl_D K) \<and> codec_ok (kl_Addresses K) \<and> (\<forall>sk. kl_ToPrivateKey K (kl_Bytes K sk) = Inr sk)"

section \<open>Operations\<close>

definition addressesKey :: bytes where "addressesKey = replicate 32 0"

definition errDBNil :: err where "errDBNil = Errorf ''db uninitialized''"
definition errKeyNil :: err where "errKeyNil = Errorf ''key uninitialized''"

text \<open>A \<open>userKey\<close> is the user's database, \<open>None\<close> for a nil pointer.\<close>

definition getAddresses :: "('k, 'sk) keylib \<Rightarrow> 'k option \<Rightarrow> err + address list" where
  "getAddresses K u =
     (case u of
        None \<Rightarrow> Inl errDBNil
      | Some d \<Rightarrow>
          bindE (db_Has (kl_D K) d addressesKey) (\<lambda>hasAddresses.
          if \<not> hasAddresses then Inr []
          else bindE (db_Get (kl_D K) d addressesKey) (dec (kl_Addresses K))))"

definition controlsAddress :: "('k, 'sk) keylib \<Rightarrow> 'k option \<Rightarrow> address \<Rightarrow> err + bool" where
  "controlsAddress K u a =
     (case u of None \<Rightarrow> Inl errDBNil | Some d \<Rightarrow> db_Has (kl_D K) d (be_bytes 20 a))"

definition keyAddress :: "lib \<Rightarrow> ('k, 'sk) keylib \<Rightarrow> 'sk \<Rightarrow> address" where
  "keyAddress L K sk = x_PubkeyToAddress L (kl_PublicKey K sk)"

definition userPut :: "('k, 'sk) keylib \<Rightarrow> bytes \<Rightarrow> bytes \<Rightarrow> ('k option, unit) sm" where
  "userPut K key val = (\<lambda>u.
     case u of
       None \<Rightarrow> (Inl (Panic ''nil pointer dereference''), u)
     | Some d \<Rightarrow> (case db_Put (kl_D K) d key val of Inl e \<Rightarrow> (Inl e, u) | Inr d' \<Rightarrow> (Inr (), Some d')))"

definition putAddress :: "lib \<Rightarrow> ('k, 'sk) keylib \<Rightarrow> 'sk option \<Rightarrow> ('k option, unit) sm" where
  "putAddress L K privKey =
     (case privKey of
        None \<Rightarrow> throwS errKeyNil
      | Some sk \<Rightarrow>
          (let a = keyAddress L K sk in
           bindS (getS (\<lambda>u. controlsAddress K u a)) (\<lambda>r. bindS (liftS r) (\<lambda>controls.
           if controls then retS ()
           else
             bindS (userPut K (be_bytes 20 a) (kl_Bytes K sk)) (\<lambda>_.
             bindS (getS (getAddresses K)) (\<lambda>r. bindS (liftS r) (\<lambda>addresses.
             bindS (liftS (enc (kl_Addresses K) (addresses @ [a]))) (userPut K addressesKey))))))))"

definition getKey :: "('k, 'sk) keylib \<Rightarrow> 'k option \<Rightarrow> address \<Rightarrow> err + 'sk" where
  "getKey K u a =
     (case u of
        None \<Rightarrow> Inl errDBNil
      | Some d \<Rightarrow> bindE (db_Get (kl_D K) d (be_bytes 20 a)) (kl_ToPrivateKey K))"

fun keysOf :: "('k, 'sk) keylib \<Rightarrow> 'k option \<Rightarrow> address list \<Rightarrow> err + 'sk list" where
  "keysOf K u [] = Inr []"
| "keysOf K u (a # as) = bindE (getKey K u a) (\<lambda>key. bindE (keysOf K u as) (\<lambda>keys. Inr (key # keys)))"

definition getKeys :: "('k, 'sk) keylib \<Rightarrow> 'k option \<Rightarrow> err + 'sk list" where
  "getKeys K u = bindE (getAddresses K u) (keysOf K u)"

section \<open>The invariant\<close>

text \<open>
  The list holds each controlled address once, and under each of them a key of that address
  is filed.
\<close>

definition holds_keys :: "lib \<Rightarrow> ('k, 'sk) keylib \<Rightarrow> 'k \<Rightarrow> address list \<Rightarrow> bool" where
  "holds_keys L K d as \<longleftrightarrow> getAddresses K (Some d) = Inr as \<and> distinct as \<and>
     (\<forall>a. controlsAddress K (Some d) a = Inr (a \<in> set as)) \<and>
     (\<forall>a \<in> set as. \<exists>sk. getKey K (Some d) a = Inr sk \<and> keyAddress L K sk = a)"

lemma addressesKey_neq: "be_bytes 20 (a :: address) \<noteq> addressesKey"
proof
  assume "be_bytes 20 a = addressesKey"
  then have "length (be_bytes 20 a) = length addressesKey" by simp
  then show False by (simp add: addressesKey_def)
qed

lemma address_bytes_inject: "be_bytes 20 (a :: address) = be_bytes 20 b \<longleftrightarrow> a = b"
  by (simp add: be_bytes_inject)

text \<open>A database after one more put.\<close>

lemma userPut_iff: "userPut K key val (Some d) = (Inr u, s) \<longleftrightarrow>
    (\<exists>d'. db_Put (kl_D K) d key val = Inr d' \<and> s = Some d')"
  by (auto simp: userPut_def split: sum.splits)

lemma has_get: "db_ok D \<Longrightarrow> db_Get D d k = db_Get D d' k \<Longrightarrow> db_Has D d k = db_Has D d' k"
  by (simp add: db_ok_has)

lemma putAddress_new:
  assumes K: "keylib_ok K" and h: "holds_keys L K d as" and new: "keyAddress L K sk \<notin> set as"
    and put: "putAddress L K (Some sk) (Some d) = (Inr u, s)"
  shows "\<exists>d'. s = Some d' \<and> holds_keys L K d' (as @ [keyAddress L K sk]) \<and>
    getKey K s (keyAddress L K sk) = Inr sk \<and>
    (\<forall>a. a \<noteq> keyAddress L K sk \<longrightarrow> getKey K s a = getKey K (Some d) a)"
proof -
  let ?a = "keyAddress L K sk" and ?D = "kl_D K" and ?C = "kl_Addresses K"
  have D: "db_ok ?D" and C: "codec_ok ?C" and sk: "kl_ToPrivateKey K (kl_Bytes K sk) = Inr sk"
    using K by (simp_all add: keylib_ok_def)
  have c: "controlsAddress K (Some d) ?a = Inr False" using h new by (simp add: holds_keys_def)
  obtain d1 as1 b d2 where d1: "db_Put ?D d (be_bytes 20 ?a) (kl_Bytes K sk) = Inr d1"
    and as1: "getAddresses K (Some d1) = Inr as1" and b: "enc ?C (as1 @ [?a]) = Inr b"
    and d2: "db_Put ?D d1 addressesKey b = Inr d2" and s: "s = Some d2"
    using put c by (auto simp: putAddress_def Let_def sm_iff userPut_iff)
  have g1: "db_Get ?D d1 k = (if k = be_bytes 20 ?a then Inr (kl_Bytes K sk) else db_Get ?D d k)" for k
    by (rule db_ok_put [OF D d1])
  have g2: "db_Get ?D d2 k = (if k = addressesKey then Inr b else db_Get ?D d1 k)" for k
    by (rule db_ok_put [OF D d2])
  have "db_Get ?D d1 addressesKey = db_Get ?D d addressesKey"
    using g1 [of addressesKey] addressesKey_neq [of ?a] by auto
  then have "getAddresses K (Some d1) = getAddresses K (Some d)"
    using has_get [OF D, of d1 addressesKey d] by (simp add: getAddresses_def cong: if_cong)
  then have as: "as1 = as" using as1 h by (simp add: holds_keys_def)
  have "db_Has ?D d2 addressesKey = Inr True" using g2 [of addressesKey] by (simp add: db_ok_has [OF D])
  moreover have "dec ?C b = Inr (as @ [?a])" using C b as by (auto dest: codec_okD)
  ultimately have list: "getAddresses K s = Inr (as @ [?a])"
    using g2 [of addressesKey] by (simp add: getAddresses_def s)
  have at: "db_Get ?D d2 (be_bytes 20 a) = (if a = ?a then Inr (kl_Bytes K sk) else db_Get ?D d (be_bytes 20 a))" for a
    using addressesKey_neq [of a] by (simp add: g1 g2 address_bytes_inject)
  have key: "getKey K s a = (if a = ?a then Inr sk else getKey K (Some d) a)" for a
    by (simp add: getKey_def s at sk)
  have ctl: "controlsAddress K s a = (if a = ?a then Inr True else controlsAddress K (Some d) a)" for a
    using at [of a] by (simp add: controlsAddress_def s db_ok_has [OF D])
  have "holds_keys L K d2 (as @ [?a])"
    using h new list by (auto simp: holds_keys_def key [unfolded s] ctl [unfolded s] s)
  then show ?thesis using s key by simp
qed

lemma putAddress_known:
  assumes "holds_keys L K d as" and "keyAddress L K sk \<in> set as"
  shows "putAddress L K (Some sk) (Some d) = (Inr (), Some d)"
  using assms by (simp add: putAddress_def holds_keys_def sm_defs Let_def)

end
