(* ===== verification/PublicService.thy ===== *)
theory PublicService
  imports Consensus UserKey
begin

text \<open>
  \<open>vm/public_service.go\<close>: the handlers of the node's API. A handler that only reads is a
  function of the machine; one that looks up blocks, submits or uses a cache changes its
  state. The JSON layer sends the reply of a handler only when it returns no error, so a
  reply is the value of the result; a reply of one field is that field.
\<close>

section \<open>State\<close>

record NetParams =
  np_Country :: string
  np_LocalIP :: string
  np_PublicIP :: string
  np_MinPort :: u64
  np_MaxPort :: u64
  np_CheckPort :: u64

record LocalParams =
  lp_NetParams :: NetParams
  lp_WorkKey :: string
  lp_WorkAddress :: address

record ('db, 'c, 'lc) PublicService =
  svc_vm :: "('db, 'c, 'lc) VM"
  svc_Cache :: "(string, LocalParams) gomap"

definition ErrTypedDataIsNil :: err where "ErrTypedDataIsNil = Errorf ''typed data is nil''"
definition ErrInputIsNil :: err where "ErrInputIsNil = Errorf ''input is nil''"
definition ErrCorruption :: err where "ErrCorruption = Errorf ''corruption detected''"

text \<open>The index \<open>[0]\<close>, and a loop that appends one entry of the reply for each element.\<close>

definition first :: "'a list \<Rightarrow> err + 'a" where
  "first xs = (case xs of [] \<Rightarrow> Inl (Panic ''index out of range'') | x # _ \<Rightarrow> Inr x)"

fun mapE :: "('a \<Rightarrow> err + 'b) \<Rightarrow> 'a list \<Rightarrow> err + 'b list" where
  "mapE f [] = Inr []"
| "mapE f (x # xs) = bindE (f x) (\<lambda>y. bindE (mapE f xs) (\<lambda>ys. Inr (y # ys)))"

section \<open>The chain\<close>

record snowctx =
  sc_NetworkID :: u32
  sc_SubnetID :: id
  sc_ChainID :: id

definition Ping :: "err + bool" where "Ping = Inr True"

definition svc_Network :: "snowctx \<Rightarrow> err + u32 \<times> id \<times> id" where
  "svc_Network ctx = Inr (sc_NetworkID ctx, sc_SubnetID ctx, sc_ChainID ctx)"

definition svc_Genesis :: "('db, 'c, 'lc) VM \<Rightarrow> err + Genesis" where
  "svc_Genesis v = Inr (v_genesis v)"

text \<open>The end of the three handlers that submit one transaction.\<close>

definition submitted :: "'a \<Rightarrow> err list \<Rightarrow> err + 'a" where
  "submitted r errs = (case errs of [] \<Rightarrow> Inr r | [e] \<Rightarrow> Inl e | _ \<Rightarrow> Inl (Errorf ''errors''))"

definition issue :: "('db, 'c, 'lc) venv \<Rightarrow> nat \<Rightarrow> Transaction \<Rightarrow> ('db, 'c, 'lc, id) vmm" where
  "issue V fuel tx =
     bindS (liftS (Transaction_Init (ve_L V) (bc_Tx (ve_B V)) tx)) (\<lambda>tx.
     bindS (VM_Submit V fuel [tx]) (\<lambda>errs. liftS (submitted (tx_id tx) errs)))"

definition IssueRawTx :: "('db, 'c, 'lc) venv \<Rightarrow> nat \<Rightarrow> bytes \<Rightarrow> ('db, 'c, 'lc, id) vmm" where
  "IssueRawTx V fuel b = bindS (liftS (dec (bc_Tx (ve_B V)) b)) (issue V fuel)"

definition IssueTx ::
  "('db, 'c, 'lc) venv \<Rightarrow> nat \<Rightarrow> TypedData option \<Rightarrow> bytes \<Rightarrow> ('db, 'c, 'lc, id) vmm" where
  "IssueTx V fuel td sig =
     (case td of
        None \<Rightarrow> throwS ErrTypedDataIsNil
      | Some td \<Rightarrow> bindS (liftS (ParseTypedData (ve_L V) td)) (\<lambda>utx. issue V fuel (NewTx utx sig)))"

definition HasTx :: "('db, 'c, 'lc) venv \<Rightarrow> id \<Rightarrow> ('db, 'c, 'lc) VM \<Rightarrow> err + bool" where
  "HasTx V txID v = HasTransaction (ve_D V) (v_db v) txID"

definition svc_LastAccepted :: "('db, 'c, 'lc, u64 \<times> id) vmm" where
  "svc_LastAccepted = bindS (getS v_lastAccepted) (\<lambda>p. bindS (deref p) (\<lambda>la.
     retS (sf_Hght (sb_block la), sb_id la)))"

text \<open>The base of a transaction that is about to be signed.\<close>

definition setMeta :: "id \<Rightarrow> u64 \<Rightarrow> u64 \<Rightarrow> UnsignedTransaction \<Rightarrow> err + UnsignedTransaction" where
  "setMeta blockID magic price utx =
     bindE (SetBlockID blockID utx) (\<lambda>utx. bindE (SetMagic magic utx) (SetPrice price))"

definition svc_SuggestedFee ::
  "('db, 'c, 'lc) venv \<Rightarrow> nat \<Rightarrow> Input option \<Rightarrow> ('db, 'c, 'lc, TypedData \<times> u64) vmm" where
  "svc_SuggestedFee V fuel input =
     (case input of
        None \<Rightarrow> throwS ErrInputIsNil
      | Some i \<Rightarrow>
          bindS (liftS (Input_Decode i)) (\<lambda>utx.
          bindS (SuggestedFee V fuel) (\<lambda>(price, cost).
          bindS (getS v_genesis) (\<lambda>g.
          bindS (liftS (FeeUnits g (u_body utx))) (\<lambda>fu.
          let price = (if fu \<noteq> 0 then price + cost div fu else price) in
          bindS LastAccepted (\<lambda>la.
          bindS (liftS (setMeta la (g_Magic g) price utx)) (\<lambda>utx.
          bindS (liftS (TypedData_of (ve_L V) utx)) (\<lambda>td.
          retS (td, fu * price)))))))))"

definition SuggestedRawFee :: "('db, 'c, 'lc) venv \<Rightarrow> nat \<Rightarrow> ('db, 'c, 'lc, u64 \<times> u64) vmm" where
  "SuggestedRawFee V fuel = SuggestedFee V fuel"

text \<open>
  \<open>SignSubmitRawTx\<close>: the price that is set is the suggested one and the whole cost at it over
  the fee units again, so twice the suggested price when nothing wraps. Its callers drop the
  id and the cost when it returns an error.
\<close>

definition SignSubmitRawTx ::
  "('db, 'c, 'lc) venv \<Rightarrow> nat \<Rightarrow> UnsignedTransaction \<Rightarrow> privkey \<Rightarrow> ('db, 'c, 'lc, id \<times> u64) vmm" where
  "SignSubmitRawTx V fuel utx priv =
     bindS (SuggestedFee V fuel) (\<lambda>(price, cost).
     bindS (getS v_genesis) (\<lambda>g.
     bindS (liftS (FeeUnits g (u_body utx))) (\<lambda>fu.
     let price = (if fu \<noteq> 0 then price + cost div fu else price) in
     bindS LastAccepted (\<lambda>la.
     let blockCost = fu * price in
     bindS (liftS (setMeta la (g_Magic g) (if fu \<noteq> 0 then price + blockCost div fu else price) utx)) (\<lambda>utx.
     bindS (liftS (DigestHash (ve_L V) utx)) (\<lambda>dh.
     bindS (liftS (Sign (ve_L V) dh priv)) (\<lambda>sig.
     bindS (issue V fuel (NewTx utx sig)) (\<lambda>txID. retS (txID, blockCost)))))))))"

section \<open>Values and balances\<close>

record ResolveReply =
  rr_Exists :: bool
  rr_Value :: bytes
  rr_ValueMeta :: "ValueMeta option"

definition Resolve ::
  "('db, 'c, 'lc) venv \<Rightarrow> (bytes, bytes, 'b) lruops \<Rightarrow> ('db, 'c, 'lc) VM \<Rightarrow> hash \<Rightarrow> ('b, ResolveReply) sm" where
  "Resolve V R v key =
     bindS (liftS (GetValueMeta (ve_D V) (bc_ValueMeta (ve_B V)) (v_db v) key)) (\<lambda>m.
     case m of
       None \<Rightarrow> retS \<lparr> rr_Exists = False, rr_Value = [], rr_ValueMeta = None \<rparr>
     | Some vmeta \<Rightarrow>
         bindS (GetValue (ve_L V) (ve_D V) (bc_ValueMeta (ve_B V)) R (v_db v) key) (\<lambda>x.
         case x of
           None \<Rightarrow> throwS ErrCorruption
         | Some val \<Rightarrow> retS \<lparr> rr_Exists = True, rr_Value = val, rr_ValueMeta = Some vmeta \<rparr>))"

definition svc_Balance :: "('db, 'c, 'lc) venv \<Rightarrow> address \<Rightarrow> ('db, 'c, 'lc) VM \<Rightarrow> err + u64" where
  "svc_Balance V a v = GetBalance (ve_D V) (v_db v) a"

definition svc_StakeBalance :: "('db, 'c, 'lc) venv \<Rightarrow> address \<Rightarrow> ('db, 'c, 'lc) VM \<Rightarrow> err + u64" where
  "svc_StakeBalance V a v = GetStakeBalance (ve_D V) (v_db v) a"

text \<open>
  \<open>RecentActivity\<close>: from the cursor back, at most the size of the ring, up to an empty place.
  The loop goes down from \<open>start\<close>; \<open>k\<close> counts the rounds left before \<open>start - i\<close> is the size.
\<close>

fun activityLoop :: "Activity option list \<Rightarrow> u64 \<Rightarrow> nat \<Rightarrow> u64 \<Rightarrow> err + Activity list" where
  "activityLoop cache cs 0 i = Inr []"
| "activityLoop cache cs (Suc k) i =
     (if i > 0 then
        (let j = unat ((i - 1) mod cs) in
         if j < length cache then
           (case cache ! j of
              None \<Rightarrow> Inr []
            | Some item \<Rightarrow> bindE (activityLoop cache cs k (i - 1)) (\<lambda>rest. Inr (item # rest)))
         else Inl (Panic ''index out of range''))
      else Inr [])"

definition RecentActivity :: "('db, 'c, 'lc) VM \<Rightarrow> err + Activity list" where
  "RecentActivity v =
     (let cs = word_of_int (v_ActivityCacheSize v) :: u64 in
      if cs = 0 then Inr []
      else activityLoop (v_activityCache v) cs (unat cs) (v_activityCacheCursor v))"

section \<open>The tables\<close>

text \<open>The name of a role, of a staker, a node or a proof.\<close>

definition strType :: "u64 \<Rightarrow> string" where
  "strType t = (if t = RouteStake then ''Route'' else if t = SerStake then ''Ser'' else ''normal'')"

definition typeErr :: "u64 \<Rightarrow> err" where "typeErr t = Errorf (''type err '' @ FormatUint t)"
definition notFound :: err where "notFound = Errorf ''not found''"

text \<open>A wrapped error, \<open>fmt.Errorf("... %w", err)\<close>; a panic goes through unwrapped.\<close>

definition wrapE :: "string \<Rightarrow> err + 'a \<Rightarrow> err + 'a" where
  "wrapE msg r = (case r of Inl e \<Rightarrow> Inl (if is_panic e then e else Errorf msg) | Inr x \<Rightarrow> Inr x)"

record APIStake =
  as_TxID :: id
  as_StakerType :: string
  as_StakerAddr :: address
  as_StakeAmount :: u64
  as_StakeTime :: u64

definition apiStake :: "StakerMeta \<Rightarrow> APIStake" where
  "apiStake m = \<lparr> as_TxID = stk_TxID m, as_StakerType = strType (stk_StakerType m), as_StakerAddr = stk_StakerAddr m,
     as_StakeAmount = stk_StakeAmount m, as_StakeTime = stk_StakeTime m \<rparr>"

definition svc_GetStakers :: "('db, 'c, 'lc) VM \<Rightarrow> u64 \<Rightarrow> address \<Rightarrow> err + APIStake list" where
  "svc_GetStakers v t a =
     (let s = sama_StakerState (v_samaState v) in
      if t \<noteq> RouteStake \<and> t \<noteq> SerStake then Inl (typeErr t)
      else if a = 0 then Inr (map apiStake (GetStakers s (ucast t)))
      else (case GetStakerMeta s (ucast t) a of None \<Rightarrow> Inl notFound | Some m \<Rightarrow> Inr [apiStake m]))"

record CalcRewardReply =
  cr_Yield :: u64
  cr_Base :: u64
  cr_Merit :: u64

definition svc_CalcReward ::
  "('db, 'c, 'lc) venv \<Rightarrow> ('db, 'c, 'lc) VM \<Rightarrow> u64 \<Rightarrow> address \<Rightarrow> u64 \<Rightarrow> err + CalcRewardReply" where
  "svc_CalcReward V v t a endTime =
     (if now_Before (ve_now V) endTime then Inl (Errorf ''too late '')
      else bindE (wrapE ''calc reward error '' (CalcReward (ve_L V) (v_samaState v) (ucast t) a endTime))
             (\<lambda>(base, merit, yield). Inr \<lparr> cr_Yield = yield, cr_Base = base, cr_Merit = merit \<rparr>))"

text \<open>
  \<open>Register\<close> keeps the parameters of a local node under the text of its address, in the memory
  of the service only.
\<close>

definition Register ::
  "lib \<Rightarrow> LocalParams \<Rightarrow> (('db, 'c, 'lc) PublicService, bool) sm" where
  "Register L p =
     bindS (liftS (hex_DecodeString (lp_WorkKey p))) (\<lambda>pbkb.
     bindS (liftS (x_UnmarshalPubkey L pbkb)) (\<lambda>pbk.
     let addr = x_PubkeyToAddress L pbk in
     bindS (modS (\<lambda>svc. svc\<lparr>svc_Cache := mput (x_AddressHex L addr) (p\<lparr>lp_WorkAddress := addr\<rparr>) (svc_Cache svc)\<rparr>)) (\<lambda>_.
     retS True)))"

definition GetLocalParams :: "lib \<Rightarrow> ('db, 'c, 'lc) PublicService \<Rightarrow> address \<Rightarrow> err + LocalParams" where
  "GetLocalParams L svc a =
     (if a = 0 then Inl (Errorf ''err Missing Address'')
      else (case map_of (svc_Cache svc) (x_AddressHex L a) of
              None \<Rightarrow> Inl (Errorf (''not found '' @ x_AddressHex L a))
            | Some p \<Rightarrow> Inr p))"

record APINode =
  an_TxID :: id
  an_StakerType :: string
  an_StakerAddr :: address
  an_Country :: string
  an_WorkKey :: string
  an_LocalIP :: string
  an_MinPort :: u64
  an_MaxPort :: u64
  an_PublicIP :: string
  an_CheckPort :: u64
  an_WorkAddr :: address

definition apiNode :: "DetailMeta \<Rightarrow> APINode" where
  "apiNode n = \<lparr> an_TxID = dt_TxID n, an_StakerType = strType (dt_StakerType n), an_StakerAddr = dt_StakeAddress n,
     an_Country = dt_Country n, an_WorkKey = dt_WorkKey n, an_LocalIP = dt_LocalIP n, an_MinPort = dt_MinPort n,
     an_MaxPort = dt_MaxPort n, an_PublicIP = dt_PublicIP n, an_CheckPort = dt_CheckPort n,
     an_WorkAddr = dt_WorkAddress n \<rparr>"

text \<open>A node is left out when only confirmed ones are asked for and its staker is not one.\<close>

definition listed :: "stakerState \<Rightarrow> bool \<Rightarrow> DetailMeta \<Rightarrow> bool" where
  "listed s isConfirmed n \<longleftrightarrow>
     (if dt_StakerType n = RouteStake then isConfirmed \<longrightarrow> IsRoute s (dt_StakeAddress n)
      else if dt_StakerType n = SerStake then isConfirmed \<longrightarrow> IsSer s (dt_StakeAddress n)
      else True)"

definition GetNodes :: "('db, 'c, 'lc) VM \<Rightarrow> address \<Rightarrow> bool \<Rightarrow> err + APINode list" where
  "GetNodes v a isConfirmed =
     (let s = v_samaState v; keep = listed (sama_StakerState s) isConfirmed in
      if a = 0 then Inr (map apiNode (filter keep (GetDetails (sama_DetailsState s))))
      else (case GetDetailMeta (sama_DetailsState s) a of
              None \<Rightarrow> Inl notFound
            | Some n \<Rightarrow> Inr (if keep n then [apiNode n] else [])))"

record APIAction =
  aa_TxID :: id
  aa_ActionID :: short_id
  aa_ActionType :: u64
  aa_StartTime :: u64
  aa_EndTime :: u64
  aa_Key :: string
  aa_NewValue :: string
  aa_Voters :: "address list"

definition apiAction :: "ActionMeta \<Rightarrow> err + APIAction" where
  "apiAction m = bindE (first (act_TxIDs m)) (\<lambda>txID. Inr
     \<lparr> aa_TxID = txID, aa_ActionID = act_ActionID m, aa_ActionType = act_ActionType m,
       aa_StartTime = act_StartTime m, aa_EndTime = act_EndTime m, aa_Key = act_Key m,
       aa_NewValue = act_NewValue m, aa_Voters = act_Voters m \<rparr>)"

text \<open>The type is checked, and then the actions of every type are listed.\<close>

definition svc_GetActions ::
  "('db, 'c, 'lc) venv \<Rightarrow> ('db, 'c, 'lc) VM \<Rightarrow> u64 \<Rightarrow> short_id \<Rightarrow> err + APIAction list" where
  "svc_GetActions V v t i =
     (let s = sama_ActionsState (v_samaState v) in
      if \<not> CheckActionType t then Inl (Errorf ''action type err'')
      else if i = 0 then mapE apiAction (GetActions s)
      else
        bindE (wrapE ''GetActionMeta error '' (GetActionMeta (ve_now V) s i)) (\<lambda>m.
        case m of None \<Rightarrow> Inl notFound | Some a \<Rightarrow> mapE apiAction [a]))"

definition GetUserFee :: "('db, 'c, 'lc) VM \<Rightarrow> u64 \<Rightarrow> err + u64" where
  "GetUserFee v t =
     (case GetUserType (sama_UserTypesState (v_samaState v)) t of
        None \<Rightarrow> Inl (Errorf ''user type not found'') | Some u \<Rightarrow> Inr (ut_FeeUnits u))"

record APIUser =
  au_TxID :: id
  au_StartTime :: u64
  au_EndTime :: u64
  au_Address :: address

definition apiUser :: "UserMeta \<Rightarrow> err + APIUser" where
  "apiUser u = bindE (first (um_TxsID u)) (\<lambda>txID. Inr
     \<lparr> au_TxID = txID, au_StartTime = um_StartTime u, au_EndTime = um_EndTime u, au_Address = um_Address u \<rparr>)"

definition svc_GetUsers :: "('db, 'c, 'lc) venv \<Rightarrow> address \<Rightarrow> ('db, 'c, 'lc, APIUser list) vmm" where
  "svc_GetUsers V a =
     (let D = ve_D V; C = c_User (e_C (ve_E V)) in
      if a = 0 then
        bindS (getS (\<lambda>v. wrapE ''couldn't GetUsers '' (GetUsers D C (v_db v)))) (\<lambda>r.
        bindS (liftS r) (\<lambda>users. liftS (mapE apiUser users)))
      else (\<lambda>v.
        case GetUserMeta (e_R (ve_E V)) D C (v_db v) a (sama_UsersState (v_samaState v)) of
          (r, us) \<Rightarrow>
            (bindE (wrapE ''GetUserMeta error '' r) (\<lambda>m.
               case m of None \<Rightarrow> Inl notFound | Some u \<Rightarrow> mapE apiUser [u]),
             v\<lparr>v_samaState := (v_samaState v)\<lparr>sama_UsersState := us\<rparr>\<rparr>)))"

definition svc_GetChainYields :: "('db, 'c, 'lc) VM \<Rightarrow> err + u64" where
  "svc_GetChainYields v = Inr (GetChainYields (sama_YieldsState (v_samaState v)))"

text \<open>Both questions are whether the address is a route, as in the source.\<close>

definition GetStakerType :: "('db, 'c, 'lc) VM \<Rightarrow> address \<Rightarrow> err + u64" where
  "GetStakerType v a =
     (let s = sama_StakerState (v_samaState v) in
      if a = 0 then Inl (Errorf ''address error'')
      else if \<not> IsRoute s a then (if \<not> IsRoute s a then Inl notFound else Inr SerStake)
      else Inr RouteStake)"

definition svc_GetChainCreateTime :: "('db, 'c, 'lc) VM \<Rightarrow> err + u64" where
  "svc_GetChainCreateTime v = Inr (GetChainCreateTime (sama_SysParams (v_samaState v)))"

record APIPow =
  ap_TotalTime :: u64
  ap_Totalflow :: u64
  ap_LastUpdateTime :: u64
  ap_LastUpdateTXID :: id
  ap_Miner :: address

definition apiPow :: "PowMeta \<Rightarrow> APIPow" where
  "apiPow p = \<lparr> ap_TotalTime = pow_TotalTime p, ap_Totalflow = pow_Totalflow p,
     ap_LastUpdateTime = pow_LastUpdateTime p, ap_LastUpdateTXID = pow_LastUpdateTXID p, ap_Miner = pow_Miner p \<rparr>"

text \<open>The reply names the role of the last proof of the list.\<close>

definition svc_GetPows :: "('db, 'c, 'lc) VM \<Rightarrow> u64 \<Rightarrow> address \<Rightarrow> err + string \<times> APIPow list" where
  "svc_GetPows v t miner =
     (let s = sama_PowState (v_samaState v);
          reply = (\<lambda>pows. Inr (if pows = [] then [] else strType (pow_PowType (List.last pows)), map apiPow pows)) in
      if t \<noteq> RouteStake \<and> t \<noteq> SerStake then Inl (typeErr t)
      else if miner = 0 then reply (GetPows s (ucast t))
      else (case GetPowMeta s (ucast t) miner of None \<Rightarrow> Inl notFound | Some p \<Rightarrow> reply [p]))"

definition svc_GetSysParams :: "('db, 'c, 'lc) VM \<Rightarrow> err + SysParamsMeta" where
  "svc_GetSysParams v = Inr (GetSysParams (sama_SysParams (v_samaState v)))"

section \<open>Keys of the node's users\<close>

text \<open>
  The key store of the node library opens the database of the user: the handlers that read it
  take what \<open>GetDatabase\<close> returned, \<open>ImportKey\<close> takes whether it returned an error and changes
  the database.
\<close>

definition ParseEthAddress :: "lib \<Rightarrow> string \<Rightarrow> err + address" where
  "ParseEthAddress L s = (if \<not> x_IsHexAddress L s then Inl (Errorf ''invalid Address'') else Inr (x_HexToAddress L s))"

definition ImportKey :: "lib \<Rightarrow> ('k, 'sk) keylib \<Rightarrow> 'sk option \<Rightarrow> err + unit \<Rightarrow> ('k option, address) sm" where
  "ImportKey L K privateKey opened =
     (case privateKey of
        None \<Rightarrow> throwS (Errorf ''err Missing PrivateKey '')
      | Some sk \<Rightarrow>
          bindS (liftS (wrapE ''problem retrieving data '' opened)) (\<lambda>_ u.
          case putAddress L K (Some sk) u of
            (r, u') \<Rightarrow> (bindE (wrapE ''problem saving key '' r) (\<lambda>_. Inr (keyAddress L K sk)), u')))"

definition ExportKey :: "lib \<Rightarrow> ('k, 'sk) keylib \<Rightarrow> string \<Rightarrow> err + 'k \<Rightarrow> err + 'sk \<times> string" where
  "ExportKey L K address db =
     bindE (wrapE ''couldn't parse address'' (ParseEthAddress L address)) (\<lambda>a.
     bindE (wrapE ''problem retrieving user'' db) (\<lambda>d.
     bindE (wrapE ''problem retrieving private key'' (getKey K (Some d) a)) (\<lambda>sk.
     Inr (sk, x_hexEncode L (kl_Bytes K sk)))))"

text \<open>\<open>Proof\<close> and \<open>Refresh\<close>: a transaction signed with a key of the user.\<close>

definition signAs ::
  "('db, 'c, 'lc) venv \<Rightarrow> nat \<Rightarrow> ('k, 'sk) keylib \<Rightarrow> string \<Rightarrow> err + 'k \<Rightarrow> txbody \<Rightarrow> ('db, 'c, 'lc, id) vmm" where
  "signAs V fuel K address db body =
     bindS (liftS (bindE (wrapE ''couldn't parse address'' (ParseEthAddress (ve_L V) address)) (\<lambda>a.
       bindE (wrapE ''problem retrieving user'' db) (\<lambda>d.
       wrapE ''problem retrieving private key'' (getKey K (Some d) a))))) (\<lambda>sk.
     bindS (SignSubmitRawTx V fuel \<lparr> u_BaseTx = Some emptyBaseTx, u_body = body \<rparr> (kl_ToECDSA K sk)) (\<lambda>(txID, _).
     retS txID))"

definition Proof ::
  "('db, 'c, 'lc) venv \<Rightarrow> nat \<Rightarrow> ('k, 'sk) keylib \<Rightarrow> string \<Rightarrow> err + 'k \<Rightarrow> u64 \<Rightarrow> u64 \<Rightarrow> u64 \<Rightarrow> ('db, 'c, 'lc, id) vmm" where
  "Proof V fuel K address db netflow startTime endTime =
     signAs V fuel K address db (TProof \<lparr> px_Netflow = netflow, px_StartTime = startTime, px_EndTime = endTime, px_Ser = 0 \<rparr>)"

definition Refresh ::
  "('db, 'c, 'lc) venv \<Rightarrow> nat \<Rightarrow> ('k, 'sk) keylib \<Rightarrow> string \<Rightarrow> err + 'k \<Rightarrow> NetParams \<Rightarrow> string \<Rightarrow> ('db, 'c, 'lc, id) vmm" where
  "Refresh V fuel K address db p workKey =
     signAs V fuel K address db (TRefresh \<lparr> fx_Country = np_Country p, fx_LocalIP = np_LocalIP p, fx_PublicIP = np_PublicIP p,
       fx_MinPort = np_MinPort p, fx_MaxPort = np_MaxPort p, fx_CheckPort = np_CheckPort p, fx_WorkKey = workKey \<rparr>)"

text \<open>\<open>CreateShortID\<close>; \<open>rs\<close> are the results of \<open>rand.Intn\<close>, one for each letter.\<close>

definition letterBytes :: string where "letterBytes = ''1234567890abcdefghijklmnopqrstuvwxyz''"

definition RandStringRunes :: "nat list \<Rightarrow> bytes" where
  "RandStringRunes rs = string_bytes (map ((!) letterBytes) rs)"

definition CreateShortID :: "nat list \<Rightarrow> err + short_id" where
  "CreateShortID rs = Inr (be_val (RandStringRunes (take 20 rs)))"

end
