(* ===== verification/ServiceProps.thy ===== *)
theory ServiceProps
  imports Network PublicService BlockProps
begin

text \<open>
  Properties of the node's edges: what the API reads back from the ring of activities and
  from the key store, and what regossiping does to the pool.
\<close>

section \<open>Recent activities\<close>

lemma unat_pred: "0 < i \<Longrightarrow> unat (i - 1) = unat i - 1" for i :: u64
  by (simp add: unat_sub_if' word_less_nat_alt)

lemma activityLoop_back:
  assumes ring: "length cache = unat cs" and cs: "0 < unat cs"
    and full: "\<And>j. j < k \<Longrightarrow> j < unat i \<Longrightarrow> cache ! ((unat i - Suc j) mod unat cs) = Some (f (unat i - Suc j))"
  shows "activityLoop cache cs k i = Inr (map (\<lambda>j. f (unat i - Suc j)) [0..<min k (unat i)])"
  using full
proof (induction k arbitrary: i)
  case (Suc k)
  show ?case
  proof (cases "0 < i")
    case True
    then have i: "0 < unat i" "unat (i - 1) = unat i - 1" by (simp_all add: unat_pred word_less_nat_alt)
    then have j: "unat ((i - 1) mod cs) = (unat i - Suc 0) mod unat cs" by (simp add: unat_mod)
    have IH: "activityLoop cache cs k (i - 1) =
        Inr (map (\<lambda>j. f (unat (i - 1) - Suc j)) [0..<min k (unat (i - 1))])"
    proof (rule Suc.IH)
      fix j assume "j < k" "j < unat (i - 1)"
      then show "cache ! ((unat (i - 1) - Suc j) mod unat cs) = Some (f (unat (i - 1) - Suc j))"
        using Suc.prems [of "Suc j"] i by simp
    qed
    have "min (Suc k) (unat i) = Suc (min k (unat i - 1))" using i(1) by auto
    then have "[0..<min (Suc k) (unat i)] = 0 # map Suc [0..<min k (unat i - 1)]"
      by (simp only: map_Suc_upt upt_conv_Cons zero_less_Suc)
    then show ?thesis
      using Suc.prems [of 0] IH i True cs by (simp add: j ring Let_def comp_def)
  qed (simp add: word_less_nat_alt)
qed simp

text \<open>
  C26. After activities are pushed onto an empty ring, the API returns the last of them, at most
  as many as the ring has places, the newest first.
\<close>

theorem recent_activity:
  assumes "ring_ok n v" and "v_activityCacheCursor v = 0" and "length as < 2 ^ 64"
  shows "\<exists>v'. forS as pushActivity v = (Inr (), v') \<and> RecentActivity v' = Inr (take n (rev as))"
proof -
  have small: "unat (v_activityCacheCursor v) + length as < 2 ^ 64" using assms(2,3) by simp
  obtain v' where run: "forS as pushActivity v = (Inr (), v')" and ok: "ring_ok n v'"
    and cur: "unat (v_activityCacheCursor v') = length as"
    and at: "\<And>j. j < length as \<Longrightarrow> length as \<le> j + n \<Longrightarrow> v_activityCache v' ! (j mod n) = Some (as ! j)"
    using pushActivity_ring [OF assms(1) small] assms(2) by auto
  let ?cs = "word_of_int (v_ActivityCacheSize v') :: u64"
  have n: "unat ?cs = n" "0 < n" "length (v_activityCache v') = n"
    using ok by (simp_all add: ring_ok_def unat_of_nat)
  have "activityLoop (v_activityCache v') ?cs n (v_activityCacheCursor v') =
      Inr (map (\<lambda>j. as ! (unat (v_activityCacheCursor v') - Suc j)) [0..<min n (length as)])"
    unfolding cur [symmetric] by (rule activityLoop_back) (use n at in \<open>auto simp: cur\<close>)
  moreover have "map (\<lambda>j. as ! (length as - Suc j)) [0..<min n (length as)] = take n (rev as)"
    by (rule nth_equalityI) (simp_all add: rev_nth)
  moreover have "?cs \<noteq> 0" using n by (metis less_irrefl unat_0)
  ultimately have "RecentActivity v' = Inr (take n (rev as))"
    by (simp add: RecentActivity_def Let_def n(1) cur)
  then show ?thesis using run by blast
qed

lemma recent_activity_witness:
  "\<exists>v'. forS [act_sample 5, act_sample 6, act_sample 7] pushActivity vm_three = (Inr (), v') \<and>
    RecentActivity v' = Inr [act_sample 7, act_sample 6]"
  using recent_activity [of 2 vm_three "[act_sample 5, act_sample 6, act_sample 7]"]
  by (simp add: vm_three_def vm_sample_ring)

section \<open>The key store\<close>

text \<open>
  The key store keeps each address once, with a key of that address under it: importing a
  key that succeeds keeps that, the address can be exported afterwards, and the keys of the
  other addresses stay as they were.
\<close>

theorem key_import:
  assumes "keylib_ok K" and "holds_keys L K d as"
    and "ImportKey L K (Some sk) (Inr ()) (Some d) = (Inr a, u)"
  shows "a = keyAddress L K sk \<and> (\<exists>d' as'. u = Some d' \<and> holds_keys L K d' as' \<and> set as' = insert a (set as)) \<and>
    (\<exists>sk'. getKey K u a = Inr sk' \<and> keyAddress L K sk' = a \<and> (a \<notin> set as \<longrightarrow> sk' = sk)) \<and>
    (\<forall>b. b \<noteq> a \<longrightarrow> getKey K u b = getKey K (Some d) b)"
proof -
  have put: "putAddress L K (Some sk) (Some d) = (Inr (), u)" and a: "a = keyAddress L K sk"
    using assms(3) by (auto simp: ImportKey_def wrapE_def sm_defs split: prod.splits sum.splits)
  show ?thesis
  proof (cases "a \<in> set as")
    case True
    then have "u = Some d" using putAddress_known [OF assms(2)] put a by auto
    then show ?thesis using assms(2) True a by (auto simp: holds_keys_def insert_absorb)
  next
    case False
    then obtain d' where d': "u = Some d'" "holds_keys L K d' (as @ [a])" "getKey K u a = Inr sk"
      and other: "\<forall>b. b \<noteq> a \<longrightarrow> getKey K u b = getKey K (Some d) b"
      using putAddress_new [OF assms(1,2) _ put] a by auto
    have "set (as @ [a]) = insert a (set as)" by simp
    then show ?thesis using d' other a by blast
  qed
qed

definition key_sample :: "(memdb, bytes) keylib" where
  "key_sample = \<lparr> kl_D = mem_db, kl_Addresses = list_codec [[], [8], [8, 9]], kl_PublicKey = (\<lambda>sk. sk),
     kl_Bytes = (\<lambda>sk. sk), kl_ToPrivateKey = Inr, kl_ToECDSA = (\<lambda>sk. sk) \<rparr>"

lemma key_sample_ok: "keylib_ok key_sample"
  by (simp add: keylib_ok_def key_sample_def mem_db_ok list_codec_ok)

lemma keyAddress_sample: "keyAddress sample_lib key_sample sk = be_val sk"
  by (simp add: keyAddress_def key_sample_def sample_lib_def)

lemma key_sample_simps [simp]:
  "kl_D key_sample = mem_db" "kl_Addresses key_sample = list_codec [[], [8], [8, 9]]"
  "kl_Bytes key_sample sk = sk" "kl_ToPrivateKey key_sample = Inr"
  by (simp_all add: key_sample_def)

lemma import_runs:
  assumes "controlsAddress K (Some d) (keyAddress L K sk) = Inr False"
    and "db_Put (kl_D K) d (be_bytes 20 (keyAddress L K sk)) (kl_Bytes K sk) = Inr d1"
    and "getAddresses K (Some d1) = Inr as" and "enc (kl_Addresses K) (as @ [keyAddress L K sk]) = Inr b"
    and "db_Put (kl_D K) d1 addressesKey b = Inr d2"
  shows "ImportKey L K (Some sk) (Inr ()) (Some d) = (Inr (keyAddress L K sk), Some d2)"
  using assms by (simp add: ImportKey_def wrapE_def sm_defs putAddress_def Let_def userPut_def)

lemma key_import_witness:
  "\<exists>d1 d2. ImportKey sample_lib key_sample (Some [8]) (Inr ()) (Some []) = (Inr 8, Some d1) \<and>
    ImportKey sample_lib key_sample (Some [9]) (Inr ()) (Some d1) = (Inr 9, Some d2) \<and>
    getKey key_sample (Some d2) 8 = Inr [8] \<and> getKey key_sample (Some d2) 9 = Inr [9]"
proof -
  let ?K = key_sample and ?L = sample_lib
  let ?k8 = "be_bytes 20 (8 :: address)" and ?k9 = "be_bytes 20 (9 :: address)"
  let ?d = "[(?k8, [8])]" and ?d1 = "[(?k8, [8]), (addressesKey, [0])]"
  let ?e = "[(?k8, [8]), (addressesKey, [0]), (?k9, [9])]" and ?d2 = "[(?k8, [8]), (addressesKey, [0, 0]), (?k9, [9])]"
  have v: "keyAddress ?L ?K [8] = 8" "keyAddress ?L ?K [9] = 9"
    by (simp_all add: keyAddress_sample be_val_def be_horner_def)
  have ne: "?k8 \<noteq> addressesKey" "?k9 \<noteq> addressesKey" "addressesKey \<noteq> ?k8" "addressesKey \<noteq> ?k9" "?k8 \<noteq> ?k9" "?k9 \<noteq> ?k8"
    using addressesKey_neq [of 8] addressesKey_neq [of 9] by (auto simp: address_bytes_inject)
  have none: "holds_keys ?L ?K [] []"
    by (simp add: holds_keys_def getAddresses_def controlsAddress_def)
  have r1: "ImportKey ?L ?K (Some [8]) (Inr ()) (Some []) = (Inr 8, Some ?d1)"
    unfolding v(1) [symmetric] by (rule import_runs [where ?d1.0 = ?d and as = "[]" and b = "[0]"])
      (use ne in \<open>simp_all add: v getAddresses_def controlsAddress_def list_codec_def\<close>)
  have one: "getKey ?K (Some ?d1) 8 = Inr [8] \<and> (\<exists>as. holds_keys ?L ?K ?d1 as \<and> set as = {8})"
    using key_import [OF key_sample_ok none r1] by auto
  then obtain as where as: "holds_keys ?L ?K ?d1 as" "set as = {8}" by blast
  have r2: "ImportKey ?L ?K (Some [9]) (Inr ()) (Some ?d1) = (Inr 9, Some ?d2)"
    unfolding v(2) [symmetric] by (rule import_runs [where ?d1.0 = ?e and as = "[8]" and b = "[0, 0]"])
      (use ne in \<open>simp_all add: v getAddresses_def controlsAddress_def list_codec_def\<close>)
  have "getKey ?K (Some ?d2) 9 = Inr [9]" "getKey ?K (Some ?d2) 8 = getKey ?K (Some ?d1) 8"
    using key_import [OF key_sample_ok as(1) r2] as(2) by auto
  then show ?thesis using r1 r2 one by auto
qed

section \<open>Gossip\<close>

lemma regossip_inv:
  assumes "mem_ok m" and "regossipLoop R g n txs units c m = Inr (txs', c', m')"
  shows "\<exists>new. txs' = txs @ new \<and> mem_ok m' \<and> distinct (map tx_id new) \<and>
    (\<forall>tx \<in> set new. pool m (tx_id tx) = Some (tx, priceOf tx)) \<and> pool m' = pool m |` (- tx_id ` set new) \<and>
    (Mempool_Len m \<le> n \<longrightarrow> Mempool_Len m' = 0 \<or>
      unat (g_TargetBlockSize g) \<le> unat units + sum_list (map (loadOf g) new))"
  using assms
proof (induction n arbitrary: txs units c m)
  case 0
  then show ?case by (auto intro!: exI [of _ "[]"])
next
  case (Suc n)
  show ?case
  proof (cases "Mempool_Len m > 0 \<and> units < g_TargetBlockSize g")
    case False
    then show ?thesis
      using Suc.prems by (auto intro!: exI [of _ "[]"] simp: word_less_nat_alt)
  next
    case True
    then have ne: "Mempool_Len m \<noteq> 0" by simp
    obtain t p m1 where pop: "Mempool_PopMax m = Inr ((Some t, p), m1)" and pt: "pool m (tx_id t) = Some (t, p)"
      and p1: "pool m1 = (pool m)(tx_id t := None)" and len: "Suc (Mempool_Len m1) = Mempool_Len m"
      using take_max [OF Suc.prems(1) ne] by blast
    have ok1: "mem_ok m1" using step_ok [OF pool_step.PopMax [OF pop] Suc.prems(1)] by blast
    obtain load where load: "LoadUnits g (u_body (tx_Unsigned t)) = Inr load"
      and rest: "regossipLoop R g n (txs @ [t]) (units + load) (lru_Put R (tx_id t) () c) m1 = Inr (txs', c', m')"
      using Suc.prems(2) True by (auto simp: pop sm_iff)
    obtain new where new: "txs' = (txs @ [t]) @ new" "mem_ok m'" "distinct (map tx_id new)"
      "\<forall>tx \<in> set new. pool m1 (tx_id tx) = Some (tx, priceOf tx)" "pool m' = pool m1 |` (- tx_id ` set new)"
      "Mempool_Len m1 \<le> n \<longrightarrow> Mempool_Len m' = 0 \<or>
        unat (g_TargetBlockSize g) \<le> unat (units + load) + sum_list (map (loadOf g) new)"
      using Suc.IH [OF ok1 rest] by blast
    have p: "p = priceOf t" using pool_price [OF Suc.prems(1) pt] by blast
    have fresh: "tx_id t \<notin> tx_id ` set new" using new(4) by (auto simp: p1 split: if_splits)
    have le: "unat (units + load) \<le> unat units + loadOf g t"
      by (simp add: loadOf_def load unat_plus_if')
    have "pool m' = pool m |` (- tx_id ` set (t # new))"
      by (auto simp: new(5) p1 restrict_map_def fun_eq_iff)
    moreover have "\<forall>tx \<in> set (t # new). pool m (tx_id tx) = Some (tx, priceOf tx)"
      using new(4) pt p by (auto simp: p1 split: if_splits)
    moreover have "Mempool_Len m \<le> Suc n \<longrightarrow> Mempool_Len m' = 0 \<or>
        unat (g_TargetBlockSize g) \<le> unat units + sum_list (map (loadOf g) (t # new))"
      using new(6) len le by auto
    ultimately show ?thesis using new(1-3) fresh by (intro exI [of _ "t # new"]) simp
  qed
qed


definition regossip_genesis :: Genesis where
  "regossip_genesis = g_sample\<lparr>g_TargetBlockSize := 1\<rparr>"


end
