(* ===== verification/Client.thy ===== *)
theory Client
  imports PublicService
begin

text \<open>
  \<open>client/client.go\<close> and \<open>client/helper.go\<close>: the client of the node's API. A value of type
  \<open>'w\<close> is the state of everything behind the endpoint: the node, its chain and whatever
  happens to them between two requests.
\<close>

section \<open>Requests\<close>

text \<open>
  \<open>rpc.EndpointRequester\<close> of the node library: one field for each method of the API the client
  calls, from the arguments to the reply, or the error of the transport or of the node. A
  pointer in a reply may be nil.
\<close>

record ('w, 'sk) requester =
  rq_ping :: "('w, bool) sm"
  rq_network :: "('w, u32 \<times> id \<times> id) sm"
  rq_genesis :: "('w, Genesis option) sm"
  rq_lastAccepted :: "('w, u64 \<times> id) sm"
  rq_balance :: "address \<Rightarrow> ('w, u64) sm"
  rq_resolve :: "hash \<Rightarrow> ('w, ResolveReply) sm"
  rq_suggestedRawFee :: "('w, u64 \<times> u64) sm"
  rq_issueRawTx :: "bytes \<Rightarrow> ('w, id) sm"
  rq_suggestedFee :: "Input option \<Rightarrow> ('w, TypedData option \<times> u64) sm"
  rq_issueTx :: "TypedData option \<Rightarrow> bytes \<Rightarrow> ('w, id) sm"
  rq_hasTx :: "id \<Rightarrow> ('w, bool) sm"
  rq_recentActivity :: "('w, Activity list) sm"
  rq_calcReward :: "u64 \<Rightarrow> u64 \<Rightarrow> address \<Rightarrow> ('w, CalcRewardReply) sm"
  rq_getUserFee :: "u64 \<Rightarrow> u64 \<Rightarrow> u64 \<Rightarrow> ('w, u64) sm"
  rq_getStakerType :: "address \<Rightarrow> ('w, u64) sm"
  rq_getChainCreateTime :: "('w, u64) sm"
  rq_getNodes :: "address \<Rightarrow> bool \<Rightarrow> ('w, APINode list) sm"
  rq_createShortID :: "('w, short_id) sm"
  rq_importKey :: "string \<Rightarrow> string \<Rightarrow> 'sk option \<Rightarrow> ('w, address) sm"
  rq_getLocalParams :: "address \<Rightarrow> ('w, LocalParams option) sm"

text \<open>Following a pointer of a reply.\<close>

definition ptrE :: "'a option \<Rightarrow> err + 'a" where
  "ptrE p = (case p of None \<Rightarrow> Inl (Panic ''nil pointer dereference'') | Some x \<Rightarrow> Inr x)"

lemma ptrE_iff [sm_iff]: "ptrE p = Inr x \<longleftrightarrow> p = Some x"
  by (simp add: ptrE_def split: option.split)

section \<open>The client\<close>

text \<open>
  The interface \<open>Client\<close>. A context is the number of polls a caller waits for a transaction
  before the context is done; one that is never done is the limit, see \<open>PollTx_enough\<close>.
\<close>

record 'w Client =
  cl_Ping :: "('w, bool) sm"
  cl_Network :: "('w, u32 \<times> id \<times> id) sm"
  cl_Genesis :: "('w, Genesis option) sm"
  cl_Accepted :: "('w, id) sm"
  cl_Balance :: "address \<Rightarrow> ('w, u64) sm"
  cl_Resolve :: "hash \<Rightarrow> ('w, bool \<times> bytes \<times> ValueMeta option) sm"
  cl_SuggestedRawFee :: "('w, u64 \<times> u64) sm"
  cl_IssueRawTx :: "bytes \<Rightarrow> ('w, id) sm"
  cl_SuggestedFee :: "Input option \<Rightarrow> ('w, TypedData option \<times> u64) sm"
  cl_IssueTx :: "TypedData option \<Rightarrow> bytes \<Rightarrow> ('w, id) sm"
  cl_HasTx :: "id \<Rightarrow> ('w, bool) sm"
  cl_PollTx :: "nat \<Rightarrow> id \<Rightarrow> ('w, bool) sm"
  cl_RecentActivity :: "('w, Activity list) sm"
  cl_CalcReward :: "u64 \<Rightarrow> u64 \<Rightarrow> address \<Rightarrow> ('w, u64 \<times> u64 \<times> u64) sm"
  cl_GetUserFee :: "u64 \<Rightarrow> u64 \<Rightarrow> u64 \<Rightarrow> ('w, u64) sm"
  cl_GetStakerType :: "address \<Rightarrow> ('w, u64) sm"
  cl_GetChainCreateTime :: "('w, u64) sm"
  cl_GetNodes :: "address \<Rightarrow> ('w, APINode) sm"
  cl_CreateShortID :: "('w, short_id) sm"
  cl_ImportKey :: "string \<Rightarrow> string \<Rightarrow> bytes \<Rightarrow> ('w, unit) sm"
  cl_GetLocalParams :: "address \<Rightarrow> ('w, LocalParams option) sm"

definition ErrIntegrityFailure :: err where
  "ErrIntegrityFailure = Errorf ''received file that does not match hash''"

definition ctxErr :: err where "ctxErr = ErrExt ''context done''"

text \<open>These methods send one request and give the reply as it is.\<close>

definition Ping_cli :: "('w, 'sk) requester \<Rightarrow> ('w, bool) sm" where [simp]: "Ping_cli R = rq_ping R"
definition Network_cli :: "('w, 'sk) requester \<Rightarrow> ('w, u32 \<times> id \<times> id) sm" where
  [simp]: "Network_cli R = rq_network R"
definition Genesis_cli :: "('w, 'sk) requester \<Rightarrow> ('w, Genesis option) sm" where
  [simp]: "Genesis_cli R = rq_genesis R"
definition Balance_cli :: "('w, 'sk) requester \<Rightarrow> address \<Rightarrow> ('w, u64) sm" where
  [simp]: "Balance_cli R = rq_balance R"
definition SuggestedRawFee_cli :: "('w, 'sk) requester \<Rightarrow> ('w, u64 \<times> u64) sm" where
  [simp]: "SuggestedRawFee_cli R = rq_suggestedRawFee R"
definition IssueRawTx_cli :: "('w, 'sk) requester \<Rightarrow> bytes \<Rightarrow> ('w, id) sm" where
  [simp]: "IssueRawTx_cli R = rq_issueRawTx R"
definition SuggestedFee_cli :: "('w, 'sk) requester \<Rightarrow> Input option \<Rightarrow> ('w, TypedData option \<times> u64) sm" where
  [simp]: "SuggestedFee_cli R = rq_suggestedFee R"
definition IssueTx_cli :: "('w, 'sk) requester \<Rightarrow> TypedData option \<Rightarrow> bytes \<Rightarrow> ('w, id) sm" where
  [simp]: "IssueTx_cli R = rq_issueTx R"
definition HasTx_cli :: "('w, 'sk) requester \<Rightarrow> id \<Rightarrow> ('w, bool) sm" where
  [simp]: "HasTx_cli R = rq_hasTx R"
definition RecentActivity_cli :: "('w, 'sk) requester \<Rightarrow> ('w, Activity list) sm" where
  [simp]: "RecentActivity_cli R = rq_recentActivity R"
definition GetUserFee_cli :: "('w, 'sk) requester \<Rightarrow> u64 \<Rightarrow> u64 \<Rightarrow> u64 \<Rightarrow> ('w, u64) sm" where
  [simp]: "GetUserFee_cli R = rq_getUserFee R"
definition GetStakerType_cli :: "('w, 'sk) requester \<Rightarrow> address \<Rightarrow> ('w, u64) sm" where
  [simp]: "GetStakerType_cli R = rq_getStakerType R"
definition GetChainCreateTime_cli :: "('w, 'sk) requester \<Rightarrow> ('w, u64) sm" where
  [simp]: "GetChainCreateTime_cli R = rq_getChainCreateTime R"
definition CreateShortID_cli :: "('w, 'sk) requester \<Rightarrow> ('w, short_id) sm" where
  [simp]: "CreateShortID_cli R = rq_createShortID R"
definition GetLocalParams_cli :: "('w, 'sk) requester \<Rightarrow> address \<Rightarrow> ('w, LocalParams option) sm" where
  [simp]: "GetLocalParams_cli R = rq_getLocalParams R"

definition Accepted_cli :: "('w, 'sk) requester \<Rightarrow> ('w, id) sm" where
  "Accepted_cli R = bindS (rq_lastAccepted R) (\<lambda>(height, blockID). retS blockID)"

definition Resolve_cli :: "lib \<Rightarrow> ('w, 'sk) requester \<Rightarrow> hash \<Rightarrow> ('w, bool \<times> bytes \<times> ValueMeta option) sm" where
  "Resolve_cli L R key =
     bindS (rq_resolve R key) (\<lambda>resp.
     if \<not> rr_Exists resp then retS (False, [], None)
     else if key \<noteq> ValueHash L (rr_Value resp) then throwS ErrIntegrityFailure
     else retS (True, rr_Value resp, rr_ValueMeta resp))"

text \<open>
  \<open>PollTx\<close> asks once a second until the transaction is there or the context is done; the
  error of a request is printed and dropped.
\<close>

fun PollTx :: "(id \<Rightarrow> ('w, bool) sm) \<Rightarrow> nat \<Rightarrow> id \<Rightarrow> ('w, bool) sm" where
  "PollTx hasTx 0 txID = throwS ctxErr"
| "PollTx hasTx (Suc n) txID =
     bindS (ignS (hasTx txID)) (\<lambda>r. if r = Some True then retS True else PollTx hasTx n txID)"

definition CalcReward_cli :: "('w, 'sk) requester \<Rightarrow> u64 \<Rightarrow> u64 \<Rightarrow> address \<Rightarrow> ('w, u64 \<times> u64 \<times> u64) sm" where
  "CalcReward_cli R stakerType endTime a =
     bindS (rq_calcReward R stakerType endTime a) (\<lambda>resp. retS (cr_Base resp, cr_Merit resp, cr_Yield resp))"

text \<open>\<open>GetNodes\<close> asks for any node at the address, confirmed or not, and takes the first.\<close>

definition GetNodes_cli :: "('w, 'sk) requester \<Rightarrow> address \<Rightarrow> ('w, APINode) sm" where
  "GetNodes_cli R a = bindS (rq_getNodes R a False) (\<lambda>nodes. liftS (first nodes))"

definition ImportKey_cli ::
  "('k, 'sk) keylib \<Rightarrow> ('w, 'sk) requester \<Rightarrow> string \<Rightarrow> string \<Rightarrow> bytes \<Rightarrow> ('w, unit) sm" where
  "ImportKey_cli K R userName userPass privateKey =
     bindS (liftS (wrapE ''to ToPrivateKey err '' (kl_ToPrivateKey K privateKey))) (\<lambda>sk.
     bindS (rq_importKey R userName userPass (Some sk)) (\<lambda>_. retS ()))"

text \<open>\<open>New\<close>.\<close>

definition client :: "lib \<Rightarrow> ('k, 'sk) keylib \<Rightarrow> ('w, 'sk) requester \<Rightarrow> 'w Client" where
  "client L K R = \<lparr>
     cl_Ping = Ping_cli R, cl_Network = Network_cli R, cl_Genesis = Genesis_cli R, cl_Accepted = Accepted_cli R,
     cl_Balance = Balance_cli R, cl_Resolve = Resolve_cli L R, cl_SuggestedRawFee = SuggestedRawFee_cli R,
     cl_IssueRawTx = IssueRawTx_cli R, cl_SuggestedFee = SuggestedFee_cli R, cl_IssueTx = IssueTx_cli R,
     cl_HasTx = HasTx_cli R, cl_PollTx = PollTx (HasTx_cli R), cl_RecentActivity = RecentActivity_cli R,
     cl_CalcReward = CalcReward_cli R, cl_GetUserFee = GetUserFee_cli R, cl_GetStakerType = GetStakerType_cli R,
     cl_GetChainCreateTime = GetChainCreateTime_cli R, cl_GetNodes = GetNodes_cli R,
     cl_CreateShortID = CreateShortID_cli R, cl_ImportKey = ImportKey_cli K R,
     cl_GetLocalParams = GetLocalParams_cli R \<rparr>"

section \<open>Signing and issuing\<close>

record Op =
  op_pollTx :: bool
  op_balance :: bool

type_synonym OpOption = "Op \<Rightarrow> Op"

definition applyOpts :: "OpOption list \<Rightarrow> Op" where
  "applyOpts opts = foldl (\<lambda>op opt. opt op) \<lparr> op_pollTx = False, op_balance = False \<rparr> opts"

definition WithPollTx :: OpOption where "WithPollTx op = op\<lparr>op_pollTx := True\<rparr>"
definition WithBalance :: OpOption where "WithBalance op = op\<lparr>op_balance := True\<rparr>"

text \<open>A private key, with the public key it holds.\<close>

record ecdsaKey =
  ek_D :: privkey
  ek_PublicKey :: pubkey

definition handleConfirmation ::
  "lib \<Rightarrow> nat \<Rightarrow> Op \<Rightarrow> 'w Client \<Rightarrow> id \<Rightarrow> ecdsaKey \<Rightarrow> ('w, unit) sm" where
  "handleConfirmation L ctx ret cli txID priv =
     bindS (if op_pollTx ret then bindS (cl_PollTx cli ctx txID) (\<lambda>_. retS ()) else retS ()) (\<lambda>_.
     if op_balance ret
     then bindS (cl_Balance cli (x_PubkeyToAddress L (ek_PublicKey priv))) (\<lambda>_. retS ())
     else retS ())"

definition SignIssueTx ::
  "lib \<Rightarrow> nat \<Rightarrow> 'w Client \<Rightarrow> Input option \<Rightarrow> ecdsaKey \<Rightarrow> OpOption list \<Rightarrow> ('w, id \<times> u64) sm" where
  "SignIssueTx L ctx cli input priv opts =
     bindS (cl_SuggestedFee cli input) (\<lambda>(td, txCost).
     bindS (liftS (wrapE ''failed to compute digest hash'' (bindE (ptrE td) (tdata_DigestHash L)))) (\<lambda>dh.
     bindS (liftS (Sign L dh (ek_D priv))) (\<lambda>sig.
     bindS (cl_IssueTx cli td sig) (\<lambda>txID.
     bindS (handleConfirmation L ctx (applyOpts opts) cli txID priv) (\<lambda>_.
     retS (txID, txCost))))))"

text \<open>
  The base of a transaction that is built locally: the price is left as it is, which is zero,
  when the transaction has no fee units.
\<close>

definition fillBase :: "Genesis \<Rightarrow> id \<Rightarrow> u64 \<Rightarrow> u64 \<Rightarrow> UnsignedTransaction \<Rightarrow> err + UnsignedTransaction" where
  "fillBase g la price blockCost utx =
     bindE (SetBlockID la utx) (\<lambda>utx.
     bindE (SetMagic (g_Magic g) utx) (\<lambda>utx.
     bindE (FeeUnits g (u_body utx)) (\<lambda>fu.
     if fu \<noteq> 0 then SetPrice (price + blockCost div fu) utx else Inr utx)))"

definition SignIssueRawTx ::
  "lib \<Rightarrow> Transaction codec \<Rightarrow> nat \<Rightarrow> 'w Client \<Rightarrow> UnsignedTransaction \<Rightarrow> ecdsaKey \<Rightarrow> OpOption list \<Rightarrow>
   ('w, id \<times> u64) sm" where
  "SignIssueRawTx L CT ctx cli utx priv opts =
     bindS (cl_Genesis cli) (\<lambda>g.
     bindS (cl_Accepted cli) (\<lambda>la.
     bindS (cl_SuggestedRawFee cli) (\<lambda>(price, blockCost).
     bindS (liftS (ptrE g)) (\<lambda>g.
     bindS (liftS (fillBase g la price blockCost utx)) (\<lambda>utx.
     bindS (liftS (DigestHash L utx)) (\<lambda>dh.
     bindS (liftS (Sign L dh (ek_D priv))) (\<lambda>sig.
     bindS (liftS (Transaction_Init L CT (NewTx utx sig))) (\<lambda>tx.
     bindS (cl_IssueRawTx cli (tx_bytes tx)) (\<lambda>txID.
     bindS (handleConfirmation L ctx (applyOpts opts) cli txID priv) (\<lambda>_.
     bindS (liftS (GetPrice utx)) (\<lambda>p.
     bindS (liftS (FeeUnits g (u_body utx))) (\<lambda>fu.
     retS (txID, p * fu)))))))))))))"

section \<open>Polling\<close>

text \<open>Once a poll finds the transaction, a context that allows more polls changes nothing.\<close>

lemma PollTx_enough:
  "PollTx hasTx n txID w = (Inr b, w') \<Longrightarrow> n \<le> m \<Longrightarrow> PollTx hasTx m txID w = (Inr b, w')"
proof (induction n arbitrary: m w)
  case (Suc n)
  then obtain k where m: "m = Suc k" "n \<le> k" by (cases m) auto
  from Suc.prems(1) obtain r w1 where r: "ignS (hasTx txID) w = (Inr r, w1)"
    and rest: "(if r = Some True then retS True else PollTx hasTx n txID) w1 = (Inr b, w')"
    by (auto simp: bindS_iff)
  have "(if r = Some True then retS True else PollTx hasTx k txID) w1 = (Inr b, w')"
    using rest Suc.IH [OF _ m(2)] by (auto split: if_splits)
  then show ?case by (auto simp: m(1) bindS_iff r)
qed (simp add: throwS_def)

text \<open>The states the polls go through while the transaction is not there.\<close>

fun pollStates :: "(id \<Rightarrow> ('w, bool) sm) \<Rightarrow> id \<Rightarrow> nat \<Rightarrow> 'w \<Rightarrow> 'w" where
  "pollStates hasTx txID 0 w = w"
| "pollStates hasTx txID (Suc n) w = pollStates hasTx txID n (snd (hasTx txID w))"

lemma ignS_True: "ignS m w = (Inr (Some True), w') \<longleftrightarrow> m w = (Inr True, w')"
  by (auto simp: ignS_def split: prod.splits sum.splits if_splits)

lemma PollTx_sound:
  "PollTx hasTx n txID w = (Inr b, w') \<Longrightarrow>
   b \<and> (\<exists>k < n. hasTx txID (pollStates hasTx txID k w) = (Inr True, w'))"
proof (induction n arbitrary: w)
  case (Suc n)
  from Suc.prems obtain r w1 where r: "ignS (hasTx txID) w = (Inr r, w1)"
    and rest: "(if r = Some True then retS True else PollTx hasTx n txID) w1 = (Inr b, w')"
    by (auto simp: bindS_iff)
  have w1: "w1 = snd (hasTx txID w)" using r by (metis snd_conv snd_ignS)
  show ?case
  proof (cases "r = Some True")
    case True
    then have "hasTx txID (pollStates hasTx txID 0 w) = (Inr True, w')" "b"
      using r rest by (auto simp: ignS_True retS_def)
    then show ?thesis by blast
  next
    case False
    then have "PollTx hasTx n txID w1 = (Inr b, w')" using rest by simp
    from Suc.IH [OF this] obtain k where "b" "k < n"
      "hasTx txID (pollStates hasTx txID k w1) = (Inr True, w')" by blast
    then show ?thesis unfolding w1 by (intro conjI exI [of _ "Suc k"]) simp_all
  qed
qed (simp add: throwS_def)

lemma PollTx_complete:
  assumes "hasTx txID (pollStates hasTx txID k w) = (Inr True, w')" and "k < n"
    and "\<And>j. j < k \<Longrightarrow> case fst (hasTx txID (pollStates hasTx txID j w)) of Inl e \<Rightarrow> \<not> is_panic e | Inr b \<Rightarrow> \<not> b"
  shows "PollTx hasTx n txID w = (Inr True, w')"
  using assms
proof (induction k arbitrary: n w)
  case 0
  then show ?case by (cases n) (auto simp: bindS_iff ignS_True retS_def)
next
  case (Suc k)
  obtain m where n: "n = Suc m" "k < m" using Suc.prems(2) by (cases n) auto
  let ?w1 = "snd (hasTx txID w)"
  have "PollTx hasTx m txID ?w1 = (Inr True, w')"
  proof (rule Suc.IH [OF _ n(2)])
    show "hasTx txID (pollStates hasTx txID k ?w1) = (Inr True, w')" using Suc.prems(1) by simp
  next
    fix j assume "j < k"
    then show "case fst (hasTx txID (pollStates hasTx txID j ?w1)) of Inl e \<Rightarrow> \<not> is_panic e | Inr b \<Rightarrow> \<not> b"
      using Suc.prems(3) [of "Suc j"] by simp
  qed
  moreover have "\<exists>r. ignS (hasTx txID) w = (Inr r, ?w1) \<and> r \<noteq> Some True"
    using Suc.prems(3) [of 0] by (auto simp: ignS_def split: prod.splits sum.splits)
  ultimately show ?case by (auto simp: n(1) bindS_iff)
qed

end
