(* ===== verification/Tree.thy ===== *)
theory Tree
  imports Client
begin

text \<open>
  \<open>tree/tree.go\<close>: a file as a tree of values of the chain. \<open>Upload\<close> stores the chunks of a
  file and then a root that lists their keys, \<open>Download\<close> reads them back. The JSON form of a
  root is a codec; the file that is read and the one that is written are parameters.
\<close>

section \<open>Files\<close>

text \<open>
  An \<open>io.Reader\<close> is the list of what its reads return, the bytes and the error; after the last
  one a read gives no byte and \<open>io.EOF\<close>. An \<open>io.Writer\<close> of state \<open>'f\<close> is its \<open>Write\<close>.
\<close>

type_synonym reads = "(bytes \<times> err option) list"

definition EOF :: err where "EOF = ErrExt ''EOF''"

text \<open>What an open file returns to reads into a buffer of \<open>n\<close> bytes.\<close>

function chunks :: "nat \<Rightarrow> bytes \<Rightarrow> bytes list" where
  "chunks n f = (if n = 0 \<or> f = [] then [] else take n f # chunks n (drop n f))"
  by auto
termination by (relation "measure (\<lambda>(n, f). length f)") auto

declare chunks.simps [simp del]

definition file_reads :: "nat \<Rightarrow> bytes \<Rightarrow> reads" where
  "file_reads n f = map (\<lambda>c. (c, None)) (chunks n f)"

definition fileWriter :: "bytes \<Rightarrow> (bytes, unit) sm" where
  "fileWriter b = modS (\<lambda>f. f @ b)"

lemma chunks_simps [simp]: "chunks 0 f = []" "chunks n [] = []"
  by (simp_all add: chunks.simps)

lemma chunks_step: "0 < n \<Longrightarrow> f \<noteq> [] \<Longrightarrow> chunks n f = take n f # chunks n (drop n f)"
  by (subst chunks.simps) simp

lemma concat_chunks: "0 < n \<Longrightarrow> concat (chunks n f) = f"
  by (induction n f rule: chunks.induct) (subst chunks.simps, simp)

section \<open>Roots\<close>

record Root =
  rt_Contents :: bytes
  rt_Children :: "hash list"

definition ErrEmpty :: err where "ErrEmpty = Errorf ''file is empty''"
definition ErrMissing :: err where "ErrMissing = Errorf ''required file is missing''"

section \<open>Upload\<close>

text \<open>The variables of \<open>Upload\<close>; \<open>up_chunk\<close> is the buffer, which keeps the bytes of earlier reads.\<close>

record upl =
  up_hashes :: "hash list"
  up_chunk :: bytes
  up_totalCost :: u64
  up_uploaded :: "hash list"

definition putValue ::
  "lib \<Rightarrow> Transaction codec \<Rightarrow> nat \<Rightarrow> 'w Client \<Rightarrow> ecdsaKey \<Rightarrow> bytes \<Rightarrow> ('w, id \<times> u64) sm" where
  "putValue L CT ctx cli priv val =
     SignIssueRawTx L CT ctx cli \<lparr> u_BaseTx = Some emptyBaseTx, u_body = TSet \<lparr> set_Value = val \<rparr> \<rparr> priv [WithPollTx]"

text \<open>
  One chunk: skipped when this call has uploaded it, or when the chain has it. The error of
  that question is dropped.
\<close>

definition putChunk ::
  "lib \<Rightarrow> 'w Client \<Rightarrow> (bytes \<Rightarrow> ('w, id \<times> u64) sm) \<Rightarrow> upl \<Rightarrow> ('w, upl) sm" where
  "putChunk L cli put s =
     (let k = ValueHash L (up_chunk s); done = s\<lparr>up_hashes := up_hashes s @ [k], up_uploaded := k # up_uploaded s\<rparr> in
      if k \<in> set (up_uploaded s) then retS (s\<lparr>up_hashes := up_hashes s @ [k]\<rparr>)
      else
        bindS (ignS (cl_Resolve cli k)) (\<lambda>r.
        if (case r of Some (exists, _, _) \<Rightarrow> exists | None \<Rightarrow> False) then retS done
        else bindS (put (up_chunk s)) (\<lambda>(txID, cost). retS (done\<lparr>up_totalCost := up_totalCost s + cost\<rparr>))))"

text \<open>The loop over the reads; a read into the buffer overwrites its front.\<close>

fun uploadLoop ::
  "lib \<Rightarrow> 'w Client \<Rightarrow> (bytes \<Rightarrow> ('w, id \<times> u64) sm) \<Rightarrow> nat \<Rightarrow> reads \<Rightarrow> upl \<Rightarrow> ('w, upl) sm" where
  "uploadLoop L cli put chunkSize [] s = retS s"
| "uploadLoop L cli put chunkSize ((b, e) # rs) s =
     (let s = s\<lparr>up_chunk := b @ drop (length b) (up_chunk s)\<rparr> in
      if e = Some EOF \<or> b = [] then retS s
      else if e \<noteq> None then throwS (Errorf ''read error'')
      else if length b < chunkSize then
        if up_hashes s = [] then retS (s\<lparr>up_chunk := b\<rparr>) else putChunk L cli put (s\<lparr>up_chunk := b\<rparr>)
      else bindS (putChunk L cli put s) (uploadLoop L cli put chunkSize rs))"

definition Upload ::
  "lib \<Rightarrow> Transaction codec \<Rightarrow> Root codec \<Rightarrow> nat \<Rightarrow> 'w Client \<Rightarrow> ecdsaKey \<Rightarrow> reads \<Rightarrow> nat \<Rightarrow> ('w, hash) sm" where
  "Upload L CT RC ctx cli priv f chunkSize =
     (let put = putValue L CT ctx cli priv in
      bindS (uploadLoop L cli put chunkSize f
        \<lparr> up_hashes = [], up_chunk = replicate chunkSize 0, up_totalCost = 0, up_uploaded = [] \<rparr>) (\<lambda>s.
      bindS (failIf (up_hashes s = [] \<and> up_chunk s = []) ErrEmpty) (\<lambda>_.
      let r = (if up_hashes s = [] then \<lparr> rt_Contents = up_chunk s, rt_Children = [] \<rparr>
               else \<lparr> rt_Contents = [], rt_Children = up_hashes s \<rparr>) in
      bindS (liftS (enc RC r)) (\<lambda>rb.
      bindS (put rb) (\<lambda>(txID, cost).
      retS (ValueHash L rb))))))"

section \<open>Download\<close>

text \<open>The value at a key that has to be there.\<close>

definition fetch :: "'w Client \<Rightarrow> hash \<Rightarrow> ('w, bytes) sm" where
  "fetch cli h = bindS (cl_Resolve cli h) (\<lambda>(exists, b, _). if exists then retS b else throwS ErrMissing)"

definition onCli :: "('w, 'a) sm \<Rightarrow> ('w \<times> 'f, 'a) sm" where
  "onCli m = zoomS fst (\<lambda>w (_, f). (w, f)) m"

definition onFile :: "('f, 'a) sm \<Rightarrow> ('w \<times> 'f, 'a) sm" where
  "onFile m = zoomS snd (\<lambda>f (w, _). (w, f)) m"

definition Download ::
  "Root codec \<Rightarrow> 'w Client \<Rightarrow> hash \<Rightarrow> (bytes \<Rightarrow> ('f, unit) sm) \<Rightarrow> ('w \<times> 'f, unit) sm" where
  "Download RC cli rk write =
     bindS (onCli (fetch cli rk)) (\<lambda>rb.
     bindS (liftS (dec RC rb)) (\<lambda>r.
     if rt_Contents r \<noteq> [] then onFile (write (rt_Contents r))
     else if rt_Children r = [] then throwS ErrEmpty
     else forS (rt_Children r) (\<lambda>h. bindS (onCli (fetch cli h)) (\<lambda>b. onFile (write b)))))"

lemma onCli_iff [sm_iff]: "onCli m (w, f) = (Inr x, s) \<longleftrightarrow> (\<exists>w'. m w = (Inr x, w') \<and> s = (w', f))"
  by (auto simp: onCli_def sm_iff)

lemma onFile_iff [sm_iff]: "onFile m (w, f) = (Inr x, s) \<longleftrightarrow> (\<exists>f'. m f = (Inr x, f') \<and> s = (w, f'))"
  by (auto simp: onFile_def sm_iff)

section \<open>What an upload stores\<close>

text \<open>The root of a file: a short one is kept in the root itself.\<close>

definition rootOf :: "lib \<Rightarrow> nat \<Rightarrow> bytes \<Rightarrow> Root" where
  "rootOf L n f =
     (if length f < n then \<lparr> rt_Contents = f, rt_Children = [] \<rparr>
      else \<lparr> rt_Contents = [], rt_Children = map (ValueHash L) (chunks n f) \<rparr>)"

text \<open>The values a file is made of on the chain.\<close>

definition filePieces :: "lib \<Rightarrow> Root codec \<Rightarrow> nat \<Rightarrow> bytes \<Rightarrow> bytes list" where
  "filePieces L RC n f = (if length f < n then [] else chunks n f) @
     (case enc RC (rootOf L n f) of Inl _ \<Rightarrow> [] | Inr rb \<Rightarrow> [rb])"

lemma putChunk_hashes:
  "putChunk L cli put s w = (Inr s', w') \<Longrightarrow>
   up_hashes s' = up_hashes s @ [ValueHash L (up_chunk s)] \<and> up_chunk s' = up_chunk s"
  by (auto simp: putChunk_def Let_def sm_iff split: if_splits)

text \<open>A file of at least one chunk, and what is left of it after some chunks.\<close>

lemma uploadLoop_file:
  assumes "0 < n" and "length (up_chunk s) = n" and "up_hashes s \<noteq> [] \<or> n \<le> length f"
    and "uploadLoop L cli put n (file_reads n f) s w = (Inr s', w')"
  shows "up_hashes s' = up_hashes s @ map (ValueHash L) (chunks n f)"
  using assms
proof (induction n f arbitrary: s w rule: chunks.induct)
  case (1 n f)
  show ?case
  proof (cases "f = []")
    case True
    then show ?thesis using "1.prems" by (simp add: file_reads_def retS_def)
  next
    case False
    note ch = chunks_step [OF "1.prems"(1) False]
    let ?s = "s\<lparr>up_chunk := take n f\<rparr>"
    show ?thesis
    proof (cases "length f < n")
      case True
      then have "putChunk L cli put ?s w = (Inr s', w')"
        using "1.prems" False by (simp add: file_reads_def ch Let_def split: if_splits)
      then show ?thesis using putChunk_hashes True by (force simp: ch)
    next
      case long: False
      then obtain s1 w1 where s1: "putChunk L cli put ?s w = (Inr s1, w1)"
        and rest: "uploadLoop L cli put n (file_reads n (drop n f)) s1 w1 = (Inr s', w')"
        using "1.prems" False by (auto simp: file_reads_def ch Let_def bindS_iff split: if_splits)
      have h: "up_hashes s1 = up_hashes s @ [ValueHash L (take n f)]" "up_chunk s1 = take n f"
        using putChunk_hashes [OF s1] by simp_all
      have "up_hashes s' = up_hashes s1 @ map (ValueHash L) (chunks n (drop n f))"
        using "1.IH" [OF _ "1.prems"(1) _ _ rest] h long "1.prems"(1) False by simp
      then show ?thesis by (simp add: h ch)
    qed
  qed
qed

lemma uploadLoop_small:
  assumes "f \<noteq> []" and "length f < n" and "up_hashes s = []" and "length (up_chunk s) = n"
  shows "uploadLoop L cli put n (file_reads n f) s w = (Inr (s\<lparr>up_chunk := f\<rparr>), w)"
  using assms by (simp add: file_reads_def chunks_step Let_def retS_def)

lemma bindS_retS: "bindS (retS x) f = f x"
  by (rule ext) (simp add: bindS_def retS_def)

lemma liftS_Inr: "liftS (Inr x) = retS x"
  by (simp add: liftS_def retS_def)

text \<open>A reader that leaves one buffer to store in the root.\<close>

lemma Upload_root:
  assumes "uploadLoop L cli (putValue L CT ctx cli priv) n rs
      \<lparr> up_hashes = [], up_chunk = replicate n 0, up_totalCost = 0, up_uploaded = [] \<rparr> =
      retS \<lparr> up_hashes = [], up_chunk = c, up_totalCost = 0, up_uploaded = [] \<rparr>" and "c \<noteq> []"
  shows "Upload L CT RC ctx cli priv rs n =
     bindS (liftS (enc RC \<lparr> rt_Contents = c, rt_Children = [] \<rparr>)) (\<lambda>rb.
     bindS (putValue L CT ctx cli priv rb) (\<lambda>_. retS (ValueHash L rb)))"
  using assms by (simp add: Upload_def Let_def bindS_retS failIf_def case_prod_beta')

lemma Upload_small:
  assumes "f \<noteq> []" and "length f < n"
  shows "Upload L CT RC ctx cli priv (file_reads n f) n =
     bindS (liftS (enc RC \<lparr> rt_Contents = f, rt_Children = [] \<rparr>)) (\<lambda>rb.
     bindS (putValue L CT ctx cli priv rb) (\<lambda>_. retS (ValueHash L rb)))"
  by (rule Upload_root [OF _ assms(1)]) (rule ext, simp add: uploadLoop_small [OF assms] retS_def)

lemma Upload_file:
  assumes "0 < n" and "f \<noteq> []" and "Upload L CT RC ctx cli priv (file_reads n f) n w = (Inr rk, w')"
  shows "\<exists>rb. enc RC (rootOf L n f) = Inr rb \<and> rk = ValueHash L rb"
proof -
  let ?s = "\<lparr> up_hashes = [], up_chunk = replicate n 0, up_totalCost = 0, up_uploaded = [] \<rparr>"
  let ?put = "putValue L CT ctx cli priv"
  obtain s w1 rb where s: "uploadLoop L cli ?put n (file_reads n f) ?s w = (Inr s, w1)"
    and rb: "enc RC (if up_hashes s = [] then \<lparr> rt_Contents = up_chunk s, rt_Children = [] \<rparr>
               else \<lparr> rt_Contents = [], rt_Children = up_hashes s \<rparr>) = Inr rb"
    and rk: "rk = ValueHash L rb"
    using assms(3) by (auto simp: Upload_def Let_def sm_iff)
  show ?thesis
  proof (cases "length f < n")
    case True
    then have "s = ?s\<lparr>up_chunk := f\<rparr>" using s uploadLoop_small [of f n ?s L cli ?put w] assms(2) by simp
    then show ?thesis using rb rk True by (simp add: rootOf_def)
  next
    case False
    then have "up_hashes s = map (ValueHash L) (chunks n f)"
      using uploadLoop_file [OF assms(1) _ _ s] by simp
    moreover have "chunks n f \<noteq> []" using assms(1,2) by (simp add: chunks_step)
    ultimately show ?thesis using rb rk False by (simp add: rootOf_def)
  qed
qed

section \<open>What a download reads\<close>

text \<open>Every value a download writes has the key it was asked for.\<close>

lemma fetch_hash:
  assumes "fetch (client L K R) h w = (Inr b, w')"
  shows "ValueHash L b = h \<and> (\<exists>resp. rq_resolve R h w = (Inr resp, w') \<and> rr_Value resp = b)"
  using assms by (auto simp: fetch_def client_def Resolve_cli_def sm_iff split: if_splits)

lemma download_children:
  "forS hs (\<lambda>h. bindS (onCli (fetch (client L K R) h)) (\<lambda>b. onFile (fileWriter b))) (w, out) = (Inr (), (w', out')) \<Longrightarrow>
   \<exists>bs. out' = out @ concat bs \<and> map (ValueHash L) bs = hs \<and>
     (\<forall>b \<in> set bs. \<exists>h w resp w'. rq_resolve R h w = (Inr resp, w') \<and> rr_Value resp = b)"
proof (induction hs arbitrary: w out)
  case Nil
  then show ?case by (simp add: retS_def)
next
  case (Cons h hs)
  then obtain b w1 where b: "fetch (client L K R) h w = (Inr b, w1)"
    and rest: "forS hs (\<lambda>h. bindS (onCli (fetch (client L K R) h)) (\<lambda>b. onFile (fileWriter b))) (w1, out @ b) =
      (Inr (), (w', out'))"
    by (auto simp: sm_iff fileWriter_def)
  from Cons.IH [OF rest] obtain bs where bs: "out' = (out @ b) @ concat bs" "map (ValueHash L) bs = hs"
    "\<forall>b \<in> set bs. \<exists>h w resp w'. rq_resolve R h w = (Inr resp, w') \<and> rr_Value resp = b" by blast
  show ?case
    using bs fetch_hash [OF b] by (intro exI [of _ "b # bs"]) auto
qed

section \<open>A source of values\<close>

text \<open>
  \<open>holds w k v\<close>: in the world \<open>w\<close> the value \<open>v\<close> is at the key \<open>k\<close>. A client whose \<open>Resolve\<close>
  finds what is held, and leaves it there, lets a download end with the whole file.
\<close>

locale value_source =
  fixes holds :: "'w \<Rightarrow> hash \<Rightarrow> bytes \<Rightarrow> bool"
    and cli :: "'w Client"
  assumes resolve_found: "holds w k v \<Longrightarrow>
    \<exists>m w'. cl_Resolve cli k w = (Inr (True, v, m), w') \<and> (\<forall>k' v'. holds w k' v' \<longrightarrow> holds w' k' v')"
begin

lemma fetch_found:
  assumes "holds w k v"
  shows "\<exists>w'. fetch cli k w = (Inr v, w') \<and> (\<forall>k' v'. holds w k' v' \<longrightarrow> holds w' k' v')"
proof -
  obtain m w' where "cl_Resolve cli k w = (Inr (True, v, m), w')" "\<forall>k' v'. holds w k' v' \<longrightarrow> holds w' k' v'"
    using resolve_found [OF assms] by blast
  then show ?thesis by (auto simp: fetch_def sm_iff)
qed

lemma children_found:
  "(\<forall>c \<in> set cs. holds w (key c) c) \<Longrightarrow>
   \<exists>w'. forS (map key cs) (\<lambda>h. bindS (onCli (fetch cli h)) (\<lambda>b. onFile (fileWriter b))) (w, out) =
     (Inr (), (w', out @ concat cs))"
proof (induction cs arbitrary: w out)
  case Nil
  then show ?case by (simp add: retS_def)
next
  case (Cons c cs)
  then obtain w1 where w1: "fetch cli (key c) w = (Inr c, w1)" "\<forall>k v. holds w k v \<longrightarrow> holds w1 k v"
    using fetch_found by (meson list.set_intros(1))
  then have "\<forall>c \<in> set cs. holds w1 (key c) c" using Cons.prems by simp
  from Cons.IH [OF this, of "out @ c"] show ?case
    using w1(1) by (auto simp: sm_iff fileWriter_def)
qed

lemma download_found:
  assumes "codec_ok RC" and "0 < n" and "f \<noteq> []" and "enc RC (rootOf L n f) = Inr rb"
    and pieces: "\<forall>c \<in> set (filePieces L RC n f). holds w (ValueHash L c) c"
  shows "\<exists>w'. Download RC cli (ValueHash L rb) fileWriter (w, out) = (Inr (), (w', out @ f))"
proof -
  obtain w1 where w1: "fetch cli (ValueHash L rb) w = (Inr rb, w1)" "\<forall>k v. holds w k v \<longrightarrow> holds w1 k v"
    using fetch_found [of w "ValueHash L rb" rb] pieces assms(4) by (auto simp: filePieces_def)
  have d: "dec RC rb = Inr (rootOf L n f)" by (rule codec_okD [OF assms(1,4)])
  show ?thesis
  proof (cases "length f < n")
    case True
    then have "Download RC cli (ValueHash L rb) fileWriter (w, out) = (Inr (), (w1, out @ f))"
      using assms(3) w1(1) d by (simp add: Download_def rootOf_def sm_iff fileWriter_def)
    then show ?thesis by blast
  next
    case False
    then have "\<forall>c \<in> set (chunks n f). holds w1 (ValueHash L c) c" using pieces w1(2) by (simp add: filePieces_def)
    from children_found [OF this, of out]
    obtain w' where "forS (map (ValueHash L) (chunks n f))
        (\<lambda>h. bindS (onCli (fetch cli h)) (\<lambda>b. onFile (fileWriter b))) (w1, out) = (Inr (), (w', out @ f))"
      by (auto simp: concat_chunks [OF assms(2)])
    moreover have "chunks n f \<noteq> []" using assms(2,3) by (simp add: chunks_step)
    ultimately have "Download RC cli (ValueHash L rb) fileWriter (w, out) = (Inr (), (w', out @ f))"
      using False w1(1) d by (simp add: Download_def rootOf_def sm_iff)
    then show ?thesis by blast
  qed
qed

end

end
