(* ===== verification/ValueStore.thy ===== *)
theory ValueStore
  imports BlockProps PublicService
begin

text \<open>
  What is never lost: the entries of the database under the prefixes of blocks, transactions
  and values. No transaction overwrites a value that is there, whatever else it writes, so a
  value set in an accepted block is found by the API from then on.
\<close>

section \<open>Entries that the tables leave alone\<close>

text \<open>The prefixes of blocks, transactions, linked values and values are the first four.\<close>

definition low :: "bytes \<Rightarrow> bool" where
  "low k \<longleftrightarrow> (\<exists>c r. k = c # r \<and> c < balancePrefix)"

definition kept :: "'db dbops \<Rightarrow> bytes \<Rightarrow> err + bytes \<Rightarrow> 'db \<times> 's \<Rightarrow> bool" where
  "kept D k r w \<longleftrightarrow> db_Get D (fst w) k = r"

lemma low_neq [simp]:
  assumes "low k"
  shows "PrefixBalanceKey a \<noteq> k" "PrefixStakeKey a \<noteq> k" "PrefixStaker4Key t a \<noteq> k" "PrefixPowKey t a \<noteq> k"
    "PrefixRewardKey a \<noteq> k" "RewardGlobalPrefix \<noteq> k" "PrefixYieldsKey \<noteq> k" "PrefixDetailsKey a \<noteq> k"
    "PrefixUsersKey a \<noteq> k" "PrefixUserTypesKey i \<noteq> k" "PrefixSysParamsKey \<noteq> k" "PrefixActionsKey s \<noteq> k"
    "lastAccepted \<noteq> k"
  using assms by (auto simp: low_def key_defs)

lemma low_keys [simp]:
  "low (ValueKey h)" "low (PrefixTxKey i)" "low (PrefixTxValueKey i)" "low (PrefixBlockKey i)"
  by (simp_all add: low_def key_defs)

lemma not_low [simp]: "\<not> low (PrefixBalanceKey a)" "\<not> low (PrefixStakeKey a)"
  by (simp_all add: low_def key_defs)

lemma value_keys_neq [simp]:
  "PrefixTxKey i \<noteq> ValueKey h" "PrefixTxValueKey i \<noteq> ValueKey h" "PrefixBlockKey i \<noteq> ValueKey h"
  "PrefixBlockKey i \<noteq> PrefixTxValueKey j" "ValueKey h \<noteq> PrefixTxValueKey j" "lastAccepted \<noteq> ValueKey h"
  "ValueKey h = ValueKey h' \<longleftrightarrow> h = h'"
  by (simp_all add: key_defs)

lemma kept_dbPut: "db_ok D \<Longrightarrow> k' \<noteq> k \<Longrightarrow> pres (kept D k r) (dbPut D k' v)"
  by (auto simp: pres_def kept_def dbPut_def db_ok_put split: sum.split)

lemma kept_dbDelete: "db_ok D \<Longrightarrow> k' \<noteq> k \<Longrightarrow> pres (kept D k r) (dbDelete D k')"
  by (auto simp: pres_def kept_def dbDelete_def db_ok_delete split: sum.split)

lemma kept_modC: "pres (kept D k r) (modC f)"
  by (auto simp: pres_def kept_def modC_def modS_def)

lemma kept_onC: "pres (kept D k r) m \<Longrightarrow> pres (kept D k r) (onC g p m)"
  unfolding onC_def by (erule pres_zoomS) (auto simp: kept_def)

lemma kept_on:
  "pres (kept D k r) m1 \<Longrightarrow> pres (kept D k r) (onStakers m1)"
  "pres (kept D k r) m2 \<Longrightarrow> pres (kept D k r) (onPows m2)"
  "pres (kept D k r) m3 \<Longrightarrow> pres (kept D k r) (onRewards m3)"
  "pres (kept D k r) m4 \<Longrightarrow> pres (kept D k r) (onYields m4)"
  "pres (kept D k r) m5 \<Longrightarrow> pres (kept D k r) (onUsers m5)"
  "pres (kept D k r) m6 \<Longrightarrow> pres (kept D k r) (onDetails m6)"
  "pres (kept D k r) m7 \<Longrightarrow> pres (kept D k r) (onActions m7)"
  "pres (kept D k r) m8 \<Longrightarrow> pres (kept D k r) (onParams m8)"
  by (simp_all add: on_defs(2-9) kept_onC)

lemma kept_onDB: "(\<And>d. db_Get D d k = r \<Longrightarrow> db_Get D (snd (m d)) k = r) \<Longrightarrow> pres (kept D k r) (onDB m)"
  unfolding onDB_def by (rule pres_zoomS [where Q = "\<lambda>d. db_Get D d k = r"]) (auto simp: pres_def kept_def)

lemma pres_sum: "(\<And>e. pres P (f e)) \<Longrightarrow> (\<And>x. pres P (g x)) \<Longrightarrow> pres P (case r of Inl e \<Rightarrow> f e | Inr x \<Rightarrow> g x)"
  by (cases r) auto

lemma get_putD: "db_ok D \<Longrightarrow> k' \<noteq> k \<Longrightarrow> db_Get D (snd (putD D k' v d)) k = db_Get D d k"
  by (auto simp: putD_def db_ok_put split: sum.split)

section \<open>The operations of the tables\<close>

lemmas table_op_defs = PutStaker_def storeStaker_def DelStaker_def PutPow_def DelPow_def UpdateOwner_def
  storeReward_def UpdateGlobal_def PutDetail_def PutAction_def DelAction_def AddUserType_def
  storeUserType_def PutUser_def ModifyYields_def ModifyParams_def

lemma kept_ops:
  assumes "db_ok D" and "low k"
  shows "pres (kept D k r) (PutStaker D c1 sm)" "pres (kept D k r) (DelStaker D t a)"
    "pres (kept D k r) (PutPow D c2 t pr)" "pres (kept D k r) (UpdateOwner D c3 rw)"
    "pres (kept D k r) (UpdateGlobal D c4 gl)" "pres (kept D k r) (PutDetail D c5 a dm)"
    "pres (kept D k r) (PutAction D c6 i am)" "pres (kept D k r) (DelAction D i)"
    "pres (kept D k r) (AddUserType D c7 ut)" "pres (kept D k r) (PutUser D c8 um)"
    "pres (kept D k r) (ModifyYields D c9 y txID bt)" "pres (kept D k r) (ModifyParams D c10 key nv txID bt)"
  unfolding table_op_defs Let_def
  using assms by (intro pres_intro pres_sum kept_modC kept_dbPut kept_dbDelete; simp)+

lemma kept_GetUserMeta:
  "pres (kept D k r) (\<lambda>(d, us). case GetUserMeta R D' C d a us of (x, us') \<Rightarrow> (x, (d, us')))"
  by (auto simp: pres_def kept_def split: prod.splits)

lemma kept_pay:
  assumes "db_ok (e_D E)" and "low k"
  shows "pres (kept (e_D E) k r) (pay E a add x)" "pres (kept (e_D E) k r) (payStake E a add x)"
  unfolding pay_def payStake_def
  by (intro pres_intro kept_onDB; use assms in
      \<open>auto simp: ModifyBalance_def ModifyStakeBalance_def SetBalance_def SetStakeBalance_def sm_defs db_ok_put
        split: sum.splits prod.splits if_splits\<close>)+

lemmas kept_base = pres_intro pres_sum kept_on kept_onC kept_modC kept_ops kept_GetUserMeta kept_pay

lemma kept_deals:
  assumes "db_ok (e_D E)" and "low k"
  shows "pres (kept (e_D E) k r) (UpdateStakerReward E t a txID e)"
    "pres (kept (e_D E) k r) (UpdateFoundationReward E a txID e)"
    "pres (kept (e_D E) k r) (UpdateNodeParams E dm)"
    "pres (kept (e_D E) k r) (DealAddUserTx E txID bt user)"
  unfolding UpdateStakerReward_def updateOneReward_def UpdateFoundationReward_def UpdateNodeParams_def
    DealAddUserTx_def Let_def
  by (intro kept_base assms)+

lemma kept_stakes:
  assumes "db_ok (e_D E)" and "low k"
  shows "pres (kept (e_D E) k r) (DealStakeTx E sm)" "pres (kept (e_D E) k r) (DealUnStakeTx E t a txID e)"
  unfolding DealStakeTx_def DealUnStakeTx_def
  by (intro kept_base kept_deals assms)+

lemmas kept_tx = kept_base kept_deals kept_stakes

section \<open>Values persist\<close>

text \<open>A value that is there is not set again.\<close>

lemma kept_SetTx:
  assumes "db_ok (e_D E)"
  shows "pres (kept (e_D E) (ValueKey h) (Inr b)) (SetTx_Execute E CV s t)"
proof (rule presI)
  fix w :: "'a \<times> 'b samaState" assume w: "kept (e_D E) (ValueKey h) (Inr b) w"
  obtain d u where du: "w = (d, u)" by fastforce
  show "kept (e_D E) (ValueKey h) (Inr b) (snd (SetTx_Execute E CV s t w))"
    using w assms
    by (auto simp: du kept_def SetTx_Execute_def Let_def onDB_def sm_defs GetValueMeta_def PutKey_def putD_def
        db_ok_put split: sum.splits option.splits if_splits)
qed

lemmas Execute_defs = TransferTx_Execute_def StakeTx_Execute_def UnStakeTx_Execute_def ClaimTx_Execute_def
  RegisterTx_Execute_def RefreshTx_Execute_def AddUserTx_Execute_def GovernTx_Execute_def VoteTx_Execute_def
  WithdrawnTx_Execute_def ProofTx_Execute_def ProposalTx_Execute_def

lemma kept_kinds:
  assumes "db_ok (e_D E)" and "low k"
  shows "pres (kept (e_D E) k r) (TransferTx_Execute E x1 t)" "pres (kept (e_D E) k r) (StakeTx_Execute E now x2 t)"
    "pres (kept (e_D E) k r) (UnStakeTx_Execute E now x3 t)" "pres (kept (e_D E) k r) (ClaimTx_Execute E now x4 t)"
    "pres (kept (e_D E) k r) (RegisterTx_Execute E x5 t)" "pres (kept (e_D E) k r) (RefreshTx_Execute E x6 t)"
    "pres (kept (e_D E) k r) (AddUserTx_Execute E now x7 t)" "pres (kept (e_D E) k r) (GovernTx_Execute E now x8 t)"
    "pres (kept (e_D E) k r) (VoteTx_Execute E now x9 t)" "pres (kept (e_D E) k r) (WithdrawnTx_Execute E now x10 t)"
    "pres (kept (e_D E) k r) (ProofTx_Execute E now x11 t)" "pres (kept (e_D E) k r) (ProposalTx_Execute E now x12 t)"
  unfolding Execute_defs Let_def by (intro kept_tx assms)+

lemma kept_body_Execute:
  "db_ok (e_D E) \<Longrightarrow> pres (kept (e_D E) (ValueKey h) (Inr b)) (body_Execute E CV now x t)"
  by (cases x) (simp_all add: body_Execute_def kept_kinds kept_SetTx)

lemma kept_Transaction_Execute:
  assumes "db_ok (e_D E)"
  shows "pres (kept (e_D E) (ValueKey h) (Inr b)) (Transaction_Execute E CV now g bt context t)"
  unfolding Transaction_Execute_def
  by (intro kept_tx kept_body_Execute kept_onDB assms low_keys) (simp add: SetTransaction_def get_putD assms)

lemma kept_execTxs:
  assumes "db_ok (ve_D V)"
  shows "pres (kept (ve_D V) (ValueKey h) (Inr b)) (execTxs V g blk context s txs)"
  by (induction txs arbitrary: s) (auto intro!: kept_tx kept_Transaction_Execute assms)

section \<open>The value of an executed transaction\<close>

definition metaOf :: "Transaction \<Rightarrow> bytes \<Rightarrow> u64 \<Rightarrow> ValueMeta" where
  "metaOf t val bt = \<lparr> vm_Size = word_of_nat (length val), vm_TxID = tx_id t, vm_Created = bt \<rparr>"

lemma executed_value:
  assumes "db_ok (e_D E)" and "Transaction_Execute E CV now g bt context t (d, s) = (Inr u, (d', s'))"
    and "u_body (tx_Unsigned t) = TSet x"
  shows "set_Value x \<noteq> [] \<and> (\<exists>mb. enc CV (metaOf t (set_Value x) bt) = Inr mb \<and>
    db_Get (e_D E) d' (ValueKey (ValueHash (e_L E) (set_Value x))) = Inr mb)"
proof -
  let ?k = "ValueHash (e_L E) (set_Value x)"
  obtain d1 d2 where body: "SetTx_Execute E CV x \<lparr> tc_Genesis = g, tc_BlockTime = bt, tc_TxID = tx_id t,
      tc_Sender = tx_sender t \<rparr> (d1, s) = (Inr (), (d2, s'))" and st: "SetTransaction (e_D E) (tx_id t) d2 = (Inr (), d')"
    using Execute_inv [OF assms(2)] assms(3) by (auto simp: body_Execute_def)
  obtain mb where mb: "enc CV (metaOf t (set_Value x) bt) = Inr mb" "set_Value x \<noteq> []"
    and put: "db_Put (e_D E) d1 (ValueKey ?k) mb = Inr d2"
    using body by (auto simp: SetTx_Execute_def Let_def sm_iff PutKey_def metaOf_def split: if_splits option.splits)
  have "db_Get (e_D E) d2 (ValueKey ?k) = Inr mb" using db_ok_put [OF assms(1) put] by simp
  moreover have "db_Get (e_D E) d' (ValueKey ?k) = db_Get (e_D E) d2 (ValueKey ?k)"
    using get_putD [OF assms(1), of "PrefixTxKey (tx_id t)" "ValueKey ?k" "[]" d2] st by (simp add: SetTransaction_def)
  ultimately show ?thesis using mb by auto
qed

lemma executed_values:
  assumes "db_ok (ve_D V)"
  shows "execTxs V g blk context sf txs (d, s) = (Inr n, (d', s')) \<Longrightarrow> t \<in> set txs \<Longrightarrow>
    u_body (tx_Unsigned t) = TSet x \<Longrightarrow>
    set_Value x \<noteq> [] \<and> (\<exists>mb. enc (bc_ValueMeta (ve_B V)) (metaOf t (set_Value x) (sf_Tmstmp blk)) = Inr mb \<and>
      db_Get (ve_D V) d' (ValueKey (ValueHash (ve_L V) (set_Value x))) = Inr mb)"
proof (induction txs arbitrary: sf d s)
  case Nil
  then show ?case by simp
next
  case (Cons tx txs)
  obtain u d1 s1 sf' where ex: "Transaction_Execute (ve_E V) (bc_ValueMeta (ve_B V)) (ve_now V) g (sf_Tmstmp blk) context tx
      (d, s) = (Inr u, (d1, s1))" and rest: "execTxs V g blk context sf' txs (d1, s1) = (Inr n, (d', s'))"
    using Cons.prems(1) by (auto simp: sm_iff)
  show ?case
  proof (cases "t = tx")
    case False
    then show ?thesis using Cons.IH [OF rest] Cons.prems by simp
  next
    case True
    then obtain mb where mb: "set_Value x \<noteq> []" "enc (bc_ValueMeta (ve_B V)) (metaOf t (set_Value x) (sf_Tmstmp blk)) = Inr mb"
      "db_Get (ve_D V) d1 (ValueKey (ValueHash (ve_L V) (set_Value x))) = Inr mb"
      using executed_value [OF assms ex] Cons.prems(3) by auto
    have "kept (ve_D V) (ValueKey (ValueHash (ve_L V) (set_Value x))) (Inr mb) (d', s')"
      using presD' [OF kept_execTxs [OF assms] rest] mb(3) by (simp add: kept_def)
    then show ?thesis using mb by (auto simp: kept_def)
  qed
qed

section \<open>Verification keeps the blocks of the machine\<close>

definition extends :: "'db StatelessBlock list \<Rightarrow> ('db, 'c, 'lc) VM \<Rightarrow> bool" where
  "extends objs v \<longleftrightarrow> (\<exists>xs. v_objs v = objs @ xs)"

lemma extends_Get: "pres (extends objs) (GetStatelessBlock V i)"
  by (auto simp: pres_def extends_def GetStatelessBlock_def newObj_def split: prod.splits option.splits sum.splits)

lemma extends_loop: "pres (extends objs) (lookbackLoop V c l f n cur acc)"
  by (induction n arbitrary: cur acc) (auto simp: deref_def intro!: pres_intro extends_Get)

lemma extends_onOverlay: "pres (extends objs) (onOverlay d m)"
  by (auto simp: pres_def extends_def onOverlay_def split: prod.splits sum.splits)

lemma extends_verify: "pres (extends objs) (blk_verify V fuel p)"
  unfolding blk_verify_def ExecutionContext_def lookback_def onAccept_def deref_def Let_def
  by (intro pres_intro extends_Get extends_loop extends_onOverlay)

text \<open>A verified block sits in the machine with the overlay its transactions and its own entries made.\<close>

lemma verified_stored:
  assumes "blk_Verify V fuel p v = (Inr (), v')" and "p < length (v_objs v)"
  shows "\<exists>q d va d' b'. blk_verify V fuel p v = (Inr (q, d), va) \<and>
    SetLastAccepted (ve_L V) (ve_D V) (ve_B V) (d, (v_objs v ! p)\<lparr>sb_onAcceptDB := Some d\<rparr>) = (Inr (), (d', b')) \<and>
    p < length (v_objs v') \<and> sb_onAcceptDB (v_objs v' ! p) = Some d'"
proof -
  obtain q d va where va: "blk_verify V fuel p v = (Inr (q, d), va)"
    and rest: "bindS (deref p) (\<lambda>b. bindS (setObj p (b\<lparr>sb_onAcceptDB := Some d\<rparr>)) (\<lambda>_.
      bindS (storeBlock V p) (\<lambda>_. bindS (addChild q p) (\<lambda>_. Verified p)))) va = (Inr (), v')"
    using assms(1) by (auto simp: blk_Verify_def bindS_iff)
  have "extends (v_objs v) va" using presD' [OF extends_verify va] by (simp add: extends_def)
  then have p: "v_objs va ! p = v_objs v ! p" "p < length (v_objs va)"
    using assms(2) by (auto simp: extends_def nth_append)
  let ?b = "(v_objs v ! p)\<lparr>sb_onAcceptDB := Some d\<rparr>"
  let ?vb = "va\<lparr>v_objs := (v_objs va)[p := ?b]\<rparr>"
  obtain vc vd where vc: "storeBlock V p ?vb = (Inr (), vc)" and vd: "addChild q p vc = (Inr (), vd)"
    and ve: "Verified p vd = (Inr (), v')"
    using rest p by (auto simp: sm_iff deref_def setObj_def)
  have b: "v_objs ?vb ! p = ?b" using p(2) by simp
  obtain d' b' where s: "SetLastAccepted (ve_L V) (ve_D V) (ve_B V) (d, ?b) = (Inr (), (d', b'))"
    and vc': "vc = ?vb\<lparr>v_objs := (v_objs ?vb)[p := b'\<lparr>sb_onAcceptDB := Some d'\<rparr>]\<rparr>"
    using storeBlock_inv [OF vc] unfolding b by auto
  have vd': "v_objs vd = (v_objs vc)[q := (v_objs vc ! q)\<lparr>sb_children := sb_children (v_objs vc ! q) @ [p]\<rparr>]"
    using vd by (auto simp: addChild_def sm_iff deref_def setObj_def)
  have objs: "pres (\<lambda>v. v_objs v = x) (Verified p)" for x :: "'a StatelessBlock list"
    unfolding Verified_def deref_def onMempool_def
    by (intro pres_intro pres_modS) (auto simp: pres_def)
  have "v_objs v' = v_objs vd" using presD' [OF objs ve] by simp
  then have "p < length (v_objs v') \<and> sb_onAcceptDB (v_objs v' ! p) = Some d'"
    using p(2) by (simp add: vd' vc' nth_list_update)
  then show ?thesis using va s by blast
qed

section \<open>The API finds what is stored\<close>

text \<open>
  The record of the value at a key, and the value itself, which is filed under the transaction
  that set it. The cache of linked values holds what the database holds.
\<close>

definition stored :: "('db, 'c, 'lc) venv \<Rightarrow> 'db \<Rightarrow> hash \<Rightarrow> ValueMeta \<Rightarrow> bytes \<Rightarrow> bool" where
  "stored V d key m val \<longleftrightarrow> GetValueMeta (ve_D V) (bc_ValueMeta (ve_B V)) d key = Inr (Some m) \<and>
     db_Get (ve_D V) d (PrefixTxValueKey (vm_TxID m)) = Inr val"

definition coherent :: "('db, 'c, 'lc) venv \<Rightarrow> (bytes, bytes, 'b) lruops \<Rightarrow> 'db \<Rightarrow> 'b \<Rightarrow> bool" where
  "coherent V LR d c \<longleftrightarrow> (\<forall>(k, x) \<in> lru_items LR c. \<exists>i. k = be_bytes 32 i \<and>
     db_Get (ve_D V) d (PrefixTxValueKey i) = Inr x)"

lemma linked_found:
  assumes "text_ok L" and "lru_ok LR" and "db_Get D d (PrefixTxValueKey i) = Inr val"
    and coh: "\<forall>(k, x) \<in> lru_items LR c. \<exists>i. k = be_bytes 32 i \<and> db_Get D d (PrefixTxValueKey i) = Inr x"
  shows "\<exists>c'. getLinkedValue L D LR d (be_bytes 32 i) c = (Inr val, c') \<and>
    (\<forall>(k, x) \<in> lru_items LR c'. \<exists>i. k = be_bytes 32 i \<and> db_Get D d (PrefixTxValueKey i) = Inr x)"
proof -
  obtain r c1 where g: "lru_Get LR c (be_bytes 32 i) = (r, c1)" by fastforce
  have sub: "lru_items LR c1 \<subseteq> lru_items LR c"
    using assms(2) g unfolding lru_ok_def by (metis snd_conv)
  show ?thesis
  proof (cases r)
    case (Some x)
    then have "(be_bytes 32 i, x) \<in> lru_items LR c" using assms(2) g by (auto simp: lru_ok_def)
    then have "x = val" using coh assms(3) by auto
    then show ?thesis using g Some sub coh by (auto simp: getLinkedValue_def)
  next
    case None
    have "lru_items LR (lru_Put LR (be_bytes 32 i) val c1) \<subseteq> insert (be_bytes 32 i, val) (lru_items LR c)"
      using assms(2) sub unfolding lru_ok_def by blast
    then have "\<forall>(k, x) \<in> lru_items LR (lru_Put LR (be_bytes 32 i) val c1).
        \<exists>i. k = be_bytes 32 i \<and> db_Get D d (PrefixTxValueKey i) = Inr x"
      using coh assms(3) by blast
    then show ?thesis using g None assms(3) by (auto simp: getLinkedValue_def text_ok_simps [OF assms(1)])
  qed
qed

lemma Resolve_found:
  assumes "text_ok (ve_L V)" and "lru_ok LR" and "stored V (v_db v) key m val" and "coherent V LR (v_db v) c"
  shows "\<exists>c'. Resolve V LR v key c = (Inr \<lparr> rr_Exists = True, rr_Value = val, rr_ValueMeta = Some m \<rparr>, c') \<and>
    coherent V LR (v_db v) c'"
proof -
  have link: "db_Get (ve_D V) (v_db v) (PrefixTxValueKey (vm_TxID m)) = Inr val"
    and meta: "GetValueMeta (ve_D V) (bc_ValueMeta (ve_B V)) (v_db v) key = Inr (Some m)"
    using assms(3) by (simp_all add: stored_def)
  obtain c' where c': "getLinkedValue (ve_L V) (ve_D V) LR (v_db v) (be_bytes 32 (vm_TxID m)) c = (Inr val, c')"
    "coherent V LR (v_db v) c'"
    using linked_found [OF assms(1,2) link] assms(4) unfolding coherent_def by blast
  have "GetValue (ve_L V) (ve_D V) (bc_ValueMeta (ve_B V)) LR (v_db v) key c = (Inr (Some val), c')"
    using meta c'(1) by (auto simp: GetValue_def GetValueMeta_def sm_iff split: sum.splits if_splits)
  then show ?thesis using meta c'(2) by (simp add: Resolve_def sm_iff)
qed

text \<open>What acceptance of a verified block leaves on disk of each value it sets.\<close>

lemma accepted_value_stored:
  assumes "db_ok (ve_D V)" and "codec_ok (bc_ValueMeta (ve_B V))" and "p < length (v_objs v)"
    and "same_values (sf_Txs (sb_block (v_objs v ! p)))"
    and "blk_Verify V fuel p v = (Inr (), v1)" and "blk_Accept V p v1 = (Inr (), v2)"
    and "t \<in> set (sf_Txs (sb_block (v_objs v ! p)))" and "u_body (tx_Unsigned t) = TSet x"
  shows "stored V (v_db v2) (ValueHash (ve_L V) (set_Value x))
    (metaOf t (set_Value x) (sf_Tmstmp (sb_block (v_objs v ! p)))) (set_Value x)"
proof -
  let ?b = "v_objs v ! p" and ?k = "ValueHash (ve_L V) (set_Value x)"
  let ?m = "metaOf t (set_Value x) (sf_Tmstmp (sb_block ?b))"
  obtain q d va d' b' where ver: "blk_verify V fuel p v = (Inr (q, d), va)"
    and st: "SetLastAccepted (ve_L V) (ve_D V) (ve_B V) (d, ?b\<lparr>sb_onAcceptDB := Some d\<rparr>) = (Inr (), (d', b'))"
    and p1: "p < length (v_objs v1)" "sb_onAcceptDB (v_objs v1 ! p) = Some d'"
    using verified_stored [OF assms(5,3)] by blast
  obtain cx d0 s0 n s' where ex: "execTxs V (v_genesis v) (sb_block ?b) cx 0 (sf_Txs (sb_block ?b))
      (vdb_New (ve_D V) d0, s0) = (Inr n, (d, s'))"
    using blk_verify_inv [OF ver] by blast
  obtain mb where ne: "set_Value x \<noteq> []" and mb: "enc (bc_ValueMeta (ve_B V)) ?m = Inr mb"
    and at: "db_Get (ve_D V) d (ValueKey ?k) = Inr mb"
    using executed_values [OF assms(1) ex assms(7,8)] by blast
  obtain da db og txs sb where put1: "db_Put (ve_D V) d Keys.lastAccepted (be_bytes 32 (sb_id ?b)) = Inr da"
    and lk: "linkLoop (ve_L V) (ve_D V) (bc_Tx (ve_B V)) [] [] (sf_Txs (sb_block ?b)) da = (Inr og, (db, txs))"
    and put2: "db_Put (ve_D V) db (PrefixBlockKey (sb_id ?b)) sb = Inr d'"
    using SetLastAccepted_inv [OF st] by auto
  note lok = linkLoop_ok [OF assms(1) lk assms(4)]
  have "linkedVal t = Some (set_Value x)" using assms(8) ne by (simp add: linkedVal_def)
  then have link: "db_Get (ve_D V) db (PrefixTxValueKey (tx_id t)) = Inr (set_Value x)"
    using lok assms(7) by blast
  have "db_Get (ve_D V) db (ValueKey ?k) = db_Get (ve_D V) da (ValueKey ?k)"
    using lok by (metis value_keys_neq(5))
  then have "db_Get (ve_D V) d' (ValueKey ?k) = Inr mb \<and>
      db_Get (ve_D V) d' (PrefixTxValueKey (tx_id t)) = Inr (set_Value x)"
    using at link by (simp add: db_ok_put [OF assms(1) put1] db_ok_put [OF assms(1) put2]
        value_keys_neq [symmetric] del: value_keys_neq(7))
  moreover obtain d2 where "vdb_Commit (ve_D V) d' = Inr d2" and "v_db v2 = d2"
    using blk_Accept_inv [OF assms(6) p1(1)] p1(2) coreD by (metis option.inject)
  ultimately show ?thesis
    using codec_okD [OF assms(2) mb] db_ok_commit [OF assms(1)]
    by (simp add: stored_def GetValueMeta_def metaOf_def)
qed

end
