(* ===== verification/NodeClient.thy ===== *)
theory NodeClient
  imports Tree ValueStore
begin

text \<open>
  The client over a node: the handlers that \<open>CreateHandlers\<close> (\<open>vm/vm.go\<close>) registers, as the
  other end of the client's requests. Between two requests anything may happen to the node:
  it verifies and accepts blocks, receives gossip, its clock moves.
\<close>

section \<open>The node behind the endpoint\<close>

text \<open>
  \<open>nw_linked\<close> is the process-wide cache of linked values, \<open>nw_keys\<close> the database of each user of
  the key store, \<open>nw_rand\<close> the next results of \<open>rand.Intn\<close>, \<open>nw_more\<close> whatever else the
  events between the requests depend on.
\<close>

record ('db, 'c, 'lc, 'b, 'k, 'x) world =
  nw_svc :: "('db, 'c, 'lc) PublicService"
  nw_linked :: 'b
  nw_keys :: "string \<Rightarrow> 'k option"
  nw_now :: int
  nw_rand :: "nat list"
  nw_more :: 'x

text \<open>What the node is given besides the environment of its machine.\<close>

record ('b, 'k, 'sk) nodecfg =
  nc_ctx :: snowctx
  nc_linked :: "(bytes, bytes, 'b) lruops"
  nc_keylib :: "('k, 'sk) keylib"
  nc_opened :: "string \<Rightarrow> string \<Rightarrow> err + unit"
  nc_fuel :: nat

text \<open>
  One request: first what happens on the node meanwhile, then the handler. A panic of a
  handler is caught by the server and closes the connection.
\<close>

definition serve :: "('w \<Rightarrow> 'w) \<Rightarrow> ('w, 'a) sm \<Rightarrow> ('w, 'a) sm" where
  "serve step h = (\<lambda>w. case h (step w) of
     (Inl e, w') \<Rightarrow> (Inl (if is_panic e then ErrExt ''EOF'' else e), w')
   | (Inr x, w') \<Rightarrow> (Inr x, w'))"

definition nodeVM :: "('db, 'c, 'lc, 'b, 'k, 'x) world \<Rightarrow> ('db, 'c, 'lc) VM" where
  "nodeVM w = svc_vm (nw_svc w)"

definition nodeEnv :: "('db, 'c, 'lc) venv \<Rightarrow> ('db, 'c, 'lc, 'b, 'k, 'x) world \<Rightarrow> ('db, 'c, 'lc) venv" where
  "nodeEnv V w = V\<lparr>ve_now := nw_now w\<rparr>"

text \<open>A handler that reads the machine, and one that changes it.\<close>

definition askVM ::
  "('db, 'c, 'lc) venv \<Rightarrow> (('db, 'c, 'lc) venv \<Rightarrow> ('db, 'c, 'lc) VM \<Rightarrow> err + 'a) \<Rightarrow>
   (('db, 'c, 'lc, 'b, 'k, 'x) world, 'a) sm" where
  "askVM V h = (\<lambda>w. (h (nodeEnv V w) (nodeVM w), w))"

definition runVM ::
  "('db, 'c, 'lc) venv \<Rightarrow> (('db, 'c, 'lc) venv \<Rightarrow> ('db, 'c, 'lc, 'a) vmm) \<Rightarrow>
   (('db, 'c, 'lc, 'b, 'k, 'x) world, 'a) sm" where
  "runVM V h = (\<lambda>w. case h (nodeEnv V w) (nodeVM w) of
     (r, v) \<Rightarrow> (r, w\<lparr>nw_svc := (nw_svc w)\<lparr>svc_vm := v\<rparr>\<rparr>))"

definition onLinked ::
  "(('db, 'c, 'lc, 'b, 'k, 'x) world \<Rightarrow> ('b, 'a) sm) \<Rightarrow> (('db, 'c, 'lc, 'b, 'k, 'x) world, 'a) sm" where
  "onLinked h = (\<lambda>w. case h w (nw_linked w) of (r, c) \<Rightarrow> (r, w\<lparr>nw_linked := c\<rparr>))"

definition onKeys ::
  "string \<Rightarrow> ('k option, 'a) sm \<Rightarrow> (('db, 'c, 'lc, 'b, 'k, 'x) world, 'a) sm" where
  "onKeys user = zoomS (\<lambda>w. nw_keys w user) (\<lambda>k w. w\<lparr>nw_keys := (nw_keys w)(user := k)\<rparr>)"

definition node_requester ::
  "('db, 'c, 'lc) venv \<Rightarrow> ('b, 'k, 'sk) nodecfg \<Rightarrow>
   (('db, 'c, 'lc, 'b, 'k, 'x) world \<Rightarrow> ('db, 'c, 'lc, 'b, 'k, 'x) world) \<Rightarrow>
   (('db, 'c, 'lc, 'b, 'k, 'x) world, 'sk) requester" where
  "node_requester V N step = (let n = nc_fuel N in \<lparr>
     rq_ping = serve step (liftS Ping),
     rq_network = serve step (liftS (svc_Network (nc_ctx N))),
     rq_genesis = serve step (askVM V (\<lambda>_ v. bindE (svc_Genesis v) (\<lambda>g. Inr (Some g)))),
     rq_lastAccepted = serve step (runVM V (\<lambda>_. svc_LastAccepted)),
     rq_balance = (\<lambda>a. serve step (askVM V (\<lambda>V. svc_Balance V a))),
     rq_resolve = (\<lambda>key. serve step (onLinked (\<lambda>w. Resolve (nodeEnv V w) (nc_linked N) (nodeVM w) key))),
     rq_suggestedRawFee = serve step (runVM V (\<lambda>V. SuggestedRawFee V n)),
     rq_issueRawTx = (\<lambda>b. serve step (runVM V (\<lambda>V. IssueRawTx V n b))),
     rq_suggestedFee = (\<lambda>i. serve step (runVM V (\<lambda>V. bindS (svc_SuggestedFee V n i) (\<lambda>(td, c). retS (Some td, c))))),
     rq_issueTx = (\<lambda>td sig. serve step (runVM V (\<lambda>V. IssueTx V n td sig))),
     rq_hasTx = (\<lambda>txID. serve step (askVM V (\<lambda>V. HasTx V txID))),
     rq_recentActivity = serve step (askVM V (\<lambda>_. RecentActivity)),
     rq_calcReward = (\<lambda>t endTime a. serve step (askVM V (\<lambda>V v. svc_CalcReward V v t a endTime))),
     rq_getUserFee = (\<lambda>t startTime endTime. serve step (askVM V (\<lambda>_ v. GetUserFee v t))),
     rq_getStakerType = (\<lambda>a. serve step (askVM V (\<lambda>_ v. GetStakerType v a))),
     rq_getChainCreateTime = serve step (askVM V (\<lambda>_. svc_GetChainCreateTime)),
     rq_getNodes = (\<lambda>a conf. serve step (askVM V (\<lambda>_ v. GetNodes v a conf))),
     rq_createShortID = serve step (\<lambda>w. (CreateShortID (nw_rand w), w)),
     rq_importKey = (\<lambda>user pass sk. serve step (onKeys user (ImportKey (ve_L V) (nc_keylib N) sk (nc_opened N user pass)))),
     rq_getLocalParams = (\<lambda>a. serve step (\<lambda>w. (bindE (GetLocalParams (ve_L V) (nw_svc w) a) (\<lambda>p. Inr (Some p)), w))) \<rparr>)"

definition node_client ::
  "('db, 'c, 'lc) venv \<Rightarrow> ('b, 'k, 'sk) nodecfg \<Rightarrow>
   (('db, 'c, 'lc, 'b, 'k, 'x) world \<Rightarrow> ('db, 'c, 'lc, 'b, 'k, 'x) world) \<Rightarrow>
   ('db, 'c, 'lc, 'b, 'k, 'x) world Client" where
  "node_client V N step = client (ve_L V) (nc_keylib N) (node_requester V N step)"

section \<open>A node is a source of values\<close>

text \<open>
  A value is served when the chain holds it and the cache agrees with the chain; what happens
  between the requests never takes a value away.
\<close>

definition served ::
  "('db, 'c, 'lc) venv \<Rightarrow> ('b, 'k, 'sk) nodecfg \<Rightarrow> ('db, 'c, 'lc, 'b, 'k, 'x) world \<Rightarrow> hash \<Rightarrow> bytes \<Rightarrow> bool" where
  "served V N w key val \<longleftrightarrow> key = ValueHash (ve_L V) val \<and> (\<exists>m. stored V (v_db (nodeVM w)) key m val) \<and>
     coherent V (nc_linked N) (v_db (nodeVM w)) (nw_linked w)"

definition keeps_values ::
  "('db, 'c, 'lc) venv \<Rightarrow> ('b, 'k, 'sk) nodecfg \<Rightarrow>
   (('db, 'c, 'lc, 'b, 'k, 'x) world \<Rightarrow> ('db, 'c, 'lc, 'b, 'k, 'x) world) \<Rightarrow> bool" where
  "keeps_values V N step \<longleftrightarrow> text_ok (ve_L V) \<and> lru_ok (nc_linked N) \<and>
     (\<forall>w key val. served V N w key val \<longrightarrow> served V N (step w) key val)"

lemma nodeEnv_simps [simp]:
  "stored (nodeEnv V w) = stored V" "coherent (nodeEnv V w) = coherent V" "ve_E (nodeEnv V w) = ve_E V"
  "ve_B (nodeEnv V w) = ve_B V"
  by (simp_all add: nodeEnv_def stored_def [abs_def] coherent_def [abs_def])

lemma served_linked:
  "served V N (w\<lparr>nw_linked := c\<rparr>) key val \<longleftrightarrow> key = ValueHash (ve_L V) val \<and>
   (\<exists>m. stored V (v_db (nodeVM w)) key m val) \<and> coherent V (nc_linked N) (v_db (nodeVM w)) c"
  by (simp add: served_def nodeVM_def)

lemma node_resolve:
  assumes "keeps_values V N step" and "served V N w key val"
  shows "\<exists>m w'. cl_Resolve (node_client V N step) key w = (Inr (True, val, m), w') \<and>
    (\<forall>k' v'. served V N w k' v' \<longrightarrow> served V N w' k' v')"
proof -
  let ?w = "step w"
  have s: "served V N ?w key val" and keep: "\<And>k v. served V N w k v \<Longrightarrow> served V N ?w k v"
    using assms by (auto simp: keeps_values_def)
  obtain m where m: "stored V (v_db (nodeVM ?w)) key m val" and k: "key = ValueHash (ve_L V) val"
    and coh: "coherent V (nc_linked N) (v_db (nodeVM ?w)) (nw_linked ?w)"
    using s by (auto simp: served_def)
  obtain c' where c': "Resolve (nodeEnv V ?w) (nc_linked N) (nodeVM ?w) key (nw_linked ?w) =
      (Inr \<lparr> rr_Exists = True, rr_Value = val, rr_ValueMeta = Some m \<rparr>, c')"
    and coh': "coherent V (nc_linked N) (v_db (nodeVM ?w)) c'"
    using Resolve_found [of "nodeEnv V ?w" "nc_linked N" "nodeVM ?w" key m val "nw_linked ?w"] assms(1) m coh
    by (auto simp: keeps_values_def)
  have "cl_Resolve (node_client V N step) key w = (Inr (True, val, Some m), ?w\<lparr>nw_linked := c'\<rparr>)"
    using c' k by (simp add: node_client_def client_def Resolve_cli_def node_requester_def Let_def serve_def onLinked_def sm_iff)
  moreover have "served V N (?w\<lparr>nw_linked := c'\<rparr>) k' v'" if "served V N w k' v'" for k' v'
    using keep [OF that] coh' by (auto simp: served_linked) (auto simp: served_def)
  ultimately show ?thesis by blast
qed

definition serves ::
  "('db, 'c, 'lc) venv \<Rightarrow> ('b, 'k, 'sk) nodecfg \<Rightarrow>
   (('db, 'c, 'lc, 'b, 'k, 'x) world \<Rightarrow> ('db, 'c, 'lc, 'b, 'k, 'x) world) \<Rightarrow>
   ('db, 'c, 'lc, 'b, 'k, 'x) world \<Rightarrow> hash \<Rightarrow> bytes \<Rightarrow> bool" where
  "serves V N step w key val \<longleftrightarrow> keeps_values V N step \<and> served V N w key val"

lemma node_serves:
  "serves V N step w key val \<Longrightarrow>
   \<exists>m w'. cl_Resolve (node_client V N step) key w = (Inr (True, val, m), w') \<and>
     (\<forall>k' v'. serves V N step w k' v' \<longrightarrow> serves V N step w' k' v')"
  using node_resolve [of V N step w key val] by (auto simp: serves_def)

interpretation node: value_source "serves V N step" "node_client V N step" for V N step
  by unfold_locales (rule node_serves)

end
