(* ===== verification/Cli.thy ===== *)
theory Cli
  imports NodeClient
begin

text \<open>
  \<open>cmd/sama-cli/cmd\<close>: the commands of the command line, over the client. A command is a
  computation on what is behind the endpoint and, where it touches them, on the files of the
  machine it runs on; what it prints is left out. Its arguments are those after the name and
  the flags.
\<close>

section \<open>The environment of a command\<close>

text \<open>
  \<open>ce_key\<close> is what \<open>LoadECDSA\<close> makes of the key file, \<open>ce_CT\<close> the codec of transactions, \<open>ce_ctx\<close>
  the polls a command waits for (\<open>context.Background()\<close> is never done, see \<open>PollTx_enough\<close>).
\<close>

record cliEnv =
  ce_L :: lib
  ce_CT :: "Transaction codec"
  ce_ctx :: nat
  ce_key :: "err + ecdsaKey"
  ce_verbose :: bool
  ce_now :: int

definition argsErr :: err where "argsErr = Errorf ''expected another number of arguments''"

text \<open>The options of every command, and the transaction it issues.\<close>

definition cliOpts :: "cliEnv \<Rightarrow> OpOption list" where
  "cliOpts e = [WithPollTx] @ (if ce_verbose e then [WithBalance] else [])"

definition send :: "cliEnv \<Rightarrow> 'w Client \<Rightarrow> ecdsaKey \<Rightarrow> txbody \<Rightarrow> ('w, unit) sm" where
  "send e cli priv body =
     bindS (SignIssueRawTx (ce_L e) (ce_CT e) (ce_ctx e) cli \<lparr> u_BaseTx = Some emptyBaseTx, u_body = body \<rparr> priv (cliOpts e))
       (\<lambda>_. retS ())"

text \<open>\<open>strconv.ParseUint\<close> where the error is dropped: the largest number when out of range, else zero.\<close>

definition ParseUint_val :: "string \<Rightarrow> u64" where
  "ParseUint_val s = (case ParseUint s of
     Inr x \<Rightarrow> x
   | Inl e \<Rightarrow> if e = Errorf ''strconv.ParseUint: value out of range'' then - 1 else 0)"

text \<open>\<open>ids.ShortFromString\<close> where the error is dropped: the empty id.\<close>

definition ShortFromString_val :: "lib \<Rightarrow> string \<Rightarrow> short_id" where
  "ShortFromString_val L s = (case x_ShortFromString L s of Inr i \<Rightarrow> i | Inl _ \<Rightarrow> 0)"

definition parseArg :: "string \<Rightarrow> err + u64" where
  "parseArg s = wrapE ''failed to parse'' (ParseUint s)"

section \<open>Values and transfers\<close>

definition getSetOp :: "string list \<Rightarrow> err + bytes" where
  "getSetOp args = (case args of [a] \<Rightarrow> Inr (string_bytes a) | _ \<Rightarrow> Inl argsErr)"

definition setFunc :: "cliEnv \<Rightarrow> 'w Client \<Rightarrow> string list \<Rightarrow> ('w, unit) sm" where
  "setFunc e cli args =
     bindS (liftS (ce_key e)) (\<lambda>priv.
     bindS (liftS (getSetOp args)) (\<lambda>val.
     send e cli priv (TSet \<lparr> set_Value = val \<rparr>)))"

definition getTransferOp :: "lib \<Rightarrow> string list \<Rightarrow> err + address \<times> u64" where
  "getTransferOp L args = (case args of
     [a, b] \<Rightarrow> bindE (parseArg b) (\<lambda>units. Inr (x_HexToAddress L a, units)) | _ \<Rightarrow> Inl argsErr)"

definition transferFunc :: "cliEnv \<Rightarrow> 'w Client \<Rightarrow> string list \<Rightarrow> ('w, unit) sm" where
  "transferFunc e cli args =
     bindS (liftS (ce_key e)) (\<lambda>priv.
     bindS (liftS (getTransferOp (ce_L e) args)) (\<lambda>(to, units).
     send e cli priv (TTransfer \<lparr> tr_To = to, tr_Units = units \<rparr>)))"

text \<open>\<open>resolve\<close> prints what the client gives, a missing value as well as an empty one.\<close>

definition resolveFunc :: "(string \<Rightarrow> hash) \<Rightarrow> 'w Client \<Rightarrow> string list \<Rightarrow> ('w, bytes \<times> ValueMeta option) sm" where
  "resolveFunc hexToHash cli args = (case args of
     [a] \<Rightarrow> bindS (cl_Resolve cli (hexToHash a)) (\<lambda>(exists, v, vmeta). retS (v, vmeta))
   | _ \<Rightarrow> throwS argsErr)"

section \<open>Staking and rewards\<close>

definition getStakeOp :: "lib \<Rightarrow> string list \<Rightarrow> err + u64 \<times> u64 \<times> address" where
  "getStakeOp L args = (case args of
     [a, b, c] \<Rightarrow> bindE (parseArg b) (\<lambda>amount. Inr (ParseUint_val a, amount, x_HexToAddress L c))
   | _ \<Rightarrow> Inl argsErr)"

definition stakeFunc :: "cliEnv \<Rightarrow> 'w Client \<Rightarrow> string list \<Rightarrow> ('w, unit) sm" where
  "stakeFunc e cli args =
     bindS (liftS (ce_key e)) (\<lambda>priv.
     bindS (liftS (getStakeOp (ce_L e) args)) (\<lambda>(stakerType, stakeAmount, stakerAddr).
     send e cli priv (TStake \<lparr> stx_StakerType = stakerType, stx_StakeAmount = stakeAmount,
       stx_StakerAddr = stakerAddr \<rparr>)))"

definition getUnStakeOp :: "lib \<Rightarrow> string list \<Rightarrow> err + u64 \<times> address" where
  "getUnStakeOp L args = (case args of
     [a, b] \<Rightarrow> bindE (parseArg a) (\<lambda>t. Inr (t, x_HexToAddress L b)) | _ \<Rightarrow> Inl argsErr)"

definition unStakeFunc :: "cliEnv \<Rightarrow> 'w Client \<Rightarrow> string list \<Rightarrow> ('w, unit) sm" where
  "unStakeFunc e cli args =
     bindS (liftS (ce_key e)) (\<lambda>priv.
     bindS (liftS (getUnStakeOp (ce_L e) args)) (\<lambda>(stakerType, address).
     let endTime = unix_now (ce_now e) in
     bindS (cl_CalcReward cli stakerType endTime address) (\<lambda>(base, merit, yield).
     send e cli priv (TUnStake \<lparr> ux_RewardAmount = base + merit + yield, ux_StakerType = stakerType,
       ux_EndTime = endTime \<rparr>))))"

definition claimFunc :: "cliEnv \<Rightarrow> 'w Client \<Rightarrow> ('w, unit) sm" where
  "claimFunc e cli =
     bindS (liftS (ce_key e)) (\<lambda>priv.
     let address = x_PubkeyToAddress (ce_L e) (ek_PublicKey priv) in
     bindS (cl_GetStakerType cli address) (\<lambda>stakerType.
     bindS (cl_GetChainCreateTime cli) (\<lambda>createTime.
     let endTime = ((unix_now (ce_now e) - createTime) div SecondsDay) * SecondsDay + createTime in
     bindS (cl_CalcReward cli stakerType endTime address) (\<lambda>(base, merit, yield).
     send e cli priv (TClaim \<lparr> cx_RewardAmount = base + merit + yield, cx_EndTime = endTime \<rparr>)))))"

section \<open>Governance\<close>

definition getProposalOp :: "string list \<Rightarrow> err + u64 \<times> string \<times> string" where
  "getProposalOp args = (case args of
     [a, key, newValue] \<Rightarrow> bindE (parseArg a) (\<lambda>t. Inr (t, key, newValue)) | _ \<Rightarrow> Inl argsErr)"

definition proposalFunc :: "cliEnv \<Rightarrow> 'w Client \<Rightarrow> string list \<Rightarrow> ('w, unit) sm" where
  "proposalFunc e cli args =
     bindS (liftS (ce_key e)) (\<lambda>priv.
     bindS (liftS (getProposalOp args)) (\<lambda>(actionType, key, newValue).
     bindS (cl_CreateShortID cli) (\<lambda>actionID.
     let startTime = unix_now (ce_now e) in
     send e cli priv (TProposal \<lparr> qx_ActionID = actionID, qx_StartTime = startTime,
       qx_EndTime = startTime + Seconds7Day, qx_ActionType = actionType, qx_Key = key, qx_NewValue = newValue \<rparr>))))"

text \<open>\<open>getVoteOp\<close> and \<open>getGovernOp\<close> are one function twice.\<close>

definition getVoteOp :: "lib \<Rightarrow> string list \<Rightarrow> err + short_id" where
  "getVoteOp L args = (case args of [a] \<Rightarrow> Inr (ShortFromString_val L a) | _ \<Rightarrow> Inl argsErr)"

definition getGovernOp :: "lib \<Rightarrow> string list \<Rightarrow> err + short_id" where
  "getGovernOp L args = (case args of [a] \<Rightarrow> Inr (ShortFromString_val L a) | _ \<Rightarrow> Inl argsErr)"

definition voteFunc :: "cliEnv \<Rightarrow> 'w Client \<Rightarrow> string list \<Rightarrow> ('w, unit) sm" where
  "voteFunc e cli args =
     bindS (liftS (ce_key e)) (\<lambda>priv.
     bindS (liftS (getVoteOp (ce_L e) args)) (\<lambda>actionID.
     send e cli priv (TVote \<lparr> vx_ActionID = actionID \<rparr>)))"

definition governFunc :: "cliEnv \<Rightarrow> 'w Client \<Rightarrow> string list \<Rightarrow> ('w, unit) sm" where
  "governFunc e cli args =
     bindS (liftS (ce_key e)) (\<lambda>priv.
     bindS (liftS (getGovernOp (ce_L e) args)) (\<lambda>actionID.
     send e cli priv (TGovern \<lparr> gx_ActionID = actionID \<rparr>)))"

section \<open>Nodes and users\<close>

definition getRegisterOp :: "lib \<Rightarrow> string list \<Rightarrow> err + u64 \<times> address \<times> address" where
  "getRegisterOp L args = (case args of
     [a, b] \<Rightarrow> bindE (parseArg a) (\<lambda>t. Inr (t, 0, x_HexToAddress L b))
   | [a, b, c] \<Rightarrow> bindE (parseArg a) (\<lambda>t. Inr (t, x_HexToAddress L c, x_HexToAddress L b))
   | _ \<Rightarrow> Inl argsErr)"

definition registerFunc :: "cliEnv \<Rightarrow> 'w Client \<Rightarrow> string list \<Rightarrow> ('w, unit) sm" where
  "registerFunc e cli args =
     bindS (liftS (ce_key e)) (\<lambda>priv.
     bindS (liftS (getRegisterOp (ce_L e) args)) (\<lambda>(stakerType, stakerAddr, workAddr).
     bindS (cl_CreateShortID cli) (\<lambda>actionID.
     bindS (\<lambda>w. case cl_GetLocalParams cli workAddr w of (r, w') \<Rightarrow> (wrapE ''need start work module'' r, w')) (\<lambda>r.
     let stakerAddr = (if stakerAddr = 0 then x_PubkeyToAddress (ce_L e) (ek_PublicKey priv) else stakerAddr) in
     bindS (liftS (ptrE r)) (\<lambda>params.
     let p = lp_NetParams params in
     send e cli priv (TRegister \<lparr> rx_ActionID = actionID, rx_StakerType = stakerType, rx_Country = np_Country p,
       rx_LocalIP = np_LocalIP p, rx_PublicIP = np_PublicIP p, rx_MinPort = np_MinPort p, rx_MaxPort = np_MaxPort p,
       rx_CheckPort = np_CheckPort p, rx_WorkKey = lp_WorkKey params, rx_StakerAddr = stakerAddr \<rparr>))))))"

definition getRefreshOp :: "string list \<Rightarrow> err + string \<times> string" where
  "getRefreshOp args = (case args of [key, v] \<Rightarrow> Inr (key, v) | _ \<Rightarrow> Inl argsErr)"

text \<open>The parameter that is changed, in the details of the node.\<close>

definition refreshNode :: "string \<Rightarrow> string \<Rightarrow> APINode \<Rightarrow> err + APINode" where
  "refreshNode key v n =
     (if key = ''localIP'' then Inr (n\<lparr>an_LocalIP := v\<rparr>)
      else if key = ''minPort'' then bindE (parseArg v) (\<lambda>x. Inr (n\<lparr>an_MinPort := x\<rparr>))
      else if key = ''maxPort'' then bindE (parseArg v) (\<lambda>x. Inr (n\<lparr>an_MaxPort := x\<rparr>))
      else if key = ''publicIP'' then Inr (n\<lparr>an_PublicIP := v\<rparr>)
      else if key = ''checkPort'' then bindE (parseArg v) (\<lambda>x. Inr (n\<lparr>an_CheckPort := x\<rparr>))
      else if key = ''country'' then Inr (n\<lparr>an_Country := v\<rparr>)
      else Inl (Errorf (''err key '' @ key)))"

definition refreshFunc :: "cliEnv \<Rightarrow> 'w Client \<Rightarrow> string list \<Rightarrow> ('w, unit) sm" where
  "refreshFunc e cli args =
     bindS (liftS (ce_key e)) (\<lambda>priv.
     bindS (cl_GetNodes cli (x_PubkeyToAddress (ce_L e) (ek_PublicKey priv))) (\<lambda>node.
     bindS (liftS (getRefreshOp args)) (\<lambda>(key, v).
     bindS (liftS (refreshNode key v node)) (\<lambda>n.
     send e cli priv (TRefresh \<lparr> fx_Country = an_Country n, fx_LocalIP = an_LocalIP n, fx_PublicIP = an_PublicIP n,
       fx_MinPort = an_MinPort n, fx_MaxPort = an_MaxPort n, fx_CheckPort = an_CheckPort n,
       fx_WorkKey = an_WorkKey n \<rparr>)))))"

definition getProofOp :: "string list \<Rightarrow> err + u64 \<times> u64 \<times> u64" where
  "getProofOp args = (case args of
     [a, b, c] \<Rightarrow> bindE (parseArg a) (\<lambda>netflow. bindE (parseArg b) (\<lambda>startTime. bindE (parseArg c) (\<lambda>endTime.
       Inr (netflow, startTime, endTime))))
   | _ \<Rightarrow> Inl argsErr)"

definition proofFunc :: "cliEnv \<Rightarrow> 'w Client \<Rightarrow> string list \<Rightarrow> ('w, unit) sm" where
  "proofFunc e cli args =
     bindS (liftS (ce_key e)) (\<lambda>priv.
     bindS (liftS (getProofOp args)) (\<lambda>(netflow, startTime, endTime).
     send e cli priv (TProof \<lparr> px_Netflow = netflow, px_StartTime = startTime, px_EndTime = endTime, px_Ser = 0 \<rparr>)))"

definition getAddUserOp :: "lib \<Rightarrow> int \<Rightarrow> string list \<Rightarrow> err + u64 \<times> u64 \<times> u64 \<times> address" where
  "getAddUserOp L now args = (case args of
     [a, b] \<Rightarrow> bindE (parseArg b) (\<lambda>userType.
       Inr (userType, unix_now now, unix_now now + SecondsMonth, x_HexToAddress L a))
   | _ \<Rightarrow> Inl argsErr)"

definition addUserFunc :: "cliEnv \<Rightarrow> 'w Client \<Rightarrow> string list \<Rightarrow> ('w, unit) sm" where
  "addUserFunc e cli args =
     bindS (liftS (ce_key e)) (\<lambda>priv.
     bindS (liftS (getAddUserOp (ce_L e) (ce_now e) args)) (\<lambda>(userType, startTime, endTime, address).
     bindS (cl_GetUserFee cli userType startTime endTime) (\<lambda>payAmount.
     send e cli priv (TAddUser \<lparr> ax_StartTime = startTime, ax_EndTime = endTime, ax_PayAmount = payAmount,
       ax_Connections = 0, ax_UserType = userType, ax_Address = address \<rparr>))))"

section \<open>Questions\<close>

definition networkFunc :: "'w Client \<Rightarrow> string list \<Rightarrow> ('w, u32 \<times> id \<times> id) sm" where
  "networkFunc cli args = (if args \<noteq> [] then throwS argsErr else cl_Network cli)"

definition activityFunc :: "'w Client \<Rightarrow> string list \<Rightarrow> ('w, Activity list) sm" where
  "activityFunc cli args = (if args \<noteq> [] then throwS argsErr else cl_RecentActivity cli)"

section \<open>Files\<close>

text \<open>
  The files of the machine: \<open>os.Stat\<close>, reading and writing a whole file. A file that is opened
  to be read in chunks is its contents. \<open>os.ErrNotExist\<close> and \<open>os.ErrExist\<close> are values.
\<close>

definition osErrNotExist :: err where "osErrNotExist = ErrExt ''file does not exist''"
definition osErrExist :: err where "osErrExist = ErrExt ''file already exists''"

record 'f fsops =
  fs_Stat :: "'f \<Rightarrow> string \<Rightarrow> err + unit"
  fs_Read :: "'f \<Rightarrow> string \<Rightarrow> err + bytes"
  fs_Write :: "string \<Rightarrow> bytes \<Rightarrow> 'f \<Rightarrow> err + 'f"

definition writeFile :: "'f fsops \<Rightarrow> string \<Rightarrow> bytes \<Rightarrow> ('f, unit) sm" where
  "writeFile F path b = (\<lambda>f. case fs_Write F path b f of Inl e \<Rightarrow> (Inl e, f) | Inr f' \<Rightarrow> (Inr (), f'))"

definition getSetFileOp :: "'f fsops \<Rightarrow> 'f \<Rightarrow> string list \<Rightarrow> err + bytes" where
  "getSetFileOp F fs args = (case args of
     [path] \<Rightarrow> bindE (wrapE ''file is not accessible'' (fs_Stat F fs path)) (\<lambda>_.
       wrapE ''failed to open file'' (fs_Read F fs path))
   | _ \<Rightarrow> Inl argsErr)"

text \<open>The chunk size is the largest value the genesis allows, as a signed number of 64 bits.\<close>

definition setFileFunc :: "cliEnv \<Rightarrow> Root codec \<Rightarrow> 'f fsops \<Rightarrow> 'f \<Rightarrow> 'w Client \<Rightarrow> string list \<Rightarrow> ('w, hash) sm" where
  "setFileFunc e RC F fs cli args =
     bindS (liftS (ce_key e)) (\<lambda>priv.
     bindS (liftS (getSetFileOp F fs args)) (\<lambda>content.
     bindS (cl_Genesis cli) (\<lambda>g.
     bindS (liftS (ptrE g)) (\<lambda>g.
     if sint (g_MaxValueSize g) < 0 then throwS (Panic ''makeslice: len out of range'')
     else let n = unat (g_MaxValueSize g) in
       Upload (ce_L e) (ce_CT e) RC (ce_ctx e) cli priv (file_reads n content) n))))"

text \<open>The output file is created before the download, so a download that fails leaves what it wrote.\<close>

definition resolveFileFunc ::
  "(string \<Rightarrow> hash) \<Rightarrow> Root codec \<Rightarrow> 'f fsops \<Rightarrow> 'w Client \<Rightarrow> string list \<Rightarrow> ('w \<times> 'f, unit) sm" where
  "resolveFileFunc hexToHash RC F cli args = (case args of
     [a, path] \<Rightarrow> (\<lambda>(w, fs).
       case fs_Stat F fs path of
         Inr _ \<Rightarrow> (Inl (Errorf ''file already exists''), (w, fs))
       | Inl e \<Rightarrow>
           if e \<noteq> osErrNotExist then (Inl (Errorf ''file already exists''), (w, fs))
           else
             (case fs_Write F path [] fs of
                Inl _ \<Rightarrow> (Inl (Errorf ''failed to create file''), (w, fs))
              | Inr fs1 \<Rightarrow>
                  (case Download RC cli (hexToHash a)
                          (\<lambda>b (out, f). case fs_Write F path (out @ b) f of
                             Inl e \<Rightarrow> (Inl e, (out, f)) | Inr f' \<Rightarrow> (Inr (), (out @ b, f'))) (w, ([], fs1)) of
                     (r, (w', (_, fs'))) \<Rightarrow> (r, (w', fs')))))
   | _ \<Rightarrow> throwS argsErr)"

section \<open>Keys\<close>

text \<open>
  What the libraries do with private keys: \<open>GenerateKey\<close>, the contents of the file that
  \<open>SaveECDSA\<close> writes, \<open>LoadECDSA\<close>, \<open>FromECDSA\<close>, \<open>FromECDSAPub\<close>, \<open>HexToECDSA\<close>.
\<close>

record keyops =
  ko_Generate :: "err + ecdsaKey"
  ko_Save :: "ecdsaKey \<Rightarrow> bytes"
  ko_Load :: "bytes \<Rightarrow> err + ecdsaKey"
  ko_Bytes :: "ecdsaKey \<Rightarrow> bytes"
  ko_PubBytes :: "ecdsaKey \<Rightarrow> bytes"
  ko_FromHex :: "string \<Rightarrow> err + ecdsaKey"

text \<open>The check both commands begin with: no file there yet.\<close>

definition checkAbsent :: "keyops \<Rightarrow> 'f fsops \<Rightarrow> string \<Rightarrow> 'f \<Rightarrow> err + unit" where
  "checkAbsent KO F path fs = (case fs_Stat F fs path of
     Inr _ \<Rightarrow> bindE (bindE (fs_Read F fs path) (ko_Load KO)) (\<lambda>_. Inl osErrExist)
   | Inl e \<Rightarrow> if e \<noteq> osErrNotExist then Inl e else Inr ())"

definition createFunc :: "keyops \<Rightarrow> 'f fsops \<Rightarrow> string \<Rightarrow> ('f, unit) sm" where
  "createFunc KO F path =
     bindS (getS (checkAbsent KO F path)) (\<lambda>r. bindS (liftS r) (\<lambda>_.
     bindS (liftS (ko_Generate KO)) (\<lambda>priv. writeFile F path (ko_Save KO priv))))"

text \<open>\<open>getConfigOp\<close>: without arguments the defaults of the user are dropped as well.\<close>

definition getConfigOp :: "string list \<Rightarrow> err + string \<times> string \<times> string" where
  "getConfigOp args = (case args of
     [] \<Rightarrow> Inr ([], [], [])
   | [k] \<Rightarrow> Inr (k, ''samawork'', ''sama64854331'')
   | [u, p] \<Rightarrow> Inr ([], u, p)
   | [k, u, p] \<Rightarrow> Inr (k, u, p)
   | _ \<Rightarrow> Inl argsErr)"

text \<open>
  The key a user configures: the bytes that are imported into the node are the text in
  hexadecimal digits for a key made here, the key itself for a key given.
\<close>

definition configKey :: "lib \<Rightarrow> keyops \<Rightarrow> string \<Rightarrow> err + ecdsaKey \<times> string \<times> bytes" where
  "configKey L KO privateKey =
     (if privateKey = [] then
        bindE (ko_Generate KO) (\<lambda>priv.
        let h = x_hexEncode L (ko_Bytes KO priv) in Inr (priv, h, string_bytes h))
      else bindE (ko_FromHex KO privateKey) (\<lambda>priv. Inr (priv, privateKey, ko_Bytes KO priv)))"

definition configText :: "lib \<Rightarrow> keyops \<Rightarrow> string \<Rightarrow> string \<Rightarrow> string \<Rightarrow> ecdsaKey \<Rightarrow> string" where
  "configText L KO user pass key priv =
     ''username:'' @ user @ [CHR 0x0A] @ ''password:'' @ pass @ [CHR 0x0A] @ ''privateKey:'' @ key @ [CHR 0x0A] @
     ''publicKey:'' @ x_hexEncode L (ko_PubBytes KO priv) @ [CHR 0x0A] @ ''address:'' @
     x_AddressHex L (x_PubkeyToAddress L (ek_PublicKey priv)) @ [CHR 0x0A]"

definition configPath :: string where "configPath = ''./sama-work-pk''"

definition configFunc ::
  "lib \<Rightarrow> keyops \<Rightarrow> 'f fsops \<Rightarrow> 'w Client \<Rightarrow> string list \<Rightarrow> ('w \<times> 'f, unit) sm" where
  "configFunc L KO F cli args =
     bindS (liftS (getConfigOp args)) (\<lambda>(privateKey, userName, userPass).
     bindS (onFile (getS (checkAbsent KO F configPath))) (\<lambda>r. bindS (liftS r) (\<lambda>_.
     bindS (liftS (configKey L KO privateKey)) (\<lambda>(priv, text, imported).
     bindS (onFile (writeFile F ''work_pk'' (ko_Save KO priv))) (\<lambda>_.
     bindS (onFile (writeFile F configPath (string_bytes (configText L KO userName userPass text priv)))) (\<lambda>_.
     onCli (cl_ImportKey cli userName userPass imported)))))))"

section \<open>The genesis file\<close>

text \<open>The flags of \<open>genesis\<close>; the smallest price is left alone when it is negative.\<close>

record genesisFlags =
  gf_minPrice :: i64
  gf_airdropHash :: string
  gf_airdropUnits :: u64

definition genesisPre :: "string list \<Rightarrow> err + u64" where
  "genesisPre args = (case args of
     [a, _] \<Rightarrow> bindE (ParseUint a) (\<lambda>m. if m = 0 then Inl ErrInvalidMagic else Inr m)
   | _ \<Rightarrow> Inl (Errorf ''invalid args''))"

definition genesisOf :: "genesisFlags \<Rightarrow> u64 \<Rightarrow> err + Genesis" where
  "genesisOf fl magic =
     (let g = DefaultGenesis\<lparr>g_Magic := magic\<rparr>;
          g = (if sint (gf_minPrice fl) \<ge> 0 then g\<lparr>g_MinPrice := gf_minPrice fl\<rparr> else g) in
      if gf_airdropHash fl \<noteq> [] then
        if gf_airdropUnits fl = 0 then Inl (Errorf ''non-zero airdrop units required'')
        else Inr (g\<lparr>g_AirdropHash := gf_airdropHash fl, g_AirdropUnits := gf_airdropUnits fl\<rparr>)
      else Inr g)"

definition genesisFunc ::
  "genesisFlags \<Rightarrow> (bytes \<Rightarrow> err + CustomAllocation list) \<Rightarrow> Genesis codec \<Rightarrow> 'f fsops \<Rightarrow> string \<Rightarrow> string list \<Rightarrow>
   ('f, unit) sm" where
  "genesisFunc fl parse GC F path args =
     bindS (liftS (genesisPre args)) (\<lambda>magic.
     bindS (liftS (genesisOf fl magic)) (\<lambda>g.
     bindS (getS (\<lambda>fs. fs_Read F fs (args ! 1))) (\<lambda>r. bindS (liftS r) (\<lambda>a.
     bindS (liftS (parse a)) (\<lambda>allocs.
     bindS (liftS (enc GC (g\<lparr>g_CustomAllocation := allocs\<rparr>))) (\<lambda>b.
     writeFile F path b))))))"

end
