(* ===== verification/ClientProps.thy ===== *)
theory ClientProps
  imports NodeClient ServiceProps
begin

text \<open>
  Properties of the node's values and of the client and the file tree over them: a value set
  in an accepted block is found, a file that is uploaded is downloaded unchanged, and no node
  can pass off another file for it.
\<close>

section \<open>A value that is accepted is found\<close>

text \<open>
  C6. A value set by a transaction of a block that is verified and then accepted is found by the
  API under its hash, with its size, the transaction that set it and the time of the block.
\<close>

theorem accepted_value_resolves:
  assumes "db_ok (ve_D V)" and "codec_ok (bc_ValueMeta (ve_B V))" and "text_ok (ve_L V)" and "lru_ok LR"
    and "p < length (v_objs v)" and "blk = sb_block (v_objs v ! p)" and "same_values (sf_Txs blk)"
    and "blk_Verify V fuel p v = (Inr (), v1)" and "blk_Accept V p v1 = (Inr (), v2)"
    and "t \<in> set (sf_Txs blk)" and "u_body (tx_Unsigned t) = TSet x" and "coherent V LR (v_db v2) c"
  shows "\<exists>c'. Resolve V LR v2 (ValueHash (ve_L V) (set_Value x)) c =
    (Inr \<lparr> rr_Exists = True, rr_Value = set_Value x,
       rr_ValueMeta = Some \<lparr> vm_Size = word_of_nat (length (set_Value x)), vm_TxID = tx_id t,
         vm_Created = sf_Tmstmp blk \<rparr> \<rparr>, c')"
proof -
  have st: "stored V (v_db v2) (ValueHash (ve_L V) (set_Value x)) (metaOf t (set_Value x) (sf_Tmstmp blk)) (set_Value x)"
    using accepted_value_stored [OF assms(1,2,5) _ assms(8,9) _ assms(11)] assms(7,10) by (simp add: assms(6))
  from Resolve_found [OF assms(3,4) st assms(12)] show ?thesis unfolding metaOf_def by blast
qed

text \<open>A block that sets a value, over the sample genesis block.\<close>

definition val_blk :: "memdb StatelessBlock" where "val_blk = child_sample [set_sample]"

definition val_codecs :: blkcodecs where
  "val_codecs = \<lparr> bc_Block = list_codec [wireBlock ((sb_block val_blk)\<lparr>sf_Txs := [linkTx set_sample]\<rparr>)],
     bc_Tx = list_codec [wireTx set_sample], bc_ValueMeta = list_codec [metaOf set_sample [7, 8] 1000] \<rparr>"

definition venv_val :: "(memdb, (address, UserMeta) gomap, (id, ptr) gomap) venv" where
  "venv_val = venv_now\<lparr>ve_B := val_codecs\<rparr>"

lemma venv_val_simps [simp]:
  "ve_L venv_val = sample_lib" "ve_D venv_val = mem_db" "ve_B venv_val = val_codecs"
  by (simp_all add: venv_val_def venv_now_def venv_sample_def)

lemma set_sample_simps:
  "u_body (tx_Unsigned set_sample) = TSet \<lparr> set_Value = [7, 8] \<rparr>" "tx_id set_sample = 6" "tx_sender set_sample = 1"
  "linkedVal set_sample = Some [7, 8]" "setValue (be_bytes 32 (tx_id set_sample)) set_sample = linkTx set_sample"
  by (simp_all add: set_sample_def tx_sample_def NewTx_def linkedVal_def linkTx_def)

lemma val_exec: "\<exists>d. execTxs venv_val g_sample (sb_block val_blk) ctx_verify 0 [set_sample] (sample_db, sama0) =
    (Inr 9, (d, sama0))"
  by (simp add: exec_eval venv_val_def val_blk_def set_sample_def SetTx_Execute_def Let_def GetValueMeta_def
      PutKey_def SetTx_FeeUnits_def valueUnits_def divU_def val_codecs_def list_codec_def metaOf_def
      DefaultValueUnitSize_def key_defs)

text \<open>The block is stored, verified and accepted.\<close>

lemma val_store:
  assumes "b = val_blk\<lparr>sb_onAcceptDB := x\<rparr>"
  shows "\<exists>d' t. SetLastAccepted sample_lib mem_db val_codecs (d, b) =
    (Inr (), (d', b\<lparr>sb_block := (sb_block b)\<lparr>sf_Txs := [t]\<rparr>\<rparr>))"
proof -
  obtain t where t: "bindE (Transaction_Copy set_sample) (Transaction_Init sample_lib (list_codec [wireTx set_sample])) = Inr t"
    using set_sample_Init by blast
  have B: "bc_Tx val_codecs = list_codec [wireTx set_sample]" "sf_Txs (sb_block b) = [set_sample]"
    "bc_Block val_codecs = list_codec [wireBlock ((sb_block b)\<lparr>sf_Txs := [linkTx set_sample]\<rparr>)]"
    by (simp_all add: assms val_codecs_def val_blk_def child_sample_def)
  obtain d2 where "linkLoop sample_lib mem_db (bc_Tx val_codecs) [] [] (sf_Txs (sb_block b))
      (mput lastAccepted (be_bytes 32 (sb_id b)) d) = (Inr [t], (d2, [linkTx set_sample]))"
    unfolding B(1,2) by (simp add: linkLoop_set [OF set_sample_simps(1) _ t mem_put] set_sample_simps(5) del: linkLoop.simps(2))
  moreover have "marshalBlock val_codecs ((sb_block b)\<lparr>sf_Txs := [linkTx set_sample]\<rparr>) = Inr []"
    by (simp add: marshalBlock_def B(3) list_codec_def)
  ultimately show ?thesis using SetLastAccepted_run [OF mem_put _ _ mem_put] by blast
qed

lemma val_run:
  "\<exists>v1 v2. blk_Verify venv_val 1 1 (vm_verify [set_sample]) = (Inr (), v1) \<and> blk_Accept venv_val 1 v1 = (Inr (), v2)"
proof -
  let ?v = "vm_verify [set_sample]"
  have objs: "v_objs ?v = [(blk_sample 9 0 0)\<lparr>sb_st := Accepted\<rparr>, val_blk]" "?v\<lparr>v_samaState := sama0\<rparr> = ?v"
    by (simp_all add: vm_verify_def val_blk_def vm_sample_def newVM_def)
  have ring: "ring_ok 2 ?v" "v_activityCacheCursor ?v = 0"
    using vm_sample_ring by (simp_all add: vm_verify_def ring_ok_def)
  have size: "checkSize g_sample [set_sample] = Inr 3"
    by (simp add: checkSize_def sm_defs set_sample_simps LoadUnits_def SetTx_FeeUnits_def valueUnits_def divU_def
        DefaultValueUnitSize_def FeeUnits_def BaseTx_FeeUnits_def g_sample_def DefaultGenesis_def)
  obtain d where "execTxs venv_val g_sample (sb_block val_blk) ctx_verify 0 [set_sample] (sample_db, sama0) =
      (Inr 9, (d, sama0))"
    using val_exec by blast
  then have ver: "blk_verify venv_val 1 1 ?v = (Inr (0, d), ?v)"
    using verify_run_with [OF _ size] by (simp add: venv_val_def val_blk_def objs)
  obtain d' t where st: "SetLastAccepted sample_lib mem_db val_codecs (d, val_blk\<lparr>sb_onAcceptDB := Some d\<rparr>) =
      (Inr (), (d', val_blk\<lparr>sb_onAcceptDB := Some d, sb_block := (sb_block val_blk)\<lparr>sf_Txs := [t]\<rparr>\<rparr>))"
    using val_store [OF refl, of d "Some d"] by auto
  have "\<exists>v1. blk_Verify venv_val 1 1 ?v = (Inr (), v1) \<and> ring_ok 2 v1 \<and> v_activityCacheCursor v1 = 0 \<and>
      v_objs v1 ! 1 = val_blk\<lparr>sb_onAcceptDB := Some d', sb_block := (sb_block val_blk)\<lparr>sf_Txs := [t]\<rparr>\<rparr> \<and>
      length (v_objs v1) = 2"
    using ring st
    by (simp add: blk_Verify_def sm_defs ver [simplified] deref_def objs setObj_def storeBlock_def addChild_def Verified_def
        onMempool_def ring_ok_def)
  then obtain v1 where v1: "blk_Verify venv_val 1 1 ?v = (Inr (), v1)" "ring_ok 2 v1" "v_activityCacheCursor v1 = 0"
    "v_objs v1 ! 1 = val_blk\<lparr>sb_onAcceptDB := Some d', sb_block := (sb_block val_blk)\<lparr>sf_Txs := [t]\<rparr>\<rparr>"
    "length (v_objs v1) = 2" by blast
  have "\<exists>v2. blk_Accept venv_val 1 v1 = (Inr (), v2)"
    by (rule blk_Accept_returns [where d = d' and d' = d' and n = 2])
      (use v1 in \<open>simp_all add: val_blk_def child_sample_def blk_sample_def\<close>)
  then show ?thesis using v1(1) by blast
qed


lemma accepted_value_resolves_witness:
  "\<exists>v1 v2 c'. blk_Verify venv_val 1 1 (vm_verify [set_sample]) = (Inr (), v1) \<and>
    blk_Accept venv_val 1 v1 = (Inr (), v2) \<and>
    Resolve venv_val map_lru v2 (ValueHash sample_lib [7, 8]) [] =
      (Inr \<lparr> rr_Exists = True, rr_Value = [7, 8],
         rr_ValueMeta = Some \<lparr> vm_Size = 2, vm_TxID = 6, vm_Created = 1000 \<rparr> \<rparr>, c')"
proof -
  let ?v = "vm_verify [set_sample]"
  obtain v1 v2 where run: "blk_Verify venv_val 1 1 ?v = (Inr (), v1)" "blk_Accept venv_val 1 v1 = (Inr (), v2)"
    using val_run by blast
  have b: "v_objs ?v ! 1 = val_blk" "1 < length (v_objs ?v)"
    by (simp_all add: vm_verify_def val_blk_def vm_sample_def newVM_def)
  have t: "sf_Txs (sb_block val_blk) = [set_sample]" "sf_Tmstmp (sb_block val_blk) = 1000"
    by (simp_all add: val_blk_def child_sample_def blk_sample_def)
  have codec: "codec_ok (bc_ValueMeta (ve_B venv_val))" by (simp add: val_codecs_def list_codec_ok)
  have coh: "coherent venv_val map_lru (v_db v2) []" by (simp add: coherent_def map_lru_def)
  have blk: "sb_block val_blk = sb_block (v_objs ?v ! 1)" "same_values (sf_Txs (sb_block val_blk))"
    "set_sample \<in> set (sf_Txs (sb_block val_blk))"
    unfolding b t by (simp_all add: same_values_def)
  have ok: "db_ok (ve_D venv_val)" "text_ok (ve_L venv_val)" by (simp_all add: mem_db_ok sample_text_ok)
  from accepted_value_resolves [OF ok(1) codec ok(2) map_lru_ok b(2) blk(1,2) run blk(3) set_sample_simps(1) coh]
  obtain c' where "Resolve venv_val map_lru v2 (ValueHash sample_lib [7, 8]) [] =
      (Inr \<lparr> rr_Exists = True, rr_Value = [7, 8],
         rr_ValueMeta = Some \<lparr> vm_Size = 2, vm_TxID = 6, vm_Created = 1000 \<rparr> \<rparr>, c')"
    by (auto simp: set_sample_simps t)
  then show ?thesis using run by blast
qed

section \<open>Files\<close>


text \<open>A node that holds the pieces of a file, and accepts every transaction.\<close>

definition src_requester :: "bytes list \<Rightarrow> (unit, bytes) requester" where
  "src_requester vs = \<lparr> rq_ping = retS True, rq_network = retS (0, 0, 0), rq_genesis = retS (Some g_sample),
     rq_lastAccepted = retS (0, 9), rq_balance = (\<lambda>_. retS 0),
     rq_resolve = (\<lambda>k. retS (case filter (\<lambda>v. ValueHash sample_lib v = k) vs of
       [] \<Rightarrow> \<lparr> rr_Exists = False, rr_Value = hd vs, rr_ValueMeta = None \<rparr>
     | v # _ \<Rightarrow> \<lparr> rr_Exists = True, rr_Value = v, rr_ValueMeta = None \<rparr>)),
     rq_suggestedRawFee = retS (5, 0), rq_issueRawTx = (\<lambda>_. retS 6), rq_suggestedFee = (\<lambda>_. retS (None, 0)),
     rq_issueTx = (\<lambda>_ _. retS 6), rq_hasTx = (\<lambda>_. retS True), rq_recentActivity = retS [],
     rq_calcReward = (\<lambda>_ _ _. throwS notFound), rq_getUserFee = (\<lambda>_ _ _. retS 0), rq_getStakerType = (\<lambda>_. retS 0),
     rq_getChainCreateTime = retS 0, rq_getNodes = (\<lambda>_ _. retS []), rq_createShortID = retS 0,
     rq_importKey = (\<lambda>_ _ _. throwS notFound), rq_getLocalParams = (\<lambda>_. retS None) \<rparr>"

definition any_tx_codec :: "Transaction codec" where
  "any_tx_codec = \<lparr> enc = (\<lambda>_. Inr [1]), dec = (\<lambda>_. Inl (ErrExt ''codec'')) \<rparr>"

definition key_file :: ecdsaKey where
  "key_file = \<lparr> ek_D = replicate 65 0, ek_PublicKey = replicate 65 0 \<rparr>"

lemma DeriveSender_signed: "\<exists>pk. DeriveSender sample_lib h ((replicate 65 0)[64 := 27]) = Inr pk"
  by (simp add: DeriveSender_def sample_lib_def SignatureLength_def vOffset_def legacySigAdj_def)

lemma Sign_sample: "Sign sample_lib dh (replicate 65 0) = Inr ((replicate 65 0)[64 := 27])"
  by (simp add: Sign_def sample_lib_def vOffset_def legacySigAdj_def)

lemma putValue_src:
  "\<exists>c. putValue sample_lib any_tx_codec 1 (client sample_lib K (src_requester vs)) key_file val w = (Inr (6, c), w)"
proof -
  let ?u = "\<lambda>p. \<lparr> u_BaseTx = Some \<lparr> b_BlockID = 9, b_Magic = g_Magic g_sample, b_Price = p \<rparr>, u_body = TSet \<lparr> set_Value = val \<rparr> \<rparr>"
  obtain fu where fu: "FeeUnits g_sample (TSet \<lparr> set_Value = val \<rparr>) = Inr fu"
    by (simp add: FeeUnits_def SetTx_FeeUnits_def valueUnits_def divU_def g_sample_def DefaultGenesis_def DefaultValueUnitSize_def)
  obtain p where p: "fillBase g_sample 9 5 0 \<lparr> u_BaseTx = Some emptyBaseTx, u_body = TSet \<lparr> set_Value = val \<rparr> \<rparr> = Inr (?u p)"
    using fu by (cases "fu = 0") (simp_all add: fillBase_def SetBlockID_def SetMagic_def SetPrice_def baseOf_def emptyBaseTx_def)
  obtain dh where dh: "DigestHash sample_lib (?u p) = Inr dh"
    using digest_total [OF sample_num_ok sample_text_ok] by (auto simp: DigestHash_def TypedData_of_def baseOf_def)
  obtain pk where "DeriveSender sample_lib dh ((replicate 65 0)[64 := 27]) = Inr pk" using DeriveSender_signed by blast
  then obtain tx where tx: "Transaction_Init sample_lib any_tx_codec (NewTx (?u p) ((replicate 65 0)[64 := 27])) = Inr tx"
    using dh by (simp add: Transaction_Init_def any_tx_codec_def NewTx_def text_ok_simps [OF sample_text_ok])
  show ?thesis
    by (simp add: putValue_def SignIssueRawTx_def client_def src_requester_def Accepted_cli_def sm_defs ptrE_def p dh
        Sign_sample key_file_def tx fu handleConfirmation_def applyOpts_def WithPollTx_def GetPrice_def baseOf_def ignS_def)
qed


lemma src_resolve: "rq_resolve (src_requester vs) h w = (Inr resp, w') \<Longrightarrow> vs \<noteq> [] \<Longrightarrow> rr_Value resp \<in> set vs"
  by (auto simp: src_requester_def retS_def split: list.splits dest: filter_eq_ConsD)

lemma src_Resolve: "v \<in> set vs \<Longrightarrow> inj_on (ValueHash sample_lib) (set vs) \<Longrightarrow>
  cl_Resolve (client sample_lib K (src_requester vs)) (ValueHash sample_lib v) w = (Inr (True, v, None), w)"
proof -
  assume v: "v \<in> set vs" "inj_on (ValueHash sample_lib) (set vs)"
  then have "\<exists>xs. filter (\<lambda>x. ValueHash sample_lib x = ValueHash sample_lib v) vs = v # xs"
    by (induction vs) (auto simp: inj_on_def)
  then show ?thesis by (auto simp: client_def Resolve_cli_def src_requester_def sm_defs)
qed

definition file_codec :: "bytes \<Rightarrow> Root codec" where
  "file_codec f = list_codec [\<lparr> rt_Contents = [], rt_Children = [] \<rparr>, rootOf sample_lib 2 f]"

lemma hash_pieces: "inj_on (ValueHash sample_lib) {[1, 2], [3], [0]}"
  by (simp add: inj_on_def ValueHash_def sample_lib_def be_val_def be_horner_def)




text \<open>A node whose chain holds one file of a byte, and on which nothing else happens.\<close>

definition venv_file :: "(memdb, (address, UserMeta) gomap, (id, ptr) gomap) venv" where
  "venv_file = venv_now\<lparr>ve_B := val_codecs\<lparr>bc_ValueMeta := list_codec [\<lparr> vm_Size = 1, vm_TxID = 6, vm_Created = 1000 \<rparr>]\<rparr>\<rparr>"

definition world_file ::
  "(memdb, (address, UserMeta) gomap, (id, ptr) gomap, (bytes, bytes) gomap, memdb, unit) world" where
  "world_file = \<lparr>
     nw_svc = \<lparr> svc_vm = (vm_sample [blk_sample 9 0 0])\<lparr>v_db :=
       [(ValueKey (ValueHash sample_lib [0]), []), (PrefixTxValueKey 6, [0])]\<rparr>,
       svc_Cache = [] \<rparr>,
     nw_linked = [], nw_keys = (\<lambda>_. None), nw_now = 0, nw_rand = [], nw_more = () \<rparr>"

definition node_cfg :: "((bytes, bytes) gomap, memdb, bytes) nodecfg" where
  "node_cfg = \<lparr> nc_ctx = \<lparr> sc_NetworkID = 1, sc_SubnetID = 2, sc_ChainID = 3 \<rparr>, nc_linked = map_lru, nc_keylib = key_sample,
     nc_opened = (\<lambda>_ _. Inr ()), nc_fuel = 1 \<rparr>"

lemma venv_file_simps [simp]:
  "ve_L venv_file = sample_lib" "ve_D venv_file = mem_db"
  "bc_ValueMeta (ve_B venv_file) = list_codec [\<lparr> vm_Size = 1, vm_TxID = 6, vm_Created = 1000 \<rparr>]"
  by (simp_all add: venv_file_def venv_now_def venv_sample_def)

lemma world_file_serves: "serves venv_file node_cfg (\<lambda>w. w) world_file (ValueHash sample_lib [0]) [0]"
  by (auto simp: serves_def keeps_values_def served_def stored_def coherent_def world_file_def nodeVM_def node_cfg_def
      sample_text_ok map_lru_ok GetValueMeta_def list_codec_def key_defs) (simp_all add: map_lru_def)

definition root_codec :: "Root codec" where
  "root_codec = list_codec [\<lparr> rt_Contents = [], rt_Children = [] \<rparr>, rootOf sample_lib 2 [3]]"


lemma poll_step:
  "PollTx (rq_hasTx (node_requester V N step)) (Suc n) txID w =
     (if HasTx V txID (nodeVM (step w)) = Inr True then (Inr True, step w)
      else PollTx (rq_hasTx (node_requester V N step)) n txID (step w))"
proof -
  have h: "rq_hasTx (node_requester V N step) txID w =
     (case HasTx V txID (nodeVM (step w)) of
        Inl e \<Rightarrow> (Inl (if is_panic e then ErrExt ''EOF'' else e), step w) | Inr b \<Rightarrow> (Inr b, step w))"
    by (simp add: node_requester_def Let_def serve_def askVM_def HasTx_def nodeEnv_def split: sum.split)
  have "ignS (rq_hasTx (node_requester V N step) txID) w =
     (Inr (case HasTx V txID (nodeVM (step w)) of Inl e \<Rightarrow> None | Inr b \<Rightarrow> Some b), step w)"
    by (auto simp: ignS_def h split: sum.split)
  then show ?thesis by (auto simp: bindS_def retS_def split: sum.split)
qed

text \<open>
  C24. A poll for a transaction ends when the chain has it, and not before: it confirms exactly
  the transactions that are on record when one of the polls is answered, and the errors of
  requests do not end it.
\<close>

theorem poll_confirms:
  "case cl_PollTx (node_client V N step) n txID w of
     (Inr b, w') \<Rightarrow> b \<and> (\<exists>k < n. w' = (step ^^ Suc k) w \<and> HasTx V txID (nodeVM w') = Inr True \<and>
       (\<forall>j < k. HasTx V txID (nodeVM ((step ^^ Suc j) w)) \<noteq> Inr True))
   | (Inl e, w') \<Rightarrow> e = ctxErr \<and> w' = (step ^^ n) w \<and>
       (\<forall>k < n. HasTx V txID (nodeVM ((step ^^ Suc k) w)) \<noteq> Inr True)"
proof -
  have cli: "cl_PollTx (node_client V N step) = PollTx (rq_hasTx (node_requester V N step))"
    by (simp add: node_client_def client_def)
  show ?thesis unfolding cli
  proof (induction n arbitrary: w)
    case 0
    then show ?case by (simp add: throwS_def)
  next
    case (Suc n)
    show ?case
    proof (cases "HasTx V txID (nodeVM (step w)) = Inr True")
      case True
      then show ?thesis unfolding poll_step by (auto intro!: exI [of _ 0])
    next
      case False
      note IH = Suc.IH [of "step w"]
      obtain r w' where run: "PollTx (rq_hasTx (node_requester V N step)) n txID (step w) = (r, w')" by fastforce
      show ?thesis
      proof (cases r)
        case (Inl e)
        then show ?thesis using IH False run unfolding poll_step
          by (auto simp: less_Suc_eq_0_disj funpow_swap1)
      next
        case (Inr b)
        then obtain k where k: "b" "k < n" "w' = (step ^^ Suc k) (step w)" "HasTx V txID (nodeVM w') = Inr True"
          "\<forall>j < k. HasTx V txID (nodeVM ((step ^^ Suc j) (step w))) \<noteq> Inr True"
          using IH run by auto
        then have "\<forall>j < Suc k. HasTx V txID (nodeVM ((step ^^ Suc j) w)) \<noteq> Inr True"
          using False by (auto simp: less_Suc_eq_0_disj funpow_swap1)
        then show ?thesis using k False run Inr unfolding poll_step
          by (auto simp: funpow_swap1 intro!: exI [of _ "Suc k"])
      qed
    qed
  qed
qed

lemma poll_confirms_witness:
  "cl_PollTx (node_client venv_file node_cfg id) 2 6 world_file = (Inl ctxErr, world_file) \<and>
    HasTx venv_file 6 (nodeVM world_file) = Inr False"
proof -
  have "HasTx venv_file 6 (nodeVM world_file) = Inr False"
    by (simp add: HasTx_def HasTransaction_def nodeVM_def world_file_def key_defs)
  moreover have "(id ^^ k) world_file = world_file" for k by (simp add: id_funpow)
  ultimately show ?thesis
    using poll_confirms [where V = venv_file and N = node_cfg and step = id and n = 2 and txID = 6 and w = world_file] by (auto split: prod.splits sum.splits)
qed

text \<open>
  Uploading an empty file does not fail: it stores a root that holds a whole chunk of zero
  bytes, and so does uploading that many zero bytes in a chunk larger by one.
\<close>

theorem empty_file_upload:
  "Upload L CT RC ctx cli priv (file_reads (Suc n) []) (Suc n) =
     bindS (liftS (enc RC \<lparr> rt_Contents = replicate (Suc n) 0, rt_Children = [] \<rparr>)) (\<lambda>rb.
     bindS (putValue L CT ctx cli priv rb) (\<lambda>_. retS (ValueHash L rb))) \<and>
   Upload L CT RC ctx cli priv (file_reads (Suc (Suc n)) (replicate (Suc n) 0)) (Suc (Suc n)) =
   Upload L CT RC ctx cli priv (file_reads (Suc n) []) (Suc n)"
proof -
  have "Upload L CT RC ctx cli priv (file_reads (Suc n) []) (Suc n) =
     bindS (liftS (enc RC \<lparr> rt_Contents = replicate (Suc n) 0, rt_Children = [] \<rparr>)) (\<lambda>rb.
     bindS (putValue L CT ctx cli priv rb) (\<lambda>_. retS (ValueHash L rb)))"
    by (rule Upload_root) (rule ext, simp_all add: file_reads_def retS_def)
  then show ?thesis using Upload_small [of "replicate (Suc n) 0" "Suc (Suc n)"] by simp
qed

text \<open>
  C37. The root of a file that is shorter than a value may be is too long for a value once the
  file takes more than three quarters of one: its text form is a third longer. Such a file
  can never be uploaded.
\<close>

theorem short_file_refused:
  assumes base64: "\<And>r b. enc RC r = Inr b \<Longrightarrow> 4 * ((length (rt_Contents r) + 2) div 3) \<le> length b"
    and "n = unat (g_MaxValueSize g)" and "length f < n" and "3 * n < 4 * length f"
    and "enc RC (rootOf L n f) = Inr rb" and "length rb < 2 ^ 64"
  shows "Upload L CT RC ctx cli priv (file_reads n f) n =
      bindS (putValue L CT ctx cli priv rb) (\<lambda>_. retS (ValueHash L rb)) \<and>
    SetTx_Execute E CV \<lparr> set_Value = rb \<rparr> \<lparr> tc_Genesis = g, tc_BlockTime = bt, tc_TxID = i, tc_Sender = a \<rparr> =
      throwS ErrValueTooBig"
proof -
  have f: "f \<noteq> []" using assms(4) by (cases f) auto
  have root: "rootOf L n f = \<lparr> rt_Contents = f, rt_Children = [] \<rparr>" using assms(3) by (simp add: rootOf_def)
  have "4 * ((length f + 2) div 3) \<le> length rb" using base64 [OF assms(5)] by (simp add: root)
  moreover have "n < 4 * ((length f + 2) div 3)" using assms(4) by linarith
  ultimately have "n < length rb" by linarith
  moreover from this have "g_MaxValueSize g < word_of_nat (length rb)"
    using assms(2,6) by (simp add: word_less_nat_alt unat_of_nat)
  ultimately have "SetTx_Execute E CV \<lparr> set_Value = rb \<rparr> \<lparr> tc_Genesis = g, tc_BlockTime = bt, tc_TxID = i, tc_Sender = a \<rparr> =
      throwS ErrValueTooBig"
    by (auto simp: SetTx_Execute_def)
  moreover have "Upload L CT RC ctx cli priv (file_reads n f) n =
      bindS (putValue L CT ctx cli priv rb) (\<lambda>_. retS (ValueHash L rb))"
    unfolding Upload_small [OF f assms(3)] using assms(5) by (simp add: root liftS_Inr bindS_retS)
  ultimately show ?thesis by blast
qed

text \<open>A file of seven bytes where a value may have eight.\<close>

definition long_codec :: "Root codec" where
  "long_codec = \<lparr> enc = (\<lambda>r. Inr (replicate (4 * ((length (rt_Contents r) + 2) div 3)) 0)), dec = (\<lambda>_. Inl (ErrExt ''json'')) \<rparr>"

lemma short_file_refused_witness:
  "Upload sample_lib any_tx_codec long_codec 1 (client sample_lib key_sample (src_requester [[5]])) key_file
      (file_reads 8 (replicate 7 1)) 8 =
      bindS (putValue sample_lib any_tx_codec 1 (client sample_lib key_sample (src_requester [[5]])) key_file (replicate 12 0))
        (\<lambda>_. retS (ValueHash sample_lib (replicate 12 0))) \<and>
    SetTx_Execute (e_sample [] [] [] []) (list_codec []) \<lparr> set_Value = replicate 12 0 \<rparr>
      \<lparr> tc_Genesis = g_sample\<lparr>g_MaxValueSize := 8\<rparr>, tc_BlockTime = 0, tc_TxID = 6, tc_Sender = 1 \<rparr> = throwS ErrValueTooBig"
  by (rule short_file_refused) (simp_all add: long_codec_def rootOf_def)

end
