(* ===== verification/CliProps.thy ===== *)
theory CliProps
  imports Cli ClientProps
begin

text \<open>
  Properties of the commands over a node: a transaction that a command issues is the one its
  key has signed and is on record when the command ends, and the commands that cannot succeed.
\<close>

section \<open>Signatures\<close>

text \<open>
  What the elliptic-curve library promises of a key: the signature has 65 bytes, the last of
  them a small number, and the public key can be recovered from it.
\<close>

definition keys_ok :: "lib \<Rightarrow> ecdsaKey \<Rightarrow> bool" where
  "keys_ok L priv \<longleftrightarrow> (\<forall>h sig. x_Sign L h (ek_D priv) = Inr sig \<longrightarrow>
     length sig = SignatureLength \<and> sig ! vOffset < legacySigAdj \<and> x_SigToPub L h sig = Inr (ek_PublicKey priv))"

text \<open>\<open>Sign\<close> adds 27 to the last byte and \<open>DeriveSender\<close> takes it off again.\<close>

lemma sign_derive:
  assumes "keys_ok L priv" and "Sign L h (ek_D priv) = Inr sig"
  shows "DeriveSender L h sig = Inr (ek_PublicKey priv)"
proof -
  obtain s where s: "x_Sign L h (ek_D priv) = Inr s" "sig = s[vOffset := s ! vOffset + legacySigAdj]" "vOffset < length s"
    using assms(2) by (auto simp: Sign_def bindE_iff split: if_splits)
  have len: "length s = SignatureLength" and v: "s ! vOffset < legacySigAdj"
    and pub: "x_SigToPub L h s = Inr (ek_PublicKey priv)"
    using assms(1) s(1) by (auto simp: keys_ok_def)
  have "legacySigAdj \<le> s ! vOffset + legacySigAdj"
  proof -
    have "unat (s ! vOffset + legacySigAdj) = unat (s ! vOffset) + unat legacySigAdj"
      using v by (simp add: word_less_nat_alt unat_word_ariths legacySigAdj_def)
    then show ?thesis by (simp add: word_le_nat_alt)
  qed
  then show ?thesis using s len pub by (simp add: DeriveSender_def Let_def)
qed

lemma Init_signed:
  assumes "Transaction_Init L C (NewTx utx sig) = Inr tx"
  shows "Transaction_Init L C tx = Inr tx \<and> Transaction_Init L C (wireTx tx) = Inr tx \<and>
    enc C (wireTx tx) = Inr (tx_bytes tx) \<and> tx_Unsigned tx = utx \<and>
    (\<exists>dh pk. DigestHash L utx = Inr dh \<and> DeriveSender L dh sig = Inr pk \<and> tx_sender tx = x_PubkeyToAddress L pk)"
  using assms by (auto simp: Transaction_Init_def bindE_iff wireTx_def NewTx_def)

section \<open>What the node makes of one transaction\<close>

lemma genesis_Get: "pres (\<lambda>v. v_genesis v = g) (GetStatelessBlock V i)"
  by (auto simp: pres_def GetStatelessBlock_def newObj_def split: prod.splits option.splits sum.splits)

lemma genesis_loop: "pres (\<lambda>v. v_genesis v = g) (lookbackLoop V c l f n cur acc)"
  by (induction n arbitrary: cur acc) (auto simp: deref_def intro!: pres_intro genesis_Get)

lemma genesis_context: "pres (\<lambda>v. v_genesis v = g) (ExecutionContext V fuel t p)"
  unfolding ExecutionContext_def lookback_def deref_def Let_def
  by (intro pres_intro genesis_Get genesis_loop)

lemma genesis_SuggestedFee: "pres (\<lambda>v. v_genesis v = g) (SuggestedFee V fuel)"
  unfolding SuggestedFee_def Let_def by (intro pres_intro genesis_Get genesis_context)

lemma issue_one:
  assumes "issue V n t v = (Inr i, v')" and "Transaction_Init (ve_L V) (bc_Tx (ve_B V)) t = Inr tx"
    and "Transaction_Init (ve_L V) (bc_Tx (ve_B V)) tx = Inr tx"
  shows "tx_id tx = i \<and> (\<exists>b bt cx d s d' s'. baseOf (tx_Unsigned tx) = Inr b \<and> ExecuteBase (v_genesis v) b = Inr () \<and>
    Transaction_Execute (ve_E V) (bc_ValueMeta (ve_B V)) (ve_now V) (v_genesis v) bt cx tx (d, s) = (Inr (), (d', s')))"
proof -
  obtain errs where errs: "VM_Submit V n [tx] v = (Inr errs, v')" "submitted (tx_id tx) errs = Inr i"
    using assms(1,2) by (auto simp: issue_def sm_iff)
  then have i: "errs = []" "tx_id tx = i" by (auto simp: submitted_def split: list.splits)
  let ?now = "unix_now (ve_now V)"
  let ?start = "bindS (GetStatelessBlock V (v_preferred v)) (ExecutionContext V n ?now)"
  obtain cx v1 where st: "?start v = (Inr cx, v1)"
    and loop: "\<exists>v2. submitLoop V ?now cx (vdb_New (ve_D V) (v_db v1)) [] [tx] v1 = (Inr [], v2)"
    using errs(1) unfolding VM_Submit_def Let_def i(1)
    by (auto simp: bindS_iff retS_def split: prod.splits sum.splits if_splits)
  have g: "v_genesis v1 = v_genesis v"
  proof -
    have "pres (\<lambda>x. v_genesis x = v_genesis v) ?start" by (intro pres_intro genesis_Get genesis_context)
    from presD' [OF this st] show ?thesis by simp
  qed
  let ?b = "DummyBlock ?now tx :: 'a StatelessBlock"
  obtain b d' s' u where "baseOf (tx_Unsigned tx) = Inr b" "ExecuteBase (v_genesis v1) b = Inr ()"
    "Transaction_Execute (ve_E V) (bc_ValueMeta (ve_B V)) (ve_now V) (v_genesis v1) (sf_Tmstmp (sb_block ?b)) cx tx
      (vdb_New (ve_D V) (v_db v1), v_samaState v1) = (Inr u, (d', s'))"
    using loop assms(3) unfolding submitLoop.simps submit_def
    by (auto simp: bindE_iff split: prod.splits sum.splits if_splits)
  then show ?thesis using i(2) unfolding g by fastforce
qed


section \<open>What the client sends\<close>

lemma serve_iff: "serve step h w = (Inr x, w') \<longleftrightarrow> h (step w) = (Inr x, w')"
  by (auto simp: serve_def split: prod.splits sum.splits)

lemma askVM_iff: "askVM V h w = (Inr x, w') \<longleftrightarrow> h (nodeEnv V w) (nodeVM w) = Inr x \<and> w' = w"
  by (auto simp: askVM_def)

definition setVM ::
  "('db, 'c, 'lc) VM \<Rightarrow> ('db, 'c, 'lc, 'b, 'k, 'x) world \<Rightarrow> ('db, 'c, 'lc, 'b, 'k, 'x) world" where
  "setVM v w = w\<lparr>nw_svc := (nw_svc w)\<lparr>svc_vm := v\<rparr>\<rparr>"

lemma nodeVM_set [simp]: "nodeVM (setVM v w) = v"
  by (simp add: setVM_def nodeVM_def)

lemma runVM_iff:
  "runVM V h w = (Inr x, w') \<longleftrightarrow> (\<exists>v. h (nodeEnv V w) (nodeVM w) = (Inr x, v) \<and> w' = setVM v w)"
  by (auto simp: runVM_def setVM_def split: prod.splits)

lemma nodeEnv_fields [simp]: "ve_L (nodeEnv V w) = ve_L V" "ve_D (nodeEnv V w) = ve_D V"
  by (simp_all add: nodeEnv_def)

text \<open>A step that leaves the genesis of the node alone.\<close>

definition same_genesis ::
  "(('db, 'c, 'lc, 'b, 'k, 'x) world \<Rightarrow> ('db, 'c, 'lc, 'b, 'k, 'x) world) \<Rightarrow> bool" where
  "same_genesis step \<longleftrightarrow> (\<forall>w. v_genesis (nodeVM (step w)) = v_genesis (nodeVM w))"

lemmas node_client_defs = node_client_def client_def node_requester_def Let_def

lemma node_calls:
  "cl_Genesis (node_client V N step) w = (Inr x, w') \<longleftrightarrow> w' = step w \<and> x = Some (v_genesis (nodeVM (step w)))"
  "cl_Accepted (node_client V N step) w = (Inr la, w') \<longleftrightarrow>
     (\<exists>h v. svc_LastAccepted (nodeVM (step w)) = (Inr (h, la), v) \<and> w' = setVM v (step w))"
  "cl_SuggestedRawFee (node_client V N step) w = (Inr pc, w') \<longleftrightarrow>
     (\<exists>v. SuggestedFee (nodeEnv V (step w)) (nc_fuel N) (nodeVM (step w)) = (Inr pc, v) \<and> w' = setVM v (step w))"
  "cl_IssueRawTx (node_client V N step) b w = (Inr i, w') \<longleftrightarrow>
     (\<exists>v. IssueRawTx (nodeEnv V (step w)) (nc_fuel N) b (nodeVM (step w)) = (Inr i, v) \<and> w' = setVM v (step w))"
  by (auto simp: node_client_defs serve_iff askVM_iff runVM_iff svc_Genesis_def Accepted_cli_def sm_iff SuggestedRawFee_def)

lemma genesis_LastAccepted: "pres (\<lambda>v. v_genesis v = g) svc_LastAccepted"
  unfolding svc_LastAccepted_def deref_def by (intro pres_intro)

lemma raw_issue:
  assumes "codec_ok (bc_Tx (ve_B V))"
    and "SignIssueRawTx (ve_L V) (bc_Tx (ve_B V)) ctx (node_client V N step) utx priv opts w = (Inr (txID, cost), w')"
  shows "\<exists>g la p0 c0 utx' sig tx w5 v'. g = v_genesis (nodeVM (step w)) \<and> fillBase g la p0 c0 utx = Inr utx' \<and>
    (\<exists>dh. DigestHash (ve_L V) utx' = Inr dh \<and> Sign (ve_L V) dh (ek_D priv) = Inr sig) \<and>
    Transaction_Init (ve_L V) (bc_Tx (ve_B V)) (NewTx utx' sig) = Inr tx \<and>
    issue (nodeEnv V w5) (nc_fuel N) (wireTx tx) (nodeVM w5) = (Inr txID, v') \<and>
    handleConfirmation (ve_L V) ctx (applyOpts opts) (node_client V N step) txID priv (setVM v' w5) = (Inr (), w') \<and>
    bindE (GetPrice utx') (\<lambda>p. bindE (FeeUnits g (u_body utx')) (\<lambda>fu. Inr (p * fu))) = Inr cost \<and>
    (same_genesis step \<longrightarrow> v_genesis (nodeVM w5) = g)"
proof -
  let ?cli = "node_client V N step"
  obtain x la p0 c0 g utx' dh sig tx p fu w1 w2 w3 w4 where
    g: "cl_Genesis ?cli w = (Inr x, w1)" "x = Some g"
    and la: "cl_Accepted ?cli w1 = (Inr la, w2)"
    and fee: "cl_SuggestedRawFee ?cli w2 = (Inr (p0, c0), w3)"
    and utx': "fillBase g la p0 c0 utx = Inr utx'"
    and sig: "DigestHash (ve_L V) utx' = Inr dh" "Sign (ve_L V) dh (ek_D priv) = Inr sig"
    and tx: "Transaction_Init (ve_L V) (bc_Tx (ve_B V)) (NewTx utx' sig) = Inr tx"
    and issue: "cl_IssueRawTx ?cli (tx_bytes tx) w3 = (Inr txID, w4)"
    and conf: "handleConfirmation (ve_L V) ctx (applyOpts opts) ?cli txID priv w4 = (Inr (), w')"
    and cost: "GetPrice utx' = Inr p" "FeeUnits g (u_body utx') = Inr fu" "p * fu = cost"
    using assms(2) by (auto simp: SignIssueRawTx_def bindS_iff liftS_iff retS_def ptrE_iff)
  obtain h v2 v3 v4 where w1: "w1 = step w" "g = v_genesis (nodeVM w1)"
    and w2: "svc_LastAccepted (nodeVM (step w1)) = (Inr (h, la), v2)" "w2 = setVM v2 (step w1)"
    and w3: "SuggestedFee (nodeEnv V (step w2)) (nc_fuel N) (nodeVM (step w2)) = (Inr (p0, c0), v3)" "w3 = setVM v3 (step w2)"
    and w4: "IssueRawTx (nodeEnv V (step w3)) (nc_fuel N) (tx_bytes tx) (nodeVM (step w3)) = (Inr txID, v4)" "w4 = setVM v4 (step w3)"
    using g la fee issue by (auto simp: node_calls)
  have "dec (bc_Tx (ve_B V)) (tx_bytes tx) = Inr (wireTx tx)"
    using Init_signed [OF tx] codec_okD [OF assms(1)] by blast
  then have "issue (nodeEnv V (step w3)) (nc_fuel N) (wireTx tx) (nodeVM (step w3)) = (Inr txID, v4)"
    using w4(1) by (simp add: IssueRawTx_def sm_iff)
  moreover have "v_genesis (nodeVM (step w3)) = g" if "same_genesis step"
    using that presD' [OF genesis_LastAccepted w2(1), of g] presD' [OF genesis_SuggestedFee w3(1), of g]
    by (simp add: same_genesis_def w1 w2(2) w3(2))
  ultimately show ?thesis
    using w1 utx' sig tx conf cost unfolding w4(2)
    by (intro exI [of _ g] exI [of _ la] exI [of _ p0] exI [of _ c0] exI [of _ utx'] exI [of _ sig] exI [of _ tx]
        exI [of _ "step w3"] exI [of _ v4]) simp
qed


lemma fillBase_ok:
  assumes "fillBase g la p c utx = Inr utx'"
  shows "u_body utx' = u_body utx \<and> (\<exists>b. u_BaseTx utx' = Some b \<and> b_BlockID b = la \<and> b_Magic b = g_Magic g \<and>
    (FeeUnits g (u_body utx) = Inr 0 \<longrightarrow> (\<exists>b0. u_BaseTx utx = Some b0 \<and> b_Price b = b_Price b0)))"
proof -
  obtain b0 fu where b0: "u_BaseTx utx = Some b0" "FeeUnits g (u_body utx) = Inr fu"
    using assms by (auto simp: fillBase_def SetBlockID_def SetMagic_def baseOf_def bindE_iff split: option.splits)
  then show ?thesis
    using assms
    by (cases "fu = 0") (auto simp: fillBase_def SetBlockID_def SetMagic_def SetPrice_def baseOf_def)
qed

section \<open>A command that succeeds\<close>


text \<open>A node on which a transfer is issued, and which records it at once.\<close>

definition live_tx :: Transaction where
  "live_tx = NewTx \<lparr> u_BaseTx = Some \<lparr> b_BlockID = 9, b_Magic = 1, b_Price = 6 \<rparr>,
     u_body = TTransfer \<lparr> tr_To = 2, tr_Units = 1 \<rparr> \<rparr> ((replicate 65 0)[64 := 27])"

definition one_codec :: "bytes \<Rightarrow> 'a \<Rightarrow> 'a codec" where
  "one_codec b x = \<lparr> enc = (\<lambda>y. if y = x then Inr b else Inl (ErrExt ''codec'')),
     dec = (\<lambda>c. if c = b then Inr x else Inl (ErrExt ''codec'')) \<rparr>"

lemma one_codec_ok: "codec_ok (one_codec b x)"
  by (auto simp: codec_ok_def one_codec_def split: if_splits)

definition live_codecs :: blkcodecs where
  "live_codecs = \<lparr> bc_Block = list_codec [], bc_Tx = one_codec [5] live_tx, bc_ValueMeta = list_codec [] \<rparr>"

definition venv_live :: "(memdb, (address, UserMeta) gomap, (id, ptr) gomap) venv" where
  "venv_live = venv_now\<lparr>ve_B := live_codecs\<rparr>"

definition vm_live :: "(memdb, (address, UserMeta) gomap, (id, ptr) gomap) VM" where
  "vm_live = (vm_sample [(blk_sample 9 0 0)\<lparr>sb_st := Accepted\<rparr>])\<lparr>v_preferred := 9,
     v_db := (PrefixTxKey 5, []) # bal_db [(0, 100), (2, 7)]\<rparr>"

definition world_live ::
  "(memdb, (address, UserMeta) gomap, (id, ptr) gomap, (bytes, bytes) gomap, memdb, unit) world" where
  "world_live = world_file\<lparr>nw_svc := \<lparr> svc_vm = vm_live, svc_Cache = [] \<rparr>, nw_now := 1000 * 1000000000\<rparr>"

lemma live_env: "nodeEnv venv_live world_live = venv_live" "nodeVM world_live = vm_live"
  by (simp_all add: nodeEnv_def venv_live_def venv_now_def world_live_def nodeVM_def)

lemma live_context: "ExecutionContext venv_live 1 1000 0 vm_live = (Inr ctx_verify, vm_live)"
  by (simp add: venv_live_def ExecutionContext_def lookback_def GetStatelessBlock_def venv_now_def venv_sample_def map_lru_def
      vm_live_def vm_sample_def newVM_def blk_sample_def deref_def sm_defs visitContext_def emptyContext_def
      ctx_verify_def nextPrice_def nextCost_def g_sample_def DefaultGenesis_def DefaultLookbackWindow_def Let_def)

lemma live_Get: "GetStatelessBlock venv_live 9 vm_live = (Inr 0, vm_live)"
  by (simp add: venv_live_def GetStatelessBlock_def venv_now_def venv_sample_def map_lru_def vm_live_def vm_sample_def
      newVM_def blk_sample_def)

lemma live_simps [simp]:
  "ve_L venv_live = sample_lib" "ve_D venv_live = mem_db" "ve_B venv_live = live_codecs" "ve_now venv_live = 1000000000000"
  "v_preferred vm_live = 9" "v_genesis vm_live = g_sample"
  by (simp_all add: venv_live_def venv_now_def venv_sample_def vm_live_def vm_sample_def newVM_def)

lemma live_fee: "SuggestedFee venv_live 1 vm_live = (Inr (6, 0), vm_live)"
  by (simp add: SuggestedFee_def Let_def sm_defs live_Get live_context [simplified] unix_now_def ctx_verify_def percentile_def
      MinBlockCost_def g_sample_def DefaultGenesis_def)

lemma be_val_zeros: "be_val (replicate n 0) = 0"
proof -
  have "foldl (\<lambda>a b. 256 * a + unat b) 0 (replicate n (0 :: byte)) = 0" by (induction n) simp_all
  then show ?thesis by (simp add: be_val_def be_horner_def)
qed

lemma signed_Init:
  fixes u
  assumes "u_BaseTx u = Some b"
  defines "t \<equiv> NewTx u ((replicate 65 0)[64 := 27])"
  shows "\<exists>tx. Transaction_Init sample_lib (one_codec [5] t) t = Inr tx \<and> tx_id tx = 5 \<and> tx_bytes tx = [5] \<and>
    tx_sender tx = 0 \<and> wireTx tx = t \<and> tx_Unsigned tx = u"
proof -
  obtain dh where "DigestHash sample_lib u = Inr dh"
    using digest_total [OF sample_num_ok sample_text_ok] assms(1) by (auto simp: DigestHash_def TypedData_of_def baseOf_def)
  moreover have "DeriveSender sample_lib dh ((replicate 65 0)[64 := 27]) = Inr (replicate 65 0)"
    using list_update_id [of "replicate 65 0" 64]
    by (simp add: DeriveSender_def sample_lib_def SignatureLength_def vOffset_def legacySigAdj_def)
  moreover have hashes: "x_Keccak256 sample_lib [5] = 5" "x_PubkeyToAddress sample_lib (replicate 65 0) = 0"
    using be_val_zeros [of 65] by (simp_all add: sample_lib_def be_val_def be_horner_def)
  ultimately show ?thesis
    by (simp add: Transaction_Init_def wireTx_def t_def NewTx_def one_codec_def hashes text_ok_simps [OF sample_text_ok])
qed

lemma live_Init: "\<exists>tx. Transaction_Init sample_lib (one_codec [5] live_tx) live_tx = Inr tx \<and> tx_id tx = 5 \<and> tx_bytes tx = [5] \<and>
  tx_sender tx = 0 \<and> wireTx tx = live_tx \<and> tx_Unsigned tx = tx_Unsigned live_tx"
  using signed_Init [of "tx_Unsigned live_tx"] by (simp add: live_tx_def NewTx_def)

lemma live_issue: "\<exists>v. IssueRawTx venv_live 1 [5] vm_live = (Inr 5, v) \<and> v_db v = v_db vm_live"
proof -
  obtain tx where tx: "Transaction_Init sample_lib (one_codec [5] live_tx) live_tx = Inr tx" "tx_id tx = 5"
    "tx_sender tx = 0" "tx_Unsigned tx = tx_Unsigned live_tx" "wireTx tx = live_tx"
    using live_Init by blast
  have init: "Transaction_Init sample_lib (one_codec [5] live_tx) tx = Inr tx"
    using tx(1) unfolding tx(5) [symmetric] by (rule Init_signed [THEN conjunct1, of _ _ "tx_Unsigned tx" "tx_Signature tx", folded wireTx_def])
  have ex: "\<exists>d. Transaction_Execute (ve_E venv_live) (list_codec []) 1000000000000 g_sample
      (sf_Tmstmp (sb_block (DummyBlock 1000 tx :: memdb StatelessBlock))) ctx_verify tx (v_db vm_live, sama0) = (Inr (), (d, sama0))"
    by (simp add: run_defs sm_defs tx(2-4) live_tx_def NewTx_def ctx_verify_def vm_live_def venv_live_def venv_now_def venv_sample_def
        DummyBlock_def)
  have "mem_ok (v_mempool vm_live)" by (simp add: vm_live_def vm_sample_def newVM_def New_ok)
  moreover have "GetPrice (tx_Unsigned tx) = Inr 6" by (simp add: tx(4) live_tx_def NewTx_def GetPrice_def baseOf_def)
  ultimately obtain b m where m: "Mempool_Add tx (v_mempool vm_live) = Inr (b, m)" using Add_ok by blast
  obtain d where ex: "Transaction_Execute (ve_E venv_live) (list_codec []) 1000000000000 g_sample
      (sf_Tmstmp (sb_block (DummyBlock 1000 tx :: memdb StatelessBlock))) ctx_verify tx (v_db vm_live, v_samaState vm_live) =
      (Inr (), (d, sama0))"
    using ex by (auto simp: vm_live_def vm_sample_def newVM_def)
  have D: "vdb_New mem_db x = x" for x by (simp add: mem_db_def)
  have base: "baseOf (tx_Unsigned tx) = Inr \<lparr> b_BlockID = 9, b_Magic = 1, b_Price = 6 \<rparr>"
    "ExecuteBase g_sample \<lparr> b_BlockID = 9, b_Magic = 1, b_Price = 6 \<rparr> = Inr ()"
    by (simp_all add: tx(4) live_tx_def NewTx_def baseOf_def ExecuteBase_def g_sample_def DefaultGenesis_def)
  have codecs: "bc_Tx live_codecs = one_codec [5] live_tx" "bc_ValueMeta live_codecs = list_codec []"
    "dec (one_codec [5] live_tx) [5] = Inr live_tx"
    by (simp_all add: live_codecs_def one_codec_def)
  have submit: "submit venv_live tx 1000 ctx_verify (v_db vm_live) vm_live =
      (Inr (), (d, vm_live\<lparr>v_samaState := sama0, v_mempool := m\<rparr>))"
    using ex m by (simp add: submit_def codecs init base addTx_def onMempool_def)
  have "VM_Submit venv_live 1 [tx] vm_live =
      (Inr [], vm_live\<lparr>v_samaState := Abort sama0, v_mempool := m\<rparr>)"
    by (simp add: VM_Submit_def Let_def unix_now_def sm_defs live_Get live_context [simplified] submit D abortSama_def)
  then have "IssueRawTx venv_live 1 [5] vm_live = (Inr 5, vm_live\<lparr>v_samaState := Abort sama0, v_mempool := m\<rparr>)"
    by (simp add: IssueRawTx_def issue_def sm_defs codecs tx(1,2) submitted_def)
  then show ?thesis by simp
qed

lemma sign_sample: "keys_ok sample_lib key_file"
  using list_update_id [of "replicate 65 0" 64]
  by (simp add: keys_ok_def key_file_def sample_lib_def SignatureLength_def vOffset_def legacySigAdj_def)


section \<open>Commands that never succeed\<close>

lemma free_send:
  assumes "same_genesis step" and "codec_ok (bc_Tx (ve_B V))" and "ce_L e = ve_L V" and "ce_CT e = bc_Tx (ve_B V)"
    and "0 < g_MinPrice (v_genesis (nodeVM w))" and "\<And>g. FeeUnits g body = Inr 0"
  shows "send e (node_client V N step) priv body w \<noteq> (Inr (), w')"
proof
  let ?u = "\<lparr> u_BaseTx = Some emptyBaseTx, u_body = body \<rparr>"
  assume "send e (node_client V N step) priv body w = (Inr (), w')"
  then obtain r where run: "SignIssueRawTx (ve_L V) (bc_Tx (ve_B V)) (ce_ctx e) (node_client V N step) ?u priv (cliOpts e) w =
      (Inr r, w')"
    by (auto simp: send_def assms(3,4) sm_iff)
  obtain txID cost where r: "r = (txID, cost)" by fastforce
  obtain g la p0 c0 utx' sig tx w5 v' where fill: "fillBase g la p0 c0 ?u = Inr utx'"
    and tx: "Transaction_Init (ve_L V) (bc_Tx (ve_B V)) (NewTx utx' sig) = Inr tx"
    and issue: "issue (nodeEnv V w5) (nc_fuel N) (wireTx tx) (nodeVM w5) = (Inr txID, v')"
    and conf: "handleConfirmation (ve_L V) (ce_ctx e) (applyOpts (cliOpts e)) (node_client V N step) txID priv (setVM v' w5) =
      (Inr (), w')"
    and g: "g = v_genesis (nodeVM (step w))" "v_genesis (nodeVM w5) = g"
    using raw_issue [OF assms(2) run[unfolded r]] assms(1) by blast
  obtain b where b: "u_BaseTx utx' = Some b" "b_Price b = 0"
    using fillBase_ok [OF fill] assms(6) by (auto simp: emptyBaseTx_def)
  have "ExecuteBase g b = Inr ()"
    using issue_one [OF issue, of tx] Init_signed [OF tx] b(1) by (auto simp: g(2) baseOf_def)
  moreover have "0 < g_MinPrice g" using assms(1,5) by (simp add: g(1) same_genesis_def)
  ultimately show False using b(2) by (auto simp: ExecuteBase_def split: if_splits)
qed

text \<open>
  C38. On a chain with a smallest price above zero, which is the default, the commands that
  send a proof of work and that refresh the details of a node never succeed: their transactions
  have no fee units, so the client leaves their price at zero and the node refuses them.
\<close>

theorem free_commands_refused:
  assumes "same_genesis step" and "codec_ok (bc_Tx (ve_B V))" and "ce_L e = ve_L V" and "ce_CT e = bc_Tx (ve_B V)"
    and "0 < g_MinPrice (v_genesis (nodeVM w))"
  shows "(\<exists>err w'. proofFunc e (node_client V N step) args w = (Inl err, w')) \<and>
    (\<exists>err w'. refreshFunc e (node_client V N step) args w = (Inl err, w'))"
proof -
  have nodes: "cl_GetNodes (node_client V N step) a w = (Inr nd, w1) \<Longrightarrow> w1 = step w" for a nd w1
    by (auto simp: node_client_defs GetNodes_cli_def serve_iff askVM_iff sm_iff)
  have price: "0 < g_MinPrice (v_genesis (nodeVM (step w)))" using assms(1,5) by (simp add: same_genesis_def)
  have free: "FeeUnits g (TProof px) = Inr 0" "FeeUnits g (TRefresh fx) = Inr 0" for g px fx
    by (simp_all add: FeeUnits_def ProofTx_FeeUnits_def RefreshTx_FeeUnits_def)
  have "proofFunc e (node_client V N step) args w \<noteq> (Inr (), w')" for w'
    using free_send [OF assms free(1)] by (auto simp: proofFunc_def sm_iff)
  moreover have "refreshFunc e (node_client V N step) args w \<noteq> (Inr (), w')" for w'
    using free_send [OF assms(1-4) price free(2)] nodes by (fastforce simp: refreshFunc_def sm_iff)
  moreover have "(\<exists>err w'. r = (Inl err, w')) \<or> (\<exists>w'. r = (Inr (), w'))" for r :: "(err + unit) \<times> ('a, 'b, 'c, 'd, 'e, 'f) world"
    by (metis old.unit.exhaust prod.collapse sum.exhaust_sel)
  ultimately show ?thesis by metis
qed

definition cli_env :: cliEnv where
  "cli_env = \<lparr> ce_L = sample_lib, ce_CT = one_codec [5] live_tx, ce_ctx = 1, ce_key = Inr key_file, ce_verbose = False,
     ce_now = 1000 * 1000000000 \<rparr>"

lemma free_commands_refused_witness:
  "(\<exists>err w'. proofFunc cli_env (node_client venv_live node_cfg (\<lambda>w. w)) [''7'', ''1'', ''2''] world_live = (Inl err, w')) \<and>
    0 < g_MinPrice (v_genesis (nodeVM world_live))"
proof -
  have price: "0 < g_MinPrice (v_genesis (nodeVM world_live))" by (simp add: live_env g_sample_def DefaultGenesis_def)
  then show ?thesis
    using free_commands_refused [of "\<lambda>w. w" venv_live cli_env world_live]
    by (auto simp: same_genesis_def live_codecs_def one_codec_ok cli_env_def)
qed

text \<open>
  A claim by an address that has no stake as a route fails at its first request, stakers of
  the other kind included: the node asks twice whether the address is a route and never
  whether it is a server.
\<close>

theorem claim_routes_only:
  assumes "ce_key e = Inr priv"
    and "\<not> IsRoute (sama_StakerState (v_samaState (nodeVM (step w)))) (x_PubkeyToAddress (ce_L e) (ek_PublicKey priv))"
  shows "\<exists>err. claimFunc e (node_client V N step) w = (Inl err, step w)"
  using assms
  by (auto simp: claimFunc_def Let_def sm_defs node_client_defs serve_def askVM_def GetStakerType_def)


lemma claim_routes_only_witness:
  "\<exists>err. claimFunc cli_env (node_client venv_live node_cfg (\<lambda>w. w)) world_live = (Inl err, world_live)"
  by (rule claim_routes_only [where priv = key_file])
    (simp_all add: cli_env_def live_env vm_live_def vm_sample_def newVM_def sama0_def IsRoute_def emptyStakerState_def)

end
