(* ===== verification/PeerProps.thy ===== *)
theory PeerProps
  imports CliProps
begin

text \<open>
  A block on its way between two nodes: what \<open>BuildBlock\<close> leaves on the node that builds it,
  and what \<open>ParseBlock\<close> makes of its bytes on another.
\<close>

section \<open>A built block and its bytes\<close>

text \<open>A transaction that crosses the wire is initialised to what it was before.\<close>

lemma Init_wire: "Transaction_Init L C (wireTx t) = Transaction_Init L C t"
  by (simp add: Transaction_Init_def wireTx_def NewTx_def bindE_def fun_eq_iff split: sum.split)

lemma initTxs_wire: "initTxs L C (map wireTx txs) = initTxs L C txs"
  by (induction txs) (simp_all add: Init_wire)

lemma Init_keeps_wire: "Transaction_Init L C t = Inr t' \<Longrightarrow> wireTx t' = wireTx t"
  by (auto simp: Transaction_Init_def bindE_iff wireTx_def NewTx_def)

lemma initTxs_keeps_wire: "initTxs L C txs = Inr txs' \<Longrightarrow> map wireTx txs' = map wireTx txs"
  by (induction txs arbitrary: txs') (auto simp: bindE_iff Init_keeps_wire)

text \<open>The object a parser makes of the bytes of a block.\<close>

definition parsed :: "lib \<Rightarrow> blkcodecs \<Rightarrow> 'db StatelessBlock \<Rightarrow> bool" where
  "parsed L B b \<longleftrightarrow> ParseBlock L B (sb_bytes b) Processing = Inr b \<and> bytesID L (sb_bytes b) = Inr (sb_id b)"

lemma marshal_wire: "marshalBlock B (wireBlock blk) = marshalBlock B blk"
proof -
  have "wireTx (wireTx t) = wireTx t" for t by (simp add: wireTx_def NewTx_def)
  then show ?thesis by (simp add: marshalBlock_def wireBlock_def comp_def)
qed

lemma parse_built:
  assumes "codec_ok (bc_Block B)" and "StatelessBlock_init L B b0 = Inr b"
    and "sb_st b0 = Processing" and "sb_children b0 = []" and "sb_onAcceptDB b0 = None"
  shows "parsed L B b"
proof -
  obtain bs i txs where e: "enc (bc_Block B) (wireBlock (sb_block b0)) = Inr bs" "bytesID L bs = Inr i"
    "initTxs L (bc_Tx B) (sf_Txs (sb_block b0)) = Inr txs"
    and b: "b = b0\<lparr>sb_bytes := bs, sb_id := i, sb_t := sf_Tmstmp (sb_block b0),
      sb_block := (sb_block b0)\<lparr>sf_Txs := txs\<rparr>\<rparr>"
    using assms(2) by (auto simp: StatelessBlock_init_def marshalBlock_def bindE_iff)
  have "dec (bc_Block B) bs = Inr (wireBlock (sb_block b0))" by (rule codec_okD [OF assms(1) e(1)])
  moreover have "initTxs L (bc_Tx B) (sf_Txs (wireBlock (sb_block b0))) = Inr txs"
    using e(3) by (simp add: wireBlock_def initTxs_wire)
  moreover have "marshalBlock B (wireBlock (sb_block b0)) = Inr bs" using e(1) by (simp add: marshal_wire) (simp add: marshalBlock_def)
  ultimately show ?thesis
    using assms(3-5) e(2)
    by (cases b0) (auto simp: parsed_def ParseBlock_def ParseStatefulBlock_def b wireBlock_def)
qed

section \<open>The built block stays as it is\<close>

text \<open>Verification on the spot and the transactions put back change no object.\<close>

definition holds_at :: "ptr \<Rightarrow> 'db StatelessBlock \<Rightarrow> ('db, 'c, 'lc) VM \<Rightarrow> bool" where
  "holds_at p b v \<longleftrightarrow> p < length (v_objs v) \<and> v_objs v ! p = b"

lemma holds_Get: "pres (holds_at p b) (GetStatelessBlock V i)"
  by (auto simp: pres_def GetStatelessBlock_def newObj_def holds_at_def nth_append split: prod.splits option.splits sum.splits)

lemma holds_loop: "pres (holds_at p b) (lookbackLoop V c l f n cur acc)"
  by (induction n arbitrary: cur acc) (auto simp: deref_def intro!: pres_intro holds_Get)

lemma holds_context: "pres (holds_at p b) (ExecutionContext V fuel t q)"
  unfolding ExecutionContext_def lookback_def deref_def Let_def
  by (intro pres_intro holds_Get holds_loop)

lemma holds_overlay: "pres (holds_at p b) (onOverlay d m)"
  by (auto simp: pres_def onOverlay_def holds_at_def split: prod.splits sum.splits)

lemma holds_verify: "pres (holds_at p b) (blk_verify V fuel q)"
  unfolding blk_verify_def onAccept_def deref_def Let_def
  by (intro pres_intro holds_Get holds_context holds_overlay)

lemma holds_addTx: "pres (holds_at p b) (addTx tx)"
  by (auto simp: pres_def addTx_def onMempool_def holds_at_def split: sum.splits)

lemma holds_abort: "pres (holds_at p b) abortSama"
  unfolding abortSama_def by (rule pres_modS) (simp add: holds_at_def)

lemma finallyS_iff: "finallyS m f s = (Inr x, s'') \<longleftrightarrow> (\<exists>s' u. m s = (Inr x, s') \<and> f s' = (Inr u, s''))"
  by (auto simp: finallyS_def split: prod.splits sum.splits)

lemma BuildBlock_object:
  assumes "chain_BuildBlock V fuel preferred v = (Inr p, v')"
  shows "\<exists>b0 b. StatelessBlock_init (ve_L V) (ve_B V) b0 = Inr b \<and> sb_st b0 = Processing \<and> sb_children b0 = [] \<and>
    sb_onAcceptDB b0 = None \<and> holds_at p b v'"
proof -
  obtain v1 v2 v3 b0 b r unusable where init: "StatelessBlock_init (ve_L V) (ve_B V) b0 = Inr b"
    and b0: "sb_st b0 = Processing" "sb_children b0 = []" "sb_onAcceptDB b0 = None"
    and new: "newObj b v1 = (Inr p, v2)" and verify: "blk_verify V fuel p v2 = (Inr r, v3)"
    and readd: "putBack unusable (snd (abortSama v3)) = (Inr (), v')"
    using assms
    by (auto simp: chain_BuildBlock_def Let_def sm_iff finallyS_iff abortSama_def modS_def split: prod.splits)
      (auto simp: NewBlock_def)
  have "holds_at p b v2" using new by (auto simp: newObj_def holds_at_def)
  then have "holds_at p b (snd (abortSama v3))" using presD' [OF holds_verify verify] presD [OF holds_abort] by blast
  then have "holds_at p b v'" using presD' [OF pres_forS [OF holds_addTx] readd [unfolded putBack_def]] by blast
  then show ?thesis using init b0 by blast
qed

text \<open>
  C10. A block that \<open>BuildBlock\<close> returns on one node arrives on another, which does not know it
  yet, as the same object: its id is the hash of its bytes, and parsing the bytes gives the
  same header, the same transactions with the same ids, senders and digests, and the same
  time, not verified and without children.
\<close>

theorem block_transfer:
  assumes "codec_ok (bc_Block (ve_B V))" and "ve_L W = ve_L V" and "ve_B W = ve_B V"
    and "VM_BuildBlock V fuel v = (Inr p, v')"
    and "GetStatelessBlock W (sb_id (v_objs v' ! p)) u = (Inl e, u1)" and "\<not> is_panic e"
  shows "\<exists>q u'. VM_ParseBlock W (sb_bytes (v_objs v' ! p)) u = (Inr q, u') \<and> q < length (v_objs u') \<and>
    v_objs u' ! q = v_objs v' ! p \<and>
    bytesID (ve_L V) (sb_bytes (v_objs v' ! p)) = Inr (sb_id (v_objs v' ! p)) \<and>
    sb_st (v_objs u' ! q) = Processing \<and> sb_onAcceptDB (v_objs u' ! q) = None"
proof -
  obtain v1 where v1: "chain_BuildBlock V fuel (v_preferred v) v = (Inr p, v1)" "v_objs v' = v_objs v1"
    using assms(4) by (auto simp: VM_BuildBlock_def split: prod.splits sum.splits if_splits)
  obtain b0 b where b0: "StatelessBlock_init (ve_L V) (ve_B V) b0 = Inr b" "sb_st b0 = Processing" "sb_children b0 = []"
    "sb_onAcceptDB b0 = None" and "holds_at p b v1"
    using BuildBlock_object [OF v1(1)] by blast
  then have b: "v_objs v' ! p = b" using v1(2) by (simp add: holds_at_def)
  have parse: "parsed (ve_L V) (ve_B V) b" by (rule parse_built [OF assms(1) b0])
  moreover have "sb_st b = Processing" "sb_onAcceptDB b = None"
    using b0 by (auto simp: StatelessBlock_init_def bindE_iff)
  moreover have "ignS (GetStatelessBlock W (sb_id b)) u = (Inr None, u1)"
    using assms(5,6) by (simp add: ignS_def b)
  ultimately have "VM_ParseBlock W (sb_bytes b) u = newObj b u1"
    by (simp add: VM_ParseBlock_def assms(2,3) parsed_def liftS_def bindS_def)
  then show ?thesis
    using parse b0 by (auto simp: b newObj_def parsed_def StatelessBlock_init_def bindE_iff)
qed

section \<open>A block with one transfer\<close>

definition peer_tx :: Transaction where
  "peer_tx = NewTx \<lparr> u_BaseTx = Some \<lparr> b_BlockID = 9, b_Magic = 1, b_Price = 8 \<rparr>,
     u_body = TTransfer \<lparr> tr_To = 2, tr_Units = 1 \<rparr> \<rparr> ((replicate 65 0)[64 := 27])"

definition peer_proof :: hash where
  "peer_proof = generateAccessProof sample_lib mem_db (v_db vm_live) 9 1"

definition peer_blk :: "Transaction list \<Rightarrow> StatefulBlock" where
  "peer_blk txs = \<lparr> sf_Prnt = 9, sf_Tmstmp = 1000, sf_Hght = 1, sf_Price = 5, sf_Cost = 1, sf_AccessProof = peer_proof,
     sf_Txs = txs \<rparr>"

definition venv_peer :: "(memdb, (address, UserMeta) gomap, (id, ptr) gomap) venv" where
  "venv_peer = venv_now\<lparr>ve_B := \<lparr> bc_Block = one_codec [7] (peer_blk [peer_tx]), bc_Tx = one_codec [5] peer_tx,
     bc_ValueMeta = list_codec [] \<rparr>\<rparr>"

definition vm_peer :: "Mempool \<Rightarrow> memdb StatelessBlock list \<Rightarrow> (memdb, (address, UserMeta) gomap, (id, ptr) gomap) VM" where
  "vm_peer m bs = vm_live\<lparr>v_mempool := m, v_objs := v_objs vm_live @ bs\<rparr>"

lemma peer_Init: "\<exists>tx. Transaction_Init sample_lib (one_codec [5] peer_tx) peer_tx = Inr tx \<and> tx_id tx = 5 \<and> tx_bytes tx = [5] \<and>
  tx_sender tx = 0 \<and> wireTx tx = peer_tx \<and> tx_Unsigned tx = tx_Unsigned peer_tx"
  using signed_Init [of "tx_Unsigned peer_tx"] by (simp add: peer_tx_def NewTx_def)

lemma peer_context: "ExecutionContext venv_peer 1 1000 0 (vm_peer m bs) = (Inr ctx_verify, vm_peer m bs)"
  by (simp add: venv_peer_def ExecutionContext_def lookback_def GetStatelessBlock_def venv_now_def venv_sample_def map_lru_def
      vm_peer_def vm_live_def vm_sample_def newVM_def blk_sample_def deref_def sm_defs visitContext_def emptyContext_def
      ctx_verify_def nextPrice_def nextCost_def g_sample_def DefaultGenesis_def DefaultLookbackWindow_def Let_def)

lemma peer_Get: "GetStatelessBlock venv_peer 9 (vm_peer m bs) = (Inr 0, vm_peer m bs)"
  by (simp add: venv_peer_def GetStatelessBlock_def venv_now_def venv_sample_def map_lru_def vm_peer_def vm_live_def
      vm_sample_def newVM_def blk_sample_def)

lemma peer_simps [simp]:
  "ve_L venv_peer = sample_lib" "ve_D venv_peer = mem_db" "ve_now venv_peer = 1000000000000"
  "bc_Tx (ve_B venv_peer) = one_codec [5] peer_tx" "bc_Block (ve_B venv_peer) = one_codec [7] (peer_blk [peer_tx])"
  "bc_ValueMeta (ve_B venv_peer) = list_codec []" "v_preferred (vm_peer m bs) = 9" "v_genesis (vm_peer m bs) = g_sample"
  "v_mempool (vm_peer m bs) = m" "v_objs (vm_peer m bs) = (blk_sample 9 0 0)\<lparr>sb_st := Accepted\<rparr> # bs"
  "v_db (vm_peer m bs) = v_db vm_live" "v_samaState (vm_peer m bs) = sama0" "vdb_New mem_db d = d"
  by (simp_all add: venv_peer_def venv_now_def venv_sample_def vm_peer_def vm_live_def vm_sample_def newVM_def mem_db_def)

lemma peer_updates [simp]:
  "(vm_peer m bs)\<lparr>v_mempool := m'\<rparr> = vm_peer m' bs" "(vm_peer m bs)\<lparr>v_samaState := sama0\<rparr> = vm_peer m bs"
  "newObj b (vm_peer m bs) = (Inr (Suc (length bs)), vm_peer m (bs @ [b]))"
  by (simp_all add: vm_peer_def vm_live_def vm_sample_def newVM_def newObj_def)

lemma Abort_sama0 [simp]: "Abort sama0 = sama0"
  by (simp add: Abort_def sama0_def CacheParamsAbort_def CacheStakersAbort_def abortStakers_def CacheRewardsAbort_def
      CachePowsAbort_def abortPows_def CacheYieldsAbort_def CacheUsersAbort_def CacheDetailsAbort_def
      CacheActionsAbort_def CacheUserTypesAbort_def emptyStakerState_def emptyRewardState_def emptyPowState_def
      emptyDetailsState_def emptyActionsState_def emptyUserTypesState_def emptyYieldMeta_def emptySysParamsMeta_def
      emptyRewardGlobal_def StakerTypes_def powTypes_def GetPendingStakers_def setPendingStakers_def setPendingPow_def)

lemma peer_exec:
  assumes "tx_id tx = 5" and "tx_sender tx = 0" and "tx_Unsigned tx = tx_Unsigned peer_tx"
  shows "\<exists>d. Transaction_Execute (ve_E venv_peer) (list_codec []) 1000000000000 g_sample 1000 ctx_verify tx
    (v_db vm_live, sama0) = (Inr (), (d, sama0))"
  by (simp add: run_defs sm_defs assms peer_tx_def ctx_verify_def vm_live_def venv_peer_def venv_now_def venv_sample_def)

text \<open>The pool holds the transaction, and the loop takes it.\<close>

lemma peer_pool:
  assumes "tx_id tx = 5" and "tx_Unsigned tx = tx_Unsigned peer_tx"
  shows "\<exists>m m1 m2. Mempool_Prune {9} m = Inr m1 \<and> Mempool_Len m1 = 1 \<and>
    Mempool_PopMax m1 = Inr ((Some tx, 8), m2)"
proof -
  have p: "GetPrice (tx_Unsigned tx) = Inr 8" "GetBlockID (tx_Unsigned tx) = Inr 9"
    by (simp_all add: assms(2) peer_tx_def NewTx_def GetPrice_def GetBlockID_def baseOf_def)
  have "mem_ok (Mempool_New g_sample 2)" "pool (Mempool_New g_sample 2) = Map.empty" "Mempool_Len (Mempool_New g_sample 2) = 0"
    "mp_maxSize (Mempool_New g_sample 2) = 2"
    using New_ok [of 2 g_sample]
    by (simp_all add: Mempool_New_def Mempool_Len_def txHeap_Len_def newTxHeap_def)
  then obtain m where m: "mem_ok m" "pool m = [5 \<mapsto> (tx, 8)]"
    using Add_ok [of "Mempool_New g_sample 2" tx 8] p(1) assms(1) by (auto simp: Let_def)
  obtain m1 where m1: "Mempool_Prune {9} m = Inr m1" "mem_ok m1"
    and "\<forall>i. pool m1 i = (case pool m i of None \<Rightarrow> None
       | Some (t, p) \<Rightarrow> if (\<exists>b \<in> {9}. GetBlockID (tx_Unsigned t) = Inr b) then Some (t, p) else None)"
    using Prune_ok [OF m(1), of "{9}"] by blast
  then have pool: "pool m1 = [5 \<mapsto> (tx, 8)]" using m(2) p(2) by (auto simp: fun_eq_iff)
  then have len: "Mempool_Len m1 = 1" using Len_card [of m1] m1(2) by (simp add: mem_ok_def)
  then obtain t q m2 where "Mempool_PopMax m1 = Inr ((Some t, q), m2)" "pool m1 (tx_id t) = Some (t, q)"
    using take_max [OF m1(2)] by auto
  moreover from this have "t = tx" "q = 8" by (auto simp: pool split: if_splits)
  ultimately show ?thesis using m1(1) len by blast
qed

lemma peer_build:
  "\<exists>m v'. VM_BuildBlock venv_peer 1 (vm_peer m []) = (Inr 1, v') \<and> sb_id (v_objs v' ! 1) = 7 \<and>
     sb_bytes (v_objs v' ! 1) = [7] \<and> sf_Txs (sb_block (v_objs v' ! 1)) \<noteq> []"
proof -
  obtain tx where tx: "Transaction_Init sample_lib (one_codec [5] peer_tx) peer_tx = Inr tx" "tx_id tx = 5" "tx_sender tx = 0"
    "wireTx tx = peer_tx" "tx_Unsigned tx = tx_Unsigned peer_tx"
    using peer_Init by blast
  have init: "Transaction_Init sample_lib (one_codec [5] peer_tx) tx = Inr tx"
    using tx(1) unfolding tx(4) [symmetric] Init_wire .
  obtain m m1 m2 where m: "Mempool_Prune {9} m = Inr m1" "Mempool_Len m1 = Suc 0" "Mempool_PopMax m1 = Inr ((Some tx, 8), m2)"
    using peer_pool [OF tx(2,5)] by auto
  obtain d where ex: "Transaction_Execute (ve_E venv_peer) (list_codec []) 1000000000000 g_sample 1000 ctx_verify tx
    (v_db vm_live, sama0) = (Inr (), (d, sama0))"
    using peer_exec [OF tx(2,3,5)] by blast
  have load: "LoadUnits g_sample (u_body (tx_Unsigned tx)) = Inr 2" "FeeUnits g_sample (u_body (tx_Unsigned tx)) = Inr 2"
    "GetPrice (tx_Unsigned tx) = Inr 8"
    by (simp_all add: tx(5) peer_tx_def NewTx_def LoadUnits_def FeeUnits_def BaseTx_FeeUnits_def g_sample_def GetPrice_def baseOf_def)
  have cx: "cx_RecentBlockIDs ctx_verify = {9}" "cx_NextPrice ctx_verify = 5" "cx_NextCost ctx_verify = 1"
    by (simp_all add: ctx_verify_def)
  have commit: "vdb_Commit mem_db x = Inr x" for x by (simp add: mem_db_def)
  have run: "runBuild venv_peer g_sample (peer_blk []) ctx_verify (v_db vm_live) (vm_peer m1 []) =
      (Inr (Inr (), [tx], []), vm_peer m2 [])"
    using m ex by (simp add: runBuild_def takeTx_def load peer_blk_def commit bindS_def)
  have wire: "wireBlock (peer_blk [tx]) = peer_blk [peer_tx]" by (simp add: wireBlock_def peer_blk_def tx(4))
  have id: "bytesID sample_lib [7] = Inr 7"
    by (simp add: bytesID_def text_ok_simps [OF sample_text_ok]) (simp add: sample_lib_def be_val_def be_horner_def)
  let ?raw = "(NewBlock 9 0 1000 5 1 :: memdb StatelessBlock)\<lparr>sb_block := peer_blk [tx]\<rparr>"
  let ?b = "?raw\<lparr>sb_bytes := [7], sb_id := 7, sb_t := 1000, sb_block := peer_blk [tx]\<rparr>"
  have new: "sf_Hght (sb_block (NewBlock 9 0 1000 5 1 :: memdb StatelessBlock)) = 1"
    "(sb_block (NewBlock 9 0 1000 5 1 :: memdb StatelessBlock))\<lparr>sf_AccessProof := peer_proof\<rparr> = peer_blk []"
    "(peer_blk [])\<lparr>sf_Txs := txs\<rparr> = peer_blk txs" for txs
    by (simp_all add: NewBlock_def peer_blk_def)
  have binit: "StatelessBlock_init sample_lib (ve_B venv_peer) ?raw = Inr ?b"
    using init by (simp add: StatelessBlock_init_def marshalBlock_def wire one_codec_def id)
      (simp add: peer_blk_def one_codec_def [symmetric])
  have verify: "\<exists>r. blk_verify venv_peer 1 1 (vm_peer m2 [?b]) = (Inr r, vm_peer m2 [?b])"
    using ex
    by (simp add: blk_verify_def Let_def sm_iff deref_def peer_Get peer_context [simplified] peer_blk_def onAccept_def
        onOverlay_iff checkSize_def futureBound_def load cx blk_sample_def peer_proof_def)
  obtain q d' where verify: "blk_verify venv_peer 1 1 (vm_peer m2 [?b]) = (Inr (q, d'), vm_peer m2 [?b])"
    using verify by auto
  have parent: "sb_id (blk_sample 9 0 0) = 9" "sf_Hght (sb_block (blk_sample 9 0 0)) = 0"
    by (simp_all add: blk_sample_def)
  have build: "chain_BuildBlock venv_peer 1 9 (vm_peer m []) = (Inr 1, vm_peer m2 [?b])"
    unfolding chain_BuildBlock_def
    using m(1) run binit verify
    by (simp add: Let_def bindS_def getS_def liftS_def retS_def finallyS_def modS_def peer_Get peer_context [simplified]
        deref_def onMempool_def unix_now_def cx onAccept_def parent peer_proof_def [symmetric] new abortSama_def putBack_def)
  then obtain w where w: "VM_BuildBlock venv_peer 1 (vm_peer m []) = (Inr 1, w)" "v_objs w = v_objs (vm_peer m2 [?b])"
    by (simp add: VM_BuildBlock_def)
  then have "v_objs w ! 1 = ?b" by simp
  then show ?thesis using w(1) by (intro exI [of _ m] exI [of _ w]) (simp add: peer_blk_def)
qed

text \<open>A second machine with the same genesis and an empty pool receives the bytes.\<close>

lemma block_transfer_witness:
  "\<exists>m v' q u'. VM_BuildBlock venv_peer 1 (vm_peer m []) = (Inr 1, v') \<and>
    VM_ParseBlock venv_peer [7] vm_live = (Inr q, u') \<and> v_objs u' ! q = v_objs v' ! 1 \<and>
    sf_Txs (sb_block (v_objs u' ! q)) \<noteq> []"
proof -
  obtain m v' where v': "VM_BuildBlock venv_peer 1 (vm_peer m []) = (Inr 1, v')" "sb_id (v_objs v' ! 1) = 7"
    "sb_bytes (v_objs v' ! 1) = [7]" "sf_Txs (sb_block (v_objs v' ! 1)) \<noteq> []"
    using peer_build by auto
  have "\<exists>u1. GetStatelessBlock venv_peer 7 vm_live = (Inl ErrNotFound, u1)"
    by (simp add: GetStatelessBlock_def venv_peer_def venv_now_def venv_sample_def map_lru_def vm_live_def vm_sample_def
        newVM_def blk_sample_def GetBlock_def mem_db_def bal_db_def key_defs)
  then obtain u1 where "GetStatelessBlock venv_peer (sb_id (v_objs v' ! 1)) vm_live = (Inl ErrNotFound, u1)"
    using v'(2) by auto
  from block_transfer [OF _ refl refl v'(1) this]
  obtain q u' where "VM_ParseBlock venv_peer [7] vm_live = (Inr q, u')" "v_objs u' ! q = v_objs v' ! 1"
    by (auto simp: one_codec_ok v'(3) simp del: One_nat_def)
  then show ?thesis using v'(1,4) by (intro exI [of _ m] exI [of _ v'] exI [of _ q] exI [of _ u']) simp
qed

end
