(* ===== verification/Registration.thy ===== *)
theory Registration
  imports PublicService PoolProps
begin

text \<open>
  \<open>chain/codec.go\<close>: the types the program registers with the codec of the node library, and
  what that means for the machine. The linear codec marshals the value of an interface only
  if its type is registered, and the manager refuses more than \<open>maxSize\<close> bytes both ways. So
  every block and every pooled transaction of a node is of a registered kind, whatever it is
  sent, and the one kind the program forgot to register never gets anywhere.
\<close>

section \<open>The registration\<close>

definition codecVersion :: nat where "codecVersion = 0"

definition maxSize :: nat where "maxSize = 4 * (1024 * 1024)"

text \<open>
  The registry of avalanchego's \<open>linearcodec\<close>; \<open>rg_types\<close> lists the registered types in
  order, for the specification only. A type registered twice is an error.
\<close>

record 'r registry =
  rg_New :: 'r
  rg_RegisterType :: "string \<Rightarrow> 'r \<Rightarrow> err + 'r"
  rg_types :: "'r \<Rightarrow> string list"

definition registry_ok :: "'r registry \<Rightarrow> bool" where
  "registry_ok K \<longleftrightarrow> rg_types K (rg_New K) = [] \<and>
     (\<forall>t r. if t \<in> set (rg_types K r) then \<exists>e. rg_RegisterType K t r = Inl e
            else \<exists>r'. rg_RegisterType K t r = Inr r' \<and> rg_types K r' = rg_types K r @ [t])"

definition registeredTypes :: "string list" where
  "registeredTypes = [''BaseTx'', ''SetTx'', ''TransferTx'', ''Transaction'', ''StatefulBlock'',
     ''CustomAllocation'', ''Airdrop'', ''Genesis'', ''StakeTx'', ''UnStakeTx'', ''ClaimTx'',
     ''RegisterTx'', ''RefreshTx'', ''AddUserTx'', ''GovernTx'', ''VoteTx'', ''ProofTx'', ''ProposalTx'']"

text \<open>
  \<open>init\<close>: it runs before everything else, and panics if any registration failed. All are tried
  and the first error is kept, which no one can see after the panic.
\<close>

definition codecInit :: "'r registry \<Rightarrow> err + 'r" where
  "codecInit K = (case foldE (rg_RegisterType K) registeredTypes (rg_New K) of
     Inl e \<Rightarrow> Inl (Panic ''codec registration'') | Inr r \<Rightarrow> Inr r)"

text \<open>The Go type of the unsigned transaction, which the codec looks up.\<close>

definition typeName :: "txbody \<Rightarrow> string" where
  "typeName t = (case t of
     TSet _ \<Rightarrow> ''SetTx'' | TTransfer _ \<Rightarrow> ''TransferTx'' | TStake _ \<Rightarrow> ''StakeTx''
   | TUnStake _ \<Rightarrow> ''UnStakeTx'' | TClaim _ \<Rightarrow> ''ClaimTx'' | TRegister _ \<Rightarrow> ''RegisterTx''
   | TRefresh _ \<Rightarrow> ''RefreshTx'' | TAddUser _ \<Rightarrow> ''AddUserTx'' | TGovern _ \<Rightarrow> ''GovernTx''
   | TVote _ \<Rightarrow> ''VoteTx'' | TWithdrawn _ \<Rightarrow> ''WithdrawnTx'' | TProof _ \<Rightarrow> ''ProofTx''
   | TProposal _ \<Rightarrow> ''ProposalTx'')"

lemma foldE_registers:
  assumes "registry_ok K"
  shows "distinct (rg_types K r @ ts) \<Longrightarrow>
    \<exists>r'. foldE (rg_RegisterType K) ts r = Inr r' \<and> rg_types K r' = rg_types K r @ ts"
proof (induction ts arbitrary: r)
  case (Cons t ts)
  then have "t \<notin> set (rg_types K r)" by simp
  then obtain r1 where "rg_RegisterType K t r = Inr r1" "rg_types K r1 = rg_types K r @ [t]"
    using assms unfolding registry_ok_def by meson
  then show ?case using Cons.IH [of r1] Cons.prems by auto
qed simp

text \<open>No type is registered twice, so \<open>init\<close> does not panic and every type of the list is known.\<close>

lemma codecInit_ok: "registry_ok K \<Longrightarrow> \<exists>r. codecInit K = Inr r \<and> rg_types K r = registeredTypes"
proof -
  assume K: "registry_ok K"
  have "distinct (rg_types K (rg_New K) @ registeredTypes)" using K by (simp add: registry_ok_def registeredTypes_def)
  from foldE_registers [OF K this] show ?thesis using K by (auto simp: codecInit_def registry_ok_def)
qed

lemma registered_kind: "typeName b \<in> set registeredTypes \<longleftrightarrow> (\<forall>w. b \<noteq> TWithdrawn w)"
  by (cases b) (auto simp: typeName_def registeredTypes_def)

section \<open>Marshalling by registered types\<close>

definition tx_reg :: "string list \<Rightarrow> Transaction \<Rightarrow> bool" where
  "tx_reg ts t \<longleftrightarrow> typeName (u_body (tx_Unsigned t)) \<in> set ts"

definition txs_reg :: "string list \<Rightarrow> Transaction list \<Rightarrow> bool" where
  "txs_reg ts txs \<longleftrightarrow> list_all (tx_reg ts) txs"

text \<open>The codecs of transactions and blocks over a registry that knows the types \<open>ts\<close>.\<close>

definition registers :: "string list \<Rightarrow> blkcodecs \<Rightarrow> bool" where
  "registers ts B \<longleftrightarrow>
     (\<forall>t b. enc (bc_Tx B) t = Inr b \<or> dec (bc_Tx B) b = Inr t \<longrightarrow> tx_reg ts t \<and> length b \<le> maxSize) \<and>
     (\<forall>k b. enc (bc_Block B) k = Inr b \<or> dec (bc_Block B) b = Inr k \<longrightarrow>
        txs_reg ts (sf_Txs k) \<and> length b \<le> maxSize)"

lemma registersD:
  assumes "registers ts B"
  shows "enc (bc_Tx B) t = Inr b \<Longrightarrow> tx_reg ts t" and "dec (bc_Tx B) b = Inr t \<Longrightarrow> tx_reg ts t"
    and "enc (bc_Block B) k = Inr b \<Longrightarrow> length b \<le> maxSize"
    and "dec (bc_Block B) b = Inr k \<Longrightarrow> txs_reg ts (sf_Txs k) \<and> length b \<le> maxSize"
  using assms unfolding registers_def by blast+

lemma tx_reg_wire [simp]: "tx_reg ts (wireTx t) = tx_reg ts t"
  by (simp add: tx_reg_def wireTx_def NewTx_def)

lemma txs_reg_simps [simp]:
  "txs_reg ts []" "txs_reg ts (t # txs) \<longleftrightarrow> tx_reg ts t \<and> txs_reg ts txs"
  "txs_reg ts (txs @ txs') \<longleftrightarrow> txs_reg ts txs \<and> txs_reg ts txs'"
  by (simp_all add: txs_reg_def)

text \<open>A transaction that is not of a registered kind cannot be initialised, nor a block read that holds one.\<close>

lemma Init_reg:
  assumes "registers ts B" and "Transaction_Init L (bc_Tx B) t = Inr t'"
  shows "tx_reg ts t \<and> tx_reg ts t'"
proof -
  obtain b where "enc (bc_Tx B) (wireTx t) = Inr b" and "tx_Unsigned t' = tx_Unsigned t"
    using assms(2) by (auto simp: Transaction_Init_def sm_iff)
  then show ?thesis using registersD(1) [OF assms(1)] by (auto simp: tx_reg_def dest!: registersD(1) [OF assms(1)] simp: wireTx_def NewTx_def)
qed

lemma initTxs_reg: "registers ts B \<Longrightarrow> initTxs L (bc_Tx B) txs = Inr txs' \<Longrightarrow> txs_reg ts txs'"
  by (induction txs arbitrary: txs') (auto simp: sm_iff dest: Init_reg)

section \<open>The invariant\<close>

definition blk_reg :: "string list \<Rightarrow> 'db StatelessBlock \<Rightarrow> bool" where
  "blk_reg ts b \<longleftrightarrow> txs_reg ts (sf_Txs (sb_block b)) \<and> length (sb_bytes b) \<le> maxSize"

definition pool_reg :: "string list \<Rightarrow> Mempool \<Rightarrow> bool" where
  "pool_reg ts m \<longleftrightarrow> mem_ok m \<and> (\<forall>i t p. pool m i = Some (t, p) \<longrightarrow> tx_reg ts t)"

definition vm_reg :: "string list \<Rightarrow> ('db, 'c, 'lc) VM \<Rightarrow> bool" where
  "vm_reg ts v \<longleftrightarrow> list_all (blk_reg ts) (v_objs v) \<and> pool_reg ts (v_mempool v)"

lemma marshal_size: "registers ts B \<Longrightarrow> marshalBlock B k = Inr b \<Longrightarrow> length b \<le> maxSize"
  by (auto simp: marshalBlock_def dest: registersD(3))

lemma Parse_reg:
  "registers ts B \<Longrightarrow> length source \<le> maxSize \<Longrightarrow> ParseStatefulBlock L B k source st = Inr b \<Longrightarrow> blk_reg ts b"
  by (auto simp: ParseStatefulBlock_def sm_iff blk_reg_def initTxs_reg marshal_size split: if_splits)

lemma ParseBlock_reg: "registers ts B \<Longrightarrow> ParseBlock L B source st = Inr b \<Longrightarrow> blk_reg ts b"
  by (auto simp: ParseBlock_def sm_iff dest: registersD(4) intro: Parse_reg [of ts B source])

lemma block_init_reg: "registers ts B \<Longrightarrow> StatelessBlock_init L B b = Inr b' \<Longrightarrow> blk_reg ts b'"
  by (auto simp: StatelessBlock_init_def sm_iff blk_reg_def initTxs_reg marshal_size)

lemma linkLoop_reg:
  assumes B: "registers ts B"
  shows "linkLoop L D (bc_Tx B) l og txs d = (r, (d', l')) \<Longrightarrow>
   txs_reg ts l \<Longrightarrow> txs_reg ts og \<Longrightarrow> txs_reg ts txs \<Longrightarrow>
   txs_reg ts l' \<and> (\<forall>og'. r = Inr og' \<longrightarrow> txs_reg ts og')"
proof (induction txs arbitrary: l og d)
  case (Cons tx txs)
  have link: "tx_reg ts (setValue v tx)" if "u_body (tx_Unsigned tx) = TSet t" for v t
    using Cons.prems(4) that by (simp add: tx_reg_def typeName_def setValue_def)
  show ?case
  proof (cases "linkedVal tx")
    case None
    then show ?thesis using Cons.IH [of "l @ [tx]" "og @ [tx]" d] Cons.prems
      by (simp add: linkLoop_cons_other del: linkLoop.simps)
  next
    case (Some v)
    then obtain t where t: "u_body (tx_Unsigned tx) = TSet t" "set_Value t \<noteq> []"
      by (auto simp: linkedVal_def split: txbody.splits if_splits)
    show ?thesis
    proof (cases "bindE (Transaction_Copy tx) (Transaction_Init L (bc_Tx B))")
      case (Inl e)
      then show ?thesis using Cons.prems t by auto
    next
      case (Inr c)
      then have c: "tx_reg ts c" by (auto simp: sm_iff dest: Init_reg [OF B])
      show ?thesis
      proof (cases "db_Put D d (PrefixTxValueKey (tx_id tx)) (set_Value t)")
        case (Inl e)
        then show ?thesis using Cons.prems t Inr by auto
      next
        case d1: (Inr d1)
        then show ?thesis
          using Cons.IH [of "l @ [setValue (be_bytes 32 (tx_id tx)) tx]" "og @ [c]" d1] Cons.prems t Inr c link [OF t(1)]
          by simp
      qed
    qed
  qed
qed auto

text \<open>A computation that keeps \<open>P\<close> and whose value has the property \<open>Q\<close>.\<close>

definition ens :: "('s \<Rightarrow> bool) \<Rightarrow> ('s, 'a) sm \<Rightarrow> ('a \<Rightarrow> bool) \<Rightarrow> bool" where
  "ens P m Q \<longleftrightarrow> pres P m \<and> (\<forall>s x. P s \<longrightarrow> fst (m s) = Inr x \<longrightarrow> Q x)"

lemma pres_ens:
  assumes "ens P m Q" and "\<And>x. Q x \<Longrightarrow> pres P (f x)"
  shows "pres P (bindS m f)"
proof (rule presI)
  fix s assume s: "P s"
  obtain r s' where m: "m s = (r, s')" by fastforce
  have "P s'" using assms(1) m s by (auto simp: ens_def dest: presD')
  moreover have "Q x" if "r = Inr x" for x
    using assms(1) m s that unfolding ens_def by (metis fst_conv)
  ultimately show "P (snd (bindS m f s))"
    using m assms(2) by (cases r) (auto simp: bindS_def pres_def)
qed

abbreviation pair_reg :: "string list \<Rightarrow> 'db \<times> 'db StatelessBlock \<Rightarrow> bool" where
  "pair_reg ts w \<equiv> blk_reg ts (snd w)"

lemma linkValues_reg: "registers ts B \<Longrightarrow> ens (pair_reg ts) (linkValues L D (bc_Tx B)) (txs_reg ts)"
  by (auto simp: ens_def pres_def linkValues_def blk_reg_def split: prod.splits dest: linkLoop_reg)

lemma SetLastAccepted_reg:
  assumes "registers ts B"
  shows "pres (pair_reg ts) (SetLastAccepted L D B)"
  unfolding SetLastAccepted_def
  by (intro pres_intro pres_ens [OF linkValues_reg [OF assms]] pres_modC)
    (auto simp: getC_def blk_reg_def intro: pres_getS)

section \<open>The pool\<close>

lemma pool_reg_sub: "pool_reg ts m \<Longrightarrow> mem_ok m' \<Longrightarrow> pool m' \<subseteq>\<^sub>m pool m \<Longrightarrow> pool_reg ts m'"
  unfolding pool_reg_def map_le_def by (metis domI)

lemma PopMax_reg:
  assumes "pool_reg ts m" and "Mempool_PopMax m = Inr ((t, p), m')"
  shows "pool_reg ts m' \<and> (\<forall>tx. t = Some tx \<longrightarrow> tx_reg ts tx)"
proof -
  have ok: "mem_ok m" using assms(1) by (simp add: pool_reg_def)
  have ne: "Mempool_Len m \<noteq> 0" using assms(2) by (auto simp: Mempool_PopMax_def heapTop_def Mempool_Len_def txHeap_Len_def)
  have m': "mem_ok m'" using step_ok [OF pool_step.PopMax [OF assms(2)] ok] by blast
  obtain tx where "t = Some tx" "pool m (tx_id tx) = Some (tx, p)" "pool m' = (pool m)(tx_id tx := None)"
    using take_max [OF ok ne] assms(2) by auto
  then show ?thesis using assms(1) m' by (auto simp: pool_reg_def)
qed

lemma Add_reg:
  assumes "pool_reg ts m" and "tx_reg ts tx" and "Mempool_Add tx m = Inr (b, m')"
  shows "pool_reg ts m'"
proof -
  have ok: "mem_ok m" using assms(1) by (simp add: pool_reg_def)
  obtain p where p: "GetPrice (tx_Unsigned tx) = Inr p" using assms(3) by (auto simp: Mempool_Add_def sm_iff)
  have m': "mem_ok m'" using step_ok [OF pool_step.Add [OF assms(3)] ok] by blast
  have "m' = m \<or> pool m' \<subseteq>\<^sub>m (pool m)(tx_id tx \<mapsto> (tx, p))"
    using Add_ok [OF ok p] assms(3) by (auto simp: map_le_def Let_def split: if_splits)
  then show ?thesis
  proof
    assume sub: "pool m' \<subseteq>\<^sub>m (pool m)(tx_id tx \<mapsto> (tx, p))"
    have "tx_reg ts t" if "pool m' i = Some (t, q)" for i t q
    proof -
      have "((pool m)(tx_id tx \<mapsto> (tx, p))) i = Some (t, q)" using sub that by (auto simp: map_le_def dom_def)
      then show ?thesis using assms(1,2) by (auto simp: pool_reg_def split: if_splits)
    qed
    then show ?thesis using m' by (auto simp: pool_reg_def)
  qed (use assms(1) in simp)
qed

lemma remove_reg: "pool_reg ts m \<Longrightarrow> pool_reg ts (snd (Mempool_remove i m))"
  using step_ok [OF pool_step.remove, of m i] remove_ok [of m i]
  by (auto simp: pool_reg_def mem_ok_def)

lemma Prune_reg: "pool_reg ts m \<Longrightarrow> Mempool_Prune valid m = Inr m' \<Longrightarrow> pool_reg ts m'"
  using Prune_ok [of m valid] by (fastforce simp: pool_reg_def split: option.splits if_splits prod.splits)

lemma NewTxs_reg: "pool_reg ts m \<Longrightarrow> Mempool_NewTxs n m = Inr (txs, m') \<Longrightarrow> pool_reg ts m'"
  using step_ok [OF pool_step.NewTxs, of n m txs m'] by (fastforce simp: pool_reg_def pool_def Mempool_NewTxs_def sm_iff)

section \<open>The machine\<close>

text \<open>Only the block objects and the pool matter.\<close>

lemma vm_reg_modS [pres_intro]:
  "(\<And>v. v_objs (f v) = v_objs v \<and> v_mempool (f v) = v_mempool v) \<Longrightarrow> pres (vm_reg ts) (modS f)"
  by (simp add: pres_def modS_def vm_reg_def)

lemma newObj_reg: "blk_reg ts b \<Longrightarrow> pres (vm_reg ts) (newObj b)"
  by (simp add: pres_def newObj_def vm_reg_def)

lemma setObj_reg: "blk_reg ts b \<Longrightarrow> pres (vm_reg ts) (setObj p b)"
  by (auto simp: pres_def setObj_def modS_def vm_reg_def list_all_iff dest: set_update_subset_insert [THEN subsetD])

text \<open>An object is read and written back with the same transactions and bytes; a dangling pointer changes nothing.\<close>

lemma update_reg:
  assumes "vm_reg ts v" and "v_objs v' = (v_objs v)[p := b]" and "v_mempool v' = v_mempool v"
    and "blk_reg ts (v_objs v ! p) \<Longrightarrow> blk_reg ts b"
  shows "vm_reg ts v'"
proof (cases "p < length (v_objs v)")
  case True
  then have "blk_reg ts b" using assms by (simp add: vm_reg_def list_all_length)
  then show ?thesis using assms(1-3)
    by (auto simp: vm_reg_def list_all_iff dest: set_update_subset_insert [THEN subsetD])
qed (use assms in \<open>simp add: vm_reg_def list_update_beyond\<close>)

lemma onMempool_reg:
  "(\<And>m m'. pool_reg ts m \<Longrightarrow> f m = Inr m' \<Longrightarrow> pool_reg ts m') \<Longrightarrow> pres (vm_reg ts) (onMempool f)"
  by (auto simp: pres_def onMempool_def vm_reg_def split: sum.splits)

lemma addTx_reg: "tx_reg ts tx \<Longrightarrow> pres (vm_reg ts) (addTx tx)"
  unfolding addTx_def by (rule onMempool_reg) (auto simp: sm_iff dest: Add_reg)

lemma forS_txs:
  assumes "\<And>tx. tx_reg ts tx \<Longrightarrow> pres P (f tx)"
  shows "txs_reg ts txs \<Longrightarrow> pres P (forS txs f)"
  by (induction txs) (simp_all add: pres_retS pres_bindS assms)

lemmas forS_addTx_reg = forS_txs [OF addTx_reg]

lemma Get_reg:
  assumes B: "registers ts (ve_B V)"
  shows "pres (vm_reg ts) (GetStatelessBlock V i)"
  by (auto simp: pres_def GetStatelessBlock_def newObj_def vm_reg_def sm_iff intro: Parse_reg [OF B, of "[]"]
      split: prod.splits option.splits sum.splits)

lemma ParseBlock_vm_reg:
  assumes B: "registers ts (ve_B V)"
  shows "pres (vm_reg ts) (VM_ParseBlock (V :: ('db, 'c, 'lc) venv) source)"
proof (rule presI)
  fix v :: "('db, 'c, 'lc) VM" assume v: "vm_reg ts v"
  show "vm_reg ts (snd (VM_ParseBlock V source v))"
  proof (cases "ParseBlock (ve_L V) (ve_B V) source Processing :: err + 'db StatelessBlock")
    case (Inl e)
    then show ?thesis using v by (simp add: VM_ParseBlock_def sm_defs)
  next
    case (Inr b)
    have "pres (vm_reg ts) (bindS (ignS (GetStatelessBlock V (sb_id b)))
        (\<lambda>r. case r of Some oldBlk \<Rightarrow> retS oldBlk | None \<Rightarrow> newObj b))"
      by (intro pres_intro Get_reg [OF B] newObj_reg ParseBlock_reg [OF B Inr])
    from presD [OF this v] show ?thesis using Inr by (simp add: VM_ParseBlock_def liftS_def bindS_def)
  qed
qed

lemma loop_reg:
  assumes B: "registers ts (ve_B V)"
  shows "pres (vm_reg ts) (lookbackLoop V now lst f n cur acc)"
  by (induction n arbitrary: cur acc) (auto simp: deref_def intro!: pres_intro Get_reg [OF B])

lemma context_reg:
  assumes B: "registers ts (ve_B V)"
  shows "pres (vm_reg ts) (ExecutionContext V n now p)"
  unfolding ExecutionContext_def lookback_def deref_def Let_def
  by (intro pres_intro Get_reg [OF B] loop_reg [OF B])

lemma fee_reg:
  assumes B: "registers ts (ve_B V)"
  shows "pres (vm_reg ts) (SuggestedFee V n)"
  unfolding SuggestedFee_def Let_def by (intro pres_intro Get_reg [OF B] context_reg [OF B])

lemma onOverlay_reg: "pres (vm_reg ts) (onOverlay d m)"
  by (auto simp: pres_def onOverlay_def vm_reg_def split: prod.splits sum.splits)

lemma verify_reg:
  assumes B: "registers ts (ve_B V)"
  shows "pres (vm_reg ts) (blk_verify V n p)"
  unfolding blk_verify_def onAccept_def deref_def Let_def
  by (intro pres_intro Get_reg [OF B] context_reg [OF B] onOverlay_reg)

lemma storeBlock_reg:
  assumes B: "registers ts (ve_B V)"
  shows "pres (vm_reg ts) (storeBlock (V :: ('db, 'c, 'lc) venv) p)"
proof (rule presI)
  fix v :: "('db, 'c, 'lc) VM" assume v: "vm_reg ts v"
  let ?b = "v_objs v ! p"
  show "vm_reg ts (snd (storeBlock V p v))"
  proof (cases "sb_onAcceptDB ?b")
    case None
    then show ?thesis using v by (simp add: storeBlock_def deref_def sm_defs)
  next
    case (Some d)
    obtain r d' b' where r: "SetLastAccepted (ve_L V) (ve_D V) (ve_B V) (d, ?b) = (r, (d', b'))"
      by (cases "SetLastAccepted (ve_L V) (ve_D V) (ve_B V) (d, ?b)") auto
    have "blk_reg ts (b'\<lparr>sb_onAcceptDB := Some d'\<rparr>)" if "blk_reg ts ?b"
      using presD' [OF SetLastAccepted_reg [OF B] r] that by (simp add: blk_reg_def)
    then have "vm_reg ts (v\<lparr>v_objs := (v_objs v)[p := b'\<lparr>sb_onAcceptDB := Some d'\<rparr>]\<rparr>)"
      by (rule update_reg [OF v _ _, rotated 2]) simp_all
    then show ?thesis using Some r by (simp add: storeBlock_def deref_def setObj_def sm_defs)
  qed
qed

text \<open>The operations that change one field of a block.\<close>

lemma addChild_reg: "pres (vm_reg ts) (addChild p c)"
  and setStatus_reg: "pres (vm_reg ts) (setStatus st p)"
  and commitOverlay_reg: "pres (vm_reg ts) (commitOverlay V p)"
  and rebaseChild_reg: "pres (vm_reg ts) (rebaseChild V p)"
  by (auto simp: pres_def addChild_def setStatus_def commitOverlay_def rebaseChild_def deref_def setObj_def
      sm_defs blk_reg_def split: option.splits sum.splits elim!: update_reg)

lemma remove_vm_reg: "pres (vm_reg ts) (onMempool (\<lambda>m. Inr (snd (Mempool_remove i m))))"
  by (rule onMempool_reg) (auto intro: remove_reg)

lemma Verified_reg: "pres (vm_reg ts) (Verified p)"
  unfolding Verified_def deref_def by (intro pres_intro remove_vm_reg) simp_all

lemma pushActivity_reg: "pres (vm_reg ts) (pushActivity a)"
  by (auto simp: pres_def pushActivity_def vm_reg_def Let_def)

lemma Accepted_reg: "pres (vm_reg ts) (VM_Accepted V p)"
  unfolding VM_Accepted_def deref_def by (intro pres_intro pushActivity_reg) simp_all

lemma bindS_assoc: "bindS (bindS m f) g = bindS m (\<lambda>x. bindS (f x) g)"
  by (auto simp: bindS_def fun_eq_iff split: prod.splits sum.splits)

lemma blk_Verify_reg:
  assumes B: "registers ts (ve_B V)"
  shows "pres (vm_reg ts) (blk_Verify V n p)"
proof -
  have "pres (vm_reg ts) (bindS (deref p) (\<lambda>b. setObj p (b\<lparr>sb_onAcceptDB := d\<rparr>)))" for d
    by (auto simp: pres_def deref_def setObj_def sm_defs blk_reg_def elim!: update_reg)
  then have "pres (vm_reg ts) (bindS (bindS (deref p) (\<lambda>b. setObj p (b\<lparr>sb_onAcceptDB := d\<rparr>))) (\<lambda>_.
      bindS (storeBlock V p) (\<lambda>_. bindS (addChild parent p) (\<lambda>_. Verified p))))" for d parent
    by (rule pres_bindS) (intro pres_intro storeBlock_reg [OF B] addChild_reg Verified_reg)
  note rest = this [unfolded bindS_assoc]
  show ?thesis unfolding blk_Verify_def by (rule pres_bindS [OF verify_reg [OF B]], rule pres_prod, rule rest)
qed

lemma blk_Accept_reg: "pres (vm_reg ts) (blk_Accept V p)"
  unfolding blk_Accept_def
  by (intro pres_intro commitOverlay_reg setStatus_reg Accepted_reg rebaseChild_reg) (simp_all add: deref_def pres_getS)

text \<open>Rejecting a block puts its transactions into the pool.\<close>

lemma blk_Reject_reg:
  fixes v :: "('db, 'c, 'lc) VM"
  assumes "vm_reg ts v" and "p < length (v_objs v)"
  shows "vm_reg ts (snd (blk_Reject p v))"
proof -
  let ?P = "\<lambda>v :: ('db, 'c, 'lc) VM. vm_reg ts v \<and> p < length (v_objs v)"
  have status: "pres ?P (setStatus Rejected p)"
    using setStatus_reg [of ts Rejected p] by (auto simp: pres_def setStatus_def deref_def setObj_def sm_defs)
  have modv: "pres ?P (modS (\<lambda>v. v\<lparr>v_verifiedBlocks := f v\<rparr>))" for f
    by (simp add: pres_def modS_def vm_reg_def)
  have "pres ?P (addTx tx)" if "tx_reg ts tx" for tx
    using addTx_reg [OF that] by (auto simp: pres_def addTx_def onMempool_def split: sum.splits)
  note readd = forS_txs [OF this]
  have obj: "ens ?P (deref p) (\<lambda>b. txs_reg ts (sf_Txs (sb_block b)))"
    by (auto simp: ens_def deref_def getS_def pres_def vm_reg_def blk_reg_def list_all_length)
  have "pres ?P (VM_Rejected p)"
    unfolding VM_Rejected_def by (rule pres_ens [OF obj], rule pres_bindS [OF modv], rule readd)
  then have "pres ?P (blk_Reject p)" unfolding blk_Reject_def by (intro pres_intro status)
  then show ?thesis using assms by (simp add: pres_def)
qed

section \<open>Building and submission\<close>

definition build_reg :: "string list \<Rightarrow> ('db, 'c) bstate \<Rightarrow> bool" where
  "build_reg ts s \<longleftrightarrow> pool_reg ts (bs_pool s) \<and> txs_reg ts (bs_unusable s)"

lemma takeTx_reg: "tx_reg ts tx \<Longrightarrow> pres (build_reg ts) (takeTx V g blk context tx)"
  by (auto simp: pres_def takeTx_def build_reg_def split: sum.splits prod.splits)

lemma buildLoop_reg: "pres (build_reg ts) (buildLoop V g blk context n)"
proof (induction n)
  case 0
  then show ?case by (simp add: pres_def)
next
  case (Suc n)
  have "build_reg ts (snd (buildLoop V g blk context (Suc n) s))" if s: "build_reg ts s" for s
  proof (cases "Mempool_Len (bs_pool s) = 0")
    case False
    show ?thesis
    proof (cases "Mempool_PopMax (bs_pool s)")
      case (Inr r)
      then obtain t p m where pop: "Mempool_PopMax (bs_pool s) = Inr ((t, p), m)" by (metis prod.exhaust)
      then have m: "pool_reg ts m" and t: "\<forall>tx. t = Some tx \<longrightarrow> tx_reg ts tx"
        using PopMax_reg [OF _ pop] s by (auto simp: build_reg_def)
      show ?thesis
      proof (cases t)
        case None
        then show ?thesis using False pop m s by (simp add: build_reg_def)
      next
        case (Some tx)
        have tx: "tx_reg ts tx" using t Some by simp
        have "pres (build_reg ts) (bindS (takeTx V g blk context tx) (\<lambda>_. buildLoop V g blk context n))"
          by (intro pres_bindS takeTx_reg tx Suc.IH)
        moreover have "build_reg ts (s\<lparr>bs_pool := m\<rparr>)" using m s by (simp add: build_reg_def)
        ultimately show ?thesis
          using False pop Some s Add_reg [OF m tx] by (auto simp: pres_def build_reg_def split: sum.splits)
      qed
    qed (use False s in simp)
  qed (use s in simp)
  then show ?case by (rule presI)
qed

lemma runBuild_reg: "ens (vm_reg ts) (runBuild V g blk context d) (\<lambda>(r, txs, unusable). txs_reg ts unusable)"
proof -
  have "build_reg ts s" if "buildLoop V g blk context n \<lparr> bs_db = d, bs_txs = [], bs_units = 0, bs_unusable = [],
      bs_pool = v_mempool v, bs_sama = v_samaState v \<rparr> = (r, s)" "vm_reg ts v" for n r s v
    using presD' [OF buildLoop_reg that(1)] that(2) by (simp add: build_reg_def vm_reg_def)
  then show ?thesis
    by (auto simp: ens_def pres_def runBuild_def vm_reg_def build_reg_def split: prod.splits)
qed

lemma ens_liftS: "(\<And>x. r = Inr x \<Longrightarrow> Q x) \<Longrightarrow> ens P (liftS r) Q"
  by (simp add: ens_def pres_liftS) (simp add: liftS_def)

lemma pres_finallyS: "pres P m \<Longrightarrow> pres P f \<Longrightarrow> pres P (finallyS m f)"
  by (auto simp: pres_def finallyS_def split: prod.splits sum.splits)

lemma abort_reg: "pres (vm_reg ts) abortSama"
  unfolding abortSama_def by (intro pres_intro) simp

lemma build_reg:
  assumes B: "registers ts (ve_B V)"
  shows "pres (vm_reg ts) (chain_BuildBlock V n preferred)"
proof -
  have prune: "pres (vm_reg ts) (onMempool (Mempool_Prune ids))" for ids
    by (rule onMempool_reg) (rule Prune_reg)
  have finish: "pres (vm_reg ts) (bindS (liftS (StatelessBlock_init (ve_L V) (ve_B V) b)) (\<lambda>b.
      bindS (newObj b) (\<lambda>p. bindS (blk_verify V n p) (\<lambda>_. bindS abortSama (\<lambda>_. retS p)))))" for b
    by (rule pres_ens [OF ens_liftS [where Q = "blk_reg ts"]])
      (auto intro!: pres_intro newObj_reg verify_reg [OF B] abort_reg dest: block_init_reg [OF B])
  have last: "pres (vm_reg ts) (bindS (runBuild V g blk cx d) (\<lambda>(r, txs, unusable).
      finallyS (bindS (liftS r) (\<lambda>_. bindS abortSama (\<lambda>_. f txs))) (forS unusable addTx)))"
    if "\<And>txs. pres (vm_reg ts) (f txs)" for g blk cx d f
    by (rule pres_ens [OF runBuild_reg])
      (auto intro!: pres_finallyS forS_addTx_reg pres_bindS pres_liftS abort_reg that)
  show ?thesis
    unfolding chain_BuildBlock_def onAccept_def deref_def Let_def putBack_def
    by (intro last finish Get_reg [OF B] context_reg [OF B] prune pres_intro)
qed

lemma VM_BuildBlock_reg: "registers ts (ve_B V) \<Longrightarrow> pres (vm_reg ts) (VM_BuildBlock V n)"
  using build_reg [of ts V n] by (auto simp: pres_def VM_BuildBlock_def vm_reg_def split: prod.splits) (metis snd_conv)+

lemma vm_reg_sama [simp]: "vm_reg ts (v\<lparr>v_samaState := s\<rparr>) = vm_reg ts v"
  by (simp add: vm_reg_def)

lemma submit_reg:
  assumes B: "registers ts (ve_B V)" and "submit V tx now ctx d v = (r, (d', v'))" and v: "vm_reg ts v"
  shows "vm_reg ts v'"
proof -
  have "vm_reg ts w" if "tx_reg ts t" "addTx t (v\<lparr>v_samaState := s\<rparr>) = (q, w)" for t s q w
    using presD' [OF addTx_reg [OF that(1)] that(2)] v by simp
  then show ?thesis using assms(2) v
    by (auto simp: submit_def sm_iff split: sum.splits prod.splits dest!: Init_reg [OF B])
qed

lemma submitLoop_reg: "registers ts (ve_B V) \<Longrightarrow> pres (vm_reg ts) (submitLoop V now ctx d errs txs)"
proof (induction txs arbitrary: d errs)
  case (Cons tx txs)
  show ?case
    using Cons.IH [OF Cons.prems] submit_reg [OF Cons.prems]
    by (auto simp: pres_def split: prod.splits sum.splits)
qed (simp add: pres_def)

lemma VM_Submit_reg:
  assumes B: "registers ts (ve_B V)"
  shows "pres (vm_reg ts) (VM_Submit V n txs)"
proof (rule presI)
  fix v :: "('a, 'b, 'c) VM"
  assume v: "vm_reg ts v"
  let ?start = "bindS (GetStatelessBlock V (v_preferred v)) (ExecutionContext V n (unix_now (ve_now V)))"
  obtain r v' where st: "?start v = (r, v')" by fastforce
  have "pres (vm_reg ts) ?start" by (intro pres_intro Get_reg [OF B] context_reg [OF B])
  from presD' [OF this st v] have v': "vm_reg ts v'" .
  have "pres (vm_reg ts) (bindS (submitLoop V now ctx d [] txs) (\<lambda>errs. bindS abortSama (\<lambda>_. retS errs)))" for now ctx d
    by (intro pres_intro submitLoop_reg [OF B] abort_reg)
  then show "vm_reg ts (snd (VM_Submit V n txs v))"
    using st v' by (auto simp: VM_Submit_def Let_def pres_def split: sum.splits)
qed

end
