(* ===== verification/RegistryProps.thy ===== *)
theory RegistryProps
  imports Registration ChainProps
begin

text \<open>
  The machine as a step relation, and what its registered codec guarantees of every state it
  reaches.
\<close>

section \<open>The steps of the machine\<close>

text \<open>
  The calls of the engine, of the API, of the gossip and of the builder, each at some time \<open>t\<close>.
  The fuel \<open>n\<close> is any. The engine verifies, accepts and rejects blocks it was given; a round
  of \<open>RegossipTxs\<close> is a sequence of \<open>regossip\<close> steps.
\<close>

definition atTime :: "int \<Rightarrow> ('db, 'c, 'lc) venv \<Rightarrow> ('db, 'c, 'lc) venv" where
  "atTime t V = V\<lparr>ve_now := t\<rparr>"

inductive vm_step :: "('db, 'c, 'lc) venv \<Rightarrow> ('db, 'c, 'lc) VM \<Rightarrow> ('db, 'c, 'lc) VM \<Rightarrow> bool" for V where
  get: "vm_step V v (snd (GetStatelessBlock (atTime t V) i v))"
| parse: "vm_step V v (snd (VM_ParseBlock (atTime t V) source v))"
| verify: "p < length (v_objs v) \<Longrightarrow> vm_step V v (snd (blk_Verify (atTime t V) n p v))"
| accept: "p < length (v_objs v) \<Longrightarrow> vm_step V v (snd (blk_Accept (atTime t V) p v))"
| reject: "p < length (v_objs v) \<Longrightarrow> vm_step V v (snd (blk_Reject p v))"
| build: "vm_step V v (snd (VM_BuildBlock (atTime t V) n v))"
| preference: "vm_step V v (snd (SetPreference i v))"
| bootstrap: "vm_step V v (snd (onBootstrapStarted v))"
| operate: "vm_step V v (snd (onNormalOperationsStarted v))"
| submit: "vm_step V v (snd (VM_Submit (atTime t V) n txs v))"
| issueRaw: "vm_step V v (snd (IssueRawTx (atTime t V) n b v))"
| issueTyped: "vm_step V v (snd (IssueTx (atTime t V) n td sig v))"
| fee: "vm_step V v (snd (SuggestedFee (atTime t V) n v))"
| gossip: "Mempool_NewTxs k (v_mempool v) = Inr (txs, m) \<Longrightarrow> vm_step V v (v\<lparr>v_mempool := m\<rparr>)"
| regossip: "Mempool_PopMax (v_mempool v) = Inr (r, m) \<Longrightarrow> vm_step V v (v\<lparr>v_mempool := m\<rparr>)"
| signal: "vm_step V v (v\<lparr>v_mempool := (v_mempool v)\<lparr>mp_Pending := False\<rparr>\<rparr>)"

inductive_cases vm_stepE: "vm_step V v v'"

abbreviation vm_run :: "('db, 'c, 'lc) venv \<Rightarrow> ('db, 'c, 'lc) VM \<Rightarrow> ('db, 'c, 'lc) VM \<Rightarrow> bool" where
  "vm_run V \<equiv> (vm_step V)\<^sup>*\<^sup>*"

lemma atTime_simps [simp]: "ve_B (atTime t V) = ve_B V" "ve_E (atTime t V) = ve_E V" "ve_R (atTime t V) = ve_R V"
  by (simp_all add: atTime_def)

lemma signal_reg: "pool_reg ts m \<Longrightarrow> pool_reg ts (m\<lparr>mp_Pending := False\<rparr>)"
  by (auto simp: pool_reg_def mem_ok_def mem_sync_def Mempool_Len_def pool_def)

lemma issue_reg: "registers ts (ve_B V) \<Longrightarrow> pres (vm_reg ts) (issue V n tx)"
  unfolding issue_def by (intro pres_intro VM_Submit_reg)

lemma IssueTx_reg: "registers ts (ve_B V) \<Longrightarrow> pres (vm_reg ts) (IssueTx V n td sig)"
  unfolding IssueTx_def by (intro pres_intro issue_reg)

lemma IssueRawTx_reg: "registers ts (ve_B V) \<Longrightarrow> pres (vm_reg ts) (IssueRawTx V n b)"
  unfolding IssueRawTx_def by (intro pres_intro issue_reg)

lemma set_reg: "pres (vm_reg ts) (SetPreference i)" "pres (vm_reg ts) onBootstrapStarted"
    "pres (vm_reg ts) onNormalOperationsStarted"
  by (simp_all add: SetPreference_def onBootstrapStarted_def onNormalOperationsStarted_def vm_reg_modS)

lemma vm_step_reg:
  assumes "vm_step V v v'" and "registers ts (ve_B V)" and "vm_reg ts v"
  shows "vm_reg ts v'"
proof -
  have B: "registers ts (ve_B (atTime t V))" for t using assms(2) by simp
  note ops = Get_reg [OF B] ParseBlock_vm_reg [OF B] blk_Verify_reg [OF B] blk_Accept_reg VM_BuildBlock_reg [OF B]
    set_reg VM_Submit_reg [OF B] IssueRawTx_reg [OF B] IssueTx_reg [OF B] fee_reg [OF B]
  have "pool_reg ts m \<Longrightarrow> vm_reg ts (v\<lparr>v_mempool := m\<rparr>)" for m using assms(3) by (simp add: vm_reg_def)
  moreover have "pool_reg ts (v_mempool v)" using assms(3) by (simp add: vm_reg_def)
  ultimately show ?thesis using assms(1,3)
    by (elim vm_stepE) (auto intro: ops [THEN presD] blk_Reject_reg NewTxs_reg signal_reg dest: PopMax_reg)
qed

lemma vm_run_reg: "vm_run V v v' \<Longrightarrow> registers ts (ve_B V) \<Longrightarrow> vm_reg ts v \<Longrightarrow> vm_reg ts v'"
  by (induction rule: rtranclp_induct) (auto intro: vm_step_reg)

section \<open>The start\<close>

lemma Initialize_reg:
  assumes B: "registers ts (ve_B V)" and "0 \<le> mempoolSize"
    and "VM_Initialize V parseAirdrop newCache s0 blocks mempoolSize activitySize interval g airdropData d = Inr v"
  shows "vm_reg ts v"
proof -
  have last: "pres (vm_reg ts) (setLast i p)" for i p
    by (simp add: setLast_def vm_reg_modS)
  have store: "pres (vm_reg ts) (zoomS f (\<lambda>(d, _) v. v\<lparr>v_db := d\<rparr>) m)" for f and m :: "('a \<times> 'd, unit) sm"
    by (auto simp: pres_def zoomS_def vm_reg_def split: prod.splits)
  have load: "pres (vm_reg ts) (zoomS v_db (\<lambda>d v. v\<lparr>v_db := d\<rparr>) m)" for m :: "('a, unit) sm"
    by (auto simp: pres_def zoomS_def vm_reg_def split: prod.splits)
  have gen: "pres (vm_reg ts) (initGenesis V parseAirdrop airdropData)"
    unfolding initGenesis_def
    by (intro pres_bindS pres_getS pres_ens [OF ens_liftS [where Q = "blk_reg ts"]] store load last newObj_reg)
      (auto intro: Parse_reg [OF B, of "[]"])
  have disk: "pres (vm_reg ts) (initFromDisk V)"
    unfolding initFromDisk_def by (intro pres_intro Get_reg [OF B] last)
  have new: "vm_reg ts (newVM d g blocks mempoolSize activitySize interval targetUnits s0)" for targetUnits
    using New_ok [OF assms(2), of g] by (simp add: vm_reg_def newVM_def pool_reg_def)
  show ?thesis using assms(3) presD' [OF gen _ new] presD' [OF disk _ new]
    by (auto simp: VM_Initialize_def sm_iff getS_def bindS_def split: prod.splits sum.splits if_splits)
qed

lemma withdrawn_refused:
  assumes "registers registeredTypes (ve_B V)" and "u_body (tx_Unsigned tx) = TWithdrawn w"
  shows "\<exists>e. issue V n tx v = (Inl e, v)"
proof (cases "Transaction_Init (ve_L V) (bc_Tx (ve_B V)) tx")
  case (Inl e)
  then show ?thesis by (simp add: issue_def sm_defs)
next
  case (Inr t)
  then show ?thesis using Init_reg [OF assms(1) Inr] assms(2) by (simp add: tx_reg_def registered_kind)
qed

section \<open>What every state holds\<close>

text \<open>
  C11. \<open>init\<close> registers eighteen types and forgets one kind of transaction, the withdrawal. From
  the start of a machine, whatever blocks and transactions it is sent, parses, verifies,
  accepts, rejects, builds or reads back from disk, none of its blocks and none of its pooled
  transactions is a withdrawal, and no block takes more bytes than the codec allows; a
  withdrawal handed to it is refused and changes nothing.
\<close>

theorem withdrawn_never:
  assumes "registry_ok K" and "codecInit K = Inr c" and "registers (rg_types K c) (ve_B V)"
    and "0 \<le> mempoolSize"
    and "VM_Initialize (atTime t V) parseAirdrop newCache s0 blocks mempoolSize activitySize interval g
      airdropData d = Inr v0"
    and "vm_run V v0 v"
  shows "(\<forall>b \<in> set (v_objs v). length (sb_bytes b) \<le> maxSize \<and>
      (\<forall>tx \<in> set (sf_Txs (sb_block b)). \<forall>w. u_body (tx_Unsigned tx) \<noteq> TWithdrawn w)) \<and>
    (\<forall>i tx p w. pool (v_mempool v) i = Some (tx, p) \<longrightarrow> u_body (tx_Unsigned tx) \<noteq> TWithdrawn w) \<and>
    (\<forall>tx w. u_body (tx_Unsigned tx) = TWithdrawn w \<longrightarrow> (\<exists>e. issue (atTime t' V) n tx v = (Inl e, v)))"
proof -
  have c: "rg_types K c = registeredTypes" using codecInit_ok [OF assms(1)] assms(2) by auto
  then have B: "registers registeredTypes (ve_B V)" and Bt: "registers registeredTypes (ve_B (atTime t V))" for t
    using assms(3) by simp_all
  have "vm_reg registeredTypes v" using vm_run_reg [OF assms(6) B] Initialize_reg [OF Bt assms(4,5)] by blast
  then have "\<forall>b \<in> set (v_objs v). blk_reg registeredTypes b" "pool_reg registeredTypes (v_mempool v)"
    by (simp_all add: vm_reg_def list_all_iff)
  then show ?thesis using withdrawn_refused [OF Bt]
    by (auto simp: blk_reg_def txs_reg_def list_all_iff pool_reg_def tx_reg_def registered_kind)
qed

section \<open>A machine that starts\<close>

text \<open>A database that holds only the genesis block: every table is empty.\<close>

definition list_registry :: "string list registry" where
  "list_registry = \<lparr> rg_New = [], rg_RegisterType = (\<lambda>t r. if t \<in> set r then Inl (ErrExt ''duplicate type registration'')
     else Inr (r @ [t])), rg_types = (\<lambda>r. r) \<rparr>"

lemma list_registry_ok: "registry_ok list_registry"
  by (simp add: registry_ok_def list_registry_def)

definition start_env :: "(memdb, (address, UserMeta) gomap, (id, ptr) gomap) venv" where
  "start_env = venv_sample [wireBlock (genesisBlock g_sample)]"

definition start_vm :: "err + (memdb, (address, UserMeta) gomap, (id, ptr) gomap) VM" where
  "start_vm = VM_Initialize start_env (\<lambda>_. Inr []) (Inr []) sama0 [] 2 2 0 g_sample [] []"

lemma mem_entries_none: "(\<And>k v. (k, v) \<in> set d \<Longrightarrow> \<not> P k) \<Longrightarrow> mem_entries d P = []"
proof -
  assume "\<And>k v. (k, v) \<in> set d \<Longrightarrow> \<not> P k"
  then have "filter P (remdups (map fst d)) = []" by (auto simp: filter_empty_conv)
  then show ?thesis by (simp add: mem_entries_def)
qed

definition start_db :: memdb where
  "start_db = mput (PrefixBlockKey 0) [] (mput lastAccepted (be_bytes 32 (0 :: id)) [])"

lemma start_db_keys: "(k, v) \<in> set start_db \<Longrightarrow> k = PrefixBlockKey 0 \<or> k = lastAccepted"
  by (auto simp: start_db_def PrefixBlockKey_def key_defs)

lemma start_db_nothing:
  assumes "p \<noteq> []" and "hd p \<notin> {blockPrefix, hd lastAccepted}"
  shows "mem_entries start_db (prefix p) = []" and "map_of start_db p = None"
proof -
  obtain x xs where p: "p = x # xs" using assms(1) by (cases p) auto
  have "\<not> prefix p k" if "(k, v) \<in> set start_db" for k v
    using start_db_keys [OF that] assms(2) by (auto simp: p PrefixBlockKey_def lastAccepted_def)
  then show "mem_entries start_db (prefix p) = []" by (rule mem_entries_none)
  show "map_of start_db p = None"
    using assms(2) by (auto simp: p start_db_def PrefixBlockKey_def lastAccepted_def)
qed

lemma tables_of_nothing:
  assumes iter: "\<And>p. p \<noteq> [] \<Longrightarrow> hd p \<notin> {blockPrefix, hd lastAccepted} \<Longrightarrow> db_IterPrefix (e_D E) d p = []"
    and get: "\<And>k. k \<noteq> [] \<Longrightarrow> hd k \<notin> {blockPrefix, hd lastAccepted} \<Longrightarrow> db_Get (e_D E) d k = Inl ErrNotFound"
  shows "\<exists>s. SamaNew E now (Inr c) d g = Inr s"
proof -
  have it: "db_IterPrefix (e_D E) d baseDetailsPrefix = []" "db_IterPrefix (e_D E) d (baseStakerPrefix t) = []"
    "db_IterPrefix (e_D E) d (basePowPrefix t) = []" "db_IterPrefix (e_D E) d baseRewardPrefix = []"
    "db_IterPrefix (e_D E) d baseActionsPrefix = []" "db_IterPrefix (e_D E) d baseUsersPrefix = []"
    "db_IterPrefix (e_D E) d baseUserTypesPrefix = []" for t
    by (rule iter; simp add: key_defs)+
  have no: "db_Get (e_D E) d PrefixSysParamsKey = Inl ErrNotFound" "db_Get (e_D E) d PrefixYieldsKey = Inl ErrNotFound"
    "db_Get (e_D E) d RewardGlobalPrefix = Inl ErrNotFound"
    by (rule get; simp add: key_defs)+
  have staker: "\<exists>s. NewStakerState (e_D E) C d = (Inr (), s)" for C
    by (simp add: NewStakerState_def ReloadStakers_def StakerTypes_def zoomS_def it sm_defs)
  have pow: "\<exists>s. NewPowState (e_D E) C d = (Inr (), s)" for C
    by (simp add: NewPowState_def ReloadPows_def powTypes_def zoomS_def it sm_defs)
  have reward: "\<exists>s. NewRewardState (e_D E) C CG d = (Inr (), s)" for C CG
    by (simp add: NewRewardState_def ReloadRewards_def zoomS_def it no sm_defs)
  have params: "\<exists>s. NewSysParamsState (e_D E) C d g = Inr s" for C
    by (simp add: NewSysParamsState_def ReloadParams_def no sm_defs)
  have yields: "\<exists>s. NewYieldsState (e_D E) C d = Inr s" for C
    by (simp add: NewYieldsState_def ReloadYields_def no sm_defs)
  have users: "\<exists>s. NewUserstate R (e_D E) C (Inr c) d = Inr s" for R C
    by (simp add: NewUserstate_def ReloadUsers_def it sm_defs)
  have details: "\<exists>s. NewDetailstate (e_D E) C d = (Inr (), s)" for C
    by (simp add: NewDetailstate_def ReloadDetails_def zoomS_def it)
  have acts: "\<exists>s. NewActionsState (e_D E) C now d = (Inr (), s)" for C
    by (simp add: NewActionsState_def ReloadActions_def zoomS_def it)
  have types: "\<exists>s. NewUserTypesState (e_D E) C d = (Inr (), s)" for C
    by (simp add: NewUserTypesState_def ReloadUserTypes_def zoomS_def it)
  show ?thesis
    using params [of "c_Params (e_C E)"] staker [of "c_Staker (e_C E)"] reward [of "c_Reward (e_C E)" "c_Global (e_C E)"]
      pow [of "c_Pow (e_C E)"] yields [of "c_Yield (e_C E)"] users [of "e_R E" "c_User (e_C E)"]
      details [of "c_Detail (e_C E)"] acts [of "c_Action (e_C E)"] types [of "c_UserType (e_C E)"]
    by (auto simp: SamaNew_def Let_def result_def)
qed

lemma start_ok: "\<exists>v. start_vm = Inr v"
proof -
  let ?E = "e_sample [] [] [] []"
  have E: "e_D ?E = mem_db" "e_L ?E = sample_lib" by (simp_all add: e_sample_def)
  have "\<exists>s. SamaNew ?E 0 (Inr []) start_db g_sample = Inr s"
    by (rule tables_of_nothing) (simp_all add: E mem_db_def start_db_nothing)
  moreover have "enc (list_codec [wireBlock (genesisBlock g_sample)]) (wireBlock (genesisBlock g_sample)) = Inr []"
    by (simp add: list_codec_def)
  moreover have "bytesID sample_lib [] = Inr 0"
    by (simp add: bytesID_def text_ok_simps [OF sample_text_ok]) (simp add: sample_lib_def be_val_def be_horner_def)
  moreover have "lastAccepted \<noteq> PrefixBlockKey 0" by (simp add: lastAccepted_def PrefixBlockKey_def blockPrefix_def)
  ultimately show ?thesis
    by (auto simp: start_db_def start_vm_def start_env_def venv_sample_def bc_sample_def VM_Initialize_def HasLastAccepted_def E
        Genesis_Verify_def targetRange_def divU_def initGenesis_def ParseStatefulBlock_def marshalBlock_def
        genesisBlock_def wireBlock_def Genesis_Load_def SetLastAccepted_def linkValues_def newObj_def setLast_def
        newVM_def g_sample_def DefaultGenesis_def DefaultLookbackWindow_def sm_defs mem_db_def getC_def modC_def dbPut_def)
qed

lemma start_registers: "registers (registeredTypes) (ve_B start_env)"
  by (auto simp: registers_def start_env_def venv_sample_def bc_sample_def list_codec_def wireBlock_def genesisBlock_def)

text \<open>A new machine is sent a withdrawal.\<close>

lemma withdrawn_never_witness:
  "\<exists>v0 v e. start_vm = Inr v0 \<and> v = snd (VM_Submit start_env 3 [tx_sample 5 4 1 (TWithdrawn \<lparr> wx_ActionID = 2 \<rparr>)] v0) \<and>
    issue start_env 3 (tx_sample 5 4 1 (TWithdrawn \<lparr> wx_ActionID = 2 \<rparr>)) v = (Inl e, v)"
proof -
  let ?tx = "tx_sample 5 4 1 (TWithdrawn \<lparr> wx_ActionID = 2 \<rparr>)"
  have env: "atTime 0 start_env = start_env" by (simp add: atTime_def start_env_def venv_sample_def)
  obtain v0 where v0: "start_vm = Inr v0" using start_ok by blast
  then have init: "VM_Initialize (atTime 0 start_env) (\<lambda>_. Inr []) (Inr []) sama0 [] 2 2 0 g_sample [] [] = Inr v0"
    by (simp add: env start_vm_def)
  obtain c where c: "codecInit list_registry = Inr c" "rg_types list_registry c = registeredTypes"
    using codecInit_ok [OF list_registry_ok] by blast
  have "vm_run start_env v0 (snd (VM_Submit start_env 3 [?tx] v0))"
    using vm_step.submit [of start_env v0 0 3 "[?tx]"] by (simp add: env r_into_rtranclp)
  from withdrawn_never [OF list_registry_ok c(1) _ _ init this, of 0 3] start_registers
  have "\<exists>e. issue start_env 3 ?tx (snd (VM_Submit start_env 3 [?tx] v0)) =
      (Inl e, snd (VM_Submit start_env 3 [?tx] v0))"
    by (simp add: c(2) env tx_sample_def NewTx_def)
  then show ?thesis using v0 by blast
qed

end
