(* ===== verification/TimerLoop.thy ===== *)
theory TimerLoop
  imports Builder
begin

text \<open>
  \<open>utils/timer/timer.go\<close>: the goroutine \<open>Dispatch\<close> with the runtime's timer, and what others do
  to the timer meanwhile, as a step relation. What runs under the lock is one step.
\<close>

section \<open>The state\<close>

text \<open>
  Where the goroutine is: not started, at the head of its loop, at the receive that drains the
  channel of the runtime's timer, in the handler, at the select, returned.
\<close>

datatype dpc = NotStarted | AtHead | AtDrain | InHandler | AtSelect | Returned

text \<open>
  \<open>dp_armed\<close>: the runtime's timer runs; \<open>dp_C\<close>: its channel holds a value; \<open>dp_calls\<close> counts the
  calls of the handler; \<open>dp_due\<close>: a timeout has been set, and neither cancelled nor followed by
  a call of the handler.
\<close>

record disp =
  dp_timer :: Timer
  dp_pc :: dpc
  dp_cleared :: bool
  dp_reset :: bool
  dp_armed :: bool
  dp_C :: bool
  dp_calls :: nat
  dp_due :: bool

definition disp0 :: disp where
  "disp0 = \<lparr> dp_timer = NewTimer, dp_pc = NotStarted, dp_cleared = False, dp_reset = False, dp_armed = False,
     dp_C = False, dp_calls = 0, dp_due = False \<rparr>"

definition Timer_Stop :: "Timer \<Rightarrow> Timer" where
  "Timer_Stop t = Timer_reset (t\<lparr>tm_finished := True\<rparr>)"

section \<open>The goroutine\<close>

text \<open>The head of the loop: \<open>timer.Stop()\<close> says whether it stopped a running timer.\<close>

definition toSelect :: "disp \<Rightarrow> disp" where
  "toSelect s = s\<lparr>dp_cleared := False, dp_reset := False, dp_pc := AtSelect\<rparr>"

definition decide :: "disp \<Rightarrow> disp" where
  "decide s =
     (if dp_cleared s \<and> tm_shouldExecute (dp_timer s)
      then s\<lparr>dp_pc := InHandler, dp_calls := Suc (dp_calls s), dp_due := False\<rparr>
      else toSelect s)"

definition loopHead :: "disp \<Rightarrow> disp" where
  "loopHead s =
     (if tm_finished (dp_timer s) then s\<lparr>dp_pc := Returned\<rparr>
      else if dp_reset s then decide s
      else if \<not> dp_armed s \<and> \<not> dp_cleared s then s\<lparr>dp_pc := AtDrain\<rparr>
      else decide (s\<lparr>dp_armed := False\<rparr>))"

text \<open>The steps of \<open>Dispatch\<close> and of the runtime's timer.\<close>

inductive dispatch :: "disp \<Rightarrow> disp \<Rightarrow> bool" where
  head: "dp_pc s = AtHead \<Longrightarrow> dispatch s (loopHead s)"
| drain: "dp_pc s = AtDrain \<Longrightarrow> dp_C s \<Longrightarrow> dispatch s (decide (s\<lparr>dp_C := False\<rparr>))"
| handled: "dp_pc s = InHandler \<Longrightarrow> dispatch s (toSelect s)"
| timeout: "dp_pc s = AtSelect \<Longrightarrow> tm_timeout (dp_timer s) \<Longrightarrow>
    dispatch s (s\<lparr>dp_timer := (dp_timer s)\<lparr>tm_timeout := False\<rparr>,
      dp_armed := (tm_shouldExecute (dp_timer s) \<or> dp_armed s), dp_reset := True, dp_pc := AtHead\<rparr>)"
| fire: "dp_pc s = AtSelect \<Longrightarrow> dp_C s \<Longrightarrow>
    dispatch s (s\<lparr>dp_C := False, dp_cleared := True, dp_pc := AtHead\<rparr>)"
| expire: "dp_armed s \<Longrightarrow> dispatch s (s\<lparr>dp_armed := False, dp_C := True\<rparr>)"

text \<open>What others do: start the goroutine, and the methods, when the lock is free.\<close>

definition unlocked :: "disp \<Rightarrow> bool" where
  "unlocked s \<longleftrightarrow> dp_pc s \<in> {NotStarted, InHandler, AtSelect, Returned}"

inductive callers :: "disp \<Rightarrow> disp \<Rightarrow> bool" where
  start: "dp_pc s = NotStarted \<Longrightarrow> callers s (s\<lparr>dp_pc := AtHead, dp_armed := True\<rparr>)"
| set: "unlocked s \<Longrightarrow> callers s (s\<lparr>dp_timer := SetTimeoutIn d (dp_timer s), dp_due := True\<rparr>)"
| cancel: "unlocked s \<Longrightarrow> callers s (s\<lparr>dp_timer := Timer_Cancel (dp_timer s), dp_due := False\<rparr>)"
| stop: "unlocked s \<Longrightarrow> callers s (s\<lparr>dp_timer := Timer_Stop (dp_timer s)\<rparr>)"

inductive_cases dispatchE: "dispatch s t"
inductive_cases callersE: "callers s t"

abbreviation timer_run :: "disp \<Rightarrow> disp \<Rightarrow> bool" where
  "timer_run \<equiv> (\<lambda>s t. dispatch s t \<or> callers s t)\<^sup>*\<^sup>*"

section \<open>No timeout is lost\<close>

text \<open>
  What can still bring the handler about. The first time at the head nothing was read from the
  channels, so a timeout that is due is still in the channel \<open>timeout\<close>.
\<close>

definition on_its_way :: "disp \<Rightarrow> bool" where
  "on_its_way s \<longleftrightarrow> tm_timeout (dp_timer s) \<or>
     (dp_pc s \<noteq> NotStarted \<and> \<not> (dp_pc s \<in> {AtHead, AtDrain} \<and> \<not> dp_reset s \<and> \<not> dp_cleared s) \<and>
      (dp_armed s \<or> dp_C s \<or> dp_pc s = AtHead \<and> dp_cleared s))"

definition disp_ok :: "disp \<Rightarrow> bool" where
  "disp_ok s \<longleftrightarrow>
     (dp_due s \<and> \<not> tm_finished (dp_timer s) \<longrightarrow> tm_shouldExecute (dp_timer s) \<and> on_its_way s) \<and>
     (dp_pc s \<in> {AtSelect, NotStarted} \<longrightarrow> \<not> dp_cleared s \<and> \<not> dp_reset s) \<and>
     (dp_pc s = AtHead \<longrightarrow> \<not> (dp_cleared s \<and> dp_reset s) \<and> (\<not> dp_cleared s \<and> \<not> dp_reset s \<longrightarrow> dp_armed s \<or> dp_C s)) \<and>
     (dp_pc s = AtDrain \<longrightarrow> dp_C s \<and> \<not> dp_cleared s \<and> \<not> dp_reset s)"

lemma disp0_ok: "disp_ok disp0"
  by (simp add: disp_ok_def disp0_def)

lemmas disp_defs = disp_ok_def on_its_way_def loopHead_def decide_def toSelect_def unlocked_def
  SetTimeoutIn_def Timer_Cancel_def Timer_Stop_def Timer_reset_def

lemma dispatch_ok: "dispatch s t \<Longrightarrow> disp_ok s \<Longrightarrow> disp_ok t"
  by (erule dispatchE) (auto simp: disp_defs)

lemma callers_ok: "callers s t \<Longrightarrow> disp_ok s \<Longrightarrow> disp_ok t"
  by (erule callersE) (auto simp: disp_defs)

lemma timer_run_ok: "timer_run s t \<Longrightarrow> disp_ok s \<Longrightarrow> disp_ok t"
  by (induction rule: rtranclp_induct) (auto intro: dispatch_ok callers_ok)

text \<open>How far the handler is.\<close>

definition fire_rank :: "disp \<Rightarrow> nat" where
  "fire_rank s = (if tm_timeout (dp_timer s) then 16 else 0) + (if dp_armed s then 8 else 0) +
     (if dp_C s then 4 else 0) +
     (case dp_pc s of AtHead \<Rightarrow> 3 | AtDrain \<Rightarrow> 2 | InHandler \<Rightarrow> 1 | _ \<Rightarrow> 0)"

lemma due_enabled:
  assumes "disp_ok s" and "dp_due s" and "\<not> tm_finished (dp_timer s)" and "dp_pc s \<noteq> NotStarted" and "dp_pc s \<noteq> Returned"
  shows "\<exists>t. dispatch s t"
  using assms by (cases "dp_pc s") (auto simp: disp_ok_def on_its_way_def intro: dispatch.intros)

lemma due_progress:
  assumes "dispatch s t" and "disp_ok s" and "dp_due s" and "\<not> tm_finished (dp_timer s)"
  shows "dp_calls t = Suc (dp_calls s) \<or> dp_due t \<and> fire_rank t < fire_rank s"
  using assms by (elim dispatchE) (auto simp: disp_defs fire_rank_def split: dpc.splits)

section \<open>The timer as it is used\<close>

text \<open>
  C23. Once the goroutine of a timer runs, a timeout that is set is not lost: until it is
  cancelled or the timer stopped, the goroutine can always go on, and each of its steps calls
  the handler or brings the call nearer.
\<close>

theorem timer_fires:
  assumes "timer_run disp0 s" and "dp_due s" and "\<not> tm_finished (dp_timer s)"
    and "dp_pc s \<noteq> NotStarted" and "dp_pc s \<noteq> Returned"
  shows "(\<exists>t. dispatch s t) \<and>
    (\<forall>t. dispatch s t \<longrightarrow> dp_calls t = Suc (dp_calls s) \<or> dp_due t \<and> fire_rank t < fire_rank s)"
  using due_enabled due_progress timer_run_ok [OF assms(1) disp0_ok] assms(2-5) by blast

text \<open>A timeout is set and the goroutine starts.\<close>

definition disp_set :: disp where
  "disp_set = disp0\<lparr>dp_timer := SetTimeoutIn 5 NewTimer, dp_due := True, dp_pc := AtHead, dp_armed := True\<rparr>"

lemma run_disp_set: "timer_run disp0 disp_set"
proof -
  let ?s = "disp0\<lparr>dp_timer := SetTimeoutIn 5 (dp_timer disp0), dp_due := True\<rparr>"
  have "callers disp0 ?s" by (rule callers.set) (simp add: unlocked_def disp0_def)
  moreover have "callers ?s disp_set"
    using callers.start [of ?s] by (simp add: disp_set_def disp0_def)
  ultimately show ?thesis
    using rtranclp.rtrancl_into_rtrancl [of "\<lambda>s t. dispatch s t \<or> callers s t" disp0 ?s disp_set]
      r_into_rtranclp [of "\<lambda>s t. dispatch s t \<or> callers s t" disp0 ?s] by blast
qed

lemma timer_fires_witness:
  "\<exists>t. dispatch disp_set t \<and> (dp_calls t = 1 \<or> dp_due t \<and> fire_rank t < 27)"
proof -
  have d: "dp_due disp_set" "\<not> tm_finished (dp_timer disp_set)" "dp_pc disp_set \<noteq> NotStarted"
      "dp_pc disp_set \<noteq> Returned" "dp_calls disp_set = 0" "fire_rank disp_set = 27"
    by (simp_all add: disp_set_def disp0_def NewTimer_def SetTimeoutIn_def Timer_reset_def fire_rank_def)
  from timer_fires [OF run_disp_set d(1-4)] show ?thesis unfolding d(5,6) One_nat_def by blast
qed

section \<open>The staged timer\<close>

text \<open>
  \<open>utils/timer/staged_timer.go\<close>: the handler calls \<open>f\<close> on what it closes over and sets the
  timer again when \<open>f\<close> says so.
\<close>

definition NewStagedTimer :: "('s \<Rightarrow> (int \<times> bool) \<times> 's) \<Rightarrow> Timer \<times> ('s \<times> Timer \<Rightarrow> 's \<times> Timer)" where
  "NewStagedTimer f = (NewTimer, \<lambda>(s, t). case f s of
     ((delay, repeat), s') \<Rightarrow> (s', if repeat then SetTimeoutIn delay t else t))"

text \<open>The builder's two stages: the handler never sets its own timer again.\<close>

lemma two_stage_handler:
  "snd (NewStagedTimer (\<lambda>b. ((0, False), fst (buildBlockTwoStageTimer room b)))) (b, t) =
     (fst (buildBlockTwoStageTimer room b), t)"
  by (simp add: NewStagedTimer_def)

end
