(* ===== verification/Lifecycle.thy ===== *)
theory Lifecycle
  imports Consensus
begin

text \<open>
  The configuration (\<open>vm/config.go\<close>), the states the engine puts the machine in, and the life of
  the builder's two goroutines: \<open>SetBlockBuilder\<close> (\<open>vm/block_builder.go\<close>), which replaces the
  builder of a running machine, and \<open>Shutdown\<close> (\<open>vm/vm.go\<close>).
\<close>

section \<open>Configuration\<close>

text \<open>Durations are in nanoseconds.\<close>

record Config =
  cf_BuildInterval :: int
  cf_GossipInterval :: int
  cf_RegossipInterval :: int
  cf_MempoolSize :: int
  cf_ActivityCacheSize :: int

definition SetDefaults :: "Config \<Rightarrow> Config" where
  "SetDefaults c = c\<lparr>cf_BuildInterval := 500 * 1000000, cf_GossipInterval := 1 * 1000000000,
     cf_RegossipInterval := 30 * 1000000000, cf_MempoolSize := 1024, cf_ActivityCacheSize := 128\<rparr>"

section \<open>States of the engine\<close>

datatype snowState = StateSyncing | Bootstrapping | NormalOp

definition ErrUnknownState :: err where "ErrUnknownState = ErrExt ''unknown state''"

definition SetState :: "snowState \<Rightarrow> ('db, 'c, 'lc, unit) vmm" where
  "SetState state = (case state of
     Bootstrapping \<Rightarrow> onBootstrapStarted
   | NormalOp \<Rightarrow> onNormalOperationsStarted
   | _ \<Rightarrow> throwS ErrUnknownState)"

text \<open>\<open>GetBlock\<close> gives what \<open>GetStatelessBlock\<close> gives.\<close>

definition VM_GetBlock :: "('db, 'c, 'lc) venv \<Rightarrow> id \<Rightarrow> ('db, 'c, 'lc, ptr) vmm" where
  "VM_GetBlock V i = GetStatelessBlock V i"

section \<open>The goroutines and their channels\<close>

text \<open>
  Every builder has channels of its own, so the \<open>n\<close>-th builder of a machine has the loops
  \<open>BuildLoop n\<close> and \<open>GossipLoop n\<close>; the \<open>done\<close> channel of a loop is closed when it ends. All the
  channels are only ever closed, so a channel is whether it has been.
\<close>

datatype loop = BuildLoop nat | GossipLoop nat

primrec loopGen :: "loop \<Rightarrow> nat" where
  "loopGen (BuildLoop n) = n"
| "loopGen (GossipLoop n) = n"

text \<open>
  What the caller of \<open>Shutdown\<close> or \<open>SetBlockBuilder\<close> is doing; both are called under the lock
  of the machine, one at a time. \<open>Halted\<close>: \<open>Shutdown\<close> has closed the database and returned.
\<close>

datatype caller = NotInitialized | Running | ShutBuild | ShutGossip | Halted | SwapBuild | SwapGossip | Panicked

record life =
  lf_caller :: caller
  lf_gen :: nat
  lf_stop :: bool
  lf_builderStop :: "nat set"
  lf_manual :: "nat set"
  lf_running :: "loop set"
  lf_done :: "loop set"

definition life0 :: life where
  "life0 = \<lparr> lf_caller = NotInitialized, lf_gen = 0, lf_stop = False, lf_builderStop = {}, lf_manual = {},
     lf_running = {}, lf_done = {} \<rparr>"

definition startLoops :: "nat \<Rightarrow> life \<Rightarrow> life" where
  "startLoops n s = s\<lparr>lf_caller := Running, lf_gen := n, lf_running := {BuildLoop n, GossipLoop n} \<union> lf_running s\<rparr>"

text \<open>
  A loop of a time builder ends when it sees that \<open>stop\<close> or its \<open>builderStop\<close> is closed, one of
  a manual builder at once; the rounds in which a loop does something else are the steps of
  theory Builder and of the gossip.
\<close>

inductive loop_step :: "life \<Rightarrow> life \<Rightarrow> bool" where
  loop_ends: "l \<in> lf_running s \<Longrightarrow> lf_stop s \<or> loopGen l \<in> lf_builderStop s \<or> loopGen l \<in> lf_manual s \<Longrightarrow>
    loop_step s (s\<lparr>lf_running := lf_running s - {l}, lf_done := insert l (lf_done s)\<rparr>)"

text \<open>
  \<open>Shutdown\<close> closes \<open>stop\<close>, waits for one loop and then for the other; closing a channel that
  does not exist, or is closed, panics.
\<close>

inductive shutdown_step :: "life \<Rightarrow> life \<Rightarrow> bool" where
  early: "lf_caller s = NotInitialized \<Longrightarrow> shutdown_step s (s\<lparr>lf_caller := Panicked\<rparr>)"
| begins: "lf_caller s = Running \<Longrightarrow> shutdown_step s (s\<lparr>lf_caller := ShutBuild, lf_stop := True\<rparr>)"
| build_done: "lf_caller s = ShutBuild \<Longrightarrow> BuildLoop (lf_gen s) \<in> lf_done s \<Longrightarrow>
    shutdown_step s (s\<lparr>lf_caller := ShutGossip\<rparr>)"
| gossip_done: "lf_caller s = ShutGossip \<Longrightarrow> GossipLoop (lf_gen s) \<in> lf_done s \<Longrightarrow>
    shutdown_step s (s\<lparr>lf_caller := Halted\<rparr>)"
| again: "lf_caller s = Halted \<Longrightarrow> shutdown_step s (s\<lparr>lf_caller := Panicked\<rparr>)"

text \<open>\<open>SetBlockBuilder\<close> closes \<open>builderStop\<close>, waits in the same way and starts the loops of the next builder.\<close>

inductive swap_step :: "life \<Rightarrow> life \<Rightarrow> bool" where
  begins: "lf_caller s = Running \<Longrightarrow>
    swap_step s (s\<lparr>lf_caller := SwapBuild, lf_builderStop := insert (lf_gen s) (lf_builderStop s)\<rparr>)"
| build_done: "lf_caller s = SwapBuild \<Longrightarrow> BuildLoop (lf_gen s) \<in> lf_done s \<Longrightarrow>
    swap_step s (s\<lparr>lf_caller := SwapGossip\<rparr>)"
| gossip_done: "lf_caller s = SwapGossip \<Longrightarrow> GossipLoop (lf_gen s) \<in> lf_done s \<Longrightarrow> M \<subseteq> {Suc (lf_gen s)} \<Longrightarrow>
    swap_step s (startLoops (Suc (lf_gen s)) (s\<lparr>lf_manual := M \<union> lf_manual s\<rparr>))"

inductive life_step :: "life \<Rightarrow> life \<Rightarrow> bool" where
  initialize: "lf_caller s = NotInitialized \<Longrightarrow> life_step s (startLoops 0 s)"
| of_loop: "loop_step s t \<Longrightarrow> life_step s t"
| of_shutdown: "shutdown_step s t \<Longrightarrow> life_step s t"
| of_swap: "swap_step s t \<Longrightarrow> life_step s t"

inductive_cases loop_stepE: "loop_step s t"
inductive_cases shutdown_stepE: "shutdown_step s t"
inductive_cases swap_stepE: "swap_step s t"
inductive_cases life_stepE: "life_step s t"

abbreviation life_run :: "life \<Rightarrow> life \<Rightarrow> bool" where
  "life_run \<equiv> life_step\<^sup>*\<^sup>*"

section \<open>Which loops run\<close>

text \<open>
  Only loops of the current builder run; once the machine is up each of its two loops either
  runs or has ended, and \<open>stop\<close> is closed exactly from \<open>Shutdown\<close> on.
\<close>

definition current :: "life \<Rightarrow> loop set" where
  "current s = {BuildLoop (lf_gen s), GossipLoop (lf_gen s)}"

definition life_ok :: "life \<Rightarrow> bool" where
  "life_ok s \<longleftrightarrow> lf_running s \<subseteq> current s \<and> lf_running s \<inter> lf_done s = {} \<and>
     (\<forall>l \<in> lf_done s. loopGen l \<le> lf_gen s) \<and>
     (lf_caller s = NotInitialized \<longrightarrow> lf_running s = {} \<and> lf_done s = {}) \<and>
     (lf_caller s \<notin> {NotInitialized, Panicked} \<longrightarrow> current s \<subseteq> lf_running s \<union> lf_done s) \<and>
     (lf_caller s \<in> {ShutBuild, ShutGossip, Halted} \<longrightarrow> lf_stop s) \<and>
     (lf_caller s \<in> {SwapBuild, SwapGossip} \<longrightarrow> lf_gen s \<in> lf_builderStop s) \<and>
     (lf_caller s \<in> {ShutGossip, SwapGossip} \<longrightarrow> BuildLoop (lf_gen s) \<in> lf_done s) \<and>
     (lf_caller s = Halted \<longrightarrow> lf_running s = {})"

lemma life0_ok: "life_ok life0"
  by (simp add: life_ok_def life0_def)

lemma done_gen: "\<forall>l \<in> lf_done s. loopGen l \<le> lf_gen s \<Longrightarrow>
  BuildLoop (Suc (lf_gen s)) \<notin> lf_done s \<and> GossipLoop (Suc (lf_gen s)) \<notin> lf_done s"
  by fastforce

lemma both_done:
  "life_ok s \<Longrightarrow> BuildLoop (lf_gen s) \<in> lf_done s \<Longrightarrow> GossipLoop (lf_gen s) \<in> lf_done s \<Longrightarrow> lf_running s = {}"
  by (auto simp: life_ok_def current_def)

lemma loop_step_ok:
  assumes "loop_step s t" and ok: "life_ok s"
  shows "life_ok t"
  using assms(1)
proof cases
  case (loop_ends l)
  have "l \<in> current s" using ok loop_ends(2) unfolding life_ok_def by blast
  then have "loopGen l \<le> lf_gen s" by (auto simp: current_def)
  then have "\<forall>k \<in> insert l (lf_done s). loopGen k \<le> lf_gen s" using ok by (simp add: life_ok_def)
  moreover have "lf_running s - {l} \<subseteq> current s" "(lf_running s - {l}) \<inter> insert l (lf_done s) = {}"
    "lf_caller s \<notin> {NotInitialized, Panicked} \<longrightarrow> current s \<subseteq> (lf_running s - {l}) \<union> insert l (lf_done s)"
    "lf_caller s \<noteq> NotInitialized" "lf_caller s \<noteq> Halted"
    using ok loop_ends(2) unfolding life_ok_def by blast+
  ultimately show ?thesis using ok unfolding loop_ends(1) life_ok_def current_def by simp
qed

lemma shutdown_step_ok:
  assumes "shutdown_step s t" and ok: "life_ok s"
  shows "life_ok t"
  using assms(1)
proof cases
  case gossip_done
  then have "lf_running s = {}" using both_done [OF ok] ok by (simp add: life_ok_def)
  then show ?thesis using gossip_done ok by (simp add: life_ok_def current_def)
qed (use ok in \<open>simp_all add: life_ok_def current_def\<close>)

lemma swap_step_ok:
  assumes "swap_step s t" and ok: "life_ok s"
  shows "life_ok t"
  using assms(1)
proof cases
  case (gossip_done M)
  then have "lf_running s = {}" using both_done [OF ok] ok by (simp add: life_ok_def)
  moreover have gens: "\<forall>l \<in> lf_done s. loopGen l \<le> lf_gen s" using ok by (simp add: life_ok_def)
  then have "\<forall>l \<in> lf_done s. loopGen l \<le> Suc (lf_gen s)" by fastforce
  ultimately show ?thesis
    using gossip_done done_gen [OF gens] by (simp add: life_ok_def current_def startLoops_def)
qed (use ok in \<open>simp_all add: life_ok_def current_def\<close>)

lemma life_step_ok:
  assumes "life_step s t" and ok: "life_ok s"
  shows "life_ok t"
  using assms(1)
proof cases
  case initialize
  then show ?thesis using ok by (simp add: life_ok_def current_def startLoops_def)
qed (use ok loop_step_ok shutdown_step_ok swap_step_ok in blast)+

lemma life_run_ok: "life_run s t \<Longrightarrow> life_ok s \<Longrightarrow> life_ok t"
  by (induction rule: rtranclp_induct) (auto intro: life_step_ok)

section \<open>Shutting down\<close>

text \<open>How much a shutdown still waits for.\<close>

definition shut_rank :: "life \<Rightarrow> nat" where
  "shut_rank s = card (lf_running s) + (case lf_caller s of ShutBuild \<Rightarrow> 2 | ShutGossip \<Rightarrow> 1 | _ \<Rightarrow> 0)"

lemma running_finite: "life_ok s \<Longrightarrow> finite (lf_running s)"
  unfolding life_ok_def current_def by (meson finite.emptyI finite.insertI finite_subset)

lemma shut_enabled:
  assumes "life_ok s" and "lf_caller s \<in> {ShutBuild, ShutGossip}"
  shows "\<exists>t. life_step s t"
proof (cases "lf_running s = {}")
  case True
  then have "current s \<subseteq> lf_done s" using assms unfolding life_ok_def by auto
  then have "BuildLoop (lf_gen s) \<in> lf_done s" "GossipLoop (lf_gen s) \<in> lf_done s" by (auto simp: current_def)
  then show ?thesis using assms(2) by (auto intro: of_shutdown shutdown_step.build_done shutdown_step.gossip_done)
next
  case False
  then obtain l where "l \<in> lf_running s" by blast
  moreover have "lf_stop s" using assms unfolding life_ok_def by blast
  ultimately show ?thesis by (blast intro: of_loop loop_ends)
qed

lemma shut_progress:
  assumes "life_step s t" and "life_ok s" and "lf_caller s \<in> {ShutBuild, ShutGossip}"
  shows "lf_caller t \<in> {ShutBuild, ShutGossip, Halted} \<and> shut_rank t < shut_rank s"
  using assms(1)
proof cases
  case of_loop
  then obtain l where l: "l \<in> lf_running s" "t = s\<lparr>lf_running := lf_running s - {l}, lf_done := insert l (lf_done s)\<rparr>"
    by (elim loop_stepE) blast
  have "card (lf_running s - {l}) < card (lf_running s)"
    using running_finite [OF assms(2)] l(1) by (rule card_Diff1_less)
  then show ?thesis using assms(3) by (auto simp: l(2) shut_rank_def)
next
  case of_shutdown
  then show ?thesis using assms(3) by (elim shutdown_stepE) (auto simp: shut_rank_def)
next
  case of_swap
  then show ?thesis using assms(3) by (elim swap_stepE) auto
qed (use assms(3) in auto)


text \<open>A machine is initialised and then shut down.\<close>

definition life_shut :: life where
  "life_shut = (startLoops 0 life0)\<lparr>lf_caller := ShutBuild, lf_stop := True\<rparr>"

lemma run_life_shut: "life_run life0 life_shut"
proof -
  have "life_step life0 (startLoops 0 life0)" by (rule life_step.initialize) (simp add: life0_def)
  moreover have "life_step (startLoops 0 life0) life_shut"
    unfolding life_shut_def by (intro of_shutdown shutdown_step.begins) (simp add: startLoops_def)
  ultimately show ?thesis by (rule rtranclp.rtrancl_into_rtrancl [OF r_into_rtranclp])
qed


section \<open>The manual builder\<close>

text \<open>\<open>NotifyBuild\<close>: a message to the engine if its channel has room.\<close>

definition NotifyBuild :: "nat \<Rightarrow> nat \<Rightarrow> nat" where
  "NotifyBuild cap toEngine = (if toEngine < cap then Suc toEngine else toEngine)"

end
