(* ===== verification/Spec2Isabelle.thy ===== *)
theory Spec2Isabelle
  imports BlockProps TypedProps TableProps RewardProps ServiceProps CliProps PeerProps RegistryProps TimerLoop Lifecycle
begin

text \<open>
  A verification development for SamaVM, a virtual machine for an Avalanche-style network:
  blocks of signed transactions change a ledger of balances and nine cached tables (stakers,
  proofs of work, rewards, yields, node details, users, user types, governance actions,
  system parameters). Paths below are under \<open>src/\<close>.

  \<^bold>\<open>How Go is modelled.\<close> A \<open>uint64\<close> is a 64-bit word and wraps, an \<open>int\<close> that never leaves its
  range is a \<open>nat\<close> or an \<open>int\<close>, an address is a 160-bit and an id a 256-bit word. A Go map
  is an association list with distinct keys (\<open>gomap\<close>), so that a range over it has an order;
  no theorem depends on which. A method that changes state is a function from the state to a
  result and a new state (\<open>('s, 'a) sm\<close>), the result \<open>Inl\<close> an error or \<open>Inr\<close> a value; the
  state it leaves on an error is part of the model. A panic is the error \<open>Panic\<close>. Blocks are
  shared and mutated through pointers, so they live in an explicit store (\<open>v_heap\<close>). Locks
  are not modelled: each exported method is one step. The clock is an argument.

  \<^bold>\<open>What is outside.\<close> Code that is not in the repository is a parameter: the database and its
  version overlays (\<open>dbops\<close>), the LRU caches (\<open>lruops\<close>), the codecs (\<open>codec\<close>), and the
  hashing, signature, number-format and floating-point functions (\<open>lib\<close>). The documented laws
  the code relies on are named predicates (\<open>db_ok\<close>, \<open>lru_ok\<close>, \<open>codec_ok\<close>, \<open>math_ok\<close>,
  \<open>text_ok\<close>, \<open>num_ok\<close>, \<open>float_ok\<close>) and are hypotheses where they are used; theory Samples has
  an instance of each, on which the properties are applied.

  \<^bold>\<open>Theories.\<close>
  \<^item> Prelude, GoStd, Ext: the result monad and its rules, preservation of invariants
    (\<open>pres\<close>), maps, \<open>strconv\<close> and \<open>hex\<close>, the interfaces of the outside code.
  \<^item> Keys, Storage (\<open>chain/storage.go\<close>), GenesisCfg (\<open>chain/genesis.go\<close>): the layout of the
    database, balances, values, the genesis.
  \<^item> PendingTable: the contract of a cached table, as the locales \<open>pending_table\<close> and
    \<open>stored_table\<close>: a put and a delete change pending maps, a commit publishes them, the
    database follows. It is interpreted in each of StakerState, PowState, RewardState,
    DetailsState, ActionsState and UserTypesState (\<open>chain/stake_status.go\<close>,
    \<open>pow_status.go\<close>, \<open>reward_status.go\<close>, \<open>node_params.go\<close>, \<open>action_status.go\<close>,
    \<open>users_type.go\<close>); UsersState, YieldsState and SysParams (\<open>users_status.go\<close>,
    \<open>yields_status.go\<close>, \<open>system_params.go\<close>) have contracts of their own.
  \<^item> SamaState (\<open>chain/state.go\<close>): the tables together, commit, abort, the rewards; SamaProps
    and SamaRewards hold its lemmas.
  \<^item> TxData, TxExec: the thirteen kinds of transaction (\<open>chain/*_tx.go\<close>, \<open>chain/tx.go\<close>), their
    execution, fees and copies. TData (\<open>tdata/tdata.go\<close>) and TxTyped (\<open>chain/decoder.go\<close>, the
    \<open>TypedData\<close> methods): the typed data that is signed.
  \<^item> GoHeap (\<open>container/heap\<close>), TxHeap and Mempool (\<open>mempool/\<close>): the pool of transactions.
  \<^item> Blocks, ChainVM, Consensus (\<open>chain/block.go\<close>, \<open>chain/builder.go\<close>, \<open>vm/vm.go\<close>,
    \<open>vm/chain_vm.go\<close>, \<open>vm/helpers.go\<close>): the block store, the execution context, verification,
    acceptance and building of blocks, submission, initialisation.
  \<^item> Builder (\<open>vm/block_builder.go\<close>, \<open>utils/timer\<close>): the timer that asks the engine for
    blocks, as a step relation. TimerLoop (\<open>utils/timer\<close>): the goroutine of the timer, as
    another. Lifecycle (\<open>vm/vm.go\<close>, \<open>vm/config.go\<close>): the configuration, the states of the
    engine, the replacement of the builder and the shutdown, as a third.
  \<^item> PublicService (\<open>vm/public_service.go\<close>), UserKey (\<open>vm/userkey.go\<close>) and Network
    (\<open>vm/network.go\<close>): the API, the keys of the node's users, the gossip.
  \<^item> Client (\<open>client/\<close>), Tree (\<open>tree/tree.go\<close>) and Cli (\<open>cmd/sama-cli/cmd\<close>): the client of the
    API over one function for each request, files as trees of values, the commands. The
    locale \<open>value_source\<close> of Tree says what a download needs of the client it reads from.
  \<^item> ValueStore: no transaction overwrites a value, and the API finds what was stored.
    NodeClient puts the handlers of PublicService behind the requests, as \<open>CreateHandlers\<close> of
    \<open>vm/vm.go\<close> does, with a step of the node between any two of them, and interprets
    \<open>value_source\<close> on that client.
  \<^item> Registration (\<open>chain/codec.go\<close>): the types the program registers with the codec, and the
    invariant this gives: the machine never holds a transaction of another kind.
    RegistryProps has the machine as a step relation (\<open>vm_step\<close>: every call of the engine, the
    API and the gossip) and its start, PeerProps a block on its way between two nodes.
  \<^item> Samples: concrete instances of the parameters. StateProps, TxProps, PoolProps,
    ChainProps, BlockProps, TypedProps, TableProps, RewardProps, ServiceProps, ClientProps,
    CliProps: the properties, each stated after its text and followed by an application to a
    concrete input.

  \<^bold>\<open>What is shown.\<close>
  \<^item> Tables: a commit publishes exactly the map a table stands for and an abort discards what
    is pending; every transaction keeps the invariant of all tables; keys do not collide; a
    restart reads the actions back; the shares stay complementary; the cache of users answers
    as the database does.
  \<^item> Transactions: the guards an executed transaction has passed, the fee it has paid, the
    exact effect of a transfer, the rejection of a replay; the typed data round trip and what
    a signature does and does not bind.
  \<^item> Pool: the two heaps stay in step and within bound; \<open>Add\<close>, \<open>PopMax\<close>, \<open>Prune\<close> and \<open>NewTxs\<close>
    are the operations on one map of transactions.
  \<^item> From end to end: a value in an accepted block is found by the API; a transaction that a
    client issues and sees confirmed has its key's address as sender, was executed and is on
    record; a file comes back from any node as it was uploaded or not at all, and from a node
    that holds its pieces it does come back.
  \<^item> Blocks: what a verified block satisfies, what acceptance leaves on disk and in the
    tables, the round trip through the block store, the bounds of the price and the cost,
    what the building loop takes. A built block reaches another node as it is. From the start
    of a machine on, its blocks and its pool hold registered kinds only.
  \<^item> Edges: the activities the API returns, the keys it keeps, what regossiping sends.
  \<^item> Goroutines: a timer whose goroutine runs loses no timeout; a shutdown ends, with no loop
    left when the database is closed.
  \<^item> Rewards: the split of a period into years, the reward of a year.
  \<^item> Where the code does not do what it means to, the theorem states what it does: a block
    with a transaction twice or with an underpaying one is verified, the changes of a rejected
    block are committed by the next, the first year pays all the tokens, the foundation is
    paid zero, the time of the last distribution does not move, the user types are lost by a
    restart, the second of two votes overwrites the first, the builder gets stuck, a regossiped
    transaction leaves the pool of its own node, an empty file is stored as zero bytes, some
    files cannot be stored, and two commands of the command line cannot succeed.

  \<^bold>\<open>Fuel.\<close> Three loops have no structural measure. The walk back through the recent blocks
  (\<open>lookbackLoop\<close>) follows parents through the cache and the disk; ChainProps shows that a
  fuel over the rank of its first block is enough and that more changes nothing. The building
  loop (\<open>buildLoop\<close>) and that of the regossip (\<open>regossipLoop\<close>) pop one transaction a round; a
  fuel of the pool's length is enough. A client polls until its context is done: the context is
  the number of polls, and \<open>PollTx_enough\<close> shows that one that is done later changes nothing.

  \<^bold>\<open>Not modelled.\<close> The HTTP server and the transport of the requests (a request is a function),
  the parsing of flags and what is printed, mocks and tests: they are calls of libraries or of
  the node. The methods of the machine that do nothing have no definition.
\<close>

end
